(* ===== verification/Rust_Str.thy ===== *)
theory Rust_Str
  imports Prelude
begin

text \<open>
  The functions of Rust's \<open>str\<close> that the sources call. A Rust string is its UTF-8 byte
  sequence, a HOL \<open>string\<close> (a \<open>char\<close> is a byte), so \<open>length\<close> is \<open>str::len\<close>.
\<close>

section \<open>Bytes and ASCII classes\<close>

abbreviation byte :: "char \<Rightarrow> nat" where
  "byte c \<equiv> of_char c"

definition as_bytes :: "string \<Rightarrow> bytes" where
  "as_bytes s = map of_char s"

definition ascii_digit :: "char \<Rightarrow> bool" where
  "ascii_digit c \<longleftrightarrow> 48 \<le> byte c \<and> byte c \<le> 57"

definition ascii_lower :: "char \<Rightarrow> char" where
  "ascii_lower c = (if 65 \<le> byte c \<and> byte c \<le> 90 then char_of (byte c + 32) else c)"

definition to_ascii_lowercase :: "string \<Rightarrow> string" where
  "to_ascii_lowercase s = map ascii_lower s"

definition ascii_upper :: "char \<Rightarrow> char" where
  "ascii_upper c = (if 97 \<le> byte c \<and> byte c \<le> 122 then char_of (byte c - 32) else c)"

definition to_ascii_uppercase :: "string \<Rightarrow> string" where
  "to_ascii_uppercase s = map ascii_upper s"

definition eq_ignore_ascii_case :: "string \<Rightarrow> string \<Rightarrow> bool" where
  "eq_ignore_ascii_case a b \<longleftrightarrow> to_ascii_lowercase a = to_ascii_lowercase b"

lemma length_as_bytes [simp]: "length (as_bytes s) = length s"
  by (simp add: as_bytes_def)

lemma ascii_lower_idem [simp]: "ascii_lower (ascii_lower c) = ascii_lower c"
proof (cases "65 \<le> byte c \<and> byte c \<le> 90")
  case True
  then have "byte (char_of (byte c + 32) :: char) = byte c + 32" by simp
  with True show ?thesis by (simp add: ascii_lower_def)
qed (auto simp: ascii_lower_def)

lemma to_ascii_lowercase_idem [simp]:
  "to_ascii_lowercase (to_ascii_lowercase s) = to_ascii_lowercase s"
  by (simp add: to_ascii_lowercase_def)

section \<open>Prefixes, substrings and splitting\<close>

definition starts_with :: "string \<Rightarrow> string \<Rightarrow> bool" where
  "starts_with s p \<longleftrightarrow> take (length p) s = p"

definition ends_with :: "string \<Rightarrow> string \<Rightarrow> bool" where
  "ends_with s p \<longleftrightarrow> starts_with (rev s) (rev p)"

fun contains_str :: "string \<Rightarrow> string \<Rightarrow> bool" where
  "contains_str [] p = (p = [])"
| "contains_str (c # s) p = (starts_with (c # s) p \<or> contains_str s p)"

definition strip_prefix :: "string \<Rightarrow> string \<Rightarrow> string option" where
  "strip_prefix s p = (if starts_with s p then Some (drop (length p) s) else None)"

definition split_once :: "char \<Rightarrow> string \<Rightarrow> (string \<times> string) option" where
  "split_once c s =
     (case dropWhile (\<lambda>x. x \<noteq> c) s of
        [] \<Rightarrow> None
      | _ # rest \<Rightarrow> Some (takeWhile (\<lambda>x. x \<noteq> c) s, rest))"

definition rsplit_once :: "char \<Rightarrow> string \<Rightarrow> (string \<times> string) option" where
  "rsplit_once c s = map_option (\<lambda>(a, b). (rev b, rev a)) (split_once c (rev s))"

fun split_on :: "(char \<Rightarrow> bool) \<Rightarrow> string \<Rightarrow> string list" where
  "split_on P [] = [[]]"
| "split_on P (c # s) =
     (if P c then [] # split_on P s
      else (case split_on P s of [] \<Rightarrow> [[c]] | p # ps \<Rightarrow> (c # p) # ps))"

text \<open>\<open>split_once\<close> with a string pattern: the first occurrence.\<close>

fun split_once_str :: "string \<Rightarrow> string \<Rightarrow> (string \<times> string) option" where
  "split_once_str p [] = (if p = [] then Some ([], []) else None)"
| "split_once_str p (c # s) =
     (if starts_with (c # s) p then Some ([], drop (length p) (c # s))
      else map_option (\<lambda>(a, b). (c # a, b)) (split_once_str p s))"

lemma starts_with_iff: "starts_with s p \<longleftrightarrow> (\<exists>r. s = p @ r)"
  by (metis append_eq_conv_conj append_take_drop_id starts_with_def)

lemma starts_with_trans: "starts_with s u \<Longrightarrow> starts_with u p \<Longrightarrow> starts_with s p"
  by (auto simp: starts_with_iff)

lemma strip_prefix_iff: "strip_prefix s p = Some r \<longleftrightarrow> s = p @ r"
  by (auto simp: strip_prefix_def starts_with_def)
    (metis append_take_drop_id)

lemma split_once_Some_iff:
  "split_once c s = Some (a, b) \<longleftrightarrow> s = a @ c # b \<and> c \<notin> set a"
proof
  assume "split_once c s = Some (a, b)"
  then obtain x where d: "dropWhile (\<lambda>x. x \<noteq> c) s = x # b" and a: "a = takeWhile (\<lambda>x. x \<noteq> c) s"
    by (auto simp: split_once_def split: list.splits)
  from d have "x = c" by (metis (full_types) hd_dropWhile list.distinct(1) list.sel(1))
  with d a show "s = a @ c # b \<and> c \<notin> set a"
    by (metis (mono_tags, lifting) set_takeWhileD takeWhile_dropWhile_id)
next
  assume "s = a @ c # b \<and> c \<notin> set a"
  then show "split_once c s = Some (a, b)"
    by (auto simp: split_once_def dropWhile_append takeWhile_append)
qed

lemma split_once_None_iff: "split_once c s = None \<longleftrightarrow> c \<notin> set s"
proof -
  have "split_once c s = None \<longleftrightarrow> dropWhile (\<lambda>x. x \<noteq> c) s = []"
    by (simp only: split_once_def split: list.splits) auto
  then show ?thesis by (auto simp: dropWhile_eq_Nil_conv simp del: dropWhile.simps)
qed

lemma split_on_not_Nil [simp]: "split_on P s \<noteq> []"
  by (cases s) (auto split: list.splits)

lemma split_on_no_sep: "\<forall>p \<in> set (split_on P s). \<forall>c \<in> set p. \<not> P c"
  by (induction s) (auto split: list.splits)

section \<open>Trimming\<close>

text \<open>The UTF-8 encodings of the characters with the Unicode property White\_Space.\<close>

definition white_spaces :: "string list" where
  "white_spaces =
    [[CHR 0x09], [CHR 0x0A], [CHR 0x0B], [CHR 0x0C], [CHR 0x0D], [CHR 0x20],
     [CHR 0xC2, CHR 0x85], [CHR 0xC2, CHR 0xA0], [CHR 0xE1, CHR 0x9A, CHR 0x80],
     [CHR 0xE2, CHR 0x80, CHR 0x80], [CHR 0xE2, CHR 0x80, CHR 0x81],
     [CHR 0xE2, CHR 0x80, CHR 0x82], [CHR 0xE2, CHR 0x80, CHR 0x83],
     [CHR 0xE2, CHR 0x80, CHR 0x84], [CHR 0xE2, CHR 0x80, CHR 0x85],
     [CHR 0xE2, CHR 0x80, CHR 0x86], [CHR 0xE2, CHR 0x80, CHR 0x87],
     [CHR 0xE2, CHR 0x80, CHR 0x88], [CHR 0xE2, CHR 0x80, CHR 0x89],
     [CHR 0xE2, CHR 0x80, CHR 0x8A], [CHR 0xE2, CHR 0x80, CHR 0xA8],
     [CHR 0xE2, CHR 0x80, CHR 0xA9], [CHR 0xE2, CHR 0x80, CHR 0xAF],
     [CHR 0xE2, CHR 0x81, CHR 0x9F], [CHR 0xE3, CHR 0x80, CHR 0x80]]"

definition ws_len :: "string \<Rightarrow> nat" where
  "ws_len s = (case find (starts_with s) white_spaces of None \<Rightarrow> 0 | Some w \<Rightarrow> length w)"

definition ws_len_end :: "string \<Rightarrow> nat" where
  "ws_len_end s = (case find (ends_with s) white_spaces of None \<Rightarrow> 0 | Some w \<Rightarrow> length w)"

lemma white_spaces_not_Nil: "[] \<notin> set white_spaces"
  by (simp add: white_spaces_def)

lemma ws_len_Nil [simp]: "ws_len [] = 0"
  by (simp add: ws_len_def white_spaces_def starts_with_def)

lemma ws_len_end_Nil [simp]: "ws_len_end [] = 0"
  by (simp add: ws_len_end_def white_spaces_def ends_with_def starts_with_def)

function trim_start :: "string \<Rightarrow> string" where
  "trim_start s = (if ws_len s = 0 then s else trim_start (drop (ws_len s) s))"
  by pat_completeness auto
termination
proof (relation "measure length")
  fix s :: string
  assume "ws_len s \<noteq> 0"
  then have "s \<noteq> []" by auto
  with \<open>ws_len s \<noteq> 0\<close> show "(drop (ws_len s) s, s) \<in> measure length" by simp
qed simp

function trim_end :: "string \<Rightarrow> string" where
  "trim_end s =
     (if ws_len_end s = 0 then s else trim_end (take (length s - ws_len_end s) s))"
  by pat_completeness auto
termination
proof (relation "measure length")
  fix s :: string
  assume "ws_len_end s \<noteq> 0"
  then have "s \<noteq> []" by auto
  with \<open>ws_len_end s \<noteq> 0\<close> show "(take (length s - ws_len_end s) s, s) \<in> measure length" by simp
qed simp

declare trim_start.simps [simp del] trim_end.simps [simp del]

definition trim :: "string \<Rightarrow> string" where
  "trim s = trim_end (trim_start s)"

lemma ws_len_0_iff: "ws_len s = 0 \<longleftrightarrow> (\<forall>w \<in> set white_spaces. \<not> starts_with s w)"
proof (cases "find (starts_with s) white_spaces")
  case None
  then have "ws_len s = 0" by (simp add: ws_len_def)
  with None show ?thesis by (auto simp: find_None_iff)
next
  case (Some w)
  then have "w \<in> set white_spaces" "starts_with s w"
    by (auto simp: find_Some_iff)
  with Some show ?thesis using white_spaces_not_Nil by (auto simp: ws_len_def)
qed

lemma ws_len_prefix: "ws_len s = 0 \<Longrightarrow> starts_with s u \<Longrightarrow> ws_len u = 0"
  by (auto simp: ws_len_0_iff dest: starts_with_trans)

lemma ws_len_trim_start [simp]: "ws_len (trim_start s) = 0"
proof (induction s rule: trim_start.induct)
  case (1 s)
  then show ?case by (subst trim_start.simps) simp
qed

lemma ws_len_end_trim_end [simp]: "ws_len_end (trim_end s) = 0"
proof (induction s rule: trim_end.induct)
  case (1 s)
  then show ?case by (subst trim_end.simps) simp
qed

lemma trim_end_prefix: "starts_with s (trim_end s)"
proof (induction s rule: trim_end.induct)
  case (1 s)
  show ?case
  proof (cases "ws_len_end s = 0")
    case True
    then show ?thesis by (simp add: trim_end.simps starts_with_def)
  next
    case False
    let ?t = "take (length s - ws_len_end s) s"
    have "starts_with s ?t" by (auto simp: starts_with_def min_def)
    with "1" False show ?thesis
      by (subst trim_end.simps) (auto intro: starts_with_trans)
  qed
qed

lemma trim_idem [simp]: "trim (trim s) = trim s"
proof -
  have "ws_len (trim s) = 0"
    unfolding trim_def by (rule ws_len_prefix [OF ws_len_trim_start trim_end_prefix])
  then have start: "trim_start (trim s) = trim s" by (simp add: trim_start.simps)
  have "ws_len_end (trim s) = 0" by (simp add: trim_def)
  then have "trim_end (trim s) = trim s" by (simp add: trim_end.simps [of "trim s"])
  with start show ?thesis by (simp add: trim_def [of "trim s"])
qed

lemma set_trim_start: "set (trim_start s) \<subseteq> set s"
proof (induction s rule: trim_start.induct)
  case (1 s)
  show ?case
  proof (cases "ws_len s = 0")
    case False
    with "1" have "set (trim_start (drop (ws_len s) s)) \<subseteq> set (drop (ws_len s) s)" by simp
    with False show ?thesis using set_drop_subset by (subst trim_start.simps) fastforce
  qed (simp add: trim_start.simps)
qed

lemma set_trim: "set (trim s) \<subseteq> set s"
proof -
  have "set (trim_end t) \<subseteq> set t" for t
    using trim_end_prefix [of t] by (metis set_append starts_with_iff sup_ge1)
  then show ?thesis using set_trim_start by (fastforce simp: trim_def)
qed

section \<open>Decimal numbers\<close>

fun show_nat :: "nat \<Rightarrow> string" where
  "show_nat n =
     (if n < 10 then [char_of (48 + n)]
      else show_nat (n div 10) @ [char_of (48 + n mod 10)])"

declare show_nat.simps [simp del]

definition to_digit :: "nat \<Rightarrow> char \<Rightarrow> nat option" where
  "to_digit radix c =
     (let b = byte c;
          d = (if 48 \<le> b \<and> b \<le> 57 then b - 48
               else if 97 \<le> b \<and> b \<le> 122 then b - 87
               else if 65 \<le> b \<and> b \<le> 90 then b - 55
               else 99)
      in if d < radix then Some d else None)"

text \<open>The loop of the integer parser of the standard library: \<open>None\<close> on a character that
  is no digit and on overflow.\<close>

fun parse_digits :: "nat \<Rightarrow> nat \<Rightarrow> string \<Rightarrow> nat option" where
  "parse_digits bound acc [] = Some acc"
| "parse_digits bound acc (c # s) =
     (case to_digit 10 c of
        None \<Rightarrow> None
      | Some d \<Rightarrow> if acc * 10 + d < bound then parse_digits bound (acc * 10 + d) s else None)"

definition parse_unsigned :: "nat \<Rightarrow> string \<Rightarrow> nat option" where
  "parse_unsigned bits s =
     (let digits = (case s of c # r \<Rightarrow> if c = CHR ''+'' then r else s | [] \<Rightarrow> [])
      in if digits = [] then None else parse_digits (2 ^ bits) 0 digits)"

lemma parse_digits_bound: "acc < bound \<Longrightarrow> parse_digits bound acc s = Some n \<Longrightarrow> n < bound"
  by (induction s arbitrary: acc) (auto split: option.splits if_splits)

lemma parse_unsigned_bound: "parse_unsigned bits s = Some n \<Longrightarrow> n < 2 ^ bits"
  unfolding parse_unsigned_def Let_def
  by (rule parse_digits_bound [of 0]) (auto split: if_splits simp del: parse_digits.simps)

lemma to_digit_char_of: "d < 10 \<Longrightarrow> to_digit 10 (char_of (48 + d)) = Some d"
  by (simp add: to_digit_def Let_def)

lemma parse_digits_append:
  "parse_digits b acc (s @ t) = Option.bind (parse_digits b acc s) (\<lambda>a. parse_digits b a t)"
  by (induction s arbitrary: acc) (auto split: option.splits)

lemma parse_digits_show_nat: "n < b \<Longrightarrow> parse_digits b 0 (show_nat n) = Some n"
proof (induction n rule: show_nat.induct)
  case (1 n)
  show ?case
  proof (cases "n < 10")
    case True
    with "1.prems" show ?thesis by (simp add: show_nat.simps to_digit_char_of)
  next
    case False
    with "1" have "parse_digits b 0 (show_nat (n div 10)) = Some (n div 10)" by auto
    with False "1.prems" show ?thesis
      by (subst show_nat.simps)
        (simp add: parse_digits_append to_digit_char_of)
  qed
qed

section \<open>UTF-8\<close>

definition continuation :: "char \<Rightarrow> bool" where
  "continuation c \<longleftrightarrow> 128 \<le> byte c \<and> byte c \<le> 191"

text \<open>The check behind \<open>String::from_utf8\<close>: the well-formed byte sequences of the Unicode
  standard, by lead byte.\<close>

fun valid_utf8 :: "string \<Rightarrow> bool" where
  "valid_utf8 [] = True"
| "valid_utf8 (a # s) =
     (if byte a \<le> 127 then valid_utf8 s
      else if byte a < 194 then False
      else if byte a \<le> 223 then
        (case s of b # r \<Rightarrow> continuation b \<and> valid_utf8 r | _ \<Rightarrow> False)
      else if byte a \<le> 239 then
        (case s of b # c # r \<Rightarrow>
             (if byte a = 224 then 160 \<le> byte b \<and> byte b \<le> 191
              else if byte a = 237 then 128 \<le> byte b \<and> byte b \<le> 159
              else continuation b) \<and> continuation c \<and> valid_utf8 r
         | _ \<Rightarrow> False)
      else if byte a \<le> 244 then
        (case s of b # c # d # r \<Rightarrow>
             (if byte a = 240 then 144 \<le> byte b \<and> byte b \<le> 191
              else if byte a = 244 then 128 \<le> byte b \<and> byte b \<le> 143
              else continuation b) \<and> continuation c \<and> continuation d \<and> valid_utf8 r
         | _ \<Rightarrow> False)
      else False)"

definition string_of_bytes :: "bytes \<Rightarrow> string" where
  "string_of_bytes bs = map (\<lambda>b. char_of (unat b)) bs"

definition from_utf8 :: "bytes \<Rightarrow> string option" where
  "from_utf8 bs = (let s = string_of_bytes bs in if valid_utf8 s then Some s else None)"

lemma string_of_bytes_as_bytes [simp]: "string_of_bytes (as_bytes s) = s"
proof -
  have "unat (of_char c :: u8) = byte c" for c :: char
  proof -
    have "(of_char c :: u8) = word_of_nat (of_char c)" by (simp add: of_nat_of_char)
    then have "unat (of_char c :: u8) = take_bit 8 (of_char c :: nat)"
      by (simp add: unsigned_of_nat)
    also have "\<dots> = of_char c"
      using nat_of_char_less_256 [of c] by (simp add: take_bit_nat_eq_self)
    finally show ?thesis by simp
  qed
  then show ?thesis by (induction s) (simp_all add: string_of_bytes_def as_bytes_def)
qed

text \<open>The length of the well-formed sequence at the head of the input, or of the longest prefix
  of one that \<open>from_utf8_lossy\<close> replaces by a single U+FFFD.\<close>

definition second_ok :: "char \<Rightarrow> char \<Rightarrow> bool" where
  "second_ok a b \<longleftrightarrow>
     (if byte a = 224 then 160 \<le> byte b \<and> byte b \<le> 191
      else if byte a = 237 then 128 \<le> byte b \<and> byte b \<le> 159
      else if byte a = 240 then 144 \<le> byte b \<and> byte b \<le> 191
      else if byte a = 244 then 128 \<le> byte b \<and> byte b \<le> 143
      else continuation b)"

fun utf8_head :: "string \<Rightarrow> bool \<times> nat" where
  "utf8_head [] = (True, 0)"
| "utf8_head (a # s) =
     (if byte a \<le> 127 then (True, 1)
      else if byte a < 194 \<or> 244 < byte a then (False, 1)
      else
        (case s of
           [] \<Rightarrow> (False, 1)
         | b # s2 \<Rightarrow>
             if \<not> second_ok a b then (False, 1)
             else if byte a \<le> 223 then (True, 2)
             else
               (case s2 of
                  [] \<Rightarrow> (False, 2)
                | c # s3 \<Rightarrow>
                    if \<not> continuation c then (False, 2)
                    else if byte a \<le> 239 then (True, 3)
                    else
                      (case s3 of
                         [] \<Rightarrow> (False, 3)
                       | d # _ \<Rightarrow> if continuation d then (True, 4) else (False, 3)))))"

lemma utf8_head_pos: "0 < snd (utf8_head (a # s))"
  by (auto split: list.splits)

function utf8_lossy :: "string \<Rightarrow> string" where
  "utf8_lossy s =
     (if s = [] then []
      else
        (if fst (utf8_head s) then take (snd (utf8_head s)) s else [CHR 0xEF, CHR 0xBF, CHR 0xBD])
        @ utf8_lossy (drop (snd (utf8_head s)) s))"
  by auto
termination
proof (relation "measure length")
  fix s :: string
  assume s: "s \<noteq> []"
  then obtain a r where "s = a # r" by (cases s) auto
  with utf8_head_pos [of a r] have "0 < snd (utf8_head s)" by (simp only:)
  with s show "(drop (snd (utf8_head s)) s, s) \<in> measure length" by simp
qed simp

declare utf8_lossy.simps [simp del]

definition from_utf8_lossy :: "bytes \<Rightarrow> string" where
  "from_utf8_lossy bs = utf8_lossy (string_of_bytes bs)"

text \<open>\<open>chars().take(n)\<close>: a character is a lead byte with its continuation bytes.\<close>

fun take_chars :: "nat \<Rightarrow> string \<Rightarrow> string" where
  "take_chars n [] = []"
| "take_chars n (c # s) =
     (if continuation c then c # take_chars n s
      else (case n of 0 \<Rightarrow> [] | Suc m \<Rightarrow> c # take_chars m s))"

definition char_count :: "string \<Rightarrow> nat" where
  "char_count s = length (filter (\<lambda>c. \<not> continuation c) s)"

lemma char_count_take_chars: "char_count (take_chars n s) \<le> n"
  by (induction n s rule: take_chars.induct) (auto simp: char_count_def split: nat.splits)

end
