(* ===== verification/Rust_Net.thy ===== *)
theory Rust_Net
  imports Rust_Str
begin

text \<open>
  The address types of \<open>std::net\<close> and the parser behind \<open>str::parse::<IpAddr>\<close>: the
  recursive-descent reader of the standard library, with its digit limits, its refusal of
  leading zeros in an IPv4 octet and its treatment of the double colon. A reader takes the
  rest of the input and returns the value with the new rest, or \<open>None\<close>.
\<close>

unbundle bit_operations_syntax

section \<open>Addresses\<close>

datatype ip_addr = V4 "32 word" | V6 "128 word"

record socket_addr =
  sa_ip :: ip_addr
  sa_port :: u16

definition ipv4_of_octets :: "nat list \<Rightarrow> 32 word" where
  "ipv4_of_octets os = foldl (\<lambda>w o'. w * 256 + of_nat o') 0 os"

definition ipv6_of_groups :: "nat list \<Rightarrow> 128 word" where
  "ipv6_of_groups gs = foldl (\<lambda>w g. w * 65536 + of_nat g) 0 gs"

definition ipv4_is_loopback :: "32 word \<Rightarrow> bool" where
  "ipv4_is_loopback a \<longleftrightarrow> drop_bit 24 a = 127"

definition is_loopback :: "ip_addr \<Rightarrow> bool" where
  "is_loopback a = (case a of V4 w \<Rightarrow> ipv4_is_loopback w | V6 w \<Rightarrow> w = 1)"

section \<open>The address parser\<close>

fun read_digits :: "nat \<Rightarrow> nat \<Rightarrow> nat \<Rightarrow> nat \<Rightarrow> nat \<Rightarrow> string \<Rightarrow> (nat \<times> nat \<times> string) option" where
  "read_digits radix maxd bound acc n [] = Some (acc, n, [])"
| "read_digits radix maxd bound acc n (c # s) =
     (case to_digit radix c of
        None \<Rightarrow> Some (acc, n, c # s)
      | Some d \<Rightarrow>
          if acc * radix + d \<ge> bound then None
          else if n + 1 > maxd then None
          else read_digits radix maxd bound (acc * radix + d) (n + 1) s)"

definition read_number :: "nat \<Rightarrow> nat \<Rightarrow> nat \<Rightarrow> bool \<Rightarrow> string \<Rightarrow> (nat \<times> string) option" where
  "read_number radix maxd bound allow_zero_prefix s =
     (case read_digits radix maxd bound 0 0 s of
        None \<Rightarrow> None
      | Some (v, n, r) \<Rightarrow>
          if n = 0 then None
          else if \<not> allow_zero_prefix \<and> s \<noteq> [] \<and> hd s = CHR ''0'' \<and> n > 1 then None
          else Some (v, r))"

definition read_char :: "char \<Rightarrow> string \<Rightarrow> string option" where
  "read_char c s = (case s of [] \<Rightarrow> None | x # r \<Rightarrow> if x = c then Some r else None)"

definition read_separator ::
  "char \<Rightarrow> nat \<Rightarrow> (string \<Rightarrow> ('a \<times> string) option) \<Rightarrow> string \<Rightarrow> ('a \<times> string) option" where
  "read_separator sep i inner s = (if i > 0 then Option.bind (read_char sep s) inner else inner s)"

fun read_octets :: "nat list \<Rightarrow> string \<Rightarrow> (nat list \<times> string) option" where
  "read_octets [] s = Some ([], s)"
| "read_octets (i # is) s =
     (case read_separator (CHR ''.'') i (read_number 10 3 256 False) s of
        None \<Rightarrow> None
      | Some (v, r) \<Rightarrow>
          (case read_octets is r of None \<Rightarrow> None | Some (vs, r') \<Rightarrow> Some (v # vs, r')))"

definition read_ipv4 :: "string \<Rightarrow> (nat list \<times> string) option" where
  "read_ipv4 s = read_octets [0, 1, 2, 3] s"

text \<open>\<open>read_groups limit is s\<close> fills the slots \<open>is\<close> of an array of \<open>limit\<close> groups; the flag
  says that an embedded IPv4 address, which takes two slots, ended the list.\<close>

fun read_groups :: "nat \<Rightarrow> nat list \<Rightarrow> string \<Rightarrow> nat list \<times> bool \<times> string" where
  "read_groups limit [] s = ([], False, s)"
| "read_groups limit (i # is) s =
     (let v4 = (if i + 1 < limit then read_separator (CHR '':'') i read_ipv4 s else None)
      in case v4 of
           Some (os, r) \<Rightarrow>
             ([os ! 0 * 256 + os ! 1, os ! 2 * 256 + os ! 3], True, r)
         | None \<Rightarrow>
             (case read_separator (CHR '':'') i (read_number 16 4 65536 True) s of
                None \<Rightarrow> ([], False, s)
              | Some (g, r) \<Rightarrow>
                  (case read_groups limit is r of (gs, f, r') \<Rightarrow> (g # gs, f, r'))))"

definition read_ipv6 :: "string \<Rightarrow> (nat list \<times> string) option" where
  "read_ipv6 s =
     (case read_groups 8 [0..<8] s of (hd_gs, hd_v4, r) \<Rightarrow>
        if length hd_gs = 8 then Some (hd_gs, r)
        else if hd_v4 then None
        else (case Option.bind (read_char (CHR '':'') r) (read_char (CHR '':'')) of
                None \<Rightarrow> None
              | Some r' \<Rightarrow>
                  (let limit = 8 - (length hd_gs + 1) in
                   case read_groups limit [0..<limit] r' of (tl_gs, _, r'') \<Rightarrow>
                     Some (hd_gs @ replicate (8 - length hd_gs - length tl_gs) 0 @ tl_gs, r''))))"

definition parse_ip :: "string \<Rightarrow> ip_addr option" where
  "parse_ip s =
     (case read_ipv4 s of
        Some (os, r) \<Rightarrow> if r = [] then Some (V4 (ipv4_of_octets os)) else None
      | None \<Rightarrow>
          (case read_ipv6 s of
             Some (gs, r) \<Rightarrow> if r = [] then Some (V6 (ipv6_of_groups gs)) else None
           | None \<Rightarrow> None))"

section \<open>What a parsed address looks like\<close>

lemma replicate_numeral_Cons:
  "replicate (numeral k) x = x # replicate (pred_numeral k) x"
  by (simp add: numeral_eq_Suc)

lemmas parse_ip_eval =
  parse_ip_def read_ipv4_def read_ipv6_def read_number_def read_separator_def read_char_def
  to_digit_def ipv4_of_octets_def ipv6_of_groups_def upt_rec replicate_numeral_Cons

lemma parse_ip_examples:
  "parse_ip ''127.0.0.1'' = Some (V4 2130706433)"
  "parse_ip ''127.0.0.01'' = None"
  "parse_ip ''::1'' = Some (V6 1)"
  "parse_ip ''[::1]'' = None"
  "parse_ip ''fd00::/8'' = None"
  "parse_ip ''::ffff:127.0.0.1'' = Some (V6 281472812449793)"
  by (simp_all add: parse_ip_eval)

lemma read_char_Some_iff: "read_char c s = Some r \<longleftrightarrow> s = c # r"
  by (auto simp: read_char_def split: list.splits)

lemma read_digits_suffix:
  "read_digits radix maxd bound acc n s = Some (v, m, r) \<Longrightarrow>
     \<exists>ds. s = ds @ r \<and> (\<forall>c \<in> set ds. to_digit radix c \<noteq> None)"
proof (induction s arbitrary: acc n)
  case (Cons c s)
  show ?case
  proof (cases "to_digit radix c")
    case None
    with Cons.prems show ?thesis by (auto intro: exI [of _ "[]"])
  next
    case (Some d)
    with Cons.prems have "read_digits radix maxd bound (acc * radix + d) (n + 1) s = Some (v, m, r)"
      by (auto split: if_splits)
    then obtain ds where "s = ds @ r" "\<forall>c \<in> set ds. to_digit radix c \<noteq> None"
      using Cons.IH by blast
    with Some show ?thesis by (auto intro!: exI [of _ "c # ds"])
  qed
qed simp

lemma read_digits_stop:
  "read_digits radix maxd bound acc n s = Some (v, m, c # r) \<Longrightarrow> to_digit radix c = None"
  by (induction s arbitrary: acc n) (auto split: option.splits if_splits)

end
