(* ===== verification/External.thy ===== *)
theory External
  imports Rust_Net
begin

text \<open>
  The third-party crates the program calls, as parameters. A value of a foreign type is
  represented by what the program observes of it (\<open>url::Url\<close> by its accessors, \<open>ipnet::IpNet\<close>
  by its prefix length and its membership test), and the functions that produce such values
  are fields of the record \<open>ext_lib\<close>, an argument of every definition that calls them. No
  behaviour of the crates is assumed here: where a property needs documented behaviour, it is
  a named hypothesis on the fields.
\<close>

section \<open>url\<close>

text \<open>\<open>url::Origin\<close>: every call of \<open>Url::origin\<close> on a URL with no tuple origin gives a fresh
  opaque one, so two opaque origins are never equal.\<close>

datatype origin = TupleOrigin string string u16 | OpaqueOrigin

fun origin_eq :: "origin \<Rightarrow> origin \<Rightarrow> bool" where
  "origin_eq (TupleOrigin s h p) (TupleOrigin s' h' p') = (s = s' \<and> h = h' \<and> p = p')"
| "origin_eq _ _ = False"

record url =
  url_as_str :: string
  url_scheme :: string
  url_host_str :: "string option"
  url_port :: "u16 option"
  url_port_or_known_default :: "u16 option"
  url_path :: string
  url_query :: "string option"
  url_origin :: origin
  url_origin_ascii :: string

section \<open>ipnet\<close>

record ipnet =
  net_prefix_len :: nat
  net_contains :: "ip_addr \<Rightarrow> bool"

section \<open>The library record\<close>

record ext_lib =
  x_url_parse :: "string \<Rightarrow> url option"
  x_b64_decode :: "string \<Rightarrow> bytes option"
  x_b64_encode :: "bytes \<Rightarrow> string"
  x_ipnet_parse :: "string \<Rightarrow> ipnet option"

section \<open>Documented behaviour used as hypotheses\<close>

text \<open>Membership of an address in a network given by a base address and a prefix length.\<close>

definition cidr_contains :: "ip_addr \<Rightarrow> nat \<Rightarrow> ip_addr \<Rightarrow> bool" where
  "cidr_contains base len a =
     (case (base, a) of
        (V4 b, V4 x) \<Rightarrow> drop_bit (32 - len) b = drop_bit (32 - len) x
      | (V6 b, V6 x) \<Rightarrow> drop_bit (128 - len) b = drop_bit (128 - len) x
      | _ \<Rightarrow> False)"

text \<open>The textual form of a network: an address, a slash and a decimal prefix length that the
  family allows.\<close>

definition cidr_text :: "string \<Rightarrow> (ip_addr \<times> nat) option" where
  "cidr_text s =
     (case split_once (CHR ''/'') s of
        None \<Rightarrow> None
      | Some (a, l) \<Rightarrow>
          (case (parse_ip a, parse_digits 256 0 l) of
             (Some ip, Some n) \<Rightarrow>
               if l \<noteq> [] \<and> n \<le> (case ip of V4 _ \<Rightarrow> 32 | V6 _ \<Rightarrow> 128) then Some (ip, n) else None
           | _ \<Rightarrow> None))"

text \<open>\<open>ipnet\<close> reads that textual form and its \<open>contains\<close> is membership.\<close>

definition ipnet_documented :: "ext_lib \<Rightarrow> bool" where
  "ipnet_documented L \<longleftrightarrow>
     (\<forall>s ip n. cidr_text s = Some (ip, n) \<longrightarrow>
        (\<exists>net. x_ipnet_parse L s = Some net \<and> net_prefix_len net = n \<and>
               net_contains net = cidr_contains ip n))"

definition cidr_net :: "string \<Rightarrow> ipnet option" where
  "cidr_net s =
     map_option (\<lambda>(ip, n). \<lparr>net_prefix_len = n, net_contains = cidr_contains ip n\<rparr>) (cidr_text s)"

lemma cidr_net_documented: "ipnet_documented (L\<lparr>x_ipnet_parse := cidr_net\<rparr>)"
  by (auto simp: ipnet_documented_def cidr_net_def)

lemma ipnet_documentedD:
  "ipnet_documented L \<Longrightarrow> cidr_text s = Some (ip, n) \<Longrightarrow>
     \<exists>net. x_ipnet_parse L s = Some net \<and> net_prefix_len net = n \<and>
           net_contains net = cidr_contains ip n"
  by (simp add: ipnet_documented_def)

text \<open>The \<open>url\<close> crate writes an IPv6 host of a URL in square brackets.\<close>

definition url_host_bracketed :: "ext_lib \<Rightarrow> bool" where
  "url_host_bracketed L \<longleftrightarrow>
     (\<forall>s u h. x_url_parse L s = Some u \<longrightarrow> url_host_str u = Some h \<longrightarrow> CHR '':'' \<in> set h \<longrightarrow>
        starts_with h ''['' \<and> ends_with h '']'')"

text \<open>Equal tuple origins have the same ASCII serialisation, and the scheme of a URL with a
  tuple origin is the scheme of the origin.\<close>

definition url_origin_documented :: "ext_lib \<Rightarrow> bool" where
  "url_origin_documented L \<longleftrightarrow>
     (\<forall>s u s' u'. x_url_parse L s = Some u \<longrightarrow> x_url_parse L s' = Some u' \<longrightarrow>
        origin_eq (url_origin u) (url_origin u') \<longrightarrow>
        url_origin_ascii u = url_origin_ascii u' \<and> url_scheme u = url_scheme u')"

lemma origin_eq_refl_iff: "origin_eq a b \<longleftrightarrow> a = b \<and> a \<noteq> OpaqueOrigin"
  by (cases a; cases b) auto

lemma origin_eq_sym: "origin_eq a b \<Longrightarrow> origin_eq b a"
  by (auto simp: origin_eq_refl_iff)

lemma origin_eq_trans: "origin_eq a b \<Longrightarrow> origin_eq b c \<Longrightarrow> origin_eq a c"
  by (auto simp: origin_eq_refl_iff)

end
