(* ===== verification/Printing.thy ===== *)
theory Printing
  imports External
begin

text \<open>
  \<open>crates/core/src/printing.rs\<close>: the printer, paper and submission records, the errors of a
  print backend and the trait \<open>PrintBackend\<close>. A backend is a value of the record
  \<open>print_backend\<close>, its fields the methods of the trait; the first argument of each field is the
  number of backend calls made so far, so that two calls with the same arguments may answer
  differently. The two tracking methods and the two listing methods with default bodies have
  those bodies as definitions.
\<close>

datatype printer_availability = PaAvailable | PaUnavailable | PaUnknown

record printer_info =
  pi_name :: string
  pi_is_default :: bool
  pi_dpi :: "u32 option"
  pi_port :: "string option"
  pi_is_local :: "bool option"
  pi_is_network :: "bool option"
  pi_is_virtual :: "bool option"
  pi_availability :: printer_availability

definition printer_info_new :: "string \<Rightarrow> bool \<Rightarrow> printer_info" where
  "printer_info_new name is_default =
     \<lparr>pi_name = name, pi_is_default = is_default, pi_dpi = None, pi_port = None,
      pi_is_local = None, pi_is_network = None, pi_is_virtual = None,
      pi_availability = PaUnknown\<rparr>"

record paper_info =
  pa_id :: string
  pa_name :: string
  pa_width_mm :: f64
  pa_height_mm :: f64

record printer_tray_info =
  tr_id :: string
  tr_name :: string

record printer_media_type_info =
  mt_id :: string
  mt_name :: string

record print_opts =
  po_printer_name :: string
  po_paper :: paper_info
  po_copies :: u16

record raw_print_options =
  ro_printer_name :: string

record print_submission =
  ps_submitted_at :: string
  ps_backend :: string
  ps_system_job_id :: "string option"
  ps_tracking_supported :: bool

datatype print_tracking_outcome =
    TrackCompleted string
  | TrackFailed string
  | TrackUnknown string

datatype print_error =
    PrinterNotFound string
  | PaperNotFound string
  | CommandFailed string string
  | PrinterOffline
  | UnsupportedPlatform

fun print_error_msg :: "print_error \<Rightarrow> string" where
  "print_error_msg (PrinterNotFound n) = ''printer not found: '' @ n"
| "print_error_msg (PaperNotFound n) = ''paper not found: '' @ n"
| "print_error_msg (CommandFailed c m) = ''print command failed: '' @ c @ '': '' @ m"
| "print_error_msg PrinterOffline = ''printer offline''"
| "print_error_msg UnsupportedPlatform = ''printing is not supported on this platform''"

record print_backend =
  be_list_printers :: "nat \<Rightarrow> (print_error, printer_info list) result"
  be_list_papers :: "nat \<Rightarrow> string \<Rightarrow> (print_error, paper_info list) result"
  be_list_trays :: "nat \<Rightarrow> string \<Rightarrow> (print_error, printer_tray_info list) result"
  be_list_media_types :: "nat \<Rightarrow> string \<Rightarrow> (print_error, printer_media_type_info list) result"
  be_print_pdf :: "nat \<Rightarrow> string \<Rightarrow> print_opts \<Rightarrow> (print_error, print_submission) result"
  be_print_raw :: "nat \<Rightarrow> bytes \<Rightarrow> raw_print_options \<Rightarrow> (print_error, print_submission) result"
  be_track_submission :: "nat \<Rightarrow> print_submission \<Rightarrow> print_opts \<Rightarrow> print_tracking_outcome"
  be_track_raw_submission ::
    "nat \<Rightarrow> print_submission \<Rightarrow> raw_print_options \<Rightarrow> print_tracking_outcome"

definition default_list_trays :: "nat \<Rightarrow> string \<Rightarrow> (print_error, printer_tray_info list) result" where
  "default_list_trays k printer_name = Ok []"

definition default_list_media_types ::
  "nat \<Rightarrow> string \<Rightarrow> (print_error, printer_media_type_info list) result" where
  "default_list_media_types k printer_name = Ok []"

definition default_track_submission ::
  "nat \<Rightarrow> print_submission \<Rightarrow> print_opts \<Rightarrow> print_tracking_outcome" where
  "default_track_submission k submission options =
     TrackUnknown ''platform does not provide trackable print status''"

definition default_track_raw_submission ::
  "nat \<Rightarrow> print_submission \<Rightarrow> raw_print_options \<Rightarrow> print_tracking_outcome" where
  "default_track_raw_submission k submission options =
     TrackUnknown ''platform does not provide trackable raw print status''"

end
