(* ===== verification/Protocol.thy ===== *)
theory Protocol
  imports Printing
begin

text \<open>
  \<open>crates/core/src/protocol.rs\<close>: the message types of the WebSocket protocol and the
  validators of jobs, origins and file URLs. The validators are translated branch by branch;
  the declarative predicates \<open>raw_job_ok\<close>, \<open>file_job_ok\<close>, \<open>html_job_ok\<close> and \<open>raw_html_job_ok\<close>
  say which jobs they accept.
\<close>

section \<open>Formats\<close>

datatype supported_format =
  Pdf | Image | Png | Jpg | Jpeg | Docx | Xlsx | Pptx | Raw | Html | RawHtml

datatype parse_supported_format_error = ParseSupportedFormatError

definition supported_format_from_str ::
  "string \<Rightarrow> (parse_supported_format_error, supported_format) result" where
  "supported_format_from_str value =
     (if value = ''pdf'' then Ok Pdf
      else if value = ''image'' then Ok Image
      else if value = ''png'' then Ok Png
      else if value = ''jpg'' then Ok Jpg
      else if value = ''jpeg'' then Ok Jpeg
      else if value = ''docx'' then Ok Docx
      else if value = ''xlsx'' then Ok Xlsx
      else if value = ''pptx'' then Ok Pptx
      else if value = ''raw'' then Ok Raw
      else if value = ''html'' then Ok Html
      else if value = ''raw-html'' then Ok RawHtml
      else Err ParseSupportedFormatError)"

section \<open>Errors\<close>

datatype protocol_error =
    InvalidOrigin
  | UnsupportedOriginScheme
  | InvalidFileUrl
  | UnsupportedFileUrlScheme
  | InvalidPaperDimensions

fun protocol_error_msg :: "protocol_error \<Rightarrow> string" where
  "protocol_error_msg InvalidOrigin = ''invalid origin''"
| "protocol_error_msg UnsupportedOriginScheme = ''unsupported origin scheme''"
| "protocol_error_msg InvalidFileUrl = ''invalid file url''"
| "protocol_error_msg UnsupportedFileUrlScheme = ''unsupported file url scheme''"
| "protocol_error_msg InvalidPaperDimensions = ''paper dimensions must be positive''"

datatype job_validation_error =
    MissingRawData
  | RawFileUrlNotAllowed
  | RawPaperNotAllowed
  | RawCopiesNotAllowed
  | MissingFileUrl
  | FileRawDataNotAllowed
  | InvalidRawData
  | FileTooLarge
  | MissingHtmlFileUrl
  | InvalidHtmlFileUrl
  | HtmlInlineNotAllowed
  | MissingRawHtml
  | RawHtmlFileUrlNotAllowed
  | HtmlDataBase64NotAllowed
  | NonHtmlHtmlNotAllowed
  | NonHtmlWaitNotAllowed
  | HtmlWaitOutOfRange

fun job_validation_error_msg :: "job_validation_error \<Rightarrow> string" where
  "job_validation_error_msg MissingRawData = ''raw job requires data_base64''"
| "job_validation_error_msg RawFileUrlNotAllowed = ''raw job does not accept file_url''"
| "job_validation_error_msg RawPaperNotAllowed = ''raw job does not accept paper''"
| "job_validation_error_msg RawCopiesNotAllowed = ''raw job does not accept copies''"
| "job_validation_error_msg MissingFileUrl = ''file job requires file_url''"
| "job_validation_error_msg FileRawDataNotAllowed = ''file job does not accept data_base64''"
| "job_validation_error_msg InvalidRawData = ''invalid raw data_base64''"
| "job_validation_error_msg FileTooLarge = ''file too large''"
| "job_validation_error_msg MissingHtmlFileUrl = ''html job requires file_url''"
| "job_validation_error_msg InvalidHtmlFileUrl =
     ''html job file_url must be an absolute http or https url''"
| "job_validation_error_msg HtmlInlineNotAllowed = ''html job does not accept inline html''"
| "job_validation_error_msg MissingRawHtml = ''raw-html job requires html''"
| "job_validation_error_msg RawHtmlFileUrlNotAllowed = ''raw-html job does not accept file_url''"
| "job_validation_error_msg HtmlDataBase64NotAllowed = ''html jobs do not accept data_base64''"
| "job_validation_error_msg NonHtmlHtmlNotAllowed = ''non-html job does not accept html''"
| "job_validation_error_msg NonHtmlWaitNotAllowed = ''non-html job does not accept wait_ms''"
| "job_validation_error_msg HtmlWaitOutOfRange = ''html wait_ms must be between 0 and 30000''"

section \<open>Jobs\<close>

definition DEFAULT_HTML_WAIT_MS :: u64 where
  "DEFAULT_HTML_WAIT_MS = 1000"

definition MAX_HTML_WAIT_MS :: u64 where
  "MAX_HTML_WAIT_MS = 30000"

record effective_paper =
  ep_width_mm :: f64
  ep_height_mm :: f64

definition effective_paper_validate :: "effective_paper \<Rightarrow> (protocol_error, unit) result" where
  "effective_paper_validate paper =
     (if f64_less (Fin 0) (ep_width_mm paper) \<and> f64_less (Fin 0) (ep_height_mm paper)
      then Ok () else Err InvalidPaperDimensions)"

record print_job_input =
  pj_job_id :: string
  pj_format :: supported_format
  pj_printer_name :: "string option"
  pj_file_url :: "string option"
  pj_data_base64 :: "string option"
  pj_html :: "string option"
  pj_wait_ms :: "u64 option"
  pj_copies :: "u16 option"
  pj_paper :: "effective_paper option"

section \<open>URL validators\<close>

definition is_allowed_origin :: "string option \<Rightarrow> string list \<Rightarrow> bool" where
  "is_allowed_origin origin allowed_origins =
     is_some_and (\<lambda>o'. list_ex (\<lambda>allowed. allowed = o') allowed_origins) origin"

definition validate_origin :: "ext_lib \<Rightarrow> string \<Rightarrow> (protocol_error, unit) result" where
  "validate_origin L value =
     (case x_url_parse L value of
        None \<Rightarrow> Err InvalidOrigin
      | Some u \<Rightarrow>
          if url_scheme u = ''http'' \<or> url_scheme u = ''https'' then
            (if url_origin_ascii u = value then Ok () else Err InvalidOrigin)
          else Err UnsupportedOriginScheme)"

definition is_pdf_data_url :: "string \<Rightarrow> bool" where
  "is_pdf_data_url value =
     (case strip_prefix value ''data:'' of
        None \<Rightarrow> False
      | Some payload \<Rightarrow>
          (case split_once (CHR '','') payload of
             None \<Rightarrow> False
           | Some (metadata, data) \<Rightarrow>
               if data = [] then False
               else
                 (case split_on (\<lambda>c. c = CHR '';'') metadata of
                    [] \<Rightarrow> False
                  | media_type # parts \<Rightarrow>
                      eq_ignore_ascii_case media_type ''application/pdf'' \<and>
                      list_ex (\<lambda>part. eq_ignore_ascii_case part ''base64'') parts)))"

definition validate_file_url :: "ext_lib \<Rightarrow> string \<Rightarrow> (protocol_error, url) result" where
  "validate_file_url L value =
     (case x_url_parse L value of
        None \<Rightarrow> Err InvalidFileUrl
      | Some u \<Rightarrow>
          if url_scheme u = ''http'' \<or> url_scheme u = ''https'' then Ok u
          else if url_scheme u = ''data'' \<and> is_pdf_data_url value then Ok u
          else Err UnsupportedFileUrlScheme)"

definition validate_html_file_url :: "ext_lib \<Rightarrow> string \<Rightarrow> (protocol_error, url) result" where
  "validate_html_file_url L value =
     (case x_url_parse L value of
        None \<Rightarrow> Err InvalidFileUrl
      | Some u \<Rightarrow>
          if \<not> (url_scheme u = ''http'' \<or> url_scheme u = ''https'') then
            Err UnsupportedFileUrlScheme
          else if url_host_str u = None then Err InvalidFileUrl
          else Ok u)"

section \<open>Job validators\<close>

definition max_bytes_of :: "u64 \<Rightarrow> u64" where
  "max_bytes_of max_file_size_mb = saturating_mul_u64 max_file_size_mb (1024 * 1024)"

definition validate_non_html_fields :: "print_job_input \<Rightarrow> (job_validation_error, unit) result" where
  "validate_non_html_fields job =
     (if pj_html job \<noteq> None then Err NonHtmlHtmlNotAllowed
      else if pj_wait_ms job \<noteq> None then Err NonHtmlWaitNotAllowed
      else Ok ())"

definition validate_html_wait :: "print_job_input \<Rightarrow> (job_validation_error, unit) result" where
  "validate_html_wait job =
     (case pj_wait_ms job of
        Some wait_ms \<Rightarrow> if wait_ms > MAX_HTML_WAIT_MS then Err HtmlWaitOutOfRange else Ok ()
      | None \<Rightarrow> Ok ())"

definition validate_raw ::
  "ext_lib \<Rightarrow> print_job_input \<Rightarrow> u64 \<Rightarrow> (job_validation_error, unit) result" where
  "validate_raw L job max_file_size_mb =
     (if pj_file_url job \<noteq> None then Err RawFileUrlNotAllowed
      else if pj_paper job \<noteq> None then Err RawPaperNotAllowed
      else if pj_copies job \<noteq> None then Err RawCopiesNotAllowed
      else
        and_then (validate_non_html_fields job) (\<lambda>_.
        and_then (ok_or MissingRawData (opt_filter (\<lambda>v. v \<noteq> []) (pj_data_base64 job)))
          (\<lambda>data_base64.
        and_then (ok_or InvalidRawData (x_b64_decode L data_base64)) (\<lambda>data.
          if length data > unat (max_bytes_of max_file_size_mb) then Err FileTooLarge
          else Ok ()))))"

definition validate_file_job :: "print_job_input \<Rightarrow> (job_validation_error, unit) result" where
  "validate_file_job job =
     (if opt_filter (\<lambda>v. v \<noteq> []) (pj_file_url job) = None then Err MissingFileUrl
      else if pj_data_base64 job \<noteq> None then Err FileRawDataNotAllowed
      else validate_non_html_fields job)"

definition validate_html_file_job ::
  "ext_lib \<Rightarrow> print_job_input \<Rightarrow> (job_validation_error, unit) result" where
  "validate_html_file_job L job =
     and_then (ok_or MissingHtmlFileUrl (opt_filter (\<lambda>v. v \<noteq> []) (pj_file_url job)))
       (\<lambda>file_url.
     and_then (map_err (\<lambda>_. InvalidHtmlFileUrl) (validate_html_file_url L file_url)) (\<lambda>_.
       if pj_html job \<noteq> None then Err HtmlInlineNotAllowed
       else if pj_data_base64 job \<noteq> None then Err HtmlDataBase64NotAllowed
       else validate_html_wait job))"

definition validate_raw_html ::
  "print_job_input \<Rightarrow> u64 \<Rightarrow> (job_validation_error, unit) result" where
  "validate_raw_html job max_file_size_mb =
     (if pj_file_url job \<noteq> None then Err RawHtmlFileUrlNotAllowed
      else if pj_data_base64 job \<noteq> None then Err HtmlDataBase64NotAllowed
      else
        and_then (ok_or MissingRawHtml (opt_filter (\<lambda>v. trim v \<noteq> []) (pj_html job))) (\<lambda>html.
          if length html > unat (max_bytes_of max_file_size_mb) then Err FileTooLarge
          else validate_html_wait job))"

definition validate_for_acceptance ::
  "ext_lib \<Rightarrow> print_job_input \<Rightarrow> u64 \<Rightarrow> (job_validation_error, unit) result" where
  "validate_for_acceptance L job max_file_size_mb =
     (case pj_format job of
        Raw \<Rightarrow> validate_raw L job max_file_size_mb
      | Html \<Rightarrow> validate_html_file_job L job
      | RawHtml \<Rightarrow> validate_raw_html job max_file_size_mb
      | _ \<Rightarrow> validate_file_job job)"

section \<open>Messages\<close>

datatype job_status =
  JsQueued | JsDownloading | JsPrinting | JsSubmitted | JsCompleted | JsFailed | JsUnknown
| JsCancelled

datatype error_code =
    EcOriginNotAllowed
  | EcInvalidMessage
  | EcPrinterNotConfigured
  | EcPrinterNotFound
  | EcPaperNotConfigured
  | EcPaperNotFound
  | EcDownloadFailed
  | EcFileTooLarge
  | EcUnsupportedFormat
  | EcFormatMismatch
  | EcOfficeConvertFailed
  | EcPrintFailed
  | EcJobDuplicated
  | EcBatchDuplicated
  | EcBatchTooLarge
  | EcCopiesOutOfRange
  | EcServicePortInUse
  | EcInternalError

datatype client_message =
    Ping int
  | GetPrintersList string
  | GetPrinterInfo string string
  | GetPrintQueue string
  | Print string print_job_input
  | PrintBatch string string "print_job_input list"

record printer_details =
  pd_name :: string
  pd_is_default :: bool
  pd_dpi :: "u32 option"
  pd_port :: "string option"
  pd_is_local :: "bool option"
  pd_is_network :: "bool option"
  pd_is_virtual :: "bool option"
  pd_papers :: "paper_info list"
  pd_trays :: "printer_tray_info list"
  pd_media_types :: "printer_media_type_info list"

record print_queue_job_info =
  qi_request_id :: string
  qi_batch_id :: "string option"
  qi_job_id :: string
  qi_status :: job_status
  qi_message :: "string option"

datatype server_message =
    Pong int string
  | PrintersList string "printer_info list"
  | PrinterInfoMsg string printer_details
  | PrintQueueMsg string "print_queue_job_info list"
  | JobStatusMsg "string option" string job_status "string option"
  | ErrorMsg "string option" error_code string

section \<open>What the validators accept\<close>

definition no_html_fields :: "print_job_input \<Rightarrow> bool" where
  "no_html_fields job \<longleftrightarrow> pj_html job = None \<and> pj_wait_ms job = None"

definition wait_ok :: "print_job_input \<Rightarrow> bool" where
  "wait_ok job \<longleftrightarrow> (\<forall>w. pj_wait_ms job = Some w \<longrightarrow> unat w \<le> 30000)"

definition max_job_bytes :: "u64 \<Rightarrow> nat" where
  "max_job_bytes mb = min (unat mb * 1048576) (2 ^ 64 - 1)"

definition raw_job_ok :: "ext_lib \<Rightarrow> print_job_input \<Rightarrow> u64 \<Rightarrow> bool" where
  "raw_job_ok L job mb \<longleftrightarrow>
     pj_file_url job = None \<and> pj_paper job = None \<and> pj_copies job = None \<and> no_html_fields job \<and>
     (\<exists>d data. pj_data_base64 job = Some d \<and> d \<noteq> [] \<and> x_b64_decode L d = Some data \<and>
        length data \<le> max_job_bytes mb)"

definition file_job_ok :: "print_job_input \<Rightarrow> bool" where
  "file_job_ok job \<longleftrightarrow>
     (\<exists>u. pj_file_url job = Some u \<and> u \<noteq> []) \<and> pj_data_base64 job = None \<and> no_html_fields job"

definition html_job_ok :: "ext_lib \<Rightarrow> print_job_input \<Rightarrow> bool" where
  "html_job_ok L job \<longleftrightarrow>
     (\<exists>s u. pj_file_url job = Some s \<and> s \<noteq> [] \<and> x_url_parse L s = Some u \<and>
        url_scheme u \<in> {''http'', ''https''} \<and> url_host_str u \<noteq> None) \<and>
     pj_html job = None \<and> pj_data_base64 job = None \<and> wait_ok job"

definition raw_html_job_ok :: "print_job_input \<Rightarrow> u64 \<Rightarrow> bool" where
  "raw_html_job_ok job mb \<longleftrightarrow>
     pj_file_url job = None \<and> pj_data_base64 job = None \<and> wait_ok job \<and>
     (\<exists>h. pj_html job = Some h \<and> trim h \<noteq> [] \<and> length h \<le> max_job_bytes mb)"

lemma unat_max_bytes_of: "unat (max_bytes_of mb) = max_job_bytes mb"
  by (simp add: max_bytes_of_def unat_saturating_mul_u64 max_job_bytes_def)

lemma validate_non_html_fields_ok [protocol_simps]:
  "validate_non_html_fields job = Inr u \<longleftrightarrow> no_html_fields job"
  by (simp add: validate_non_html_fields_def no_html_fields_def)

lemma validate_html_wait_ok [protocol_simps]:
  "validate_html_wait job = Inr u \<longleftrightarrow> wait_ok job"
  by (auto simp: validate_html_wait_def wait_ok_def MAX_HTML_WAIT_MS_def word_less_nat_alt
      split: option.splits)

lemma validate_html_file_url_ok [protocol_simps]:
  "validate_html_file_url L s = Inr u \<longleftrightarrow>
     x_url_parse L s = Some u \<and> url_scheme u \<in> {''http'', ''https''} \<and> url_host_str u \<noteq> None"
  by (auto simp: validate_html_file_url_def split: option.splits if_splits)

lemma validate_raw_ok [protocol_simps]: "validate_raw L job mb = Inr u \<longleftrightarrow> raw_job_ok L job mb"
  by (auto simp: validate_raw_def raw_job_ok_def and_then_def ok_or_def opt_filter_def
      unat_max_bytes_of validate_non_html_fields_def no_html_fields_def
      split: if_splits option.splits sum.splits)

lemma validate_file_job_ok [protocol_simps]: "validate_file_job job = Inr u \<longleftrightarrow> file_job_ok job"
  by (cases "pj_file_url job")
    (auto simp: validate_file_job_def file_job_ok_def protocol_simps)

lemma validate_html_file_job_ok [protocol_simps]:
  "validate_html_file_job L job = Inr u \<longleftrightarrow> html_job_ok L job"
  by (auto simp: validate_html_file_job_def html_job_ok_def and_then_eq_Inr_iff
      opt_filter_eq_Some_iff protocol_simps split: if_splits)

lemma validate_raw_html_ok [protocol_simps]:
  "validate_raw_html job mb = Inr u \<longleftrightarrow> raw_html_job_ok job mb"
  by (auto simp: validate_raw_html_def raw_html_job_ok_def and_then_def ok_or_def opt_filter_def
      unat_max_bytes_of protocol_simps split: if_splits option.splits sum.splits)

lemma validate_file_url_ok [protocol_simps]:
  "validate_file_url L s = Inr u \<longleftrightarrow>
     x_url_parse L s = Some u \<and>
     (url_scheme u \<in> {''http'', ''https''} \<or> url_scheme u = ''data'' \<and> is_pdf_data_url s)"
  by (auto simp: validate_file_url_def split: option.splits if_splits)

lemma validate_origin_ok [protocol_simps]:
  "validate_origin L s = Inr v \<longleftrightarrow>
     (\<exists>u. x_url_parse L s = Some u \<and> url_scheme u \<in> {''http'', ''https''} \<and> url_origin_ascii u = s)"
  by (auto simp: validate_origin_def split: option.splits if_splits)

lemma is_allowed_origin_iff [protocol_simps]:
  "is_allowed_origin og allowed \<longleftrightarrow> (\<exists>o'. og = Some o' \<and> o' \<in> set allowed)"
  by (auto simp: is_allowed_origin_def list_ex_iff is_some_and_iff)

text \<open>
  C11. A job passes \<open>PrintJobInput::validate_for_acceptance\<close> exactly when its fields form one
  of the four well-formed jobs of the protocol: raw jobs carry decodable base64 data within
  the size limit and no file, paper or copies; file jobs a non-empty URL and no inline data;
  html jobs an absolute http or https URL with a host; raw-html jobs non-blank inline HTML
  within the limit. The html wait is at most 30000 ms and absent on the other formats.
\<close>

theorem validate_for_acceptance_iff:
  "is_ok (validate_for_acceptance L job mb) \<longleftrightarrow>
     (case pj_format job of
        Raw \<Rightarrow> raw_job_ok L job mb
      | Html \<Rightarrow> html_job_ok L job
      | RawHtml \<Rightarrow> raw_html_job_ok job mb
      | _ \<Rightarrow> file_job_ok job)"
  by (cases "pj_format job")
    (simp_all add: validate_for_acceptance_def is_ok_iff protocol_simps)

end
