(* ===== verification/Ip_Whitelist.thy ===== *)
theory Ip_Whitelist
  imports External
begin

text \<open>
  \<open>crates/core/src/ip_whitelist.rs\<close>: normalisation and validation of the IP allow list and the
  run-time check of a client address. The three messages of \<open>validate_allowed_ip_entry\<close> are
  the constructors of \<open>ip_entry_error\<close>.
\<close>

definition REQUIRED_LOOPBACK_IP :: string where
  "REQUIRED_LOOPBACK_IP = ''127.0.0.1''"

fun normalize_ips_loop :: "string list \<Rightarrow> string list \<Rightarrow> string list" where
  "normalize_ips_loop normalized [] = normalized"
| "normalize_ips_loop normalized (e # entries) =
     (let entry = trim e in
      if entry = [] \<or> entry = REQUIRED_LOOPBACK_IP then normalize_ips_loop normalized entries
      else if \<not> list_ex (\<lambda>item. item = entry) normalized
      then normalize_ips_loop (normalized @ [entry]) entries
      else normalize_ips_loop normalized entries)"

definition normalize_allowed_ips :: "string list \<Rightarrow> string list" where
  "normalize_allowed_ips entries = normalize_ips_loop [REQUIRED_LOOPBACK_IP] entries"

datatype ip_entry_error = EmptyIpEntry | AnyAddressEntry | InvalidIpEntry string

definition validate_allowed_ip_entry ::
  "ext_lib \<Rightarrow> string \<Rightarrow> (ip_entry_error, unit) result" where
  "validate_allowed_ip_entry L e =
     (let entry = trim e in
      if entry = [] then Err EmptyIpEntry
      else if entry = ''0.0.0.0'' \<or> entry = ''::'' \<or> entry = ''0.0.0.0/0'' \<or> entry = ''::/0''
      then Err AnyAddressEntry
      else if CHR ''/'' \<in> set entry then
        (case x_ipnet_parse L entry of
           None \<Rightarrow> Err (InvalidIpEntry entry)
         | Some net \<Rightarrow> if net_prefix_len net = 0 then Err AnyAddressEntry else Ok ())
      else (case parse_ip entry of None \<Rightarrow> Err (InvalidIpEntry entry) | Some _ \<Rightarrow> Ok ()))"

definition entry_matches_client_ip :: "ext_lib \<Rightarrow> string \<Rightarrow> ip_addr \<Rightarrow> bool" where
  "entry_matches_client_ip L entry client_ip =
     (case parse_ip entry of
        Some ip \<Rightarrow> ip = client_ip
      | None \<Rightarrow> is_some_and (\<lambda>network. net_contains network client_ip) (x_ipnet_parse L entry))"

definition is_client_ip_allowed :: "ext_lib \<Rightarrow> ip_addr \<Rightarrow> string list \<Rightarrow> bool" where
  "is_client_ip_allowed L client_ip entries =
     (if is_loopback client_ip then True
      else list_ex (\<lambda>entry. entry_matches_client_ip L entry client_ip) entries)"

section \<open>Normalised lists\<close>

text \<open>A list in normal form: the loopback address first, no duplicates, and every other entry
  trimmed and non-empty.\<close>

definition normal_ips :: "string list \<Rightarrow> bool" where
  "normal_ips ips \<longleftrightarrow>
     (\<exists>rest. ips = REQUIRED_LOOPBACK_IP # rest) \<and> distinct ips \<and>
     (\<forall>e \<in> set ips. trim e = e \<and> e \<noteq> [])"

lemma trim_loopback: "trim REQUIRED_LOOPBACK_IP = REQUIRED_LOOPBACK_IP"
proof -
  have "ws_len ''127.0.0.1'' = 0" "ws_len_end ''127.0.0.1'' = 0"
    by (simp_all add: ws_len_def ws_len_end_def white_spaces_def starts_with_def ends_with_def)
  then show ?thesis
    by (simp add: REQUIRED_LOOPBACK_IP_def trim_def trim_start.simps trim_end.simps)
qed

lemma normal_ips_snoc:
  "normal_ips ips \<Longrightarrow> trim e \<noteq> [] \<Longrightarrow> trim e \<notin> set ips \<Longrightarrow> normal_ips (ips @ [trim e])"
  by (auto simp: normal_ips_def)

lemma normalize_ips_loop_normal: "normal_ips acc \<Longrightarrow> normal_ips (normalize_ips_loop acc es)"
  by (induction es arbitrary: acc) (auto simp: Let_def list_ex_iff normal_ips_snoc)

lemma normal_ips_loopback: "normal_ips [REQUIRED_LOOPBACK_IP]"
  by (simp add: normal_ips_def trim_loopback) (simp add: REQUIRED_LOOPBACK_IP_def)

lemma normalize_ips_loop_set:
  "REQUIRED_LOOPBACK_IP \<in> set acc \<Longrightarrow>
     set (normalize_ips_loop acc es) = set acc \<union> (trim ` set es - {[]})"
  by (induction es arbitrary: acc) (auto simp: Let_def list_ex_iff)

lemma normalize_ips_loop_append:
  assumes "REQUIRED_LOOPBACK_IP \<in> set acc" "distinct (acc @ es)"
    "\<forall>e \<in> set es. trim e = e \<and> e \<noteq> []"
  shows "normalize_ips_loop acc es = acc @ es"
  using assms
proof (induction es arbitrary: acc)
  case (Cons e es)
  then have "e \<noteq> REQUIRED_LOOPBACK_IP" by auto
  with Cons show ?case by (auto simp: Let_def list_ex_iff)
qed simp

lemma normalize_normal: "normal_ips ips \<Longrightarrow> normalize_allowed_ips ips = ips"
proof -
  assume n: "normal_ips ips"
  then obtain rest where ips: "ips = REQUIRED_LOOPBACK_IP # rest"
    by (auto simp: normal_ips_def)
  have "normalize_allowed_ips ips = normalize_ips_loop [REQUIRED_LOOPBACK_IP] rest"
    by (simp add: ips normalize_allowed_ips_def trim_loopback)
  also have "\<dots> = [REQUIRED_LOOPBACK_IP] @ rest"
    by (rule normalize_ips_loop_append) (use n ips in \<open>auto simp: normal_ips_def\<close>)
  finally show ?thesis by (simp add: ips)
qed

lemma normalize_allowed_ips_normal: "normal_ips (normalize_allowed_ips es)"
  by (simp add: normalize_allowed_ips_def normalize_ips_loop_normal normal_ips_loopback)

lemma set_normalize_allowed_ips:
  "set (normalize_allowed_ips es) = insert REQUIRED_LOOPBACK_IP (trim ` set es - {[]})"
  by (simp add: normalize_allowed_ips_def normalize_ips_loop_set)

lemma normalize_allowed_ips_idem [simp]:
  "normalize_allowed_ips (normalize_allowed_ips es) = normalize_allowed_ips es"
  by (rule normalize_normal [OF normalize_allowed_ips_normal])

text \<open>
  \<open>normalize_allowed_ips\<close> always yields a list that starts with the loopback address, has
  no duplicates and only trimmed non-empty entries; it loses no entry and invents none; and
  normalising again changes nothing.
\<close>

theorem normalize_allowed_ips_correct:
  "normal_ips (normalize_allowed_ips es) \<and>
   set (normalize_allowed_ips es) = insert REQUIRED_LOOPBACK_IP (trim ` set es - {[]}) \<and>
   normalize_allowed_ips (normalize_allowed_ips es) = normalize_allowed_ips es"
  by (simp add: normalize_allowed_ips_normal set_normalize_allowed_ips)

section \<open>The run-time check\<close>

lemma entry_matches_single:
  "parse_ip e = Some ip \<Longrightarrow> entry_matches_client_ip L e c \<longleftrightarrow> c = ip"
  by (auto simp: entry_matches_client_ip_def)

lemma entry_matches_cidr:
  assumes "ipnet_documented L" "cidr_text e = Some (ip, n)" "parse_ip e = None"
  shows "entry_matches_client_ip L e c \<longleftrightarrow> cidr_contains ip n c"
  using ipnet_documentedD [OF assms(1,2)] assms(3)
  by (auto simp: entry_matches_client_ip_def)

end
