(* ===== verification/Fs.thy ===== *)
theory Fs
  imports Rust_Str
begin

text \<open>
  The operating system as the program sees it: files with their contents, a clock and fresh
  identifiers. Every call takes the environment \<open>os_env\<close>, whose functions say for the n-th
  call whether it fails and what the clock and the identifier generator answer, and the
  \<open>world\<close> it changes. A failed write may leave any content behind; reads and removals of a
  missing file fail with \<open>NotFound\<close>. The environment is universally quantified in the
  properties, so they hold for every pattern of failures.
\<close>

datatype io_kind = NotFound | PermissionDenied | InvalidInput | InvalidData | IoOther

record io_error =
  io_kind :: io_kind
  io_msg :: string

record world =
  w_files :: "string \<rightharpoonup> bytes"
  w_dirs :: "string set"
  w_tick :: nat

text \<open>What became of a child process: it could not be started, waiting for it failed, it ran
  over its time limit, its output could not be read, or it exited (successfully or not, with
  the text of its status and its two output streams).\<close>

datatype process_outcome =
    SpawnError io_error
  | WaitError io_error
  | ProcessTimeout
  | OutputError io_error
  | Exited bool string bytes bytes

record os_env =
  os_fail :: "nat \<Rightarrow> io_error option"
  os_left :: "nat \<Rightarrow> bytes option"
  os_now :: "nat \<Rightarrow> string"
  os_millis :: "nat \<Rightarrow> nat"
  os_uuid :: "nat \<Rightarrow> string"
  os_temp_dir :: string
  os_is_executable :: "nat \<Rightarrow> string \<Rightarrow> bool"
  os_run :: "nat \<Rightarrow> string list \<Rightarrow> world \<Rightarrow> process_outcome \<times> world"

definition tick :: "world \<Rightarrow> world" where
  "tick w = w\<lparr>w_tick := Suc (w_tick w)\<rparr>"

definition now :: "os_env \<Rightarrow> world \<Rightarrow> string \<times> world" where
  "now E w = (os_now E (w_tick w), tick w)"

definition new_uuid :: "os_env \<Rightarrow> world \<Rightarrow> string \<times> world" where
  "new_uuid E w = (os_uuid E (w_tick w), tick w)"

definition not_found :: io_error where
  "not_found = \<lparr>io_kind = NotFound, io_msg = ''No such file or directory (os error 2)''\<rparr>"

definition fs_exists :: "os_env \<Rightarrow> world \<Rightarrow> string \<Rightarrow> bool \<times> world" where
  "fs_exists E w p = (os_fail E (w_tick w) = None \<and> w_files w p \<noteq> None, tick w)"

definition fs_read :: "os_env \<Rightarrow> world \<Rightarrow> string \<Rightarrow> (io_error, bytes) result \<times> world" where
  "fs_read E w p =
     (case os_fail E (w_tick w) of
        Some e \<Rightarrow> (Err e, tick w)
      | None \<Rightarrow> (case w_files w p of None \<Rightarrow> Err not_found | Some b \<Rightarrow> Ok b, tick w))"

definition fs_write :: "os_env \<Rightarrow> world \<Rightarrow> string \<Rightarrow> bytes \<Rightarrow> (io_error, unit) result \<times> world" where
  "fs_write E w p b =
     (case os_fail E (w_tick w) of
        Some e \<Rightarrow>
          (Err e, tick (case os_left E (w_tick w) of
                          None \<Rightarrow> w
                        | Some l \<Rightarrow> w\<lparr>w_files := (w_files w)(p \<mapsto> l)\<rparr>))
      | None \<Rightarrow> (Ok (), tick (w\<lparr>w_files := (w_files w)(p \<mapsto> b)\<rparr>)))"

definition fs_remove :: "os_env \<Rightarrow> world \<Rightarrow> string \<Rightarrow> (io_error, unit) result \<times> world" where
  "fs_remove E w p =
     (case os_fail E (w_tick w) of
        Some e \<Rightarrow> (Err e, tick w)
      | None \<Rightarrow>
          (if w_files w p = None then Err not_found else Ok (),
           tick (w\<lparr>w_files := (w_files w)(p := None)\<rparr>)))"

definition fs_copy :: "os_env \<Rightarrow> world \<Rightarrow> string \<Rightarrow> string \<Rightarrow> (io_error, unit) result \<times> world" where
  "fs_copy E w src dst =
     (case fs_read E w src of
        (Inl e, w') \<Rightarrow> (Err e, w')
      | (Inr b, w') \<Rightarrow> fs_write E w' dst b)"

text \<open>Appending to an open file; a failure may have written any part.\<close>

definition fs_append :: "os_env \<Rightarrow> world \<Rightarrow> string \<Rightarrow> bytes \<Rightarrow> (io_error, unit) result \<times> world" where
  "fs_append E w p b = fs_write E w p (unwrap_or (w_files w p) [] @ b)"

definition fs_create_dir_all :: "os_env \<Rightarrow> world \<Rightarrow> string \<Rightarrow> (io_error, unit) result \<times> world" where
  "fs_create_dir_all E w p =
     (case os_fail E (w_tick w) of
        Some e \<Rightarrow> (Err e, tick w)
      | None \<Rightarrow> (Ok (), tick (w\<lparr>w_dirs := insert p (w_dirs w)\<rparr>)))"

definition fs_create_dir :: "os_env \<Rightarrow> world \<Rightarrow> string \<Rightarrow> (io_error, unit) result \<times> world" where
  "fs_create_dir E w p =
     (if p \<in> w_dirs w \<or> w_files w p \<noteq> None
      then (Err \<lparr>io_kind = IoOther, io_msg = ''File exists (os error 17)''\<rparr>, tick w)
      else fs_create_dir_all E w p)"

definition under :: "string \<Rightarrow> string \<Rightarrow> bool" where
  "under d p \<longleftrightarrow> starts_with p (d @ ''/'')"

text \<open>\<open>remove_dir_all\<close>: everything below the directory goes with it.\<close>

definition fs_remove_dir_all :: "os_env \<Rightarrow> world \<Rightarrow> string \<Rightarrow> (io_error, unit) result \<times> world" where
  "fs_remove_dir_all E w d =
     (case os_fail E (w_tick w) of
        Some e \<Rightarrow> (Err e, tick w)
      | None \<Rightarrow>
          if d \<notin> w_dirs w then (Err not_found, tick w)
          else (Ok (), tick (w\<lparr>w_files := (\<lambda>p. if under d p then None else w_files w p),
                              w_dirs := {x \<in> w_dirs w. x \<noteq> d \<and> \<not> under d x}\<rparr>)))"

section \<open>Unix paths\<close>

text \<open>\<open>PathBuf::join\<close>: an absolute second part replaces the first.\<close>

definition path_join :: "string \<Rightarrow> string \<Rightarrow> string" where
  "path_join a b =
     (if starts_with b ''/'' then b
      else if a = [] \<or> ends_with a ''/'' then a @ b
      else a @ ''/'' @ b)"

definition file_name :: "string \<Rightarrow> string" where
  "file_name p = (case rsplit_once (CHR ''/'') p of None \<Rightarrow> p | Some (_, f) \<Rightarrow> f)"

text \<open>\<open>Path::parent\<close> of a file path: everything before the last separator.\<close>

definition path_parent :: "string \<Rightarrow> string option" where
  "path_parent p =
     (case rsplit_once (CHR ''/'') p of
        None \<Rightarrow> (if p = [] then None else Some [])
      | Some (d, f) \<Rightarrow> Some (if d = [] then ''/'' else d))"

text \<open>The stem and the extension of a file name: the last dot splits them unless it is the first
  character; a name without such a dot is all stem.\<close>

definition split_name :: "string \<Rightarrow> string \<times> string option" where
  "split_name f =
     (case rsplit_once (CHR ''.'') f of
        None \<Rightarrow> (f, None)
      | Some (a, e) \<Rightarrow> if a = [] then (f, None) else (a, Some e))"

definition file_stem :: "string \<Rightarrow> string option" where
  "file_stem p =
     (let f = file_name p in if f = [] \<or> f = ''..'' then None else Some (fst (split_name f)))"

definition path_extension :: "string \<Rightarrow> string option" where
  "path_extension p =
     (let f = file_name p in if f = [] \<or> f = ''..'' then None else snd (split_name f))"

definition with_extension :: "string \<Rightarrow> string \<Rightarrow> string" where
  "with_extension p ext =
     (case file_stem p of
        None \<Rightarrow> p
      | Some stem \<Rightarrow>
          take (length p - length (file_name p)) p @ stem @ (if ext = [] then [] else CHR ''.'' # ext))"

section \<open>Which files a call can change\<close>

lemma w_files_tick [simp]: "w_files (tick w) = w_files w"
  by (simp add: tick_def)

lemma w_dirs_tick [simp]: "w_dirs (tick w) = w_dirs w"
  by (simp add: tick_def)

lemma w_files_fs_read [simp]: "w_files (snd (fs_read E w p)) = w_files w"
  by (simp add: fs_read_def split: option.splits)

lemma w_files_fs_exists [simp]: "w_files (snd (fs_exists E w p)) = w_files w"
  by (simp add: fs_exists_def)

lemma w_files_fs_write_other: "q \<noteq> p \<Longrightarrow> w_files (snd (fs_write E w p b)) q = w_files w q"
  by (simp add: fs_write_def split: option.splits)

lemma w_files_fs_remove_other: "q \<noteq> p \<Longrightarrow> w_files (snd (fs_remove E w p)) q = w_files w q"
  by (simp add: fs_remove_def split: option.splits)

lemma w_files_fs_copy_other: "q \<noteq> p \<Longrightarrow> w_files (snd (fs_copy E w s p)) q = w_files w q"
proof -
  assume "q \<noteq> p"
  moreover obtain r w' where "fs_read E w s = (r, w')" by fastforce
  moreover from this have "w_files w' = w_files w" using w_files_fs_read [of E w s] by simp
  ultimately show ?thesis
    by (auto simp: fs_copy_def w_files_fs_write_other split: sum.splits)
qed

lemma fs_write_ok: "fs_write E w p b = (Inr u, w') \<Longrightarrow> w_files w' = (w_files w)(p \<mapsto> b)"
  by (auto simp: fs_write_def split: option.splits)

lemma fs_read_ok: "fs_read E w p = (Inr b, w') \<Longrightarrow> w_files w p = Some b \<and> w_files w' = w_files w"
  by (auto simp: fs_read_def split: option.splits)

lemma w_files_fs_create_dir_all [simp]: "w_files (snd (fs_create_dir_all E w p)) = w_files w"
  by (simp add: fs_create_dir_all_def split: option.splits)

end
