(* ===== verification/Config.thy ===== *)
theory Config
  imports Protocol Ip_Whitelist Fs
begin

text \<open>
  \<open>crates/core/src/config.rs\<close>: the persistent configuration of the agent, its defaults, its
  normal form, loading and saving, and the resolution of the data, configuration and log paths
  from the environment on the Unix targets. Serialisation is the serde pair \<open>to_json\<close> and
  \<open>from_json\<close>, a parameter.
\<close>

section \<open>Records and defaults\<close>

record service_config =
  sc_host :: string
  sc_port :: u16

record security_config =
  se_allowed_origins :: "string list"
  se_allowed_ips :: "string list"

record printing_config =
  pc_default_printer :: "string option"
  pc_default_paper :: "effective_paper option"
  pc_default_copies :: u16

record limits_config =
  lc_max_file_size_mb :: u64
  lc_max_batch_jobs :: nat
  lc_max_copies :: u16
  lc_download_timeout_seconds :: u64

datatype ui_language = ZhCn | En

record app_config =
  ac_autostart :: bool
  ac_language :: ui_language

record agent_config =
  cf_service :: service_config
  cf_security :: security_config
  cf_printing :: printing_config
  cf_limits :: limits_config
  cf_app :: app_config

definition MIN_SERVICE_PORT :: u16 where "MIN_SERVICE_PORT = 10000"
definition MAX_SERVICE_PORT :: u16 where "MAX_SERVICE_PORT = 65535"
definition DEFAULT_PORT :: u16 where "DEFAULT_PORT = 17890"

definition default_allowed_ips :: "string list" where
  "default_allowed_ips = [REQUIRED_LOOPBACK_IP]"

definition default_ui_language :: ui_language where
  "default_ui_language = ZhCn"

definition agent_config_default :: agent_config where
  "agent_config_default =
     \<lparr>cf_service = \<lparr>sc_host = ''127.0.0.1'', sc_port = DEFAULT_PORT\<rparr>,
      cf_security = \<lparr>se_allowed_origins = [], se_allowed_ips = default_allowed_ips\<rparr>,
      cf_printing =
        \<lparr>pc_default_printer = None, pc_default_paper = None, pc_default_copies = 1\<rparr>,
      cf_limits =
        \<lparr>lc_max_file_size_mb = 20, lc_max_batch_jobs = 20, lc_max_copies = 100,
         lc_download_timeout_seconds = 30\<rparr>,
      cf_app = \<lparr>ac_autostart = False, ac_language = ZhCn\<rparr>\<rparr>"

definition config_normalized :: "agent_config \<Rightarrow> agent_config" where
  "config_normalized c =
     c\<lparr>cf_service := (cf_service c)\<lparr>sc_host := ''127.0.0.1''\<rparr>,
       cf_security := (cf_security c)\<lparr>se_allowed_ips :=
         normalize_allowed_ips (se_allowed_ips (cf_security c))\<rparr>\<rparr>"

section \<open>Loading and saving\<close>

record config_serde =
  to_json :: "agent_config \<Rightarrow> string"
  from_json :: "string \<Rightarrow> (string, agent_config) result"

definition fs_read_to_string ::
  "os_env \<Rightarrow> world \<Rightarrow> string \<Rightarrow> (io_error, string) result \<times> world" where
  "fs_read_to_string E w p =
     (case fs_read E w p of
        (Inl e, w') \<Rightarrow> (Err e, w')
      | (Inr b, w') \<Rightarrow>
          (ok_or \<lparr>io_kind = InvalidData, io_msg = ''stream did not contain valid UTF-8''\<rparr>
             (from_utf8 b), w'))"

definition config_load ::
  "config_serde \<Rightarrow> os_env \<Rightarrow> world \<Rightarrow> string \<Rightarrow> (io_error, agent_config) result \<times> world" where
  "config_load S E w path =
     (case fs_exists E w path of (ex, w1) \<Rightarrow>
        if \<not> ex then (Ok agent_config_default, w1)
        else
          (case fs_read_to_string E w1 path of
             (Inl e, w2) \<Rightarrow> (Err e, w2)
           | (Inr content, w2) \<Rightarrow>
               (case from_json S content of
                  Inl e \<Rightarrow> (Err \<lparr>io_kind = InvalidData, io_msg = e\<rparr>, w2)
                | Inr c \<Rightarrow> (Ok (config_normalized c), w2))))"

definition config_save ::
  "config_serde \<Rightarrow> os_env \<Rightarrow> world \<Rightarrow> agent_config \<Rightarrow> string \<Rightarrow> (io_error, unit) result \<times> world" where
  "config_save S E w c path =
     (let (r, w1) =
        (case path_parent path of
           None \<Rightarrow> (Ok (), w)
         | Some parent \<Rightarrow> fs_create_dir_all E w parent)
      in case r of
           Inl e \<Rightarrow> (Err e, w1)
         | Inr _ \<Rightarrow> fs_write E w1 path (as_bytes (to_json S (config_normalized c))))"

section \<open>Paths from the environment (Unix)\<close>

datatype unix_platform = MacOs | Linux

type_synonym env_vars = "string \<Rightarrow> string option"

definition APP_CONFIG_DIR_NAME :: string where "APP_CONFIG_DIR_NAME = ''cn.yinshu.app''"
definition CONFIG_FILE_NAME :: string where "CONFIG_FILE_NAME = ''config.json''"
definition TASK_HISTORY_FILE_NAME :: string where
  "TASK_HISTORY_FILE_NAME = ''task_history.sqlite3''"
definition STARTUP_ERROR_FILE_NAME :: string where
  "STARTUP_ERROR_FILE_NAME = ''yinshu-startup-error.txt''"
definition INSTALL_LOG_FILE_NAME :: string where "INSTALL_LOG_FILE_NAME = ''install.log''"

definition home_dir :: "env_vars \<Rightarrow> (io_error, string) result" where
  "home_dir env = ok_or \<lparr>io_kind = NotFound, io_msg = ''HOME is not set''\<rparr> (env ''HOME'')"

definition platform_config_dir :: "unix_platform \<Rightarrow> env_vars \<Rightarrow> (io_error, string) result" where
  "platform_config_dir plat env =
     (case plat of
        MacOs \<Rightarrow>
          and_then (home_dir env) (\<lambda>home.
            Ok (path_join (path_join home ''Library'') ''Application Support''))
      | Linux \<Rightarrow>
          (case env ''XDG_CONFIG_HOME'' of
             Some dir \<Rightarrow> Ok dir
           | None \<Rightarrow> and_then (home_dir env) (\<lambda>home. Ok (path_join home ''.config''))))"

definition platform_log_dir :: "unix_platform \<Rightarrow> env_vars \<Rightarrow> (io_error, string) result" where
  "platform_log_dir plat env =
     (case plat of
        MacOs \<Rightarrow>
          and_then (home_dir env) (\<lambda>home.
            Ok (path_join (path_join (path_join home ''Library'') ''Logs'') APP_CONFIG_DIR_NAME))
      | Linux \<Rightarrow>
          (case env ''XDG_DATA_HOME'' of
             Some dir \<Rightarrow> Ok (path_join (path_join dir APP_CONFIG_DIR_NAME) ''logs'')
           | None \<Rightarrow>
               and_then (home_dir env) (\<lambda>home.
                 Ok (path_join (path_join (path_join (path_join home ''.local'') ''share'')
                       APP_CONFIG_DIR_NAME) ''logs''))))"

definition platform_desktop_dir :: "env_vars \<Rightarrow> (io_error, string) result" where
  "platform_desktop_dir env = and_then (home_dir env) (\<lambda>home. Ok (path_join home ''Desktop''))"

definition cli_data_dir :: "unix_platform \<Rightarrow> env_vars \<Rightarrow> (io_error, string) result" where
  "cli_data_dir plat env =
     (case env ''YINSHU_DATA_DIR'' of
        Some dir \<Rightarrow> Ok dir
      | None \<Rightarrow>
          and_then (platform_config_dir plat env) (\<lambda>dir. Ok (path_join dir APP_CONFIG_DIR_NAME)))"

definition cli_config_path :: "unix_platform \<Rightarrow> env_vars \<Rightarrow> (io_error, string) result" where
  "cli_config_path plat env =
     (case env ''YINSHU_CONFIG_PATH'' of
        Some path \<Rightarrow> Ok path
      | None \<Rightarrow> and_then (cli_data_dir plat env) (\<lambda>dir. Ok (path_join dir CONFIG_FILE_NAME)))"

definition cli_task_history_path :: "unix_platform \<Rightarrow> env_vars \<Rightarrow> (io_error, string) result" where
  "cli_task_history_path plat env =
     and_then (cli_data_dir plat env) (\<lambda>dir. Ok (path_join dir TASK_HISTORY_FILE_NAME))"

definition cli_log_dir :: "unix_platform \<Rightarrow> env_vars \<Rightarrow> (io_error, string) result" where
  "cli_log_dir plat env =
     (case env ''YINSHU_LOG_DIR'' of Some dir \<Rightarrow> Ok dir | None \<Rightarrow> platform_log_dir plat env)"

definition startup_error_log_path :: "unix_platform \<Rightarrow> env_vars \<Rightarrow> (io_error, string) result" where
  "startup_error_log_path plat env =
     and_then (cli_log_dir plat env) (\<lambda>dir. Ok (path_join dir STARTUP_ERROR_FILE_NAME))"

definition default_diagnose_output_path :: "env_vars \<Rightarrow> (io_error, string) result" where
  "default_diagnose_output_path env =
     (case env ''YINSHU_DIAGNOSE_DIR'' of
        Some dir \<Rightarrow> Ok (path_join dir ''yinshu-diagnose.zip'')
      | None \<Rightarrow>
          and_then (platform_desktop_dir env) (\<lambda>dir. Ok (path_join dir ''yinshu-diagnose.zip'')))"

section \<open>Normal form\<close>

definition config_normal :: "agent_config \<Rightarrow> bool" where
  "config_normal c \<longleftrightarrow>
     sc_host (cf_service c) = ''127.0.0.1'' \<and> normal_ips (se_allowed_ips (cf_security c))"

lemma config_normalized_normal [simp, intro]: "config_normal (config_normalized c)"
  by (simp add: config_normal_def config_normalized_def normalize_allowed_ips_normal)

lemma config_normalized_id: "config_normal c \<Longrightarrow> config_normalized c = c"
  by (cases c) (simp add: config_normal_def config_normalized_def normalize_normal)

lemma config_normalized_idem [simp]: "config_normalized (config_normalized c) = config_normalized c"
  by (rule config_normalized_id) simp

lemma agent_config_default_normal: "config_normal agent_config_default"
  by (simp add: config_normal_def agent_config_default_def default_allowed_ips_def
      normal_ips_loopback)

lemma config_load_normal: "config_load S E w p = (Inr c, w') \<Longrightarrow> config_normal c"
  by (auto simp: config_load_def agent_config_default_normal
      split: prod.splits if_splits sum.splits)

lemma config_save_ok:
  "config_save S E w c p = (Inr u, w') \<Longrightarrow>
     w_files w' = (w_files w)(p \<mapsto> as_bytes (to_json S (config_normalized c)))"
  by (auto simp: config_save_def Let_def fs_create_dir_all_def
      split: prod.splits option.splits sum.splits dest!: fs_write_ok)

text \<open>
  What \<open>AgentConfig::save\<close> wrote, \<open>AgentConfig::load\<close> reads back in normal form: after a
  successful save, a load that is not disturbed by an I/O failure returns the normalised
  configuration, provided serde reads back the text it wrote for that configuration and the
  text is valid UTF-8; the write touched no other file.
\<close>

theorem config_save_load_roundtrip:
  assumes serde: "from_json S (to_json S (config_normalized c)) = Inr (config_normalized c)"
      "valid_utf8 (to_json S (config_normalized c))"
    and save: "config_save S E w c path = (Inr (), w')"
    and io: "\<And>n. w_tick w' \<le> n \<Longrightarrow> os_fail E n = None"
  shows "fst (config_load S E w' path) = Inr (config_normalized c)
    \<and> config_normal (config_normalized c) \<and> (\<forall>q. q = path \<or> w_files w' q = w_files w q)"
proof -
  from config_save_ok [OF save]
  have f: "w_files w' = (w_files w)(path \<mapsto> as_bytes (to_json S (config_normalized c)))" by simp
  have ex: "fs_exists E w' path = (True, tick w')"
    using f io by (simp add: fs_exists_def)
  have "fs_read_to_string E (tick w') path = (Inr (to_json S (config_normalized c)), tick (tick w'))"
    using f io serde(2)
    by (simp add: fs_read_to_string_def fs_read_def from_utf8_def tick_def)
  with ex serde(1) f show ?thesis by (simp add: config_load_def)
qed

definition example_env :: os_env where
  "example_env = \<lparr>os_fail = (\<lambda>_. None), os_left = (\<lambda>_. None), os_now = (\<lambda>n. show_nat n), os_millis = (\<lambda>n. n),
     os_uuid = (\<lambda>n. show_nat n), os_temp_dir = ''/tmp'',
     os_is_executable = (\<lambda>_ _. True), os_run = (\<lambda>_ _ w. (Exited True ''exit status: 0'' [] [], w))\<rparr>"

definition example_serde :: config_serde where
  "example_serde = \<lparr>to_json = (\<lambda>c. ''{}''),
     from_json = (\<lambda>s. if s = ''{}'' then Ok agent_config_default else Err ''EOF'')\<rparr>"

definition example_world :: world where
  "example_world = \<lparr>w_files = Map.empty, w_dirs = {}, w_tick = 0\<rparr>"

lemmas example_defs = example_env_def example_serde_def example_world_def

lemma example_path_parent: "path_parent ''/d/config.json'' = Some ''/d''"
  by code_simp

theorem config_save_load_roundtrip_witness:
  "fst (config_load example_serde example_env
      (snd (config_save example_serde example_env example_world
              agent_config_default ''/d/config.json'')) ''/d/config.json'')
   = Inr agent_config_default"
proof -
  have n: "config_normalized agent_config_default = agent_config_default"
    by (simp add: config_normalized_id agent_config_default_normal)
  obtain w' where "config_save example_serde example_env example_world
      agent_config_default ''/d/config.json'' = (Inr (), w')"
    by (simp add: config_save_def example_path_parent fs_create_dir_all_def fs_write_def
        example_defs)
  then show ?thesis
    using config_save_load_roundtrip [of example_serde agent_config_default example_env
        example_world "''/d/config.json''" w']
    by (simp add: n example_defs)
qed

end
