(* ===== verification/Queue_Core.thy ===== *)
theory Queue_Core
  imports Protocol
begin

text \<open>
  \<open>crates/core/src/queue.rs\<close>: the in-memory FIFO of accepted jobs with its protection against
  repeated job and batch identifiers. A method with \<open>&mut self\<close> takes the state and returns the
  result with the state after the call. The locale \<open>intake_queue\<close> states what a client of such a
  queue relies on; its run lemmas are shared by the queue and by the whole agent.
\<close>

section \<open>The interface of a deduplicating FIFO\<close>

text \<open>A client either offers a request or takes the next job. A run collects the jobs of the
  accepted requests and the jobs that were handed out, both in order.\<close>

datatype 'r queue_op = Offer 'r | Take

fun intake_run ::
  "('s \<Rightarrow> 'r \<Rightarrow> ('e, unit) result \<times> 's) \<Rightarrow> ('s \<Rightarrow> 'j option \<times> 's) \<Rightarrow> ('r \<Rightarrow> 'j list) \<Rightarrow>
   's \<Rightarrow> 'r queue_op list \<Rightarrow> 's \<times> 'j list \<times> 'j list" where
  "intake_run offer take_job entries s [] = (s, [], [])"
| "intake_run offer take_job entries s (Offer r # ops) =
     (let (res, s1) = offer s r; (s2, acc, del) = intake_run offer take_job entries s1 ops
      in (s2, (if is_ok res then entries r else []) @ acc, del))"
| "intake_run offer take_job entries s (Take # ops) =
     (let (j, s1) = take_job s; (s2, acc, del) = intake_run offer take_job entries s1 ops
      in (s2, acc, (case j of None \<Rightarrow> [] | Some x \<Rightarrow> [x]) @ del))"

locale intake_queue =
  fixes ident :: "'j \<Rightarrow> 'i"
    and waiting :: "'s \<Rightarrow> 'j list"
    and known :: "'s \<Rightarrow> 'i set"
    and entries :: "'r \<Rightarrow> 'j list"
    and offer :: "'s \<Rightarrow> 'r \<Rightarrow> ('e, unit) result \<times> 's"
    and take_job :: "'s \<Rightarrow> 'j option \<times> 's"
  assumes offer_err: "offer s r = (Inl e, s') \<Longrightarrow> s' = s"
    and offer_waiting: "offer s r = (Inr u, s') \<Longrightarrow> waiting s' = waiting s @ entries r"
    and offer_known: "offer s r = (Inr u, s') \<Longrightarrow> known s' = known s \<union> ident ` set (entries r)"
    and offer_fresh: "offer s r = (Inr u, s') \<Longrightarrow>
          distinct (map ident (entries r)) \<and> known s \<inter> ident ` set (entries r) = {}"
    and take_empty: "take_job s = (None, s') \<Longrightarrow> waiting s = [] \<and> s' = s"
    and take_next: "take_job s = (Some j, s') \<Longrightarrow> waiting s = j # waiting s' \<and> known s' = known s"
begin

lemma run_fifo:
  "intake_run offer take_job entries s ops = (s', acc, del) \<Longrightarrow>
     waiting s @ acc = del @ waiting s'"
proof (induction ops arbitrary: s acc del)
  case (Cons op ops)
  show ?case
  proof (cases op)
    case (Offer r)
    obtain res s1 where o: "offer s r = (res, s1)" by fastforce
    obtain acc' where r: "intake_run offer take_job entries s1 ops = (s', acc', del)"
      and a: "acc = (if is_ok res then entries r else []) @ acc'"
      using Cons.prems Offer o by (auto split: prod.splits)
    show ?thesis
      using Cons.IH [OF r] a o offer_waiting offer_err by (cases res) fastforce+
  next
    case Take
    obtain j s1 where t: "take_job s = (j, s1)" by fastforce
    obtain del' where r: "intake_run offer take_job entries s1 ops = (s', acc, del')"
      and d: "del = (case j of None \<Rightarrow> [] | Some x \<Rightarrow> [x]) @ del'"
      using Cons.prems Take t by (auto split: prod.splits)
    show ?thesis
      using Cons.IH [OF r] d t take_next take_empty by (cases j) fastforce+
  qed
qed simp

lemma run_known:
  "intake_run offer take_job entries s ops = (s', acc, del) \<Longrightarrow>
     known s' = known s \<union> ident ` set acc \<and> distinct (map ident acc)
     \<and> known s \<inter> ident ` set acc = {}"
proof (induction ops arbitrary: s acc del)
  case (Cons op ops)
  show ?case
  proof (cases op)
    case (Offer r)
    obtain res s1 where o: "offer s r = (res, s1)" by fastforce
    obtain acc' where r: "intake_run offer take_job entries s1 ops = (s', acc', del)"
      and a: "acc = (if is_ok res then entries r else []) @ acc'"
      using Cons.prems Offer o by (auto split: prod.splits)
    note ih = Cons.IH [OF r]
    show ?thesis
    proof (cases res)
      case (Inl e)
      with o offer_err ih a show ?thesis by fastforce
    next
      case (Inr u)
      with o offer_known offer_fresh
      have "known s1 = known s \<union> ident ` set (entries r)"
        "distinct (map ident (entries r))" "known s \<inter> ident ` set (entries r) = {}" by blast+
      with ih a Inr show ?thesis by auto
    qed
  next
    case Take
    obtain j s1 where t: "take_job s = (j, s1)" by fastforce
    obtain del' where r: "intake_run offer take_job entries s1 ops = (s', acc, del')"
      using Cons.prems Take t by (auto split: prod.splits)
    have "known s1 = known s" using t take_next take_empty by (cases j) fastforce+
    with Cons.IH [OF r] show ?thesis by simp
  qed
qed simp

text \<open>From an empty queue the delivered jobs are a prefix of the accepted ones, each accepted
  identifier occurs once, and what is missing is still waiting.\<close>

lemma run_exactly_once:
  assumes "intake_run offer take_job entries s ops = (s', acc, del)"
    and "waiting s = []" and "known s = {}"
  shows "acc = del @ waiting s'" "distinct (map ident acc)" "known s' = ident ` set acc"
  using run_fifo [OF assms(1)] run_known [OF assms(1)] assms(2,3) by auto

end

section \<open>The queue of the agent\<close>

record queued_job =
  qj_request_id :: string
  qj_batch_id :: "string option"
  qj_job :: print_job_input
  qj_html_local_origin :: "string option"

datatype queue_error = DuplicateJobId | DuplicateBatchId | QInvalidMessage

fun queue_error_msg :: "queue_error \<Rightarrow> string" where
  "queue_error_msg DuplicateJobId = ''duplicate job id''"
| "queue_error_msg DuplicateBatchId = ''duplicate batch id''"
| "queue_error_msg QInvalidMessage = ''invalid message''"

record queue_state =
  q_pending :: "queued_job list"
  q_seen_job_ids :: "string set"
  q_seen_batch_ids :: "string set"

definition queue_default :: queue_state where
  "queue_default = \<lparr>q_pending = [], q_seen_job_ids = {}, q_seen_batch_ids = {}\<rparr>"

definition html_local_origin_for_job ::
  "ext_lib \<Rightarrow> print_job_input \<Rightarrow> string option \<Rightarrow> string option" where
  "html_local_origin_for_job L job html_local_origin =
     (case pj_file_url job of
        None \<Rightarrow> None
      | Some file_url \<Rightarrow>
          (case validate_html_file_url L file_url of
             Inl _ \<Rightarrow> None
           | Inr u \<Rightarrow> opt_filter (\<lambda>allowed. allowed = url_origin_ascii u) html_local_origin))"

definition validate_html_source :: "ext_lib \<Rightarrow> print_job_input \<Rightarrow> (queue_error, unit) result" where
  "validate_html_source L job =
     (if pj_format job \<noteq> Html then Ok ()
      else
        and_then (ok_or QInvalidMessage (opt_filter (\<lambda>v. v \<noteq> []) (pj_file_url job)))
          (\<lambda>file_url.
             and_then (map_err (\<lambda>_. QInvalidMessage) (validate_html_file_url L file_url))
               (\<lambda>_. Ok ())))"

definition accept_queued_job ::
  "ext_lib \<Rightarrow> queue_state \<Rightarrow> queued_job \<Rightarrow> (queue_error, unit) result \<times> queue_state" where
  "accept_queued_job L q qj =
     (case validate_html_source L (qj_job qj) of
        Inl e \<Rightarrow> (Err e, q)
      | Inr _ \<Rightarrow>
          if pj_job_id (qj_job qj) \<in> q_seen_job_ids q then (Err DuplicateJobId, q)
          else (Ok (), q\<lparr>q_seen_job_ids := insert (pj_job_id (qj_job qj)) (q_seen_job_ids q),
                         q_pending := q_pending q @ [qj]\<rparr>))"

definition accept_job ::
  "ext_lib \<Rightarrow> queue_state \<Rightarrow> string \<Rightarrow> print_job_input \<Rightarrow>
   (queue_error, unit) result \<times> queue_state" where
  "accept_job L q request_id job =
     accept_queued_job L q
       \<lparr>qj_request_id = request_id, qj_batch_id = None, qj_job = job,
        qj_html_local_origin = None\<rparr>"

definition accept_job_with_html_local_origin ::
  "ext_lib \<Rightarrow> queue_state \<Rightarrow> string \<Rightarrow> print_job_input \<Rightarrow> string option \<Rightarrow>
   (queue_error, unit) result \<times> queue_state" where
  "accept_job_with_html_local_origin L q request_id job html_local_origin =
     accept_queued_job L q
       \<lparr>qj_request_id = request_id, qj_batch_id = None, qj_job = job,
        qj_html_local_origin = html_local_origin_for_job L job html_local_origin\<rparr>"

text \<open>The duplicate check of a batch: against the seen identifiers and within the batch.\<close>

fun check_batch_ids ::
  "string set \<Rightarrow> string set \<Rightarrow> print_job_input list \<Rightarrow> (queue_error, unit) result" where
  "check_batch_ids seen batch_job_ids [] = Ok ()"
| "check_batch_ids seen batch_job_ids (job # jobs) =
     (if pj_job_id job \<in> seen \<or> pj_job_id job \<in> batch_job_ids then Err DuplicateJobId
      else check_batch_ids seen (insert (pj_job_id job) batch_job_ids) jobs)"

fun push_batch ::
  "ext_lib \<Rightarrow> string \<Rightarrow> string \<Rightarrow> string option \<Rightarrow> queue_state \<Rightarrow> print_job_input list \<Rightarrow>
   queue_state" where
  "push_batch L request_id batch_id og q [] = q"
| "push_batch L request_id batch_id og q (job # jobs) =
     push_batch L request_id batch_id og
       (q\<lparr>q_seen_job_ids := insert (pj_job_id job) (q_seen_job_ids q),
          q_pending := q_pending q @
            [\<lparr>qj_request_id = request_id, qj_batch_id = Some batch_id, qj_job = job,
              qj_html_local_origin = html_local_origin_for_job L job og\<rparr>]\<rparr>) jobs"

definition accept_batch_with_html_origin ::
  "ext_lib \<Rightarrow> queue_state \<Rightarrow> string \<Rightarrow> string \<Rightarrow> print_job_input list \<Rightarrow> string option \<Rightarrow>
   (queue_error, unit) result \<times> queue_state" where
  "accept_batch_with_html_origin L q request_id batch_id jobs html_local_origin =
     (case check_all (validate_html_source L) jobs of
        Inl e \<Rightarrow> (Err e, q)
      | Inr _ \<Rightarrow>
          if batch_id \<in> q_seen_batch_ids q then (Err DuplicateBatchId, q)
          else
            (case check_batch_ids (q_seen_job_ids q) {} jobs of
               Inl e \<Rightarrow> (Err e, q)
             | Inr _ \<Rightarrow>
                 (Ok (),
                  push_batch L request_id batch_id html_local_origin
                    (q\<lparr>q_seen_batch_ids := insert batch_id (q_seen_batch_ids q)\<rparr>) jobs)))"

definition accept_batch ::
  "ext_lib \<Rightarrow> queue_state \<Rightarrow> string \<Rightarrow> string \<Rightarrow> print_job_input list \<Rightarrow>
   (queue_error, unit) result \<times> queue_state" where
  "accept_batch L q request_id batch_id jobs =
     accept_batch_with_html_origin L q request_id batch_id jobs None"

definition accept_batch_with_html_local_origin ::
  "ext_lib \<Rightarrow> queue_state \<Rightarrow> string \<Rightarrow> string \<Rightarrow> print_job_input list \<Rightarrow> string option \<Rightarrow>
   (queue_error, unit) result \<times> queue_state" where
  "accept_batch_with_html_local_origin L q request_id batch_id jobs html_local_origin =
     accept_batch_with_html_origin L q request_id batch_id jobs html_local_origin"

definition pop_next :: "queue_state \<Rightarrow> queued_job option \<times> queue_state" where
  "pop_next q =
     (case q_pending q of
        [] \<Rightarrow> (None, q)
      | j # rest \<Rightarrow> (Some j, q\<lparr>q_pending := rest\<rparr>))"

definition pending_jobs :: "queue_state \<Rightarrow> queued_job list" where
  "pending_jobs q = q_pending q"

section \<open>Functional behaviour\<close>

definition html_source_ok :: "ext_lib \<Rightarrow> print_job_input \<Rightarrow> bool" where
  "html_source_ok L job \<longleftrightarrow>
     (if pj_format job = Html
      then (\<exists>s u. pj_file_url job = Some s \<and> s \<noteq> [] \<and> x_url_parse L s = Some u \<and>
              url_scheme u \<in> {''http'', ''https''} \<and> url_host_str u \<noteq> None)
      else True)"

definition batch_entry :: "ext_lib \<Rightarrow> string \<Rightarrow> string \<Rightarrow> string option \<Rightarrow> print_job_input \<Rightarrow> queued_job"
  where
  "batch_entry L request_id batch_id og job =
     \<lparr>qj_request_id = request_id, qj_batch_id = Some batch_id, qj_job = job,
      qj_html_local_origin = html_local_origin_for_job L job og\<rparr>"

lemma validate_html_source_eq [queue_simps]:
  "validate_html_source L job =
     (if html_source_ok L job then Inr () else Inl QInvalidMessage)"
proof (cases "opt_filter (\<lambda>v. v \<noteq> []) (pj_file_url job)")
  case None
  then have "\<not> (\<exists>s. pj_file_url job = Some s \<and> s \<noteq> [])"
    by (simp add: opt_filter_eq_None_iff)
  with None show ?thesis by (auto simp: validate_html_source_def html_source_ok_def)
next
  case (Some s)
  then show ?thesis
    by (cases "validate_html_file_url L s")
      (auto simp: validate_html_source_def html_source_ok_def opt_filter_eq_Some_iff protocol_simps
        validate_html_file_url_def split: option.splits if_splits)
qed

lemma check_html_sources:
  "check_all (validate_html_source L) jobs =
     (if \<exists>job \<in> set jobs. \<not> html_source_ok L job then Inl QInvalidMessage else Inr ())"
  by (induction jobs) (auto simp: queue_simps)

lemma check_batch_ids_eq:
  "check_batch_ids seen acc jobs =
     (if distinct (map pj_job_id jobs) \<and> (seen \<union> acc) \<inter> pj_job_id ` set jobs = {}
      then Inr () else Inl DuplicateJobId)"
  by (induction jobs arbitrary: acc) auto

lemma push_batch_eq:
  "push_batch L rid bid og q jobs =
     q\<lparr>q_seen_job_ids := q_seen_job_ids q \<union> pj_job_id ` set jobs,
       q_pending := q_pending q @ map (batch_entry L rid bid og) jobs\<rparr>"
  by (induction jobs arbitrary: q) (simp_all add: batch_entry_def)

lemma accept_batch_with_html_origin_eq [queue_simps]:
  "accept_batch_with_html_origin L q rid bid jobs og =
     (if \<exists>job \<in> set jobs. \<not> html_source_ok L job then (Inl QInvalidMessage, q)
      else if bid \<in> q_seen_batch_ids q then (Inl DuplicateBatchId, q)
      else if distinct (map pj_job_id jobs) \<and> q_seen_job_ids q \<inter> pj_job_id ` set jobs = {}
      then (Inr (),
            \<lparr>q_pending = q_pending q @ map (batch_entry L rid bid og) jobs,
             q_seen_job_ids = q_seen_job_ids q \<union> pj_job_id ` set jobs,
             q_seen_batch_ids = insert bid (q_seen_batch_ids q)\<rparr>)
      else (Inl DuplicateJobId, q))"
  by (simp add: accept_batch_with_html_origin_def check_html_sources check_batch_ids_eq
      push_batch_eq)

text \<open>
  A batch is taken as a whole or not at all: \<open>accept_batch_with_html_origin\<close> appends every
  job of the batch in order, marks the batch and all its identifiers as seen, and reports
  success exactly when every HTML source is valid, the batch is new, the identifiers are
  pairwise distinct and none was seen before; each refusal leaves the queue unchanged, and
  the first failing check decides the error.
\<close>

theorem accept_batch_atomic:
  "accept_batch_with_html_origin L q rid bid jobs og =
     (if \<exists>job \<in> set jobs. \<not> html_source_ok L job then (Inl QInvalidMessage, q)
      else if bid \<in> q_seen_batch_ids q then (Inl DuplicateBatchId, q)
      else if distinct (map pj_job_id jobs) \<and> q_seen_job_ids q \<inter> pj_job_id ` set jobs = {}
      then (Inr (),
            \<lparr>q_pending = q_pending q @ map (batch_entry L rid bid og) jobs,
             q_seen_job_ids = q_seen_job_ids q \<union> pj_job_id ` set jobs,
             q_seen_batch_ids = insert bid (q_seen_batch_ids q)\<rparr>)
      else (Inl DuplicateJobId, q))"
  by (rule accept_batch_with_html_origin_eq)

lemma accept_queued_job_eq [queue_simps]:
  "accept_queued_job L q qj =
     (if \<not> html_source_ok L (qj_job qj) then (Inl QInvalidMessage, q)
      else if pj_job_id (qj_job qj) \<in> q_seen_job_ids q then (Inl DuplicateJobId, q)
      else (Inr (), q\<lparr>q_seen_job_ids := insert (pj_job_id (qj_job qj)) (q_seen_job_ids q),
                      q_pending := q_pending q @ [qj]\<rparr>))"
  by (auto simp: accept_queued_job_def queue_simps split: sum.splits)

section \<open>The queue implements the interface\<close>

text \<open>What a client can submit: one job or a batch, with the local origin of its connection.\<close>

datatype submission =
    SubmitJob string print_job_input "string option"
  | SubmitBatch string string "print_job_input list" "string option"

fun submit :: "ext_lib \<Rightarrow> queue_state \<Rightarrow> submission \<Rightarrow> (queue_error, unit) result \<times> queue_state"
  where
  "submit L q (SubmitJob rid job og) = accept_job_with_html_local_origin L q rid job og"
| "submit L q (SubmitBatch rid bid jobs og) =
     accept_batch_with_html_local_origin L q rid bid jobs og"

fun submission_entries :: "ext_lib \<Rightarrow> submission \<Rightarrow> queued_job list" where
  "submission_entries L (SubmitJob rid job og) =
     [\<lparr>qj_request_id = rid, qj_batch_id = None, qj_job = job,
       qj_html_local_origin = html_local_origin_for_job L job og\<rparr>]"
| "submission_entries L (SubmitBatch rid bid jobs og) = map (batch_entry L rid bid og) jobs"

definition queued_id :: "queued_job \<Rightarrow> string" where
  "queued_id qj = pj_job_id (qj_job qj)"

lemma queued_id_batch_entry [simp]: "queued_id (batch_entry L rid bid og job) = pj_job_id job"
  by (simp add: queued_id_def batch_entry_def)

lemma queued_id_simp [simp]:
  "queued_id \<lparr>qj_request_id = r, qj_batch_id = b, qj_job = j, qj_html_local_origin = h\<rparr> = pj_job_id j"
  by (simp add: queued_id_def)

lemma queued_id_o_batch_entry [simp]: "queued_id \<circ> batch_entry L rid bid og = pj_job_id"
  by (rule ext) simp

lemmas submit_defs = accept_job_with_html_local_origin_def accept_batch_with_html_local_origin_def

interpretation agent_queue: intake_queue queued_id q_pending q_seen_job_ids
    "submission_entries L" "submit L" pop_next for L
proof
  fix q q' :: queue_state and r e
  assume "submit L q r = (Inl e, q')"
  then show "q' = q"
    by (cases r) (auto simp: submit_defs queue_simps split: if_splits)
next
  fix q q' :: queue_state and r u
  assume a: "submit L q r = (Inr u, q')"
  show "q_pending q' = q_pending q @ submission_entries L r"
    using a by (cases r) (auto simp: submit_defs queue_simps split: if_splits)
  show "q_seen_job_ids q' = q_seen_job_ids q \<union> queued_id ` set (submission_entries L r)"
    using a by (cases r) (auto simp: submit_defs queue_simps image_image split: if_splits)
  show "distinct (map queued_id (submission_entries L r))
      \<and> q_seen_job_ids q \<inter> queued_id ` set (submission_entries L r) = {}"
    using a by (cases r) (auto simp: submit_defs queue_simps image_image split: if_splits)
next
  fix q q' :: queue_state
  assume "pop_next q = (None, q')"
  then show "q_pending q = [] \<and> q' = q" by (auto simp: pop_next_def split: list.splits)
next
  fix q q' :: queue_state and j
  assume "pop_next q = (Some j, q')"
  then show "q_pending q = j # q_pending q' \<and> q_seen_job_ids q' = q_seen_job_ids q"
    by (auto simp: pop_next_def split: list.splits)
qed

text \<open>
  C10. Over every sequence of submissions (single or batch) and pops from the empty queue, the
  popped jobs followed by the pending ones are exactly the accepted jobs in acceptance order,
  no job identifier is accepted twice, and the seen identifiers are those of the accepted jobs:
  a job is handed to the worker at most once and in FIFO order, and none is lost.
\<close>

theorem queue_fifo_exactly_once:
  "case intake_run (submit L) pop_next (submission_entries L) queue_default ops of
     (q, accepted, delivered) \<Rightarrow>
       accepted = delivered @ pending_jobs q \<and> distinct (map queued_id accepted)
       \<and> q_seen_job_ids q = queued_id ` set accepted"
proof -
  obtain q acc del where
    r: "intake_run (submit L) pop_next (submission_entries L) queue_default ops = (q, acc, del)"
    by (metis prod_cases3)
  have "q_pending queue_default = []" "q_seen_job_ids queue_default = {}"
    by (simp_all add: queue_default_def)
  from agent_queue.run_exactly_once [OF r this] show ?thesis
    by (simp add: r pending_jobs_def)
qed

end
