(* ===== verification/Activity.thy ===== *)
theory Activity
  imports Protocol
begin

text \<open>
  \<open>crates/core/src/activity.rs\<close> and \<open>crates/runtime/src/logs.rs\<close>: the task log entry that is kept
  in memory and broadcast, the statuses and sources of the persistent history with their
  storage strings, and the bounded in-memory log.
\<close>

section \<open>Log entries, statuses and sources\<close>

record task_log_entry =
  tl_timestamp :: string
  tl_request_id :: "string option"
  tl_batch_id :: "string option"
  tl_job_id :: "string option"
  tl_origin :: "string option"
  tl_status :: job_status
  tl_message :: string

datatype task_history_status =
  HsQueued | HsDownloading | HsPrinting | HsSubmitted | HsCompleted | HsFailed | HsUnknown
| HsCancelled

fun status_as_str :: "task_history_status \<Rightarrow> string" where
  "status_as_str HsQueued = ''queued''"
| "status_as_str HsDownloading = ''downloading''"
| "status_as_str HsPrinting = ''printing''"
| "status_as_str HsSubmitted = ''submitted''"
| "status_as_str HsCompleted = ''completed''"
| "status_as_str HsFailed = ''failed''"
| "status_as_str HsUnknown = ''unknown''"
| "status_as_str HsCancelled = ''cancelled''"

definition status_from_storage_str :: "string \<Rightarrow> task_history_status option" where
  "status_from_storage_str value =
     (if value = ''queued'' then Some HsQueued
      else if value = ''downloading'' then Some HsDownloading
      else if value = ''printing'' then Some HsPrinting
      else if value = ''submitted'' then Some HsSubmitted
      else if value = ''completed'' then Some HsCompleted
      else if value = ''failed'' then Some HsFailed
      else if value = ''unknown'' then Some HsUnknown
      else if value = ''cancelled'' then Some HsCancelled
      else None)"

fun is_terminal :: "task_history_status \<Rightarrow> bool" where
  "is_terminal HsSubmitted = True"
| "is_terminal HsCompleted = True"
| "is_terminal HsFailed = True"
| "is_terminal HsUnknown = True"
| "is_terminal HsCancelled = True"
| "is_terminal _ = False"

datatype task_history_source = SrcWebSocket | SrcTest

fun source_as_str :: "task_history_source \<Rightarrow> string" where
  "source_as_str SrcWebSocket = ''web_socket''"
| "source_as_str SrcTest = ''test''"

definition source_from_storage_str :: "string \<Rightarrow> task_history_source option" where
  "source_from_storage_str value =
     (if value = ''web_socket'' then Some SrcWebSocket
      else if value = ''test'' then Some SrcTest
      else None)"

lemma status_storage_roundtrip [simp]: "status_from_storage_str (status_as_str s) = Some s"
  by (cases s) (simp_all add: status_from_storage_str_def)

lemma source_storage_roundtrip [simp]: "source_from_storage_str (source_as_str s) = Some s"
  by (cases s) (simp_all add: source_from_storage_str_def)

lemma source_as_str_not_remote: "source_as_str s \<noteq> ''remote''"
  by (cases s) simp_all

section \<open>The bounded log\<close>

definition DEFAULT_LOG_CAPACITY :: nat where
  "DEFAULT_LOG_CAPACITY = 500"

record log_store =
  ls_capacity :: nat
  ls_entries :: "task_log_entry list"

definition log_with_capacity :: "nat \<Rightarrow> log_store" where
  "log_with_capacity capacity = \<lparr>ls_capacity = capacity, ls_entries = []\<rparr>"

definition log_store_default :: log_store where
  "log_store_default = log_with_capacity DEFAULT_LOG_CAPACITY"

text \<open>The eviction loop: \<open>pop_front\<close> while the length is over the capacity.\<close>

fun evict :: "nat \<Rightarrow> 'a list \<Rightarrow> 'a list" where
  "evict capacity es =
     (if length es > capacity then (case es of [] \<Rightarrow> [] | _ # r \<Rightarrow> evict capacity r) else es)"

declare evict.simps [simp del]

definition log_push :: "log_store \<Rightarrow> task_log_entry \<Rightarrow> log_store" where
  "log_push ls entry = ls\<lparr>ls_entries := evict (ls_capacity ls) (ls_entries ls @ [entry])\<rparr>"

definition log_recent :: "log_store \<Rightarrow> task_log_entry list" where
  "log_recent ls = ls_entries ls"

definition log_clear :: "log_store \<Rightarrow> log_store" where
  "log_clear ls = ls\<lparr>ls_entries := []\<rparr>"

lemma evict_eq: "evict n es = drop (length es - n) es"
proof (induction es)
  case Nil
  show ?case by (simp add: evict.simps)
next
  case (Cons e es)
  then show ?case by (subst evict.simps) (auto simp: Suc_diff_le less_Suc_eq_le)
qed

lemma log_capacity_push [simp]: "ls_capacity (log_push ls e) = ls_capacity ls"
  by (simp add: log_push_def)

lemma log_capacity_pushes [simp]: "ls_capacity (foldl log_push ls es) = ls_capacity ls"
  by (induction es arbitrary: ls) simp_all

lemma log_push_entries:
  "ls_entries (log_push ls e) = drop (Suc (length (ls_entries ls)) - ls_capacity ls) (ls_entries ls @ [e])"
  by (simp add: log_push_def evict_eq)

lemma drop_suffix_snoc:
  "drop (Suc (length (drop (length es - n) es)) - n) (drop (length es - n) es @ [e]) =
     drop (Suc (length es) - n) (es @ [e])"
  by (cases "length es \<le> n") (auto simp: Suc_diff_le not_le)

text \<open>
  The log keeps exactly the newest entries: after any sequence of pushes into an empty
  store of capacity n, \<open>recent\<close> is the suffix of the pushed entries of length at most n, oldest
  first.
\<close>

theorem log_keeps_newest:
  "log_recent (foldl log_push (log_with_capacity n) es) = drop (length es - n) es"
proof (induction es rule: rev_induct)
  case Nil
  show ?case by (simp add: log_recent_def log_with_capacity_def)
next
  case (snoc e es)
  have c: "ls_capacity (foldl log_push (log_with_capacity n) es) = n"
    by (simp add: log_with_capacity_def)
  have ih: "ls_entries (foldl log_push (log_with_capacity n) es) = drop (length es - n) es"
    using snoc by (simp only: log_recent_def)
  show ?case
    using drop_suffix_snoc [of es n e]
    by (simp only: log_recent_def foldl_append foldl.simps log_push_entries c ih length_append
        list.size add_0 One_nat_def add_Suc_right add_0_right)
qed

end
