(* ===== verification/Task_History.thy ===== *)
theory Task_History
  imports Activity "HOL-Library.Char_ord" "HOL-Library.List_Lexorder" "HOL-Library.Product_Lexorder"
begin

text \<open>
  \<open>crates/runtime/src/task_history.rs\<close>: the persistent history of tasks, two SQL tables. A table
  is a list of rows with the columns of \<open>initialize_schema\<close>; each SQL statement of the source is
  a function on the tables. A transaction whose k-th step fails is rolled back; which steps
  fail is a parameter. Texts compare bytewise, the default collation.
\<close>

section \<open>Tables\<close>

record job_row =
  jr_job_id :: string
  jr_request_id :: "string option"
  jr_batch_id :: "string option"
  jr_source :: string
  jr_current_status :: string
  jr_current_message :: "string option"
  jr_printer_name :: "string option"
  jr_paper_name :: "string option"
  jr_copies :: "u16 option"
  jr_created_at :: string
  jr_updated_at :: string
  jr_finished_at :: "string option"

record event_row =
  er_id :: int
  er_job_id :: string
  er_status :: string
  er_message :: "string option"
  er_occurred_at :: string

record task_db =
  db_jobs :: "job_row list"
  db_events :: "event_row list"
  db_last_event_id :: int

datatype sql_error = InvalidQuery | SqliteFailure

type_synonym sql_faults = "nat \<Rightarrow> bool"

record new_task_history_event =
  ne_job_id :: string
  ne_request_id :: "string option"
  ne_batch_id :: "string option"
  ne_source :: task_history_source
  ne_status :: task_history_status
  ne_message :: "string option"
  ne_printer_name :: "string option"
  ne_paper_name :: "string option"
  ne_copies :: "u16 option"
  ne_occurred_at :: string

record task_history_job =
  th_job_id :: string
  th_request_id :: "string option"
  th_batch_id :: "string option"
  th_source :: task_history_source
  th_current_status :: task_history_status
  th_current_message :: "string option"
  th_printer_name :: "string option"
  th_paper_name :: "string option"
  th_copies :: "u16 option"
  th_created_at :: string
  th_updated_at :: string
  th_finished_at :: "string option"

record task_history_event =
  te_id :: int
  te_job_id :: string
  te_status :: task_history_status
  te_message :: "string option"
  te_occurred_at :: string

section \<open>Statements\<close>

text \<open>The first statement of \<open>record_event\<close>; the identifier is the next of the sequence.\<close>

definition insert_event :: "new_task_history_event \<Rightarrow> task_db \<Rightarrow> task_db" where
  "insert_event event db =
     db\<lparr>db_events := db_events db @
          [\<lparr>er_id = db_last_event_id db + 1, er_job_id = ne_job_id event,
            er_status = status_as_str (ne_status event), er_message = ne_message event,
            er_occurred_at = ne_occurred_at event\<rparr>],
        db_last_event_id := db_last_event_id db + 1\<rparr>"

definition event_finished_at :: "new_task_history_event \<Rightarrow> string option" where
  "event_finished_at event =
     (if is_terminal (ne_status event) then Some (ne_occurred_at event) else None)"

definition new_job_row :: "new_task_history_event \<Rightarrow> job_row" where
  "new_job_row event =
     \<lparr>jr_job_id = ne_job_id event, jr_request_id = ne_request_id event,
      jr_batch_id = ne_batch_id event, jr_source = source_as_str (ne_source event),
      jr_current_status = status_as_str (ne_status event),
      jr_current_message = ne_message event, jr_printer_name = ne_printer_name event,
      jr_paper_name = ne_paper_name event, jr_copies = ne_copies event,
      jr_created_at = ne_occurred_at event, jr_updated_at = ne_occurred_at event,
      jr_finished_at = event_finished_at event\<rparr>"

text \<open>The conflict clause of the second statement: \<open>x\<close> is the excluded row, \<open>old\<close> the stored one.\<close>

definition merge_job_row :: "job_row \<Rightarrow> job_row \<Rightarrow> job_row" where
  "merge_job_row x old =
     old\<lparr>jr_request_id := opt_or (jr_request_id x) (jr_request_id old),
         jr_batch_id := opt_or (jr_batch_id x) (jr_batch_id old),
         jr_source := jr_source x,
         jr_current_status := jr_current_status x,
         jr_current_message := jr_current_message x,
         jr_printer_name := opt_or (jr_printer_name x) (jr_printer_name old),
         jr_paper_name := opt_or (jr_paper_name x) (jr_paper_name old),
         jr_copies := opt_or (jr_copies x) (jr_copies old),
         jr_updated_at := jr_updated_at x,
         jr_finished_at := opt_or (jr_finished_at x) (jr_finished_at old)\<rparr>"

definition upsert_job :: "job_row \<Rightarrow> task_db \<Rightarrow> task_db" where
  "upsert_job x db =
     db\<lparr>db_jobs :=
          (if list_ex (\<lambda>r. jr_job_id r = jr_job_id x) (db_jobs db)
           then map (\<lambda>r. if jr_job_id r = jr_job_id x then merge_job_row x r else r) (db_jobs db)
           else db_jobs db @ [x])\<rparr>"

text \<open>A transaction: taking the lock (a poisoned lock is \<open>InvalidQuery\<close>), beginning, its
  statements and the commit, numbered from 0. A failing step leaves the tables as they were.\<close>

fun run_statements :: "sql_faults \<Rightarrow> nat \<Rightarrow> (task_db \<Rightarrow> task_db) list \<Rightarrow> task_db \<Rightarrow> task_db option" where
  "run_statements fault k [] db = (if fault k then None else Some db)"
| "run_statements fault k (f # fs) db =
     (if fault k then None else run_statements fault (Suc k) fs (f db))"

definition transaction ::
  "sql_faults \<Rightarrow> (task_db \<Rightarrow> task_db) list \<Rightarrow> task_db \<Rightarrow> (sql_error, unit) result \<times> task_db" where
  "transaction fault fs db =
     (if fault 0 then (Err InvalidQuery, db)
      else if fault 1 then (Err SqliteFailure, db)
      else (case run_statements fault 2 fs db of
              None \<Rightarrow> (Err SqliteFailure, db)
            | Some db' \<Rightarrow> (Ok (), db')))"

section \<open>Operations\<close>

definition record_event ::
  "sql_faults \<Rightarrow> task_db \<Rightarrow> new_task_history_event \<Rightarrow> (sql_error, unit) result \<times> task_db" where
  "record_event fault db event =
     transaction fault [insert_event event, upsert_job (new_job_row event)] db"

definition row_to_job :: "job_row \<Rightarrow> (sql_error, task_history_job) result" where
  "row_to_job row =
     and_then (ok_or InvalidQuery (source_from_storage_str (jr_source row))) (\<lambda>source.
     and_then (ok_or InvalidQuery (status_from_storage_str (jr_current_status row))) (\<lambda>status.
       Ok \<lparr>th_job_id = jr_job_id row, th_request_id = jr_request_id row,
           th_batch_id = jr_batch_id row, th_source = source, th_current_status = status,
           th_current_message = jr_current_message row, th_printer_name = jr_printer_name row,
           th_paper_name = jr_paper_name row, th_copies = jr_copies row,
           th_created_at = jr_created_at row, th_updated_at = jr_updated_at row,
           th_finished_at = jr_finished_at row\<rparr>))"

definition row_to_event :: "event_row \<Rightarrow> (sql_error, task_history_event) result" where
  "row_to_event row =
     and_then (ok_or InvalidQuery (status_from_storage_str (er_status row))) (\<lambda>status.
       Ok \<lparr>te_id = er_id row, te_job_id = er_job_id row, te_status = status,
           te_message = er_message row, te_occurred_at = er_occurred_at row\<rparr>)"

text \<open>\<open>rows.collect()\<close>: the first row that does not convert fails the whole query.\<close>

fun collect_rows :: "('r \<Rightarrow> (sql_error, 'a) result) \<Rightarrow> 'r list \<Rightarrow> (sql_error, 'a list) result" where
  "collect_rows f [] = Ok []"
| "collect_rows f (r # rs) = and_then (f r) (\<lambda>x. and_then (collect_rows f rs) (\<lambda>xs. Ok (x # xs)))"

definition recent_jobs ::
  "sql_faults \<Rightarrow> task_db \<Rightarrow> u32 \<Rightarrow> (sql_error, task_history_job list) result" where
  "recent_jobs fault db limit =
     (if fault 0 then Err InvalidQuery
      else if fault 1 then Err SqliteFailure
      else collect_rows row_to_job
             (take (unat limit)
               (rev (sort_key (\<lambda>r. (jr_updated_at r, jr_job_id r)) (db_jobs db)))))"

definition events_for_job ::
  "sql_faults \<Rightarrow> task_db \<Rightarrow> string \<Rightarrow> (sql_error, task_history_event list) result" where
  "events_for_job fault db job_id =
     (if fault 0 then Err InvalidQuery
      else if fault 1 then Err SqliteFailure
      else collect_rows row_to_event
             (sort_key (\<lambda>r. (er_occurred_at r, er_id r))
               (filter (\<lambda>r. er_job_id r = job_id) (db_events db))))"

definition history_clear :: "sql_faults \<Rightarrow> task_db \<Rightarrow> (sql_error, unit) result \<times> task_db" where
  "history_clear fault db =
     transaction fault [\<lambda>d. d\<lparr>db_events := []\<rparr>, \<lambda>d. d\<lparr>db_jobs := []\<rparr>] db"

definition delete_remote_events :: "task_db \<Rightarrow> task_db" where
  "delete_remote_events db =
     db\<lparr>db_events :=
          filter (\<lambda>e. er_job_id e \<notin> set (map jr_job_id
                        (filter (\<lambda>r. jr_source r = ''remote'') (db_jobs db))))
            (db_events db)\<rparr>"

definition delete_remote_jobs :: "task_db \<Rightarrow> task_db" where
  "delete_remote_jobs db = db\<lparr>db_jobs := filter (\<lambda>r. jr_source r \<noteq> ''remote'') (db_jobs db)\<rparr>"

definition purge_removed_sources ::
  "sql_faults \<Rightarrow> task_db \<Rightarrow> (sql_error, unit) result \<times> task_db" where
  "purge_removed_sources fault db =
     transaction fault [delete_remote_events, delete_remote_jobs] db"

definition empty_db :: task_db where
  "empty_db = \<lparr>db_jobs = [], db_events = [], db_last_event_id = 0\<rparr>"

text \<open>Opening: \<open>CREATE TABLE IF NOT EXISTS\<close> keeps the tables of an existing database and
  creates empty ones otherwise (\<open>None\<close>); then the rows of removed sources go.\<close>

definition from_connection ::
  "sql_faults \<Rightarrow> bool \<Rightarrow> task_db option \<Rightarrow> (sql_error, task_db) result" where
  "from_connection fault schema_fails stored =
     (if schema_fails then Err SqliteFailure
      else
        (case purge_removed_sources fault (unwrap_or stored empty_db) of
           (Inl e, _) \<Rightarrow> Err e
         | (Inr _, db) \<Rightarrow> Ok db))"

section \<open>What the tables hold\<close>

text \<open>The summary of a job as a function of the events recorded for it, in order.\<close>

fun last_some :: "'a option list \<Rightarrow> 'a option" where
  "last_some [] = None"
| "last_some (x # xs) = opt_or (last_some xs) x"

definition job_summary :: "new_task_history_event list \<Rightarrow> job_row" where
  "job_summary es =
     \<lparr>jr_job_id = ne_job_id (last es),
      jr_request_id = last_some (map ne_request_id es),
      jr_batch_id = last_some (map ne_batch_id es),
      jr_source = source_as_str (ne_source (last es)),
      jr_current_status = status_as_str (ne_status (last es)),
      jr_current_message = ne_message (last es),
      jr_printer_name = last_some (map ne_printer_name es),
      jr_paper_name = last_some (map ne_paper_name es),
      jr_copies = last_some (map ne_copies es),
      jr_created_at = ne_occurred_at (hd es),
      jr_updated_at = ne_occurred_at (last es),
      jr_finished_at = last_some (map event_finished_at es)\<rparr>"

definition record_all :: "task_db \<Rightarrow> new_task_history_event list \<Rightarrow> task_db" where
  "record_all db es = foldl (\<lambda>d e. snd (record_event (\<lambda>_. False) d e)) db es"

lemma record_event_ok:
  "record_event (\<lambda>_. False) db e = (Inr (), upsert_job (new_job_row e) (insert_event e db))"
  by (simp add: record_event_def transaction_def)

lemma transaction_cases:
  "transaction fault fs db = (Inl err, db') \<Longrightarrow> db' = db"
  by (auto simp: transaction_def split: if_splits option.splits)

lemma record_event_rollback: "record_event fault db e = (Inl err, db') \<Longrightarrow> db' = db"
  unfolding record_event_def by (rule transaction_cases)

lemma run_statements_Some: "run_statements fault k fs db = Some db' \<Longrightarrow> db' = foldl (\<lambda>d f. f d) db fs"
  by (induction fs arbitrary: k db) (auto split: if_splits)

lemma record_event_commit:
  "record_event fault db e = (Inr u, db') \<Longrightarrow> db' = upsert_job (new_job_row e) (insert_event e db)"
  by (auto simp: record_event_def transaction_def split: if_splits option.splits
      dest!: run_statements_Some)

lemma last_some_snoc [simp]: "last_some (xs @ [x]) = opt_or x (last_some xs)"
proof (induction xs)
  case (Cons y ys)
  then show ?case by (cases x) simp_all
qed (cases x; simp)

text \<open>The summaries keyed by job identifier.\<close>

definition row_of :: "task_db \<Rightarrow> string \<Rightarrow> job_row option" where
  "row_of db j = find (\<lambda>r. jr_job_id r = j) (db_jobs db)"

definition events_of :: "new_task_history_event list \<Rightarrow> string \<Rightarrow> new_task_history_event list" where
  "events_of es j = filter (\<lambda>e. ne_job_id e = j) es"

lemma find_map_update:
  "(\<And>r. k (f r) = k r) \<Longrightarrow>
     find (\<lambda>r. k r = j) (map (\<lambda>r. if k r = i then f r else r) rs) =
     (if i = j then map_option f (find (\<lambda>r. k r = j) rs) else find (\<lambda>r. k r = j) rs)"
  by (induction rs) auto

lemma find_append: "find P (xs @ ys) = (case find P xs of None \<Rightarrow> find P ys | Some x \<Rightarrow> Some x)"
  by (induction xs) auto

lemma list_ex_find: "list_ex P xs \<longleftrightarrow> find P xs \<noteq> None"
  by (induction xs) auto

lemma jr_job_id_merge [simp]: "jr_job_id (merge_job_row x r) = jr_job_id r"
  by (simp add: merge_job_row_def)

lemma db_jobs_insert_event [simp]: "db_jobs (insert_event e db) = db_jobs db"
  by (simp add: insert_event_def)

lemma row_of_record:
  "row_of (upsert_job (new_job_row e) (insert_event e db)) j =
     (if ne_job_id e = j
      then Some (case row_of db j of None \<Rightarrow> new_job_row e
                                  | Some r \<Rightarrow> merge_job_row (new_job_row e) r)
      else row_of db j)"
  by (auto simp: row_of_def upsert_job_def new_job_row_def find_map_update find_append list_ex_find
      split: option.splits)

lemma job_summary_single: "job_summary [e] = new_job_row e"
  by (simp add: job_summary_def new_job_row_def)

lemma job_summary_snoc:
  "es \<noteq> [] \<Longrightarrow> ne_job_id e = ne_job_id (last es) \<Longrightarrow>
     merge_job_row (new_job_row e) (job_summary es) = job_summary (es @ [e])"
  by (simp add: job_summary_def new_job_row_def merge_job_row_def)

lemma row_of_record_all:
  "row_of (record_all empty_db es) j =
     (if events_of es j = [] then None else Some (job_summary (events_of es j)))"
proof (induction es rule: rev_induct)
  case Nil
  show ?case by (simp add: record_all_def row_of_def empty_db_def events_of_def)
next
  case (snoc e es)
  let ?db = "record_all empty_db es"
  have step: "record_all empty_db (es @ [e]) = upsert_job (new_job_row e) (insert_event e ?db)"
    by (simp add: record_all_def record_event_ok)
  show ?case
  proof (cases "ne_job_id e = j \<and> events_of es j \<noteq> []")
    case True
    then have "ne_job_id (last (events_of es j)) = j"
      using last_in_set [of "events_of es j"] by (auto simp: events_of_def)
    with True snoc step show ?thesis
      by (simp add: row_of_record job_summary_snoc events_of_def)
  next
    case False
    with snoc step show ?thesis
      by (auto simp: row_of_record events_of_def job_summary_single)
  qed
qed

lemma upsert_distinct:
  "distinct (map jr_job_id (db_jobs db)) \<Longrightarrow> distinct (map jr_job_id (db_jobs (upsert_job x db)))"
proof -
  have "jr_job_id \<circ> (\<lambda>r. if jr_job_id r = jr_job_id x then merge_job_row x r else r) = jr_job_id"
    by (rule ext) simp
  then show "distinct (map jr_job_id (db_jobs db)) \<Longrightarrow> ?thesis"
    by (auto simp: upsert_job_def list_ex_iff)
qed

lemma record_all_keys: "distinct (map jr_job_id (db_jobs (record_all empty_db es)))"
proof (induction es rule: rev_induct)
  case Nil
  show ?case by (simp add: record_all_def empty_db_def)
next
  case (snoc e es)
  then show ?case by (simp add: record_all_def record_event_ok upsert_distinct)
qed

text \<open>
  C16. The history refines its event log: after recording any sequence of events in an empty
  database, the one summary row of a job is the function \<open>job_summary\<close> of the events of that
  job (creation time of the first, status, message and source of the last, the last known
  request, batch, printer, paper and copies, the time of the last terminal status), and a job
  without events has no row; the primary key stays unique.
\<close>

theorem record_event_refines_log:
  "row_of (record_all empty_db es) j =
     (if events_of es j = [] then None else Some (job_summary (events_of es j)))
   \<and> distinct (map jr_job_id (db_jobs (record_all empty_db es)))"
  by (simp add: row_of_record_all record_all_keys)

section \<open>Reading the history back\<close>

lemma collect_rows_ok:
  "(\<And>r. r \<in> set rs \<Longrightarrow> f r = Inr (g r)) \<Longrightarrow> collect_rows f rs = Inr (map g rs)"
  by (induction rs) auto

text \<open>The event rows a sequence of recordings writes, numbered from \<open>k + 1\<close>.\<close>

fun event_rows :: "int \<Rightarrow> new_task_history_event list \<Rightarrow> event_row list" where
  "event_rows k [] = []"
| "event_rows k (e # es) =
     \<lparr>er_id = k + 1, er_job_id = ne_job_id e, er_status = status_as_str (ne_status e),
      er_message = ne_message e, er_occurred_at = ne_occurred_at e\<rparr> # event_rows (k + 1) es"

lemma record_all_events:
  "db_events (record_all db es) = db_events db @ event_rows (db_last_event_id db) es"
proof (induction es arbitrary: db)
  case (Cons e es)
  have "record_all db (e # es) = record_all (upsert_job (new_job_row e) (insert_event e db)) es"
    by (simp add: record_all_def record_event_ok)
  then show ?case by (simp add: Cons upsert_job_def insert_event_def)
qed (simp add: record_all_def)

lemma event_rows_id: "r \<in> set (event_rows k es) \<Longrightarrow> k < er_id r"
  by (induction es arbitrary: k) fastforce+

lemma event_rows_time: "er_occurred_at ` set (event_rows k es) = ne_occurred_at ` set es"
  by (induction es arbitrary: k) auto

lemma event_rows_sorted:
  "sorted (map ne_occurred_at es) \<Longrightarrow>
     sorted (map (\<lambda>r. (er_occurred_at r, er_id r)) (event_rows k es))"
proof (induction es arbitrary: k)
  case (Cons e es)
  have "(ne_occurred_at e, k + 1) \<le> (er_occurred_at r, er_id r)" if "r \<in> set (event_rows (k + 1) es)" for r
  proof -
    have "er_occurred_at r \<in> ne_occurred_at ` set es" using that event_rows_time by blast
    moreover have "k + 1 < er_id r" using that by (rule event_rows_id)
    ultimately show ?thesis using Cons.prems by (auto simp: less_eq_prod_def)
  qed
  with Cons show ?case by simp
qed simp

lemma sorted_map_filter: "sorted (map f xs) \<Longrightarrow> sorted (map f (filter P xs))"
  by (rule sorted_filter)

definition event_view :: "event_row \<Rightarrow> task_history_status \<Rightarrow> task_history_event" where
  "event_view r s =
     \<lparr>te_id = er_id r, te_job_id = er_job_id r, te_status = s,
      te_message = er_message r, te_occurred_at = er_occurred_at r\<rparr>"

lemma event_rows_status:
  "r \<in> set (event_rows k es) \<Longrightarrow> \<exists>s. er_status r = status_as_str s"
  by (induction es arbitrary: k) auto

lemma row_to_event_view:
  "er_status r = status_as_str s \<Longrightarrow> row_to_event r = Inr (event_view r s)"
  by (simp add: row_to_event_def event_view_def)

lemma events_filtered:
  "map (\<lambda>r. (er_job_id r, status_from_storage_str (er_status r), er_message r, er_occurred_at r))
     (filter (\<lambda>r. er_job_id r = j) (event_rows k es))
   = map (\<lambda>e. (ne_job_id e, Some (ne_status e), ne_message e, ne_occurred_at e)) (events_of es j)"
  by (induction es arbitrary: k) (auto simp: events_of_def)

text \<open>
  Reading back the events of a job returns what was recorded for it, in order: when events
  are recorded with non-decreasing times, \<open>events_for_job\<close> answers the statuses, messages and
  times of exactly the recorded events of that job in recording order, and does not fail on
  them.
\<close>

theorem events_for_job_roundtrip:
  assumes "sorted (map ne_occurred_at es)"
  shows "\<exists>xs. events_for_job (\<lambda>_. False) (record_all empty_db es) j = Inr xs \<and>
    map (\<lambda>x. (te_job_id x, te_status x, te_message x, te_occurred_at x)) xs =
    map (\<lambda>e. (ne_job_id e, ne_status e, ne_message e, ne_occurred_at e)) (events_of es j)"
proof -
  let ?rs = "filter (\<lambda>r. er_job_id r = j) (event_rows 0 es)"
  let ?g = "\<lambda>r. event_view r (the (status_from_storage_str (er_status r)))"
  have db: "db_events (record_all empty_db es) = event_rows 0 es"
    by (simp add: record_all_events empty_db_def)
  have sorted: "sort_key (\<lambda>r. (er_occurred_at r, er_id r)) ?rs = ?rs"
    using assms by (intro sort_key_id_if_sorted sorted_map_filter event_rows_sorted)
  have "collect_rows row_to_event ?rs = Inr (map ?g ?rs)"
    by (rule collect_rows_ok) (auto dest!: event_rows_status simp: row_to_event_view)
  then have "events_for_job (\<lambda>_. False) (record_all empty_db es) j = Inr (map ?g ?rs)"
    by (simp add: events_for_job_def db sorted)
  moreover have "map (\<lambda>x. (te_job_id x, te_status x, te_message x, te_occurred_at x)) (map ?g ?rs) =
      map (\<lambda>(j, s, m, t). (j, the s, m, t))
        (map (\<lambda>r. (er_job_id r, status_from_storage_str (er_status r), er_message r, er_occurred_at r)) ?rs)"
    by (simp add: event_view_def)
  ultimately show ?thesis by (simp add: events_filtered)
qed

definition example_event :: "string \<Rightarrow> task_history_status \<Rightarrow> string \<Rightarrow> new_task_history_event" where
  "example_event j s t =
     \<lparr>ne_job_id = j, ne_request_id = Some ''r1'', ne_batch_id = None, ne_source = SrcWebSocket,
      ne_status = s, ne_message = None, ne_printer_name = None, ne_paper_name = None,
      ne_copies = None, ne_occurred_at = t\<rparr>"

theorem events_for_job_roundtrip_witness:
  "\<exists>xs. events_for_job (\<lambda>_. False)
      (record_all empty_db [example_event ''a'' HsQueued ''1'', example_event ''b'' HsQueued ''1'',
         example_event ''a'' HsPrinting ''2'']) ''a'' = Inr xs \<and>
    map te_status xs = [HsQueued, HsPrinting]"
proof -
  let ?es = "[example_event ''a'' HsQueued ''1'', example_event ''b'' HsQueued ''1'',
         example_event ''a'' HsPrinting ''2'']"
  have "sorted (map ne_occurred_at ?es)" by (simp add: example_event_def)
  from events_for_job_roundtrip [OF this, of "''a''"] obtain xs where
    xs: "events_for_job (\<lambda>_. False) (record_all empty_db ?es) ''a'' = Inr xs"
    and m: "map (\<lambda>x. (te_job_id x, te_status x, te_message x, te_occurred_at x)) xs =
      map (\<lambda>e. (ne_job_id e, ne_status e, ne_message e, ne_occurred_at e)) (events_of ?es ''a'')"
    by blast
  have "map te_status xs = map (\<lambda>(j, s, m, t). s)
      (map (\<lambda>x. (te_job_id x, te_status x, te_message x, te_occurred_at x)) xs)"
    by (simp add: comp_def)
  also have "\<dots> = [HsQueued, HsPrinting]"
    unfolding m by (simp add: events_of_def example_event_def)
  finally have "map te_status xs = [HsQueued, HsPrinting]" .
  with xs show ?thesis by (intro exI [of _ xs] conjI)
qed

end
