(* ===== verification/Agent_State.thy ===== *)
theory Agent_State
  imports Config Queue_Core Task_History
begin

text \<open>
  \<open>crates/runtime/src/state.rs\<close>: the state shared by the server, the worker and the command
  executor. The shared containers behind \<open>Arc\<close> are the fields of one record, changed by one
  holder at a time; \<open>as_status_events\<close> is everything broadcast so far, oldest first, and
  \<open>as_notified\<close> the stored permit of \<open>queue_notify\<close>. The print backend and the HTML renderer
  are arguments of the operations that call them.
\<close>

record agent_state =
  as_config :: agent_config
  as_config_path :: "string option"
  as_logs :: log_store
  as_status_events :: "task_log_entry list"
  as_queue :: queue_state
  as_notified :: bool
  as_task_history :: "task_db option"

definition with_printing_and_config_path :: "agent_config \<Rightarrow> string option \<Rightarrow> agent_state" where
  "with_printing_and_config_path config config_path =
     \<lparr>as_config = config_normalized config, as_config_path = config_path,
      as_logs = log_store_default, as_status_events = [], as_queue = queue_default,
      as_notified = False, as_task_history = None\<rparr>"

definition with_task_history_store :: "agent_state \<Rightarrow> task_db \<Rightarrow> agent_state" where
  "with_task_history_store s db = s\<lparr>as_task_history := Some db\<rparr>"

text \<open>The errors of \<open>save_config\<close>: the first two are \<open>io::Error\<close> of kind \<open>InvalidInput\<close> around the
  validation error.\<close>

datatype save_error =
    SaveInvalidOrigin protocol_error
  | SaveInvalidIp ip_entry_error
  | SaveIo io_error

definition save_config ::
  "ext_lib \<Rightarrow> config_serde \<Rightarrow> os_env \<Rightarrow> world \<Rightarrow> agent_state \<Rightarrow> agent_config \<Rightarrow>
   (save_error, agent_config) result \<times> world \<times> agent_state" where
  "save_config L S E w st config =
     (case check_all (\<lambda>origin. map_err SaveInvalidOrigin (validate_origin L origin))
             (se_allowed_origins (cf_security config)) of
        Inl e \<Rightarrow> (Err e, w, st)
      | Inr _ \<Rightarrow>
     (case check_all (\<lambda>entry. map_err SaveInvalidIp (validate_allowed_ip_entry L entry))
             (se_allowed_ips (cf_security config)) of
        Inl e \<Rightarrow> (Err e, w, st)
      | Inr _ \<Rightarrow>
          (let config = config_normalized config;
               (r, w1) = (case as_config_path st of
                            None \<Rightarrow> (Ok (), w)
                          | Some path \<Rightarrow> config_save S E w config path)
           in case r of
                Inl e \<Rightarrow> (Err (SaveIo e), w1, st)
              | Inr _ \<Rightarrow> (Ok config, w1, st\<lparr>as_config := config\<rparr>))))"

definition broadcast_status :: "agent_state \<Rightarrow> task_log_entry \<Rightarrow> agent_state" where
  "broadcast_status st entry = st\<lparr>as_status_events := as_status_events st @ [entry]\<rparr>"

section \<open>Saving\<close>

definition config_valid :: "ext_lib \<Rightarrow> agent_config \<Rightarrow> bool" where
  "config_valid L c \<longleftrightarrow>
     list_all (\<lambda>og. is_ok (validate_origin L og)) (se_allowed_origins (cf_security c)) \<and>
     list_all (\<lambda>e. is_ok (validate_allowed_ip_entry L e)) (se_allowed_ips (cf_security c))"

lemma save_config_ok:
  assumes "save_config L S E w st c = (Inr c', w', st')"
  shows "config_valid L c" "c' = config_normalized c" "st' = st\<lparr>as_config := c'\<rparr>"
    "\<And>p. as_config_path st = Some p \<Longrightarrow> config_save S E w c' p = (Inr (), w')"
    "as_config_path st = None \<Longrightarrow> w' = w"
  using assms
  by (auto simp: save_config_def config_valid_def Let_def check_all_ok_iff list_all_iff
      split: sum.splits option.splits prod.splits)

lemma save_config_err: "save_config L S E w st c = (Inl e, w', st') \<Longrightarrow> st' = st"
  by (auto simp: save_config_def Let_def split: sum.splits option.splits prod.splits)

lemma save_config_invalid:
  assumes "\<not> config_valid L c"
  shows "\<exists>e. save_config L S E w st c = (Inl e, w, st) \<and> (\<forall>io. e \<noteq> SaveIo io)"
proof -
  let ?og = "check_all (\<lambda>origin. map_err SaveInvalidOrigin (validate_origin L origin))
             (se_allowed_origins (cf_security c))"
  let ?ip = "check_all (\<lambda>entry. map_err SaveInvalidIp (validate_allowed_ip_entry L entry))
             (se_allowed_ips (cf_security c))"
  show ?thesis
  proof (cases ?og)
    case (Inl e)
    then obtain x where "map_err SaveInvalidOrigin (validate_origin L x) = Inl e"
      by (blast dest: check_all_errD)
    then have "\<forall>io. e \<noteq> SaveIo io" by (cases "validate_origin L x") auto
    with Inl show ?thesis by (simp add: save_config_def)
  next
    case og: (Inr u)
    show ?thesis
    proof (cases ?ip)
      case (Inl e)
      then obtain x where "map_err SaveInvalidIp (validate_allowed_ip_entry L x) = Inl e"
        by (blast dest: check_all_errD)
      then have "\<forall>io. e \<noteq> SaveIo io" by (cases "validate_allowed_ip_entry L x") auto
      with og Inl show ?thesis by (simp add: save_config_def)
    next
      case (Inr v)
      with og have "config_valid L c"
        by (simp add: check_all_ok_iff config_valid_def list_all_iff)
      with assms show ?thesis by simp
    qed
  qed
qed

text \<open>
  C15. \<open>AgentState::save_config\<close> applies a configuration only when every allowed origin and every
  IP entry is valid and the file was written: on success the state holds the normalised
  configuration and the file its serialisation; a failed validation touches neither the file
  nor the state, and a failed write leaves the configuration in force unchanged.
\<close>

theorem save_config_transactional:
  "case save_config L S E w st c of (res, w', st') \<Rightarrow>
     (case res of
        Inr c' \<Rightarrow>
          config_valid L c \<and> c' = config_normalized c \<and> config_normal c'
          \<and> st' = st\<lparr>as_config := c'\<rparr>
          \<and> (case as_config_path st of
               None \<Rightarrow> w' = w
             | Some p \<Rightarrow> w_files w' = (w_files w)(p \<mapsto> as_bytes (to_json S c')))
      | Inl e \<Rightarrow>
          st' = st \<and> (config_valid L c \<or> w' = w \<and> (\<forall>io. e \<noteq> SaveIo io)))"
proof -
  obtain res w' st' where r: "save_config L S E w st c = (res, w', st')" by (metis prod_cases3)
  show ?thesis
  proof (cases res)
    case (Inl e)
    with r show ?thesis
      using save_config_err [of L S E w st c e w' st'] save_config_invalid [of L c S E w st]
      by auto
  next
    case (Inr c')
    with r have ok: "save_config L S E w st c = (Inr c', w', st')" by simp
    have files: "w_files w' = (w_files w)(p \<mapsto> as_bytes (to_json S c'))"
      if "as_config_path st = Some p" for p
      using config_save_ok [OF save_config_ok(4) [OF ok that]] save_config_ok(2) [OF ok] by simp
    show ?thesis
      using save_config_ok [OF ok] files r Inr by (auto split: option.splits)
  qed
qed

end
