(* ===== verification/Server.thy ===== *)
theory Server
  imports Agent_State
begin

text \<open>
  \<open>crates/runtime/src/server.rs\<close>: the HTTP route with its IP and origin checks, the handler of
  one client message and the loop of one WebSocket connection. The JSON codec of the messages
  is the parameter \<open>ws_codec\<close>; the events of the \<open>select!\<close> loop (a frame, a broadcast entry, a lagging
  or closed channel) and whether a send succeeds are the inputs of a step.
\<close>

section \<open>Binding\<close>

definition BIND_HOST :: string where "BIND_HOST = ''0.0.0.0''"

text \<open>\<open>SocketAddr::from_str\<close> on an IPv4 address and port.\<close>

definition parse_socket_addr_v4 :: "string \<Rightarrow> socket_addr option" where
  "parse_socket_addr_v4 s =
     (case read_ipv4 s of
        None \<Rightarrow> None
      | Some (octets, rest) \<Rightarrow>
          (case read_char (CHR '':'') rest of
             None \<Rightarrow> None
           | Some p \<Rightarrow>
               if p = [] then None
               else map_option (\<lambda>n. \<lparr>sa_ip = V4 (ipv4_of_octets octets), sa_port = of_nat n\<rparr>)
                      (parse_digits 65536 0 p)))"

definition configured_addr :: "agent_config \<Rightarrow> socket_addr option" where
  "configured_addr config =
     parse_socket_addr_v4 (BIND_HOST @ '':'' @ show_nat (unat (sc_port (cf_service config))))"

section \<open>The HTTP layer\<close>

datatype ws_response = Forbidden | Upgraded "string option"

definition is_ws_origin_allowed :: "agent_state \<Rightarrow> string option \<Rightarrow> bool" where
  "is_ws_origin_allowed st origin =
     is_allowed_origin origin (se_allowed_origins (cf_security (as_config st)))"

definition is_client_ip_allowed_for_state :: "ext_lib \<Rightarrow> agent_state \<Rightarrow> ip_addr \<Rightarrow> bool" where
  "is_client_ip_allowed_for_state L st client_ip =
     is_client_ip_allowed L client_ip (se_allowed_ips (cf_security (as_config st)))"

definition ws_handler :: "agent_state \<Rightarrow> string option \<Rightarrow> ws_response" where
  "ws_handler st origin =
     (if \<not> is_ws_origin_allowed st origin then Forbidden else Upgraded origin)"

definition ip_whitelist_middleware ::
  "ext_lib \<Rightarrow> agent_state \<Rightarrow> socket_addr option \<Rightarrow> ws_response \<Rightarrow> ws_response" where
  "ip_whitelist_middleware L st connect_info next_run =
     (case connect_info of
        None \<Rightarrow> next_run
      | Some addr \<Rightarrow>
          if is_client_ip_allowed_for_state L st (sa_ip addr) then next_run else Forbidden)"

text \<open>The one route of \<open>router\<close>, its handler behind the middleware.\<close>

definition ws_route ::
  "ext_lib \<Rightarrow> agent_state \<Rightarrow> socket_addr option \<Rightarrow> string option \<Rightarrow> ws_response" where
  "ws_route L st connect_info origin =
     ip_whitelist_middleware L st connect_info (ws_handler st origin)"

section \<open>Error responses\<close>

definition queue_error_response :: "string option \<Rightarrow> queue_error \<Rightarrow> server_message" where
  "queue_error_response request_id e =
     ErrorMsg request_id
       (case e of
          DuplicateJobId \<Rightarrow> EcJobDuplicated
        | DuplicateBatchId \<Rightarrow> EcBatchDuplicated
        | QInvalidMessage \<Rightarrow> EcInvalidMessage)
       (queue_error_msg e)"

definition invalid_message_response :: "string option \<Rightarrow> string \<Rightarrow> server_message" where
  "invalid_message_response request_id message = ErrorMsg request_id EcInvalidMessage message"

definition job_validation_error_response ::
  "string option \<Rightarrow> job_validation_error \<Rightarrow> server_message" where
  "job_validation_error_response request_id e =
     ErrorMsg request_id (case e of FileTooLarge \<Rightarrow> EcFileTooLarge | _ \<Rightarrow> EcInvalidMessage)
       (job_validation_error_msg e)"

definition print_error_response :: "string option \<Rightarrow> print_error \<Rightarrow> server_message" where
  "print_error_response request_id e =
     ErrorMsg request_id
       (case e of
          PrinterNotFound _ \<Rightarrow> EcPrinterNotFound
        | PaperNotFound _ \<Rightarrow> EcPaperNotFound
        | _ \<Rightarrow> EcPrintFailed)
       (print_error_msg e)"

section \<open>Local HTML origins\<close>

definition is_exact_loopback_url :: "url \<Rightarrow> bool" where
  "is_exact_loopback_url u \<longleftrightarrow>
     url_host_str u = Some ''127.0.0.1'' \<or> url_host_str u = Some ''::1''"

definition loopback_urls :: "ext_lib \<Rightarrow> print_job_input list \<Rightarrow> url list" where
  "loopback_urls L jobs =
     filter is_exact_loopback_url
       (List.map_filter (\<lambda>s. to_option (validate_html_file_url L s))
         (List.map_filter pj_file_url (filter (\<lambda>job. pj_format job = Html) jobs)))"

definition loopback_origin_required :: string where
  "loopback_origin_required = ''loopback HTML URLs require a matching loopback WebSocket Origin''"

definition html_local_origin ::
  "ext_lib \<Rightarrow> print_job_input list \<Rightarrow> string option \<Rightarrow> (string, string option) result" where
  "html_local_origin L jobs origin =
     (let urls = loopback_urls L jobs in
      if urls = [] then Ok None
      else
        (case origin of
           None \<Rightarrow> Err loopback_origin_required
         | Some og \<Rightarrow>
             and_then
               (ok_or loopback_origin_required
                  (opt_filter is_exact_loopback_url (x_url_parse L og)))
               (\<lambda>origin_url.
                  if list_ex (\<lambda>u. \<not> origin_eq (url_origin u) (url_origin origin_url)) urls
                  then Err ''loopback HTML URL must match the WebSocket Origin exactly''
                  else Ok (Some (url_origin_ascii origin_url)))))"

section \<open>One client message\<close>

record ws_codec =
  parse_client :: "string \<Rightarrow> (string, client_message) result"
  print_server :: "server_message \<Rightarrow> (string, string) result"

record client_text_outcome =
  co_response :: server_message
  co_accepted_job_ids :: "string list"

definition respond :: "server_message \<Rightarrow> client_text_outcome" where
  "respond m = \<lparr>co_response = m, co_accepted_job_ids = []\<rparr>"

definition notify_one :: "agent_state \<Rightarrow> agent_state" where
  "notify_one st = st\<lparr>as_notified := True\<rparr>"

definition handle_get_printers_list ::
  "print_backend \<Rightarrow> world \<Rightarrow> agent_state \<Rightarrow> string \<Rightarrow> client_text_outcome \<times> world" where
  "handle_get_printers_list B w st request_id =
     (case be_list_printers B (w_tick w) of
        Inr printers \<Rightarrow>
          (respond (PrintersList request_id
             (case pc_default_printer (cf_printing (as_config st)) of
                None \<Rightarrow> printers
              | Some d \<Rightarrow> map (\<lambda>p. p\<lparr>pi_is_default := (pi_name p = d)\<rparr>) printers)), tick w)
      | Inl e \<Rightarrow> (respond (print_error_response (Some request_id) e), tick w))"

definition handle_get_printer_info ::
  "print_backend \<Rightarrow> world \<Rightarrow> string \<Rightarrow> string \<Rightarrow> client_text_outcome \<times> world" where
  "handle_get_printer_info B w request_id printer_name =
     (let fail = (\<lambda>e. respond (print_error_response (Some request_id) e));
          w1 = tick w; w2 = tick w1; w3 = tick w2; w4 = tick w3 in
      case be_list_printers B (w_tick w) of
        Inl e \<Rightarrow> (fail e, w1)
      | Inr printers \<Rightarrow>
     (case find (\<lambda>p. pi_name p = printer_name) printers of
        None \<Rightarrow> (fail (PrinterNotFound printer_name), w1)
      | Some printer \<Rightarrow>
     (case be_list_papers B (w_tick w1) (pi_name printer) of
        Inl e \<Rightarrow> (fail e, w2)
      | Inr papers \<Rightarrow>
     (case be_list_trays B (w_tick w2) (pi_name printer) of
        Inl e \<Rightarrow> (fail e, w3)
      | Inr trays \<Rightarrow>
     (case be_list_media_types B (w_tick w3) (pi_name printer) of
        Inl e \<Rightarrow> (fail e, w4)
      | Inr media_types \<Rightarrow>
          (respond (PrinterInfoMsg request_id
             \<lparr>pd_name = pi_name printer, pd_is_default = pi_is_default printer,
              pd_dpi = pi_dpi printer, pd_port = pi_port printer,
              pd_is_local = pi_is_local printer, pd_is_network = pi_is_network printer,
              pd_is_virtual = pi_is_virtual printer, pd_papers = papers, pd_trays = trays,
              pd_media_types = media_types\<rparr>), w4))))))"

definition handle_get_print_queue :: "agent_state \<Rightarrow> string \<Rightarrow> client_text_outcome" where
  "handle_get_print_queue st request_id =
     respond (PrintQueueMsg request_id
       (map (\<lambda>queued. \<lparr>qi_request_id = qj_request_id queued, qi_batch_id = qj_batch_id queued,
                       qi_job_id = pj_job_id (qj_job queued), qi_status = JsQueued,
                       qi_message = Some ''queued''\<rparr>)
         (pending_jobs (as_queue st))))"

definition handle_print ::
  "ext_lib \<Rightarrow> agent_state \<Rightarrow> string option \<Rightarrow> string \<Rightarrow> print_job_input \<Rightarrow>
   client_text_outcome \<times> agent_state" where
  "handle_print L st origin request_id job =
     (case validate_for_acceptance L job (lc_max_file_size_mb (cf_limits (as_config st))) of
        Inl e \<Rightarrow> (respond (job_validation_error_response (Some request_id) e), st)
      | Inr _ \<Rightarrow>
     (case html_local_origin L [job] origin of
        Inl message \<Rightarrow> (respond (invalid_message_response (Some request_id) message), st)
      | Inr local_origin \<Rightarrow>
     (case accept_job_with_html_local_origin L (as_queue st) request_id job local_origin of
        (Inr _, q) \<Rightarrow>
          (\<lparr>co_response =
              JobStatusMsg (Some request_id) (pj_job_id job) JsQueued (Some ''queued''),
            co_accepted_job_ids = [pj_job_id job]\<rparr>,
           notify_one (st\<lparr>as_queue := q\<rparr>))
      | (Inl e, q) \<Rightarrow>
          (respond (queue_error_response (Some request_id) e), st\<lparr>as_queue := q\<rparr>))))"

definition handle_print_batch ::
  "ext_lib \<Rightarrow> agent_state \<Rightarrow> string option \<Rightarrow> string \<Rightarrow> string \<Rightarrow> print_job_input list \<Rightarrow>
   client_text_outcome \<times> agent_state" where
  "handle_print_batch L st origin request_id batch_id jobs =
     (if length jobs > lc_max_batch_jobs (cf_limits (as_config st)) then
        (respond (ErrorMsg (Some request_id) EcBatchTooLarge ''batch contains too many jobs''), st)
      else
     (case check_all (\<lambda>job. validate_for_acceptance L job
                        (lc_max_file_size_mb (cf_limits (as_config st)))) jobs of
        Inl e \<Rightarrow> (respond (job_validation_error_response (Some request_id) e), st)
      | Inr _ \<Rightarrow>
     (case html_local_origin L jobs origin of
        Inl message \<Rightarrow> (respond (invalid_message_response (Some request_id) message), st)
      | Inr local_origin \<Rightarrow>
     (case accept_batch_with_html_local_origin L (as_queue st) request_id batch_id jobs
             local_origin of
        (Inr _, q) \<Rightarrow>
          (\<lparr>co_response =
              JobStatusMsg (Some request_id) batch_id JsQueued
                (Some (''batch accepted: '' @ show_nat (length jobs) @ '' jobs queued'')),
            co_accepted_job_ids = map pj_job_id jobs\<rparr>,
           notify_one (st\<lparr>as_queue := q\<rparr>))
      | (Inl e, q) \<Rightarrow>
          (respond (queue_error_response (Some request_id) e), st\<lparr>as_queue := q\<rparr>)))))"

definition handle_client_text ::
  "ext_lib \<Rightarrow> ws_codec \<Rightarrow> print_backend \<Rightarrow> world \<Rightarrow> agent_state \<Rightarrow> string \<Rightarrow> string option \<Rightarrow>
   client_text_outcome \<times> world \<times> agent_state" where
  "handle_client_text L C B w st txt origin =
     (case parse_client C txt of
        Inl e \<Rightarrow> (respond (ErrorMsg None EcInvalidMessage e), w, st)
      | Inr message \<Rightarrow>
          (case message of
             Ping time \<Rightarrow> (respond (Pong time ''ready''), w, st)
           | GetPrintersList request_id \<Rightarrow>
               (case handle_get_printers_list B w st request_id of (r, w') \<Rightarrow> (r, w', st))
           | GetPrinterInfo request_id printer_name \<Rightarrow>
               (case handle_get_printer_info B w request_id printer_name of (r, w') \<Rightarrow> (r, w', st))
           | GetPrintQueue request_id \<Rightarrow> (handle_get_print_queue st request_id, w, st)
           | Print request_id job \<Rightarrow>
               (case handle_print L st origin request_id job of (r, st') \<Rightarrow> (r, w, st'))
           | PrintBatch request_id batch_id jobs \<Rightarrow>
               (case handle_print_batch L st origin request_id batch_id jobs of
                  (r, st') \<Rightarrow> (r, w, st'))))"

definition status_message_for_connection ::
  "task_log_entry \<Rightarrow> string set \<Rightarrow> server_message option" where
  "status_message_for_connection entry accepted_job_ids =
     (case tl_job_id entry of
        None \<Rightarrow> None
      | Some job_id \<Rightarrow>
          if job_id \<notin> accepted_job_ids then None
          else Some (JobStatusMsg (tl_request_id entry) job_id (tl_status entry)
                       (Some (tl_message entry))))"

section \<open>The connection loop\<close>

datatype socket_event =
    WsText string
  | WsPing bytes
  | WsClose
  | WsOther
  | WsReceiveError
  | WsEnd
  | StatusReceived task_log_entry
  | StatusLagged nat
  | StatusClosed

datatype ws_frame = TextFrame string | PongFrame bytes

record connection =
  cn_origin :: "string option"
  cn_accepted :: "string set"
  cn_open :: bool
  cn_sent :: "ws_frame list"

text \<open>A send that fails leaves the loop.\<close>

definition send_frame :: "bool \<Rightarrow> ws_frame \<Rightarrow> connection \<Rightarrow> connection" where
  "send_frame delivered f c =
     (if delivered then c\<lparr>cn_sent := cn_sent c @ [f]\<rparr> else c\<lparr>cn_open := False\<rparr>)"

definition send_message :: "ws_codec \<Rightarrow> bool \<Rightarrow> server_message \<Rightarrow> connection \<Rightarrow> connection" where
  "send_message C delivered m c =
     (case print_server C m of
        Inr json \<Rightarrow> send_frame delivered (TextFrame json) c
      | Inl _ \<Rightarrow> c\<lparr>cn_open := False\<rparr>)"

definition socket_step ::
  "ext_lib \<Rightarrow> ws_codec \<Rightarrow> print_backend \<Rightarrow> bool \<Rightarrow> socket_event \<Rightarrow>
   world \<times> agent_state \<times> connection \<Rightarrow> world \<times> agent_state \<times> connection" where
  "socket_step L C B delivered ev s =
     (case s of (w, st, c) \<Rightarrow>
        if \<not> cn_open c then s
        else
          (case ev of
             WsEnd \<Rightarrow> (w, st, c\<lparr>cn_open := False\<rparr>)
           | WsReceiveError \<Rightarrow> (w, st, c\<lparr>cn_open := False\<rparr>)
           | WsClose \<Rightarrow> (w, st, c\<lparr>cn_open := False\<rparr>)
           | WsOther \<Rightarrow> s
           | WsPing payload \<Rightarrow> (w, st, send_frame delivered (PongFrame payload) c)
           | WsText txt \<Rightarrow>
               (case handle_client_text L C B w st txt (cn_origin c) of (outcome, w', st') \<Rightarrow>
                  (w', st',
                   send_message C delivered (co_response outcome)
                     (c\<lparr>cn_accepted := cn_accepted c \<union> set (co_accepted_job_ids outcome)\<rparr>)))
           | StatusReceived entry \<Rightarrow>
               (case status_message_for_connection entry (cn_accepted c) of
                  None \<Rightarrow> s
                | Some response \<Rightarrow> (w, st, send_message C delivered response c))
           | StatusLagged _ \<Rightarrow> s
           | StatusClosed \<Rightarrow> (w, st, c\<lparr>cn_open := False\<rparr>)))"

definition open_connection :: "string option \<Rightarrow> connection" where
  "open_connection origin =
     \<lparr>cn_origin = origin, cn_accepted = {}, cn_open = True, cn_sent = []\<rparr>"

section \<open>Who is let in\<close>

lemma ws_handler_upgraded_iff:
  "ws_handler st og = Upgraded og' \<longleftrightarrow>
     og' = og \<and> (\<exists>o'. og = Some o' \<and> o' \<in> set (se_allowed_origins (cf_security (as_config st))))"
  by (auto simp: ws_handler_def is_ws_origin_allowed_def protocol_simps)

text \<open>
  C13. A request that reaches the server over TCP becomes a WebSocket exactly when its client
  address is a loopback address or matches an entry of the configured allow list, and its
  \<open>Origin\<close> header is present and listed verbatim in the allowed origins; the connection carries
  that origin.
\<close>

theorem ws_route_guard:
  "ws_route L st (Some addr) og = Upgraded og' \<longleftrightarrow>
     og' = og
     \<and> (\<exists>o'. og = Some o' \<and> o' \<in> set (se_allowed_origins (cf_security (as_config st))))
     \<and> (is_loopback (sa_ip addr)
        \<or> (\<exists>entry \<in> set (se_allowed_ips (cf_security (as_config st))).
              (case parse_ip entry of
                 Some ip \<Rightarrow> ip = sa_ip addr
               | None \<Rightarrow> (\<exists>net. x_ipnet_parse L entry = Some net \<and> net_contains net (sa_ip addr)))))"
  by (auto simp: ws_route_def ip_whitelist_middleware_def is_client_ip_allowed_for_state_def
      is_client_ip_allowed_def ws_handler_upgraded_iff list_ex_iff entry_matches_client_ip_def
      is_some_and_iff split: option.splits if_splits)

section \<open>What a client message can do\<close>

lemma accept_job_err:
  "accept_job_with_html_local_origin L q rid job lo = (Inl e, q') \<Longrightarrow> q' = q"
  using agent_queue.offer_err [of L q "SubmitJob rid job lo"] by simp

lemma accept_batch_err:
  "accept_batch_with_html_local_origin L q rid bid jobs lo = (Inl e, q') \<Longrightarrow> q' = q"
  using agent_queue.offer_err [of L q "SubmitBatch rid bid jobs lo"] by simp

lemma handle_print_cases:
  "handle_print L st og rid job = (out, st') \<Longrightarrow>
     (co_accepted_job_ids out = [] \<and> st' = st \<and> (\<exists>c m. co_response out = ErrorMsg (Some rid) c m))
     \<or> (\<exists>lo. validate_for_acceptance L job (lc_max_file_size_mb (cf_limits (as_config st))) = Inr ()
          \<and> html_local_origin L [job] og = Inr lo
          \<and> submit L (as_queue st) (SubmitJob rid job lo) = (Inr (), as_queue st')
          \<and> st' = st\<lparr>as_queue := as_queue st', as_notified := True\<rparr>
          \<and> co_accepted_job_ids out = [pj_job_id job]
          \<and> co_response out = JobStatusMsg (Some rid) (pj_job_id job) JsQueued (Some ''queued''))"
  by (auto simp: handle_print_def respond_def notify_one_def job_validation_error_response_def
      invalid_message_response_def queue_error_response_def dest!: accept_job_err
      split: sum.splits prod.splits)

lemma handle_print_batch_cases:
  "handle_print_batch L st og rid bid jobs = (out, st') \<Longrightarrow>
     (co_accepted_job_ids out = [] \<and> st' = st \<and> (\<exists>c m. co_response out = ErrorMsg (Some rid) c m))
     \<or> (\<exists>lo. length jobs \<le> lc_max_batch_jobs (cf_limits (as_config st))
          \<and> check_all (\<lambda>job. validate_for_acceptance L job
                (lc_max_file_size_mb (cf_limits (as_config st)))) jobs = Inr ()
          \<and> html_local_origin L jobs og = Inr lo
          \<and> submit L (as_queue st) (SubmitBatch rid bid jobs lo) = (Inr (), as_queue st')
          \<and> st' = st\<lparr>as_queue := as_queue st', as_notified := True\<rparr>
          \<and> co_accepted_job_ids out = map pj_job_id jobs
          \<and> (\<exists>m. co_response out = JobStatusMsg (Some rid) bid JsQueued (Some m)))"
  by (auto simp: handle_print_batch_def respond_def notify_one_def
      job_validation_error_response_def invalid_message_response_def queue_error_response_def
      dest!: accept_batch_err split: sum.splits prod.splits if_splits)

text \<open>Whether a message got jobs into the queue, and which.\<close>

fun submission_jobs :: "submission \<Rightarrow> print_job_input list" where
  "submission_jobs (SubmitJob rid job lo) = [job]"
| "submission_jobs (SubmitBatch rid bid jobs lo) = jobs"

definition accepted_submission ::
  "ext_lib \<Rightarrow> agent_state \<Rightarrow> string option \<Rightarrow> client_text_outcome \<Rightarrow> agent_state \<Rightarrow> submission \<Rightarrow> bool"
  where
  "accepted_submission L st og out st' sub \<longleftrightarrow>
     submit L (as_queue st) sub = (Inr (), as_queue st')
     \<and> st' = st\<lparr>as_queue := as_queue st', as_notified := True\<rparr>
     \<and> list_all (\<lambda>job. is_ok (validate_for_acceptance L job
            (lc_max_file_size_mb (cf_limits (as_config st))))) (submission_jobs sub)
     \<and> html_local_origin L (submission_jobs sub) og =
         Inr (case sub of SubmitJob _ _ lo \<Rightarrow> lo | SubmitBatch _ _ _ lo \<Rightarrow> lo)
     \<and> (\<forall>rid bid jobs lo. sub = SubmitBatch rid bid jobs lo \<longrightarrow>
          length jobs \<le> lc_max_batch_jobs (cf_limits (as_config st)))
     \<and> co_accepted_job_ids out = map queued_id (submission_entries L sub)
     \<and> (\<exists>rid j m. co_response out = JobStatusMsg (Some rid) j JsQueued (Some m))"

lemma handle_client_text_cases:
  assumes "handle_client_text L C B w st txt og = (out, w', st')"
  shows "(co_accepted_job_ids out = [] \<and> st' = st
            \<and> (\<forall>r j s m. co_response out \<noteq> JobStatusMsg r j s m))
         \<or> (\<exists>sub. accepted_submission L st og out st' sub)"
proof (cases "parse_client C txt")
  case (Inl e)
  with assms show ?thesis by (auto simp: handle_client_text_def respond_def)
next
  case m: (Inr message)
  show ?thesis
  proof (cases message)
    case (Print rid job)
    with m assms have "handle_print L st og rid job = (out, st')"
      by (auto simp: handle_client_text_def split: prod.splits)
    from handle_print_cases [OF this] show ?thesis
    proof (elim disjE exE)
      fix lo
      assume "validate_for_acceptance L job (lc_max_file_size_mb (cf_limits (as_config st))) = Inr ()
          \<and> html_local_origin L [job] og = Inr lo
          \<and> submit L (as_queue st) (SubmitJob rid job lo) = (Inr (), as_queue st')
          \<and> st' = st\<lparr>as_queue := as_queue st', as_notified := True\<rparr>
          \<and> co_accepted_job_ids out = [pj_job_id job]
          \<and> co_response out = JobStatusMsg (Some rid) (pj_job_id job) JsQueued (Some ''queued'')"
      then have "accepted_submission L st og out st' (SubmitJob rid job lo)"
        by (simp add: accepted_submission_def)
      then show ?thesis by blast
    qed auto
  next
    case (PrintBatch rid bid jobs)
    with m assms have "handle_print_batch L st og rid bid jobs = (out, st')"
      by (auto simp: handle_client_text_def split: prod.splits)
    from handle_print_batch_cases [OF this] show ?thesis
    proof (elim disjE exE)
      fix lo
      assume "length jobs \<le> lc_max_batch_jobs (cf_limits (as_config st))
          \<and> check_all (\<lambda>job. validate_for_acceptance L job
                (lc_max_file_size_mb (cf_limits (as_config st)))) jobs = Inr ()
          \<and> html_local_origin L jobs og = Inr lo
          \<and> submit L (as_queue st) (SubmitBatch rid bid jobs lo) = (Inr (), as_queue st')
          \<and> st' = st\<lparr>as_queue := as_queue st', as_notified := True\<rparr>
          \<and> co_accepted_job_ids out = map pj_job_id jobs
          \<and> (\<exists>m. co_response out = JobStatusMsg (Some rid) bid JsQueued (Some m))"
      then have "accepted_submission L st og out st' (SubmitBatch rid bid jobs lo)"
        by (auto simp: accepted_submission_def check_all_ok_iff list_all_iff)
      then show ?thesis by blast
    qed auto
  qed (use m assms in \<open>auto simp: handle_client_text_def respond_def handle_get_printers_list_def
      handle_get_printer_info_def handle_get_print_queue_def print_error_response_def Let_def
      split: sum.splits option.splits prod.splits\<close>)
qed

text \<open>
  C12. Every client message either changes nothing and accepts no job, and then its reply is not
  a job status; or it submits one job or one batch: every job of it passed
  \<open>validate_for_acceptance\<close> under the configured size limit, the batch is within the configured
  number of jobs, the queue took it as a whole, the worker is notified, nothing else of the
  state changed, and the identifiers bound to the connection are those of the queued jobs.
\<close>

theorem handle_client_text_accounts:
  "case handle_client_text L C B w st txt og of (out, w', st') \<Rightarrow>
     (co_accepted_job_ids out = [] \<and> st' = st
        \<and> (\<forall>r j s m. co_response out \<noteq> JobStatusMsg r j s m))
     \<or> (\<exists>sub. accepted_submission L st og out st' sub)"
  using handle_client_text_cases by (auto split: prod.split)

section \<open>Loopback pages\<close>

lemma loopback_urls_memI:
  "job \<in> set jobs \<Longrightarrow> pj_format job = Html \<Longrightarrow> pj_file_url job = Some s \<Longrightarrow>
     validate_html_file_url L s = Inr u \<Longrightarrow> is_exact_loopback_url u \<Longrightarrow> u \<in> set (loopback_urls L jobs)"
  by (force simp: loopback_urls_def List.map_filter_def image_iff)

lemma html_local_origin_ok:
  assumes "html_local_origin L jobs og = Inr lo" and "u \<in> set (loopback_urls L jobs)"
  shows "\<exists>o' ou. og = Some o' \<and> x_url_parse L o' = Some ou \<and> is_exact_loopback_url ou
           \<and> origin_eq (url_origin u) (url_origin ou) \<and> lo = Some (url_origin_ascii ou)"
  using assms
  by (auto simp: html_local_origin_def Let_def and_then_eq_Inr_iff opt_filter_eq_Some_iff list_ex_iff
      split: if_splits option.splits)

lemma submission_entry_job:
  "qj \<in> set (submission_entries L sub) \<Longrightarrow>
     qj_job qj \<in> set (submission_jobs sub) \<and>
     qj_html_local_origin qj = html_local_origin_for_job L (qj_job qj)
       (case sub of SubmitJob _ _ lo \<Rightarrow> lo | SubmitBatch _ _ _ lo \<Rightarrow> lo)"
  by (cases sub) (auto simp: batch_entry_def)

lemma accepted_submission_new:
  assumes "accepted_submission L st og out st' sub"
    and "qj \<in> set (q_pending (as_queue st'))" and "qj \<notin> set (q_pending (as_queue st))"
  shows "qj \<in> set (submission_entries L sub)"
  using assms agent_queue.offer_waiting [of L "as_queue st" sub "()" "as_queue st'"]
  by (auto simp: accepted_submission_def)

lemma accepted_html_url:
  assumes "accepted_submission L st og out st' sub" and "job \<in> set (submission_jobs sub)"
    and "pj_format job = Html" and "pj_file_url job = Some s" and "x_url_parse L s = Some u"
  shows "validate_html_file_url L s = Inr u"
proof -
  from assms(1,2) have "is_ok (validate_for_acceptance L job
      (lc_max_file_size_mb (cf_limits (as_config st))))"
    by (simp add: accepted_submission_def list_all_iff)
  with assms(3) have "html_job_ok L job"
    by (simp add: validate_for_acceptance_def is_ok_iff protocol_simps)
  with assms(4,5) show ?thesis by (auto simp: html_job_ok_def protocol_simps)
qed


definition local_url :: "string \<Rightarrow> url" where
  "local_url s =
     \<lparr>url_as_str = s, url_scheme = ''http'', url_host_str = Some ''127.0.0.1'',
      url_port = Some 3000, url_port_or_known_default = Some 3000, url_path = ''/'',
      url_query = None, url_origin = TupleOrigin ''http'' ''127.0.0.1'' 3000,
      url_origin_ascii = ''http://127.0.0.1:3000''\<rparr>"

definition local_lib :: ext_lib where
  "local_lib =
     \<lparr>x_url_parse = (\<lambda>s. if starts_with s ''http://127.0.0.1:3000'' then Some (local_url s) else None),
      x_b64_decode = (\<lambda>_. None), x_b64_encode = (\<lambda>_. []), x_ipnet_parse = cidr_net\<rparr>"

definition local_job :: print_job_input where
  "local_job =
     \<lparr>pj_job_id = ''j1'', pj_format = Html, pj_printer_name = None,
      pj_file_url = Some ''http://127.0.0.1:3000/'', pj_data_base64 = None, pj_html = None,
      pj_wait_ms = None, pj_copies = None, pj_paper = None\<rparr>"

definition local_codec :: ws_codec where
  "local_codec = \<lparr>parse_client = (\<lambda>_. Ok (Print ''r1'' local_job)), print_server = (\<lambda>_. Ok [])\<rparr>"

definition local_state :: agent_state where
  "local_state = with_printing_and_config_path agent_config_default None"

definition local_queued :: queued_job where
  "local_queued =
     \<lparr>qj_request_id = ''r1'', qj_batch_id = None, qj_job = local_job,
      qj_html_local_origin = Some ''http://127.0.0.1:3000''\<rparr>"

lemmas local_defs = local_url_def local_lib_def local_job_def local_codec_def local_state_def
  local_queued_def

lemma local_lib_documented: "url_origin_documented local_lib"
  by (auto simp: url_origin_documented_def local_lib_def local_url_def split: if_splits)

lemma local_handled:
  "as_queue (snd (snd (handle_client_text local_lib local_codec B w local_state txt
      (Some ''http://127.0.0.1:3000'')))) =
     \<lparr>q_pending = [local_queued], q_seen_job_ids = {''j1''}, q_seen_batch_ids = {}\<rparr>"
  by (simp add: handle_client_text_def handle_print_def validate_for_acceptance_def
      validate_html_file_job_def validate_html_file_url_def validate_html_wait_def
      html_local_origin_def loopback_urls_def List.map_filter_def is_exact_loopback_url_def
      submit_defs queue_simps html_source_ok_def html_local_origin_for_job_def notify_one_def
      with_printing_and_config_path_def queue_default_def starts_with_def local_defs)


text \<open>
  C21. An IPv6 loopback page is not recognised as local: the \<open>url\<close> crate writes the host of
  \<open>http://[::1]/\<close> with its brackets, so \<open>is_exact_loopback_url\<close> holds of a parsed URL only for the
  host \<open>127.0.0.1\<close>, although the code compares with \<open>::1\<close> as well.
\<close>

theorem ipv6_loopback_unrecognised:
  assumes "url_host_bracketed L" and "x_url_parse L s = Some u"
  shows "is_exact_loopback_url u \<longleftrightarrow> url_host_str u = Some ''127.0.0.1''"
proof -
  have "url_host_str u \<noteq> Some ''::1''"
  proof
    assume "url_host_str u = Some ''::1''"
    with assms have "starts_with ''::1'' ''[''" unfolding url_host_bracketed_def by fastforce
    then show False by (simp add: starts_with_def)
  qed
  then show ?thesis by (simp add: is_exact_loopback_url_def)
qed

definition v6_lib :: ext_lib where
  "v6_lib = local_lib\<lparr>x_url_parse := (\<lambda>s. if s = ''http://[::1]/''
      then Some ((local_url s)\<lparr>url_host_str := Some ''[::1]''\<rparr>) else None)\<rparr>"

theorem ipv6_loopback_unrecognised_witness:
  "\<not> is_exact_loopback_url ((local_url ''http://[::1]/'')\<lparr>url_host_str := Some ''[::1]''\<rparr>)"
proof -
  have "url_host_bracketed v6_lib"
    by (auto simp: url_host_bracketed_def v6_lib_def starts_with_def ends_with_def split: if_splits)
  then show ?thesis
    by (simp add: ipv6_loopback_unrecognised [of v6_lib "''http://[::1]/''"] v6_lib_def)
qed

lemma show_nat_not_Nil [simp]: "show_nat n \<noteq> []"
  by (subst show_nat.simps) simp

lemma configured_addr_any_interface:
  "configured_addr c = Some \<lparr>sa_ip = V4 0, sa_port = sc_port (cf_service c)\<rparr>"
proof -
  let ?p = "show_nat (unat (sc_port (cf_service c)))"
  have b: "unat (sc_port (cf_service c)) < 65536"
    using unsigned_less [of "sc_port (cf_service c)"] by simp
  have "read_ipv4 (''0.0.0.0:'' @ ?p) = Some ([0, 0, 0, 0], CHR '':'' # ?p)"
    by (simp add: read_ipv4_def parse_ip_eval)
  with b show ?thesis
    by (simp add: configured_addr_def parse_socket_addr_v4_def BIND_HOST_def read_char_def
        parse_digits_show_nat ipv4_of_octets_def)
qed

end
