(* ===== verification/Download.thy ===== *)
theory Download
  imports Config
begin

text \<open>
  \<open>crates/runtime/src/download.rs\<close>: saving the document of a file job to a fresh temporary path,
  from a PDF data URL or over HTTP, under the configured size limit. The HTTP client is the
  parameter \<open>http_client\<close>: for a call it answers an error or the declared length and the chunks
  of the body, one of which may be an error.
\<close>

datatype download_error =
    DlInvalidFileUrl
  | DlFileTooLarge
  | DlIo io_error
  | DlRequest string

fun download_error_msg :: "download_error \<Rightarrow> string" where
  "download_error_msg DlInvalidFileUrl = ''invalid file url''"
| "download_error_msg DlFileTooLarge = ''file too large''"
| "download_error_msg (DlIo e) = io_msg e"
| "download_error_msg (DlRequest e) = e"

record http_response =
  hr_content_length :: "u64 option"
  hr_chunks :: "(string, bytes) result list"

type_synonym http_client = "nat \<Rightarrow> url \<Rightarrow> u64 \<Rightarrow> (string, http_response) result"

definition cleanup_download ::
  "os_env \<Rightarrow> world \<Rightarrow> string \<Rightarrow> download_error \<Rightarrow> (download_error, 'a) result \<times> world" where
  "cleanup_download E w path err = (Err err, snd (fs_remove E w path))"

text \<open>The byte counter saturates at the largest 64-bit value.\<close>

definition sat_u64 :: "nat \<Rightarrow> nat" where
  "sat_u64 n = min n (2 ^ 64 - 1)"

fun download_loop ::
  "os_env \<Rightarrow> string \<Rightarrow> u64 \<Rightarrow> nat \<Rightarrow> (string, bytes) result list \<Rightarrow> world \<Rightarrow>
   (download_error, string) result \<times> world" where
  "download_loop E path max_bytes downloaded [] w =
     (case fs_append E w path [] of
        (Inl e, w') \<Rightarrow> cleanup_download E w' path (DlIo e)
      | (Inr _, w') \<Rightarrow> (Ok path, w'))"
| "download_loop E path max_bytes downloaded (Inl e # chunks) w =
     cleanup_download E w path (DlRequest e)"
| "download_loop E path max_bytes downloaded (Inr chunk # chunks) w =
     (let downloaded = sat_u64 (downloaded + length chunk) in
      if downloaded > unat max_bytes then cleanup_download E w path DlFileTooLarge
      else
        (case fs_append E w path chunk of
           (Inl e, w') \<Rightarrow> cleanup_download E w' path (DlIo e)
         | (Inr _, w') \<Rightarrow> download_loop E path max_bytes downloaded chunks w'))"

definition write_pdf_data_url_to_path ::
  "ext_lib \<Rightarrow> os_env \<Rightarrow> world \<Rightarrow> string \<Rightarrow> limits_config \<Rightarrow> string \<Rightarrow>
   (download_error, string) result \<times> world" where
  "write_pdf_data_url_to_path L E w file_url limits path =
     (case validate_file_url L file_url of
        Inl _ \<Rightarrow> (Err DlInvalidFileUrl, w)
      | Inr _ \<Rightarrow>
     (case split_once (CHR '','') file_url of
        None \<Rightarrow> (Err DlInvalidFileUrl, w)
      | Some (_, encoded) \<Rightarrow>
     (case x_b64_decode L encoded of
        None \<Rightarrow> (Err DlInvalidFileUrl, w)
      | Some bytes \<Rightarrow>
          if length bytes > unat (max_bytes_of (lc_max_file_size_mb limits))
          then (Err DlFileTooLarge, w)
          else
            (case fs_write E w path bytes of
               (Inl e, w') \<Rightarrow> cleanup_download E w' path (DlIo e)
             | (Inr _, w') \<Rightarrow> (Ok path, w')))))"

definition download_to_path ::
  "ext_lib \<Rightarrow> http_client \<Rightarrow> os_env \<Rightarrow> world \<Rightarrow> string \<Rightarrow> limits_config \<Rightarrow> string \<Rightarrow>
   (download_error, string) result \<times> world" where
  "download_to_path L H E w file_url limits path =
     (if is_pdf_data_url file_url then write_pdf_data_url_to_path L E w file_url limits path
      else
     (case validate_file_url L file_url of
        Inl _ \<Rightarrow> (Err DlInvalidFileUrl, w)
      | Inr u \<Rightarrow>
     (case H (w_tick w) u (lc_download_timeout_seconds limits) of
        Inl e \<Rightarrow> (Err (DlRequest e), tick w)
      | Inr response \<Rightarrow>
          (let max_bytes = max_bytes_of (lc_max_file_size_mb limits) in
           if is_some_and (\<lambda>n. n > max_bytes) (hr_content_length response)
           then (Err DlFileTooLarge, tick w)
           else
             (case fs_write E (tick w) path [] of
                (Inl e, w') \<Rightarrow> (Err (DlIo e), w')
              | (Inr _, w') \<Rightarrow> download_loop E path max_bytes 0 (hr_chunks response) w')))))"

definition temp_download_path :: "os_env \<Rightarrow> world \<Rightarrow> string \<times> world" where
  "temp_download_path E w =
     (let (uuid, w') = new_uuid E w in
      (path_join (os_temp_dir E)
         (''yinshu-download-'' @ show_nat (os_millis E (w_tick w)) @ ''-'' @ uuid @ ''.tmp''), w'))"

definition download_to_temp ::
  "ext_lib \<Rightarrow> http_client \<Rightarrow> os_env \<Rightarrow> world \<Rightarrow> string \<Rightarrow> limits_config \<Rightarrow>
   (download_error, string) result \<times> world" where
  "download_to_temp L H E w file_url limits =
     (let (path, w') = temp_download_path E w in download_to_path L H E w' file_url limits path)"

section \<open>What a download leaves behind\<close>

text \<open>The contract of the two ways to fetch: whatever happens only the target file changes; on
  success it holds a body within the limit, and without I/O faults a failure leaves no file.\<close>

definition fetch_ok ::
  "os_env \<Rightarrow> u64 \<Rightarrow> string \<Rightarrow> world \<Rightarrow> (download_error, string) result \<times> world \<Rightarrow> bool" where
  "fetch_ok E max_bytes path w res \<longleftrightarrow>
     (\<forall>q. q = path \<or> w_files (snd res) q = w_files w q) \<and>
     (\<forall>p. fst res = Inr p \<longrightarrow>
        p = path \<and>
        (\<exists>content. w_files (snd res) path = Some content \<and> sat_u64 (length content) \<le> unat max_bytes)) \<and>
     (\<forall>e. fst res = Inl e \<longrightarrow> (\<forall>n. os_fail E n = None) \<longrightarrow>
        w_files (snd res) path = None \<or> w_files (snd res) path = w_files w path)"

lemma sat_u64_add: "sat_u64 (sat_u64 a + b) = sat_u64 (a + b)"
  by (simp add: sat_u64_def)

lemma fst_cleanup [simp]: "fst (cleanup_download E w path e) = Inl e"
  by (simp add: cleanup_download_def)

lemma cleanup_other: "q \<noteq> path \<Longrightarrow> w_files (snd (cleanup_download E w path e)) q = w_files w q"
  by (simp add: cleanup_download_def w_files_fs_remove_other)

lemma cleanup_removes:
  "\<forall>n. os_fail E n = None \<Longrightarrow> w_files (snd (cleanup_download E w path e)) path = None"
  by (simp add: cleanup_download_def fs_remove_def)

lemma fetch_ok_cleanup:
  "(\<And>q. q \<noteq> path \<Longrightarrow> w_files w1 q = w_files w q) \<Longrightarrow>
     fetch_ok E m path w (cleanup_download E w1 path e)"
  using cleanup_other [of _ path E w1 e] cleanup_removes [of E w1 path e]
  unfolding fetch_ok_def by simp blast

lemma fetch_ok_unchanged: "w_files w' = w_files w \<Longrightarrow> fetch_ok E m path w (Inl e, w')"
  by (simp add: fetch_ok_def)

lemma fs_append_ok:
  "fs_append E w p b = (Inr u, w') \<Longrightarrow>
     w_files w' = (w_files w)(p \<mapsto> unwrap_or (w_files w p) [] @ b)"
  by (auto simp: fs_append_def dest: fs_write_ok)

lemma fs_append_other: "fs_append E w p b = (r, w') \<Longrightarrow> q \<noteq> p \<Longrightarrow> w_files w' q = w_files w q"
  using w_files_fs_write_other [of q p E w] by (metis fs_append_def snd_conv)

lemma download_loop_ok:
  assumes "\<And>q. q \<noteq> path \<Longrightarrow> w_files w1 q = w_files w q"
    and "w_files w1 path = Some content" and "sat_u64 (length content) = d" and "d \<le> unat m"
  shows "fetch_ok E m path w (download_loop E path m d chunks w1)"
  using assms
proof (induction E path m d chunks w1 arbitrary: content rule: download_loop.induct)
  case (1 E path m d w1)
  obtain r w2 where a: "fs_append E w1 path [] = (r, w2)" by fastforce
  show ?case
  proof (cases r)
    case (Inl e)
    with a 1 show ?thesis by (auto intro!: fetch_ok_cleanup dest!: fs_append_other)
  next
    case (Inr u)
    with a have "w_files w2 = (w_files w1)(path \<mapsto> content)"
      using 1 by (auto dest!: fs_append_ok)
    with a Inr 1 show ?thesis by (auto simp: fetch_ok_def)
  qed
next
  case (2 E path m d e chunks w1)
  then show ?case by (auto intro!: fetch_ok_cleanup)
next
  case (3 E path m d chunk chunks w1)
  obtain r w2 where a: "fs_append E w1 path chunk = (r, w2)" by fastforce
  let ?d = "sat_u64 (d + length chunk)"
  show ?case
  proof (cases "?d > unat m")
    case True
    with 3 show ?thesis by (auto simp: Let_def intro!: fetch_ok_cleanup)
  next
    case small: False
    show ?thesis
    proof (cases r)
      case (Inl e)
      with a small 3 show ?thesis
        by (auto simp: Let_def intro!: fetch_ok_cleanup dest!: fs_append_other)
    next
      case (Inr u)
      with a have f: "w_files w2 = (w_files w1)(path \<mapsto> content @ chunk)"
        using 3 by (auto dest!: fs_append_ok)
      have d: "sat_u64 (length (content @ chunk)) = ?d"
        using 3 by (auto simp: sat_u64_add)
      have "fetch_ok E m path w (download_loop E path m ?d chunks w2)"
        by (rule "3.IH" [OF refl _ a [symmetric] _ _ _ d])
          (use small Inr f 3 in auto)
      with a small Inr show ?thesis by (simp add: Let_def)
    qed
  qed
qed

lemma fs_write_other: "fs_write E w p b = (r, w') \<Longrightarrow> q \<noteq> p \<Longrightarrow> w_files w' q = w_files w q"
  using w_files_fs_write_other [of q p E w b] by simp

lemma fetch_ok_write:
  assumes "length bytes \<le> unat m"
  shows "fetch_ok E m path w
     (case fs_write E w path bytes of
        (Inl e, w') \<Rightarrow> cleanup_download E w' path (DlIo e)
      | (Inr _, w') \<Rightarrow> (Ok path, w'))"
proof -
  obtain r w' where f: "fs_write E w path bytes = (r, w')" by fastforce
  show ?thesis
  proof (cases r)
    case (Inl e)
    have "fetch_ok E m path w (cleanup_download E w' path (DlIo e))"
      by (rule fetch_ok_cleanup) (rule fs_write_other [OF f])
    with f Inl show ?thesis by simp
  next
    case (Inr u)
    with f have "w_files w' = (w_files w)(path \<mapsto> bytes)" by (auto dest: fs_write_ok)
    with f Inr assms show ?thesis by (auto simp: fetch_ok_def sat_u64_def)
  qed
qed

lemma write_data_url_ok:
  "fetch_ok E (max_bytes_of (lc_max_file_size_mb limits)) path w
     (write_pdf_data_url_to_path L E w u limits path)"
  unfolding write_pdf_data_url_to_path_def
  by (auto simp: fetch_ok_unchanged intro!: fetch_ok_write split: sum.split option.split)

lemma http_download_ok:
  "fetch_ok E m path w
     (case fs_write E (tick w) path [] of
        (Inl e, w') \<Rightarrow> (Err (DlIo e), w')
      | (Inr _, w') \<Rightarrow> download_loop E path m 0 chunks w')"
proof -
  obtain r w' where f: "fs_write E (tick w) path [] = (r, w')" by fastforce
  show ?thesis
  proof (cases r)
    case (Inl e)
    with f have "os_fail E (w_tick (tick w)) \<noteq> None"
      by (auto simp: fs_write_def split: option.splits)
    with f Inl show ?thesis
      using fs_write_other [OF f] by (auto simp: fetch_ok_def)
  next
    case (Inr u)
    with f have w: "w_files w' = (w_files w)(path \<mapsto> [])" by (auto dest: fs_write_ok)
    have "fetch_ok E m path w (download_loop E path m 0 chunks w')"
      by (rule download_loop_ok [where content = "[]"]) (simp_all add: w sat_u64_def)
    with f Inr show ?thesis by simp
  qed
qed

lemma download_to_path_ok:
  "fetch_ok E (max_bytes_of (lc_max_file_size_mb limits)) path w
     (download_to_path L H E w u limits path)"
  unfolding download_to_path_def Let_def
  by (auto simp: write_data_url_ok fetch_ok_unchanged http_download_ok split: sum.split)

lemma download_to_temp_ok:
  "fetch_ok E (max_bytes_of (lc_max_file_size_mb limits)) (fst (temp_download_path E w)) w
     (download_to_temp L H E w u limits)"
proof -
  obtain path w' where t: "temp_download_path E w = (path, w')" by fastforce
  then have "w_files w' = w_files w"
    by (auto simp: temp_download_path_def new_uuid_def)
  with t download_to_path_ok [of E limits path w' L H u] show ?thesis
    by (simp add: download_to_temp_def fetch_ok_def)
qed


end
