(* ===== verification/Rust_F64.thy ===== *)
theory Rust_F64
  imports Rust_Str
begin

text \<open>
  The double-precision arithmetic and formatting the sources use. A finite double is its exact
  rational value, so an operation is the exact operation followed by \<open>round_f64\<close>, rounding to
  the nearest double with ties to the even significand. The sign of a zero is not represented.
\<close>

section \<open>Rounding\<close>

definition round_half_even :: "rat \<Rightarrow> int" where
  "round_half_even x =
     (let f = floor x; d = x - of_int f in
      if d < 1 / 2 then f else if 1 / 2 < d then f + 1 else if even f then f else f + 1)"

fun bit_length :: "nat \<Rightarrow> nat" where
  "bit_length n = (if n = 0 then 0 else Suc (bit_length (n div 2)))"

declare bit_length.simps [simp del]

definition pow2 :: "int \<Rightarrow> rat" where
  "pow2 e = (if 0 \<le> e then 2 ^ nat e else 1 / 2 ^ nat (- e))"

text \<open>The exponent of a positive rational: the power of two just below or at it.\<close>

definition exponent_of :: "rat \<Rightarrow> int" where
  "exponent_of x =
     (case quotient_of x of (n, d) \<Rightarrow>
        let e = int (bit_length (nat n)) - int (bit_length (nat d)) in
        if pow2 e \<le> x then e else e - 1)"

definition round_f64 :: "rat \<Rightarrow> f64" where
  "round_f64 x =
     (if x = 0 then Fin 0
      else
        let ulp = pow2 (max (exponent_of \<bar>x\<bar> - 52) (- 1074));
            r = of_int (round_half_even (\<bar>x\<bar> / ulp)) * ulp
        in if pow2 1024 \<le> r then (if x < 0 then NegInf else PosInf)
           else Fin (if x < 0 then - r else r))"

section \<open>Operations\<close>

fun f64_neg :: "f64 \<Rightarrow> f64" where
  "f64_neg NaN = NaN"
| "f64_neg PosInf = NegInf"
| "f64_neg NegInf = PosInf"
| "f64_neg (Fin a) = Fin (- a)"

fun f64_add :: "f64 \<Rightarrow> f64 \<Rightarrow> f64" where
  "f64_add NaN _ = NaN"
| "f64_add _ NaN = NaN"
| "f64_add (Fin a) (Fin b) = round_f64 (a + b)"
| "f64_add PosInf NegInf = NaN"
| "f64_add NegInf PosInf = NaN"
| "f64_add PosInf _ = PosInf"
| "f64_add _ PosInf = PosInf"
| "f64_add NegInf _ = NegInf"
| "f64_add _ NegInf = NegInf"

definition f64_sub :: "f64 \<Rightarrow> f64 \<Rightarrow> f64" where
  "f64_sub a b = f64_add a (f64_neg b)"

fun f64_abs :: "f64 \<Rightarrow> f64" where
  "f64_abs NaN = NaN"
| "f64_abs PosInf = PosInf"
| "f64_abs NegInf = PosInf"
| "f64_abs (Fin a) = Fin \<bar>a\<bar>"

text \<open>\<open>f64::fract\<close>, exact on finite values and NaN on the infinities.\<close>

fun f64_fract :: "f64 \<Rightarrow> f64" where
  "f64_fract (Fin a) = Fin (a - (if a < 0 then - of_int (floor (- a)) else of_int (floor a)))"
| "f64_fract _ = NaN"

definition f64_EPSILON :: f64 where
  "f64_EPSILON = Fin (1 / 2 ^ 52)"

text \<open>\<open>f64::round\<close> (halves away from zero) followed by the saturating cast to \<open>i32\<close>.\<close>

fun f64_round_i32 :: "f64 \<Rightarrow> int" where
  "f64_round_i32 NaN = 0"
| "f64_round_i32 PosInf = 2 ^ 31 - 1"
| "f64_round_i32 NegInf = - (2 ^ 31)"
| "f64_round_i32 (Fin a) =
     max (- (2 ^ 31)) (min (2 ^ 31 - 1)
       (if a < 0 then - floor (- a + 1 / 2) else floor (a + 1 / 2)))"

section \<open>Formatting\<close>

definition pad_left :: "nat \<Rightarrow> string \<Rightarrow> string" where
  "pad_left n s = replicate (n - length s) (CHR ''0'') @ s"

text \<open>The format \<open>{:.p}\<close>: the decimal with p digits nearest to the exact value, ties to even.\<close>

definition show_fixed :: "nat \<Rightarrow> rat \<Rightarrow> string" where
  "show_fixed p x =
     (let n = nat (round_half_even (x * 10 ^ p)); i = n div 10 ^ p; f = n mod 10 ^ p in
      if p = 0 then show_nat i else show_nat i @ ''.'' @ pad_left p (show_nat f))"

fun format_fixed :: "nat \<Rightarrow> f64 \<Rightarrow> string" where
  "format_fixed p NaN = ''NaN''"
| "format_fixed p PosInf = ''inf''"
| "format_fixed p NegInf = ''-inf''"
| "format_fixed p (Fin a) = (if a < 0 then ''-'' @ show_fixed p (- a) else show_fixed p a)"

definition trim_end_matches :: "char \<Rightarrow> string \<Rightarrow> string" where
  "trim_end_matches c s = rev (dropWhile (\<lambda>x. x = c) (rev s))"

lemma round_half_even_int [simp]: "round_half_even (of_int n) = n"
  by (simp add: round_half_even_def)

lemma round_half_even_near: "\<bar>of_int (round_half_even x) - x\<bar> \<le> 1 / 2"
proof -
  have "of_int \<lfloor>x\<rfloor> \<le> x" "x < of_int \<lfloor>x\<rfloor> + 1" by linarith+
  then show ?thesis by (auto simp: round_half_even_def Let_def abs_le_iff)
qed

lemma show_fixed_nat: "show_fixed 0 (of_nat n) = show_nat n"
proof -
  have "round_half_even (of_nat n) = int n"
    by (metis of_int_of_nat_eq round_half_even_int)
  then show ?thesis by (simp add: show_fixed_def)
qed

end
