(* ===== verification/Rust_Text.thy ===== *)
theory Rust_Text
  imports Rust_F64
begin

text \<open>
  The functions of Rust's \<open>str\<close> that take text apart into lines, words and numbers, used by the
  readers of command output and by the command line client, and the decimal reader and the
  remaining arithmetic of \<open>f64\<close>.
\<close>

lemma as_bytes_string_of_bytes [simp]: "as_bytes (string_of_bytes b) = b"
proof -
  have "(of_char (char_of (unat x) :: char) :: u8) = x" for x :: u8
  proof -
    have "unat x < 256" using unsigned_less [of x, where ?'a = nat] by simp
    then have "(of_char (char_of (unat x) :: char) :: nat) = unat x" by simp
    then have "(word_of_nat (of_char (char_of (unat x) :: char)) :: u8) = x" by simp
    then show ?thesis by (simp only: of_nat_of_char)
  qed
  then show ?thesis by (induction b) (simp_all add: as_bytes_def string_of_bytes_def)
qed

section \<open>Lines and words\<close>

definition newline :: char where
  "newline = CHR 0x0A"

text \<open>\<open>str::lines\<close>: a line ends with a newline, with a carriage return before it belonging to the
  ending; an empty last piece is no line.\<close>

definition strip_cr :: "string \<Rightarrow> string" where
  "strip_cr l = (if l \<noteq> [] \<and> last l = CHR 0x0D then butlast l else l)"

definition str_lines :: "string \<Rightarrow> string list" where
  "str_lines s =
     (let ps = split_on (\<lambda>c. c = newline) s in
      map strip_cr (butlast ps) @ (if last ps = [] then [] else [last ps]))"

text \<open>\<open>str::split_whitespace\<close>: the non-empty pieces between white space characters.\<close>

function ws_pieces :: "string \<Rightarrow> string \<Rightarrow> string list" where
  "ws_pieces acc s =
     (if s = [] then [rev acc]
      else if ws_len s = 0 then ws_pieces (hd s # acc) (tl s)
      else rev acc # ws_pieces [] (drop (ws_len s) s))"
  by pat_completeness auto
termination
  by (relation "measure (\<lambda>(acc, s). length s)") auto

declare ws_pieces.simps [simp del]

definition split_whitespace :: "string \<Rightarrow> string list" where
  "split_whitespace s = filter (\<lambda>p. p \<noteq> []) (ws_pieces [] s)"

section \<open>String patterns\<close>

lemma split_on_none: "\<forall>c \<in> set s. \<not> P c \<Longrightarrow> split_on P s = [s]"
  by (induction s) auto

lemma split_once_str_shorter:
  "split_once_str p s = Some (a, b) \<Longrightarrow> p \<noteq> [] \<Longrightarrow> length b < length s"
proof (induction p s arbitrary: a rule: split_once_str.induct)
  case (2 p c s)
  then have "0 < length p" by simp
  with 2 show ?case by (fastforce split: if_splits)
qed (simp split: if_splits)

text \<open>\<open>str::split\<close> with a string pattern; the callers pass a non-empty one.\<close>

function split_str :: "string \<Rightarrow> string \<Rightarrow> string list" where
  "split_str p s =
     (case (if p = [] then None else split_once_str p s) of
        None \<Rightarrow> [s]
      | Some (a, b) \<Rightarrow> a # split_str p b)"
  by pat_completeness auto
termination
  by (relation "measure (\<lambda>(p, s). length s)") (auto split: if_splits dest: split_once_str_shorter)

declare split_str.simps [simp del]

definition find_str :: "string \<Rightarrow> string \<Rightarrow> nat option" where
  "find_str p s = map_option (\<lambda>(a, b). length a) (split_once_str p s)"

fun join_with :: "string \<Rightarrow> string list \<Rightarrow> string" where
  "join_with sep [] = []"
| "join_with sep [x] = x"
| "join_with sep (x # y # ys) = x @ sep @ join_with sep (y # ys)"

definition replace_str :: "string \<Rightarrow> string \<Rightarrow> string \<Rightarrow> string" where
  "replace_str p q s = join_with q (split_str p s)"

definition replace_char :: "char \<Rightarrow> char \<Rightarrow> string \<Rightarrow> string" where
  "replace_char a b s = map (\<lambda>c. if c = a then b else c) s"

definition rsplit_once_str :: "string \<Rightarrow> string \<Rightarrow> (string \<times> string) option" where
  "rsplit_once_str p s = map_option (\<lambda>(a, b). (rev b, rev a)) (split_once_str (rev p) (rev s))"

definition trim_start_matches :: "char \<Rightarrow> string \<Rightarrow> string" where
  "trim_start_matches c s = dropWhile (\<lambda>x. x = c) s"

definition ascii_alphanumeric :: "char \<Rightarrow> bool" where
  "ascii_alphanumeric c \<longleftrightarrow>
     ascii_digit c \<or> (65 \<le> byte c \<and> byte c \<le> 90) \<or> (97 \<le> byte c \<and> byte c \<le> 122)"

text \<open>Two lower-case hexadecimal digits per byte.\<close>

definition hex_digit :: "nat \<Rightarrow> char" where
  "hex_digit d = (if d < 10 then char_of (48 + d) else char_of (87 + d))"

definition hex_bytes :: "bytes \<Rightarrow> string" where
  "hex_bytes bs = concat (map (\<lambda>b. [hex_digit (unat b div 16), hex_digit (unat b mod 16)]) bs)"

section \<open>Numbers\<close>

definition digits_value :: "string \<Rightarrow> nat" where
  "digits_value s = foldl (\<lambda>a c. a * 10 + (byte c - 48)) 0 s"

text \<open>\<open>str::parse\<close> for \<open>f64\<close> on a text of digits and dots, which is all that its callers pass: at most
  one dot and at least one digit, the exact decimal rounded to a double.\<close>

definition parse_f64_decimal :: "string \<Rightarrow> f64 option" where
  "parse_f64_decimal s =
     (case split_once (CHR ''.'') s of
        None \<Rightarrow>
          if s \<noteq> [] \<and> list_all ascii_digit s then Some (round_f64 (of_nat (digits_value s))) else None
      | Some (a, b) \<Rightarrow>
          if a @ b \<noteq> [] \<and> list_all ascii_digit (a @ b)
          then Some (round_f64 (of_nat (digits_value (a @ b)) / 10 ^ length b)) else None)"

text \<open>Multiplication and division by a positive constant.\<close>

fun f64_mul_pos :: "f64 \<Rightarrow> rat \<Rightarrow> f64" where
  "f64_mul_pos (Fin a) k = round_f64 (a * k)"
| "f64_mul_pos x k = x"

fun f64_div_pos :: "f64 \<Rightarrow> rat \<Rightarrow> f64" where
  "f64_div_pos (Fin a) k = round_f64 (a / k)"
| "f64_div_pos x k = x"

text \<open>\<open>f64::round\<close>: halves away from zero.\<close>

fun f64_round :: "f64 \<Rightarrow> f64" where
  "f64_round (Fin a) = Fin (if a < 0 then - of_int (floor (- a + 1 / 2)) else of_int (floor (a + 1 / 2)))"
| "f64_round x = x"

definition f64_le :: "f64 \<Rightarrow> f64 \<Rightarrow> bool" where
  "f64_le a b \<longleftrightarrow> f64_less a b \<or> (a = b \<and> a \<noteq> NaN)"

section \<open>Facts\<close>

lemma digits_value_append:
  "digits_value (s @ [c]) = digits_value s * 10 + (byte c - 48)"
  by (simp add: digits_value_def)

lemma byte_char_of_digit: "d < 10 \<Longrightarrow> byte (char_of (48 + d) :: char) = 48 + d"
  by simp

lemma show_nat_digits: "list_all ascii_digit (show_nat n) \<and> digits_value (show_nat n) = n"
proof (induction n rule: show_nat.induct)
  case (1 n)
  show ?case
  proof (cases "n < 10")
    case True
    then show ?thesis
      by (simp add: show_nat.simps [of n] ascii_digit_def digits_value_def)
  next
    case False
    have "ascii_digit (char_of (48 + n mod 10))" by (simp add: ascii_digit_def)
    with 1 False show ?thesis
      by (simp add: show_nat.simps [of n] digits_value_append)
  qed
qed

lemma show_nat_nonempty: "show_nat n \<noteq> []"
  by (simp add: show_nat.simps [of n])

text \<open>Whole numbers below \<open>2 ^ 53\<close> are doubles, so rounding leaves them as they are.\<close>

lemma bit_length_bounds: "0 < n \<Longrightarrow> 2 ^ (bit_length n - 1) \<le> n \<and> n < 2 ^ bit_length n"
proof (induction n rule: bit_length.induct)
  case (1 n)
  show ?case
  proof (cases "n div 2 = 0")
    case True
    with 1 have "n = 1" by auto
    then show ?thesis by (simp add: bit_length.simps)
  next
    case False
    with 1 have ih: "2 ^ (bit_length (n div 2) - 1) \<le> n div 2" "n div 2 < 2 ^ bit_length (n div 2)"
      by auto
    obtain k where k: "bit_length (n div 2) = Suc k"
      using False by (subst (asm) bit_length.simps) (auto simp: bit_length.simps)
    have b: "bit_length n = Suc (Suc k)" using 1 k by (simp add: bit_length.simps [of n])
    have "2 * 2 ^ k \<le> n" using ih(1) k by simp
    moreover have "n < 2 * 2 ^ Suc k" using ih(2) k by simp
    ultimately show ?thesis using b by simp
  qed
qed

lemma round_f64_nat:
  assumes "n < 2 ^ 53"
  shows "round_f64 (of_nat n) = Fin (of_nat n)"
proof (cases "n = 0")
  case True
  then show ?thesis by (simp add: round_f64_def)
next
  case False
  define k where "k = bit_length n"
  have b: "2 ^ (k - 1) \<le> n" "n < 2 ^ k" using bit_length_bounds [of n] False by (simp_all add: k_def)
  have k0: "0 < k" using b False by (cases k) auto
  have k53: "k \<le> 53"
  proof (rule ccontr)
    assume "\<not> k \<le> 53"
    then have "(2::nat) ^ 53 \<le> 2 ^ (k - 1)" by (intro power_increasing) auto
    with b(1) assms show False by linarith
  qed
  have e1: "bit_length (nat 1) = 1" by (simp add: bit_length.simps)
  have p: "pow2 (int k - 1) \<le> of_nat n"
  proof -
    have "pow2 (int k - 1) = of_nat (2 ^ (k - 1))" using k0 by (simp add: pow2_def nat_diff_distrib)
    with b(1) show ?thesis by (metis of_nat_le_iff)
  qed
  have "quotient_of (of_nat n :: rat) = (int n, 1)" using quotient_of_int [of "int n"] by (simp add: of_int_rat [symmetric])
  then have ex: "exponent_of (of_nat n) = int k - 1"
    using p e1 by (simp add: exponent_of_def k_def Let_def)
  define m where "m = 53 - k"
  have ulp: "pow2 (max (exponent_of (of_nat n) - 52) (- 1074)) = 1 / 2 ^ m"
  proof -
    have "max (int k - 1 - 52) (- 1074) = - int m" using k53 k0 by (simp add: m_def)
    then show ?thesis using ex by (simp add: pow2_def)
  qed
  have r: "round_half_even (\<bar>of_nat n\<bar> / (1 / 2 ^ m)) = int (n * 2 ^ m)"
  proof -
    have "\<bar>of_nat n\<bar> / (1 / 2 ^ m) = (of_int (int (n * 2 ^ m)) :: rat)" by simp
    then show ?thesis by (simp only: round_half_even_int)
  qed
  have "(of_int (round_half_even (\<bar>of_nat n\<bar> / (1 / 2 ^ m))) * (1 / 2 ^ m) :: rat) = of_nat n"
    by (simp only: r) simp
  moreover have "\<not> pow2 1024 \<le> of_nat n"
  proof -
    have "(of_nat n :: rat) < 2 ^ 53" using assms by (metis of_nat_less_numeral_power_cancel_iff)
    also have "\<dots> \<le> 2 ^ 1024" by (intro power_increasing) simp_all
    finally show ?thesis by (simp add: pow2_def)
  qed
  ultimately show ?thesis using False by (simp add: round_f64_def ulp Let_def)
qed

lemma utf8_lossy_ascii: "list_all (\<lambda>c. byte c \<le> 127) s \<Longrightarrow> utf8_lossy s = s"
proof (induction s)
  case Nil
  then show ?case by (simp add: utf8_lossy.simps)
next
  case (Cons c s)
  then show ?case by (subst utf8_lossy.simps) simp
qed

lemma from_utf8_lossy_ascii: "list_all (\<lambda>c. byte c \<le> 127) s \<Longrightarrow> from_utf8_lossy (as_bytes s) = s"
  by (simp add: from_utf8_lossy_def utf8_lossy_ascii)

end
