(* ===== verification/Rust_Float.thy ===== *)
theory Rust_Float
  imports Rust_Text
begin

text \<open>
  The rest of the floating-point arithmetic that laying out a page needs: multiplication, division,
  minimum, maximum and \<open>clamp\<close> of \<open>f64\<close>, the cast to \<open>usize\<close>, and single precision. An \<open>f32\<close> is a value of the
  type of doubles that came out of \<open>round_f32\<close>. The sign of a zero is not represented, so dividing by
  zero is dividing by the positive zero.
\<close>

section \<open>Double precision\<close>

definition f64_negative :: "f64 \<Rightarrow> bool" where
  "f64_negative x \<longleftrightarrow> (case x of NegInf \<Rightarrow> True | Fin a \<Rightarrow> a < 0 | _ \<Rightarrow> False)"

definition signed_inf :: "bool \<Rightarrow> f64" where
  "signed_inf neg = (if neg then NegInf else PosInf)"

definition f64_mul :: "f64 \<Rightarrow> f64 \<Rightarrow> f64" where
  "f64_mul x y =
     (case (x, y) of
        (Fin a, Fin b) \<Rightarrow> round_f64 (a * b)
      | _ \<Rightarrow>
          if x = NaN \<or> y = NaN \<or> x = Fin 0 \<or> y = Fin 0 then NaN
          else signed_inf (f64_negative x \<noteq> f64_negative y))"

definition f64_div :: "f64 \<Rightarrow> f64 \<Rightarrow> f64" where
  "f64_div x y =
     (case (x, y) of
        (Fin a, Fin b) \<Rightarrow> if b = 0 then (if a = 0 then NaN else signed_inf (a < 0)) else round_f64 (a / b)
      | (Fin a, _) \<Rightarrow> if y = NaN then NaN else Fin 0
      | (_, Fin b) \<Rightarrow> if x = NaN then NaN else signed_inf (f64_negative x \<noteq> (b < 0))
      | _ \<Rightarrow> NaN)"

text \<open>The minimum and the maximum ignore a NaN.\<close>

definition f64_min :: "f64 \<Rightarrow> f64 \<Rightarrow> f64" where
  "f64_min x y = (if x = NaN then y else if y = NaN then x else if f64_less y x then y else x)"

definition f64_max :: "f64 \<Rightarrow> f64 \<Rightarrow> f64" where
  "f64_max x y = (if x = NaN then y else if y = NaN then x else if f64_less x y then y else x)"

definition f64_clamp :: "f64 \<Rightarrow> f64 \<Rightarrow> f64 \<Rightarrow> f64" where
  "f64_clamp x lo hi = (if f64_less x lo then lo else if f64_less hi x then hi else x)"

text \<open>\<open>floor\<close> followed by the saturating cast to \<open>usize\<close>.\<close>

fun f64_floor_usize :: "f64 \<Rightarrow> nat" where
  "f64_floor_usize (Fin a) = min (2 ^ 64 - 1) (nat (floor a))"
| "f64_floor_usize PosInf = 2 ^ 64 - 1"
| "f64_floor_usize _ = 0"

section \<open>Single precision\<close>

type_synonym f32 = f64

definition round_f32 :: "rat \<Rightarrow> f32" where
  "round_f32 x =
     (if x = 0 then Fin 0
      else
        let ulp = pow2 (max (exponent_of \<bar>x\<bar> - 23) (- 149));
            r = of_int (round_half_even (\<bar>x\<bar> / ulp)) * ulp
        in if pow2 128 \<le> r then (if x < 0 then NegInf else PosInf)
           else Fin (if x < 0 then - r else r))"

text \<open>The cast \<open>as f32\<close>.\<close>

fun as_f32 :: "f64 \<Rightarrow> f32" where
  "as_f32 (Fin a) = round_f32 a"
| "as_f32 x = x"

text \<open>The operations that are applied to finite values only.\<close>

fun f32_add :: "f32 \<Rightarrow> f32 \<Rightarrow> f32" where
  "f32_add (Fin a) (Fin b) = round_f32 (a + b)"
| "f32_add _ _ = NaN"

fun f32_sub :: "f32 \<Rightarrow> f32 \<Rightarrow> f32" where
  "f32_sub (Fin a) (Fin b) = round_f32 (a - b)"
| "f32_sub _ _ = NaN"

fun f32_mul :: "f32 \<Rightarrow> f32 \<Rightarrow> f32" where
  "f32_mul (Fin a) (Fin b) = round_f32 (a * b)"
| "f32_mul _ _ = NaN"

fun f32_div :: "f32 \<Rightarrow> f32 \<Rightarrow> f32" where
  "f32_div (Fin a) (Fin b) = (if b = 0 then NaN else round_f32 (a / b))"
| "f32_div _ _ = NaN"

text \<open>\<open>f32::round\<close>, halves away from zero, and the saturating cast to \<open>u8\<close>.\<close>

fun f32_round_u8 :: "f32 \<Rightarrow> u8" where
  "f32_round_u8 (Fin a) = (if a < 0 then 0 else word_of_nat (min 255 (nat (floor (a + 1 / 2)))))"
| "f32_round_u8 PosInf = 255"
| "f32_round_u8 _ = 0"

section \<open>Rounding errors\<close>

lemma pow2_powi: "pow2 e = 2 powi e"
  by (simp add: pow2_def power_int_def inverse_eq_divide power_one_over)

lemma pow2_pos [simp]: "0 < pow2 e"
  by (simp add: pow2_powi)

lemma pow2_diff: "pow2 (a - b) = pow2 a / pow2 b"
  by (simp add: pow2_powi power_int_diff)

text \<open>The exponent of a number is that of the power of two at or below it.\<close>

lemma exponent_of_bounds:
  assumes "0 < x"
  shows "pow2 (exponent_of x) \<le> x" and "x < pow2 (exponent_of x + 1)"
proof -
  obtain n d where q: "quotient_of x = (n, d)" by (rule prod.exhaust)
  have d: "0 < d" using quotient_of_denom_pos [OF q] .
  have x: "x = of_int n / of_int d" using quotient_of_div [OF q] .
  with assms d have n: "0 < n" by (simp add: zero_less_divide_iff)
  define a b where "a = bit_length (nat n)" and "b = bit_length (nat d)"
  have up: "(of_int n :: rat) < pow2 (int a)" "(of_int d :: rat) < pow2 (int b)"
    and lo: "pow2 (int a - 1) \<le> (of_int n :: rat)" "pow2 (int b - 1) \<le> (of_int d :: rat)"
  proof -
    have *: "(of_int m :: rat) < pow2 (int (bit_length (nat m))) \<and> pow2 (int (bit_length (nat m)) - 1) \<le> (of_int m :: rat)"
      if m: "0 < m" for m
    proof -
      let ?k = "bit_length (nat m)"
      from bit_length_bounds [of "nat m"] m have b: "2 ^ (?k - 1) \<le> nat m" "nat m < 2 ^ ?k" by auto
      have k: "0 < ?k" using b m by (cases ?k) auto
      have m': "(of_int m :: rat) = of_nat (nat m)" using m by simp
      have "(of_nat (nat m) :: rat) < of_nat (2 ^ ?k)" using b(2) by (simp only: of_nat_less_iff)
      moreover have "of_nat (2 ^ (?k - 1)) \<le> (of_nat (nat m) :: rat)" using b(1) by (simp only: of_nat_le_iff)
      moreover have "pow2 (int ?k - 1) = of_nat (2 ^ (?k - 1))" using k by (simp add: pow2_def nat_diff_distrib)
      ultimately show ?thesis unfolding m' by (simp add: pow2_def)
    qed
    show "(of_int n :: rat) < pow2 (int a)" "(of_int d :: rat) < pow2 (int b)"
      "pow2 (int a - 1) \<le> (of_int n :: rat)" "pow2 (int b - 1) \<le> (of_int d :: rat)"
      using *[OF n] *[OF d] by (simp_all add: a_def b_def)
  qed
  have d0: "(0::rat) < of_int d" using d by simp
  have hi: "x < pow2 (int a - int b + 1)"
  proof -
    have "x < pow2 (int a) / of_int d" using up(1) d0 by (simp add: x divide_strict_right_mono)
    also have "\<dots> \<le> pow2 (int a) / pow2 (int b - 1)" using lo(2) d by (intro divide_left_mono mult_pos_pos) (simp_all add: less_imp_le)
    also have "\<dots> = pow2 (int a - int b + 1)" using pow2_diff [of "int a" "int b - 1"] by (simp add: algebra_simps)
    finally show ?thesis .
  qed
  have low: "pow2 (int a - int b - 1) \<le> x"
  proof -
    have "pow2 (int a - int b - 1) = pow2 (int a - 1) / pow2 (int b)" using pow2_diff [of "int a - 1" "int b"] by (simp add: algebra_simps)
    also have "\<dots> \<le> of_int n / pow2 (int b)" using lo(1) by (intro divide_right_mono) (simp_all add: less_imp_le)
    also have "\<dots> \<le> of_int n / of_int d" using up(2) n d by (intro divide_left_mono mult_pos_pos) simp_all
    finally show ?thesis by (simp add: x)
  qed
  show "pow2 (exponent_of x) \<le> x" "x < pow2 (exponent_of x + 1)"
    using hi low by (auto simp: exponent_of_def q Let_def a_def b_def split: if_splits)
qed

lemma pow2_mono: "a \<le> b \<Longrightarrow> pow2 a \<le> pow2 b"
  by (simp add: pow2_powi power_int_increasing)

lemma round_to_ulp:
  assumes "0 < (u::rat)"
  shows "\<bar>of_int (round_half_even (x / u)) * u - x\<bar> \<le> u / 2"
proof -
  have "\<bar>of_int (round_half_even (x / u)) - x / u\<bar> * u \<le> 1 / 2 * u"
    using round_half_even_near [of "x / u"] assms by (intro mult_right_mono) simp_all
  moreover have "\<bar>of_int (round_half_even (x / u)) - x / u\<bar> * u = \<bar>(of_int (round_half_even (x / u)) - x / u) * u\<bar>"
    using assms by (simp add: abs_mult)
  moreover have "(of_int (round_half_even (x / u)) - x / u) * u = of_int (round_half_even (x / u)) * u - x"
    using assms by (simp add: left_diff_distrib)
  ultimately show ?thesis by simp
qed

text \<open>A number of moderate size is rounded with a relative error of at most \<open>2 ^ - 53\<close>.\<close>

lemma round_f64_near:
  assumes "1 / 2 ^ 60 \<le> x" and "x \<le> 2 ^ 60"
  shows "\<exists>y. round_f64 x = Fin y \<and> \<bar>y - x\<bar> \<le> x / 2 ^ 53"
proof -
  let ?e = "exponent_of x"
  have "(0::rat) < 1 / 2 ^ 60" by simp
  with assms have x0: "0 < x" by linarith
  note b = exponent_of_bounds [OF x0]
  have e: "- 61 \<le> ?e"
  proof (rule ccontr)
    assume "\<not> - 61 \<le> ?e"
    then have "pow2 (?e + 1) \<le> pow2 (- 60)" by (intro pow2_mono) simp
    with b(2) assms(1) show False by (simp add: pow2_def)
  qed
  define u where "u = pow2 (max (?e - 52) (- 1074))"
  have u: "u = pow2 ?e / 2 ^ 52" using e pow2_diff [of ?e 52] by (simp add: u_def max_def pow2_def [of 52])
  then have u0: "0 < u" "u \<le> x / 2 ^ 52"
    using b(1) by (simp_all only: pow2_pos zero_less_divide_iff) (simp_all add: divide_right_mono)
  define r where "r = of_int (round_half_even (x / u)) * u"
  have r: "\<bar>r - x\<bar> \<le> x / 2 ^ 53" using round_to_ulp [OF u0(1), of x] u0(2) by (simp add: r_def)
  have "x / 2 ^ 53 \<le> x" using x0 by (simp add: field_simps)
  with r have "r \<le> 2 * x" by linarith
  also have "\<dots> \<le> 2 ^ 61" using assms(2) by simp
  also have "\<dots> < 2 ^ 1024" by (intro power_strict_increasing) simp_all
  finally have "\<not> pow2 1024 \<le> r" by (simp add: pow2_def)
  then have "round_f64 x = Fin r"
    using x0 by (simp add: round_f64_def Let_def u_def [symmetric] r_def)
  with r show ?thesis by blast
qed

lemma round_f32_nat:
  assumes "n < 2 ^ 24"
  shows "round_f32 (of_nat n) = Fin (of_nat n)"
proof (cases "n = 0")
  case False
  let ?x = "of_nat n :: rat"
  let ?e = "exponent_of ?x"
  have x: "1 \<le> ?x" "?x < 2 ^ 24" using False assms by (simp_all flip: of_nat_power add: of_nat_less_numeral_power_cancel_iff)
  have b: "pow2 ?e \<le> ?x" "?x < pow2 (?e + 1)" using exponent_of_bounds [of ?x] x(1) by simp_all
  have lo: "0 \<le> ?e"
  proof (rule ccontr)
    assume "\<not> 0 \<le> ?e"
    then have "pow2 (?e + 1) \<le> pow2 0" by (intro pow2_mono) simp
    with b(2) x(1) show False by (simp add: pow2_def)
  qed
  have hi: "?e \<le> 23"
  proof (rule ccontr)
    assume "\<not> ?e \<le> 23"
    then have "pow2 24 \<le> pow2 ?e" by (intro pow2_mono) simp
    with b(1) x(2) show False by (simp add: pow2_def)
  qed
  define k where "k = nat (23 - ?e)"
  have "max (?e - 23) (- 149) = - int k" using lo hi by (simp add: k_def)
  then have u: "pow2 (max (?e - 23) (- 149)) = 1 / 2 ^ k" by (simp add: pow2_def)
  have "?x / (1 / 2 ^ k) = of_int (int (n * 2 ^ k))" by simp
  then have "of_int (round_half_even (?x / (1 / 2 ^ k))) * (1 / 2 ^ k) = ?x" by (simp only: round_half_even_int) simp
  moreover have "\<not> pow2 128 \<le> ?x" using x(2) by (simp add: pow2_def)
  ultimately show ?thesis using False by (simp add: round_f32_def Let_def u)
qed (simp add: round_f32_def)

lemma round_f64_not_nan: "round_f64 x \<noteq> NaN"
  by (simp add: round_f64_def Let_def)

text \<open>Adding numbers between 1 and 1000 does not go below either of them.\<close>

lemma f64_add_grows:
  assumes "0 \<le> a" "a \<le> 1000" "1 \<le> b" "b \<le> 1000"
  shows "\<exists>c. f64_add (Fin a) (Fin b) = Fin c \<and> a \<le> c"
proof -
  have r: "1 / 2 ^ 60 \<le> a + b" "a + b \<le> 2 ^ 60" using assms by simp_all
  from round_f64_near [OF r] obtain c where c: "round_f64 (a + b) = Fin c" "\<bar>c - (a + b)\<bar> \<le> (a + b) / 2 ^ 53" by blast
  have "(a + b) / 2 ^ 53 \<le> 1" using assms by simp
  with c(2) assms have "a \<le> c" by linarith
  with c(1) show ?thesis by simp
qed

lemma f64_clamp_range:
  assumes "x \<noteq> NaN" and "l \<le> h"
  shows "\<exists>c. f64_clamp x (Fin l) (Fin h) = Fin c \<and> l \<le> c \<and> c \<le> h"
  using assms by (cases x) (auto simp: f64_clamp_def)

lemma f64_max_ge: "\<not> f64_less (f64_max x (Fin b)) (Fin b)"
  by (cases x) (auto simp: f64_max_def)

end
