(* ===== verification/Document.thy ===== *)
theory Document
  imports Protocol Fs Rust_Float
begin

text \<open>
  \<open>crates/runtime/src/document.rs\<close>: detection of the document format by signature, the conversion
  of an image to a one-page PDF with its checks, its placement and the blending of its pixels with
  white, and the wrapping of the lines of the test page. Decoding an image and writing a page as
  PDF are the image and PDF crates, the parameters \<open>image_lib\<close> and \<open>pdf_lib\<close>.
\<close>

definition HEADER_SIZE :: nat where "HEADER_SIZE = 8"

datatype document_format = DfPdf | DfPng | DfJpeg

datatype document_error =
    DeUnsupportedFormat
  | DeInvalidImageDimensions
  | DeIo io_error
  | DeImage string

fun document_error_msg :: "document_error \<Rightarrow> string" where
  "document_error_msg DeUnsupportedFormat = ''unsupported document format''"
| "document_error_msg DeInvalidImageDimensions = ''invalid image dimensions''"
| "document_error_msg (DeIo e) = io_msg e"
| "document_error_msg (DeImage e) = e"

definition bytes_start_with :: "bytes \<Rightarrow> bytes \<Rightarrow> bool" where
  "bytes_start_with b p \<longleftrightarrow> take (length p) b = p"

definition PDF_MAGIC :: bytes where "PDF_MAGIC = [0x25, 0x50, 0x44, 0x46, 0x2D]"
definition PNG_MAGIC :: bytes where
  "PNG_MAGIC = [0x89, 0x50, 0x4E, 0x47, 0x0D, 0x0A, 0x1A, 0x0A]"
definition JPEG_MAGIC :: bytes where "JPEG_MAGIC = [0xFF, 0xD8, 0xFF]"

definition detect_format_from_bytes :: "bytes \<Rightarrow> document_format option" where
  "detect_format_from_bytes bytes =
     (if bytes_start_with bytes PDF_MAGIC then Some DfPdf
      else if bytes_start_with bytes PNG_MAGIC then Some DfPng
      else if bytes_start_with bytes JPEG_MAGIC then Some DfJpeg
      else None)"

text \<open>Reading a file into a buffer of eight bytes gives at most its first eight.\<close>

definition detect_format ::
  "os_env \<Rightarrow> world \<Rightarrow> string \<Rightarrow> (document_error, document_format option) result \<times> world" where
  "detect_format E w path =
     (case fs_read E w path of
        (Inl e, w') \<Rightarrow> (Err (DeIo e), w')
      | (Inr content, w') \<Rightarrow> (Ok (detect_format_from_bytes (take HEADER_SIZE content)), w'))"

definition is_positive_finite :: "f64 \<Rightarrow> bool" where
  "is_positive_finite v \<longleftrightarrow> is_finite v \<and> f64_less (Fin 0) v"

section \<open>Pages\<close>

text \<open>The operations of a page. Positions and sizes are points in single precision; a colour is given by its
  three channels.\<close>

datatype pdf_font = Helvetica | HelveticaBold

type_synonym pdf_point = "f32 \<times> f32"

type_synonym pdf_color = "f32 \<times> f32 \<times> f32"

record xobject_transform =
  xt_translate_x :: f32
  xt_translate_y :: f32
  xt_scale_x :: f32
  xt_scale_y :: f32
  xt_dpi :: f32

datatype pdf_op =
    SaveGraphicsState
  | RestoreGraphicsState
  | SetOutlineColor pdf_color
  | SetOutlineThickness f32
  | SetFillColor pdf_color
  | DrawLine "pdf_point list" bool
  | FillPolygon "pdf_point list"
  | StartTextSection
  | EndTextSection
  | SetFont pdf_font f32
  | SetTextCursor pdf_point
  | ShowText string
  | UseXobject xobject_transform

record raw_image =
  rw_pixels :: bytes
  rw_width :: nat
  rw_height :: nat

text \<open>The PDF crate: the conversion of millimetres to points, and the bytes of a document with a title, the images that
  its one page refers to, the size of the page in millimetres and its operations.\<close>

record pdf_lib =
  pd_mm_to_pt :: "f32 \<Rightarrow> f32"
  pd_save :: "string \<Rightarrow> raw_image list \<Rightarrow> f32 \<times> f32 \<Rightarrow> pdf_op list \<Rightarrow> bytes"

definition mm_to_pt :: "pdf_lib \<Rightarrow> f64 \<Rightarrow> f32" where
  "mm_to_pt M value = pd_mm_to_pt M (as_f32 value)"

section \<open>Images\<close>

record fit_rect =
  fr_x :: f64
  fr_y :: f64
  fr_width :: f64
  fr_height :: f64

definition fit_contain :: "f64 \<Rightarrow> f64 \<Rightarrow> f64 \<Rightarrow> f64 \<Rightarrow> (document_error, fit_rect) result" where
  "fit_contain image_width image_height page_width page_height =
     (if \<not> is_positive_finite image_width \<or> \<not> is_positive_finite image_height
         \<or> \<not> is_positive_finite page_width \<or> \<not> is_positive_finite page_height
      then Err DeInvalidImageDimensions
      else
        (let scale = f64_min (f64_div page_width image_width) (f64_div page_height image_height);
             width = f64_mul image_width scale;
             height = f64_mul image_height scale
         in Ok \<lparr>fr_x = f64_div (f64_sub page_width width) (Fin 2), fr_y = f64_div (f64_sub page_height height) (Fin 2),
                fr_width = width, fr_height = height\<rparr>))"

definition DEFAULT_DPI :: f32 where "DEFAULT_DPI = Fin 203"

text \<open>A decoded image: its size and its pixels with red, green, blue and alpha, row by row.\<close>

record rgba_image =
  rg_width :: u32
  rg_height :: u32
  rg_pixels :: "(u8 \<times> u8 \<times> u8 \<times> u8) list"

definition u8_f32 :: "u8 \<Rightarrow> f32" where
  "u8_f32 b = Fin (of_nat (unat b))"

definition blend_channel :: "u8 \<Rightarrow> f32 \<Rightarrow> u8" where
  "blend_channel channel alpha =
     f32_round_u8 (f32_add (f32_mul (u8_f32 channel) alpha) (f32_mul (Fin 255) (f32_sub (Fin 1) alpha)))"

definition flatten_to_white :: "rgba_image \<Rightarrow> u32 \<times> u32 \<times> bytes" where
  "flatten_to_white img =
     (rg_width img, rg_height img,
      concat (map (\<lambda>(r, g, b, a).
        let alpha = f32_div (u8_f32 a) (Fin 255)
        in [blend_channel r alpha, blend_channel g alpha, blend_channel b alpha]) (rg_pixels img)))"

definition raw_image_from_dynamic_image :: "rgba_image \<Rightarrow> raw_image" where
  "raw_image_from_dynamic_image img =
     (case flatten_to_white img of (width, height, pixels) \<Rightarrow>
        \<lparr>rw_pixels = pixels, rw_width = unat width, rw_height = unat height\<rparr>)"

record image_lib =
  img_decode :: "document_format \<Rightarrow> bytes \<Rightarrow> (string, rgba_image) result"
  img_pdf :: pdf_lib

text \<open>The page with the image: its pixels are mapped to millimetres at the resolution of a label printer and
  scaled into the rectangle.\<close>

definition image_page :: "pdf_lib \<Rightarrow> effective_paper \<Rightarrow> rgba_image \<Rightarrow> fit_rect \<Rightarrow> bytes" where
  "image_page M paper img fit =
     (let natural = (\<lambda>pixels::u32. f64_div (f64_mul (Fin (of_nat (unat pixels))) (round_f64 (254 / 10))) DEFAULT_DPI)
      in pd_save M ''yinshu-document'' [raw_image_from_dynamic_image img]
           (as_f32 (ep_width_mm paper), as_f32 (ep_height_mm paper))
           [UseXobject \<lparr>xt_translate_x = mm_to_pt M (fr_x fit), xt_translate_y = mm_to_pt M (fr_y fit),
                        xt_scale_x = as_f32 (f64_div (fr_width fit) (natural (rg_width img))),
                        xt_scale_y = as_f32 (f64_div (fr_height fit) (natural (rg_height img))),
                        xt_dpi = DEFAULT_DPI\<rparr>])"

definition image_to_pdf ::
  "image_lib \<Rightarrow> os_env \<Rightarrow> world \<Rightarrow> string \<Rightarrow> effective_paper \<Rightarrow> string \<Rightarrow>
   (document_error, unit) result \<times> world" where
  "image_to_pdf I E w image_path paper output_path =
     (case detect_format E w image_path of
        (Inl e, w1) \<Rightarrow> (Err e, w1)
      | (Inr None, w1) \<Rightarrow> (Err DeUnsupportedFormat, w1)
      | (Inr (Some DfPdf), w1) \<Rightarrow> (Err DeUnsupportedFormat, w1)
      | (Inr (Some image_format), w1) \<Rightarrow>
          if effective_paper_validate paper \<noteq> Ok () then (Err DeInvalidImageDimensions, w1)
          else
            (case fs_read E w1 image_path of
               (Inl e, w2) \<Rightarrow> (Err (DeIo e), w2)
             | (Inr content, w2) \<Rightarrow>
                 (case img_decode I image_format content of
                    Inl e \<Rightarrow> (Err (DeImage e), w2)
                  | Inr img \<Rightarrow>
                      if rg_width img = 0 \<or> rg_height img = 0 then (Err DeInvalidImageDimensions, w2)
                      else
                        (case fit_contain (Fin (of_nat (unat (rg_width img)))) (Fin (of_nat (unat (rg_height img))))
                                (ep_width_mm paper) (ep_height_mm paper) of
                           Inl e \<Rightarrow> (Err e, w2)
                         | Inr fit \<Rightarrow>
                             (case fs_write E w2 output_path (image_page (img_pdf I) paper img fit) of
                                (Inl e, w3) \<Rightarrow> (Err (DeIo e), w3)
                              | (Inr _, w3) \<Rightarrow> (Ok (), w3))))))"

section \<open>Lines of the test page\<close>

definition pdf_printable :: "char \<Rightarrow> bool" where
  "pdf_printable c \<longleftrightarrow> 32 \<le> byte c \<and> byte c \<le> 126"

text \<open>A character outside printable ASCII becomes one question mark, however many bytes it has.\<close>

definition pdf_safe :: "string \<Rightarrow> string" where
  "pdf_safe s =
     map (\<lambda>c. if pdf_printable c then c else CHR ''?'') (filter (\<lambda>c. \<not> continuation c) s)"

definition rfind_space :: "string \<Rightarrow> nat option" where
  "rfind_space s = map_option (\<lambda>(a, b). length a) (rsplit_once (CHR '' '') s)"

text \<open>Where a line of more than \<open>max_chars\<close> characters is cut: after \<open>max_chars\<close> of them, or at the
  last space among them when that is not in the first half.\<close>

definition line_cut :: "nat \<Rightarrow> string \<Rightarrow> nat" where
  "line_cut max_chars rest =
     (let split_at = (if max_chars = 0 then length rest else min max_chars (length rest));
          cut = unwrap_or (opt_filter (\<lambda>i. max_chars div 2 \<le> i) (rfind_space (take split_at rest)))
                  split_at
      in if cut = 0 then split_at else cut)"

lemma rsplit_once_length:
  assumes "rsplit_once c s = Some (a, b)"
  shows "length a < length s"
proof -
  from assms have "split_once c (rev s) = Some (rev b, rev a)" by (auto simp: rsplit_once_def)
  then have "rev s = rev b @ c # rev a" by (simp add: split_once_Some_iff)
  then have "length (rev s) = length (rev b @ c # rev a)" by (rule arg_cong)
  then show ?thesis by simp
qed

lemma line_cut_pos: "rest \<noteq> [] \<Longrightarrow> 0 < line_cut max_chars rest"
  by (auto simp: line_cut_def Let_def)

lemma line_cut_le: "0 < max_chars \<Longrightarrow> line_cut max_chars rest \<le> max_chars"
  by (auto simp: line_cut_def Let_def rfind_space_def unwrap_or_def opt_filter_def
      split: option.splits dest!: rsplit_once_length)

lemma length_trim_start: "length (trim_start s) \<le> length s"
proof (induction s rule: trim_start.induct)
  case (1 s)
  then show ?case
    by (cases "ws_len s = 0") (simp_all add: trim_start.simps [of s])
qed

function wrap_lines :: "nat \<Rightarrow> string \<Rightarrow> string list" where
  "wrap_lines max_chars rest =
     (if max_chars < length rest
      then trim_end (take (line_cut max_chars rest) rest)
           # wrap_lines max_chars (trim_start (drop (line_cut max_chars rest) rest))
      else if rest = [] then [] else [rest])"
  by auto
termination
proof (relation "measure (\<lambda>(m, r). length r)")
  fix max_chars :: nat and rest :: string
  assume "max_chars < length rest"
  then have "rest \<noteq> []" by auto
  with line_cut_pos [of rest max_chars] have "length (drop (line_cut max_chars rest) rest) < length rest"
    by simp
  with length_trim_start [of "drop (line_cut max_chars rest) rest"]
  show "((max_chars, trim_start (drop (line_cut max_chars rest) rest)), (max_chars, rest))
      \<in> measure (\<lambda>(m, r). length r)"
    by simp
qed simp

declare wrap_lines.simps [simp del]

definition wrap_pdf_text :: "string \<Rightarrow> nat \<Rightarrow> string list" where
  "wrap_pdf_text txt max_chars =
     (let safe = pdf_safe txt in if safe = [] then [[]] else wrap_lines max_chars safe)"

section \<open>Properties\<close>

text \<open>Blending keeps an opaque pixel and turns a transparent one white.\<close>

lemma f32_of_u8: "round_f32 (of_nat (unat (b::u8))) = u8_f32 b"
  unfolding u8_f32_def by (rule round_f32_nat) (use unsigned_less [of b, where ?'a = nat] in simp)

lemma f32_round_u8_nat: "f32_round_u8 (u8_f32 b) = b"
proof -
  have fl: "floor (of_nat (unat b) + 1 / 2 :: rat) = int (unat b)" by (rule floor_unique) simp_all
  have le: "unat b \<le> 255" using unsigned_less [of b, where ?'a = nat] by simp
  show ?thesis
    unfolding u8_f32_def f32_round_u8.simps
    by (simp only: of_nat_less_0_iff if_False fl nat_int min_absorb2 [OF le]) simp
qed

lemma blend_opaque: "blend_channel c (f32_div (u8_f32 255) (Fin 255)) = c"
proof -
  have "round_f32 0 = Fin 0" "round_f32 1 = Fin 1" using round_f32_nat [of 0] round_f32_nat [of 1] by simp_all
  then show ?thesis using f32_of_u8 [of c] f32_round_u8_nat [of c] by (simp add: blend_channel_def u8_f32_def)
qed

lemma blend_transparent: "blend_channel c (f32_div (u8_f32 0) (Fin 255)) = 255"
proof -
  have "round_f32 0 = Fin 0" "round_f32 1 = Fin 1" "round_f32 255 = Fin 255"
    using round_f32_nat [of 0] round_f32_nat [of 1] round_f32_nat [of 255] by simp_all
  then show ?thesis using f32_round_u8_nat [of 255] by (simp add: blend_channel_def u8_f32_def)
qed

lemma starts_take: "bytes_start_with (take n b) p \<longleftrightarrow> bytes_start_with b p" if "length p \<le> n"
  using that by (simp add: bytes_start_with_def min_absorb1)

lemma detect_format_header:
  "detect_format_from_bytes (take HEADER_SIZE b) = detect_format_from_bytes b"
  by (simp add: detect_format_from_bytes_def starts_take HEADER_SIZE_def PDF_MAGIC_def
      PNG_MAGIC_def JPEG_MAGIC_def)

lemma length_trim_end: "length (trim_end s) \<le> length s"
proof -
  from trim_end_prefix [of s] obtain r where "s = trim_end s @ r" by (auto simp: starts_with_iff)
  then show ?thesis by (metis length_append le_add1)
qed

lemma set_trim_end: "set (trim_end s) \<subseteq> set s"
proof -
  from trim_end_prefix [of s] obtain r where "s = trim_end s @ r" by (auto simp: starts_with_iff)
  then show ?thesis by (metis set_append sup_ge1)
qed

lemma wrap_lines_bound:
  "0 < m \<Longrightarrow> l \<in> set (wrap_lines m s) \<Longrightarrow> length l \<le> m \<and> set l \<subseteq> set s"
proof (induction m s rule: wrap_lines.induct)
  case (1 m s)
  show ?case
  proof (cases "m < length s")
    case True
    let ?cut = "line_cut m s"
    from 1 True consider "l = trim_end (take ?cut s)"
      | "l \<in> set (wrap_lines m (trim_start (drop ?cut s)))"
      by (auto simp: wrap_lines.simps [of m s])
    then show ?thesis
    proof cases
      case 1
      have "length (trim_end (take ?cut s)) \<le> m"
        using length_trim_end [of "take ?cut s"] line_cut_le [OF \<open>0 < m\<close>, of s] by simp
      moreover have "set (trim_end (take ?cut s)) \<subseteq> set s"
        using set_trim_end set_take_subset by fastforce
      ultimately show ?thesis using 1 by simp
    next
      case 2
      with "1.IH" [OF True] "1.prems" have "length l \<le> m \<and> set l \<subseteq> set (trim_start (drop ?cut s))"
        by blast
      then show ?thesis using set_trim_start set_drop_subset by fastforce
    qed
  next
    case False
    with 1 show ?thesis by (auto simp: wrap_lines.simps [of m s] split: if_splits)
  qed
qed

lemma pdf_safe_printable: "c \<in> set (pdf_safe s) \<Longrightarrow> pdf_printable c"
  by (auto simp: pdf_safe_def pdf_printable_def)

text \<open>Of the white space that \<open>trim_start\<close> and \<open>trim_end\<close> remove, only the space is printable, so
  wrapping removes spaces only.\<close>

definition inked :: "string \<Rightarrow> string" where
  "inked s = filter (\<lambda>c. c \<noteq> CHR '' '') s"

lemma inked_append [simp]: "inked (a @ b) = inked a @ inked b"
  by (simp add: inked_def)

lemma inked_Nil [simp]: "inked [] = []"
  by (simp add: inked_def)

lemma printable_white_space: "w \<in> set white_spaces \<Longrightarrow> list_all pdf_printable w \<Longrightarrow> w = '' ''"
  by (auto simp: white_spaces_def pdf_printable_def)

lemma find_starts: "find P xs = Some x \<Longrightarrow> x \<in> set xs \<and> P x"
  by (auto simp: find_Some_iff)

lemma inked_trim_start: "list_all pdf_printable s \<Longrightarrow> inked (trim_start s) = inked s"
proof (induction s rule: trim_start.induct)
  case (1 s)
  show ?case
  proof (cases "ws_len s = 0")
    case False
    then obtain w where f: "find (starts_with s) white_spaces = Some w" and l: "ws_len s = length w"
      by (auto simp: ws_len_def split: option.splits)
    from find_starts [OF f] obtain r where w: "w \<in> set white_spaces" "s = w @ r"
      by (auto simp: starts_with_iff)
    with 1 have "w = '' ''" "list_all pdf_printable r" by (auto intro: printable_white_space)
    moreover from this w l have "trim_start s = trim_start r" by (subst trim_start.simps) simp
    ultimately show ?thesis using "1.IH" [OF False] w l by (simp add: inked_def)
  qed (simp add: trim_start.simps [of s])
qed

lemma inked_trim_end: "list_all pdf_printable s \<Longrightarrow> inked (trim_end s) = inked s"
proof (induction s rule: trim_end.induct)
  case (1 s)
  show ?case
  proof (cases "ws_len_end s = 0")
    case False
    then obtain w where f: "find (ends_with s) white_spaces = Some w" and l: "ws_len_end s = length w"
      by (auto simp: ws_len_end_def split: option.splits)
    from find_starts [OF f] obtain r where w: "w \<in> set white_spaces" "s = r @ w"
      by (auto simp: ends_with_def starts_with_iff rev_eq_append_conv)
    with 1 have "w = '' ''" "list_all pdf_printable r" by (auto intro: printable_white_space)
    moreover from this w l have "trim_end s = trim_end r" by (subst trim_end.simps) simp
    ultimately show ?thesis using "1.IH" [OF False] w l by (simp add: inked_def)
  qed (simp add: trim_end.simps [of s])
qed

lemma list_all_trim_start: "list_all P s \<Longrightarrow> list_all P (trim_start s)"
  using set_trim_start [of s] by (auto simp: list_all_iff)

lemma list_all_take_drop: "list_all P s \<Longrightarrow> list_all P (take n s) \<and> list_all P (drop n s)"
  by (auto simp: list_all_iff dest: in_set_takeD in_set_dropD)

lemma inked_wrap_lines: "list_all pdf_printable s \<Longrightarrow> inked (concat (wrap_lines m s)) = inked s"
proof (induction m s rule: wrap_lines.induct)
  case (1 m s)
  show ?case
  proof (cases "m < length s")
    case True
    let ?cut = "line_cut m s"
    have parts: "list_all pdf_printable (take ?cut s)" "list_all pdf_printable (drop ?cut s)"
      using list_all_take_drop [OF "1.prems"] by simp_all
    have "inked (concat (wrap_lines m s)) = inked (take ?cut s) @ inked (drop ?cut s)"
      using True parts "1.IH" [OF True list_all_trim_start [OF parts(2)]]
      by (simp add: wrap_lines.simps [of m s] inked_trim_end inked_trim_start)
    also have "\<dots> = inked s" by (metis append_take_drop_id inked_append)
    finally show ?thesis .
  qed (simp add: wrap_lines.simps [of m s])
qed

lemma wrap_pdf_text_lines:
  assumes "0 < max_chars"
  shows "list_all (\<lambda>l. length l \<le> max_chars \<and> list_all pdf_printable l) (wrap_pdf_text txt max_chars)"
  using wrap_lines_bound [OF assms, of _ "pdf_safe txt"] pdf_safe_printable
  by (fastforce simp: wrap_pdf_text_def Let_def list_all_iff)

text \<open>
  The text of the test page is kept and fits: \<open>wrap_pdf_text\<close> ends on every text, each line it
  returns has at most \<open>max_chars\<close> characters, all printable ASCII, and the lines together hold
  the characters of the text in order, with nothing dropped but spaces.
\<close>

theorem wrap_pdf_text_fits:
  assumes "0 < max_chars"
  shows "list_all (\<lambda>l. length l \<le> max_chars \<and> list_all pdf_printable l) (wrap_pdf_text txt max_chars)
    \<and> inked (concat (wrap_pdf_text txt max_chars)) = inked (pdf_safe txt)"
proof (rule conjI [OF wrap_pdf_text_lines [OF assms]])
  have "list_all pdf_printable (pdf_safe txt)" using pdf_safe_printable by (simp add: list_all_iff)
  then show "inked (concat (wrap_pdf_text txt max_chars)) = inked (pdf_safe txt)"
    using inked_wrap_lines by (simp add: wrap_pdf_text_def Let_def)
qed

theorem wrap_pdf_text_fits_witness:
  "list_all (\<lambda>l. length l \<le> 8 \<and> list_all pdf_printable l) (wrap_pdf_text ''printer ready'' 8)
    \<and> inked (concat (wrap_pdf_text ''printer ready'' 8)) = inked (pdf_safe ''printer ready'')"
  by (rule wrap_pdf_text_fits) simp

end
