(* ===== verification/Office.thy ===== *)
theory Office
  imports Document
begin

text \<open>
  \<open>crates/runtime/src/office.rs\<close> and \<open>crates/runtime/src/office/libreoffice.rs\<close> on the Unix targets:
  detection of the Office format inside the OOXML container, the conversion to PDF in a
  private work directory with its cleanup, and the call of LibreOffice. The \<open>zip\<close> crate is the
  parameter \<open>zip_lib\<close>; a child process is \<open>os_run\<close> of the environment and may change any file.
\<close>

section \<open>Formats and errors\<close>

datatype office_format = OfDocx | OfXlsx | OfPptx

fun office_extension :: "office_format \<Rightarrow> string" where
  "office_extension OfDocx = ''docx''"
| "office_extension OfXlsx = ''xlsx''"
| "office_extension OfPptx = ''pptx''"

datatype office_convert_error =
    OeUnsupportedFormat
  | OeIo io_error
  | OeConverterUnavailable string string
  | OeConvertersUnavailable string
  | OeFallbackFailed office_convert_error string
  | OeTimedOut string nat
  | OeCommandFailed string string
  | OeInvalidPdf string

fun office_error_msg :: "office_convert_error \<Rightarrow> string" where
  "office_error_msg OeUnsupportedFormat = ''unsupported office format''"
| "office_error_msg (OeIo e) = io_msg e"
| "office_error_msg (OeConverterUnavailable c r) =
     ''office converter unavailable: '' @ c @ '' ('' @ r @ '')''"
| "office_error_msg (OeConvertersUnavailable a) = ''office converters unavailable: '' @ a"
| "office_error_msg (OeFallbackFailed s u) =
     office_error_msg s @ ''; unavailable before selection: '' @ u"
| "office_error_msg (OeTimedOut c n) =
     ''office conversion timed out after '' @ show_nat n @ '' seconds: '' @ c"
| "office_error_msg (OeCommandFailed c m) = ''office conversion failed via '' @ c @ '': '' @ m"
| "office_error_msg (OeInvalidPdf c) = ''office converter produced an invalid PDF: '' @ c"

fun office_format_from_supported :: "supported_format \<Rightarrow> office_format option" where
  "office_format_from_supported Docx = Some OfDocx"
| "office_format_from_supported Xlsx = Some OfXlsx"
| "office_format_from_supported Pptx = Some OfPptx"
| "office_format_from_supported _ = None"

text \<open>Opening an archive fails with an I/O error or because the bytes are no archive it can
  read; an open archive answers whether an entry can be read.\<close>

datatype zip_error = ZipIo io_error | ZipUnreadable

type_synonym zip_lib = "bytes \<Rightarrow> (zip_error, string \<Rightarrow> bool) result"

definition detect_office_format ::
  "zip_lib \<Rightarrow> os_env \<Rightarrow> world \<Rightarrow> string \<Rightarrow>
   (office_convert_error, office_format option) result \<times> world" where
  "detect_office_format Z E w path =
     (case fs_read E w path of
        (Inl e, w') \<Rightarrow> (Err (OeIo e), w')
      | (Inr content, w') \<Rightarrow>
          (case Z content of
             Inl (ZipIo e) \<Rightarrow> (Err (OeIo e), w')
           | Inl ZipUnreadable \<Rightarrow> (Ok None, w')
           | Inr has_entry \<Rightarrow>
               (Ok (if has_entry ''word/document.xml'' then Some OfDocx
                    else if has_entry ''xl/workbook.xml'' then Some OfXlsx
                    else if has_entry ''ppt/presentation.xml'' then Some OfPptx
                    else None), w')))"

section \<open>Conversion in a work directory\<close>

definition staged_input_path ::
  "string \<Rightarrow> string \<Rightarrow> office_format \<Rightarrow> (office_convert_error, string) result" where
  "staged_input_path work_dir output_path format =
     (case file_stem output_path of
        None \<Rightarrow> Err (OeIo \<lparr>io_kind = InvalidInput, io_msg = ''PDF output has no file name''\<rparr>)
      | Some stem \<Rightarrow> Ok (path_join work_dir (stem @ ''.'' @ office_extension format)))"

text \<open>Metadata and contents are read in two calls; a file that is too short or has another header
  is refused, and so is one that cannot be read.\<close>

definition validate_pdf ::
  "os_env \<Rightarrow> world \<Rightarrow> string \<Rightarrow> string \<Rightarrow> (office_convert_error, unit) result \<times> world" where
  "validate_pdf E w path converter =
     (case fs_read E w path of
        (Inl _, w1) \<Rightarrow> (Err (OeInvalidPdf converter), w1)
      | (Inr meta, w1) \<Rightarrow>
          if length meta \<le> 5 then (Err (OeInvalidPdf converter), w1)
          else
            (case fs_read E w1 path of
               (Inl _, w2) \<Rightarrow> (Err (OeInvalidPdf converter), w2)
             | (Inr content, w2) \<Rightarrow>
                 if take 5 content \<noteq> PDF_MAGIC then (Err (OeInvalidPdf converter), w2)
                 else (Ok (), w2)))"

definition remove_file_if_exists :: "os_env \<Rightarrow> world \<Rightarrow> string \<Rightarrow> (io_error, unit) result \<times> world" where
  "remove_file_if_exists E w path =
     (case fs_remove E w path of
        (Inl e, w') \<Rightarrow> (if io_kind e = NotFound then Ok () else Err e, w')
      | (Inr _, w') \<Rightarrow> (Ok (), w'))"

definition remove_dir_if_exists :: "os_env \<Rightarrow> world \<Rightarrow> string \<Rightarrow> (io_error, unit) result \<times> world" where
  "remove_dir_if_exists E w path =
     (case fs_remove_dir_all E w path of
        (Inl e, w') \<Rightarrow> (if io_kind e = NotFound then Ok () else Err e, w')
      | (Inr _, w') \<Rightarrow> (Ok (), w'))"

type_synonym office_converter =
  "string \<Rightarrow> office_format \<Rightarrow> string \<Rightarrow> world \<Rightarrow> (office_convert_error, string) result \<times> world"

definition stage_input ::
  "os_env \<Rightarrow> world \<Rightarrow> string \<Rightarrow> office_format \<Rightarrow> string \<Rightarrow> string \<Rightarrow>
   (office_convert_error, string) result \<times> world" where
  "stage_input E w input_path format output_path work_dir =
     (case staged_input_path work_dir output_path format of
        Inl e \<Rightarrow> (Err e, w)
      | Inr staged \<Rightarrow>
          (case fs_copy E w input_path staged of
             (Inl e, w') \<Rightarrow> (Err (OeIo e), w')
           | (Inr _, w') \<Rightarrow> (Ok staged, w')))"

text \<open>From the conversion on: validate the output, remove the work directory, and keep the output
  only when both succeeded.\<close>

definition finish_conversion ::
  "os_env \<Rightarrow> string \<Rightarrow> string \<Rightarrow> (office_convert_error, string) result \<times> world \<Rightarrow>
   (office_convert_error, string) result \<times> world" where
  "finish_conversion E output_path work_dir converted =
     (let (conversion_result, w1) =
            (case converted of
               (Inl e, w) \<Rightarrow> (Err e, w)
             | (Inr name, w) \<Rightarrow>
                 (case validate_pdf E w output_path name of
                    (Inl e, w') \<Rightarrow> (Err e, w')
                  | (Inr _, w') \<Rightarrow> (Ok name, w')));
          (cleanup_result, w2) = fs_remove_dir_all E w1 work_dir
      in case conversion_result of
           Inr name \<Rightarrow>
             (case cleanup_result of
                Inl e \<Rightarrow> (Err (OeIo e), snd (fs_remove E w2 output_path))
              | Inr _ \<Rightarrow> (Ok name, w2))
         | Inl e \<Rightarrow> (Err e, snd (fs_remove E w2 output_path)))"

definition office_to_pdf_with_converter ::
  "os_env \<Rightarrow> world \<Rightarrow> string \<Rightarrow> office_format \<Rightarrow> string \<Rightarrow> office_converter \<Rightarrow>
   (office_convert_error, string) result \<times> world" where
  "office_to_pdf_with_converter E w input_path format output_path converter =
     (let work_dir = with_extension input_path ''office-work'' in
      case remove_dir_if_exists E w work_dir of
        (Inl e, w1) \<Rightarrow> (Err (OeIo e), w1)
      | (Inr _, w1) \<Rightarrow>
     (case remove_file_if_exists E w1 output_path of
        (Inl e, w2) \<Rightarrow> (Err (OeIo e), w2)
      | (Inr _, w2) \<Rightarrow>
     (case fs_create_dir E w2 work_dir of
        (Inl e, w3) \<Rightarrow> (Err (OeIo e), w3)
      | (Inr _, w3) \<Rightarrow>
     (case stage_input E w3 input_path format output_path work_dir of
        (Inl e, w4) \<Rightarrow> (Err e, snd (fs_remove_dir_all E w4 work_dir))
      | (Inr staged, w4) \<Rightarrow>
          finish_conversion E output_path work_dir (converter staged format output_path w4)))))"

section \<open>LibreOffice\<close>

definition CONVERTER :: string where "CONVERTER = ''LibreOffice''"
definition OFFICE_CONVERSION_TIMEOUT :: nat where "OFFICE_CONVERSION_TIMEOUT = 120"
definition MAX_CONVERTER_MESSAGE_CHARS :: nat where "MAX_CONVERTER_MESSAGE_CHARS = 2048"

definition truncate_message :: "string \<Rightarrow> string" where
  "truncate_message value = take_chars MAX_CONVERTER_MESSAGE_CHARS value"

definition command_failed :: "string \<Rightarrow> string \<Rightarrow> bytes \<Rightarrow> bytes \<Rightarrow> office_convert_error" where
  "command_failed converter status out err =
     (let stderr = trim (from_utf8_lossy err); stdout = trim (from_utf8_lossy out);
          message = (if stderr \<noteq> [] then stderr
                     else if stdout \<noteq> [] then stdout
                     else ''process exited with '' @ status)
      in OeCommandFailed converter (truncate_message message))"

text \<open>The process runner: a missing executable is \<open>ConverterUnavailable\<close>, a timeout reports the
  limit in seconds (at least one).\<close>

definition execute_converter_command ::
  "os_env \<Rightarrow> world \<Rightarrow> string list \<Rightarrow> string \<Rightarrow> nat \<Rightarrow>
   (office_convert_error, bool \<times> string \<times> bytes \<times> bytes) result \<times> world" where
  "execute_converter_command E w command converter timeout =
     (case os_run E (w_tick w) command w of (outcome, w') \<Rightarrow>
        ((case outcome of
            SpawnError e \<Rightarrow>
              if io_kind e = NotFound
              then Err (OeConverterUnavailable converter ''executable not found'')
              else Err (OeIo e)
          | WaitError e \<Rightarrow> Err (OeIo e)
          | ProcessTimeout \<Rightarrow> Err (OeTimedOut converter (max timeout 1))
          | OutputError e \<Rightarrow> Err (OeIo e)
          | Exited success status out err \<Rightarrow> Ok (success, status, out, err)), tick w'))"

datatype unix_target = TargetMacOs | TargetLinux

definition MACOS_SOFFICE :: string where
  "MACOS_SOFFICE = ''/Applications/LibreOffice.app/Contents/MacOS/soffice''"

definition path_executable_names :: "string list" where
  "path_executable_names = [''soffice'', ''libreoffice'']"

definition find_libreoffice_in ::
  "os_env \<Rightarrow> world \<Rightarrow> string list \<Rightarrow> string option \<Rightarrow> string option" where
  "find_libreoffice_in E w standard path_value =
     (case find (os_is_executable E (w_tick w)) standard of
        Some p \<Rightarrow> Some p
      | None \<Rightarrow>
          (case path_value of
             None \<Rightarrow> None
           | Some v \<Rightarrow>
               find (os_is_executable E (w_tick w))
                 (concat (map (\<lambda>d. map (path_join d) path_executable_names)
                    (split_on (\<lambda>c. c = CHR '':'') v)))))"

definition find_libreoffice :: "unix_target \<Rightarrow> os_env \<Rightarrow> world \<Rightarrow> string option \<Rightarrow> string option" where
  "find_libreoffice tgt E w path_value =
     find_libreoffice_in E w (case tgt of TargetMacOs \<Rightarrow> [MACOS_SOFFICE] | TargetLinux \<Rightarrow> []) path_value"

definition build_command :: "string \<Rightarrow> string \<Rightarrow> string \<Rightarrow> string \<Rightarrow> string list" where
  "build_command executable profile_url input_path output_dir =
     [executable, ''--headless'', ''--nologo'', ''--nodefault'', ''--nolockcheck'', ''--norestore'',
      ''-env:UserInstallation='' @ profile_url, ''--convert-to'', ''pdf'', ''--outdir'', output_dir,
      input_path]"

text \<open>The profile that sets the highest macro security level; its text is a parameter.\<close>

definition write_macro_security_profile ::
  "os_env \<Rightarrow> world \<Rightarrow> string \<Rightarrow> bytes \<Rightarrow> (office_convert_error, unit) result \<times> world" where
  "write_macro_security_profile E w profile_dir config =
     (let user_dir = path_join profile_dir ''user'' in
      case fs_create_dir_all E w user_dir of
        (Inl e, w1) \<Rightarrow> (Err (OeIo e), w1)
      | (Inr _, w1) \<Rightarrow>
          (case fs_write E w1 (path_join user_dir ''registrymodifications.xcu'') config of
             (Inl e, w2) \<Rightarrow> (Err (OeIo e), w2)
           | (Inr _, w2) \<Rightarrow> (Ok (), w2)))"

record libreoffice_env =
  lo_target :: unix_target
  lo_path :: "string option"
  lo_profile_text :: bytes
  lo_directory_url :: "string \<Rightarrow> string option"

text \<open>The conversion with the executable that was found.\<close>

definition libreoffice_convert_with ::
  "libreoffice_env \<Rightarrow> os_env \<Rightarrow> string option \<Rightarrow> office_converter" where
  "libreoffice_convert_with V E found input_path format output_path w =
     (case found of
        None \<Rightarrow> (Err (OeConverterUnavailable CONVERTER ''executable not found''), w)
      | Some executable \<Rightarrow>
     (case path_parent input_path of
        None \<Rightarrow> (Err (OeIo \<lparr>io_kind = InvalidInput, io_msg = ''staged input has no parent''\<rparr>), w)
      | Some work_dir \<Rightarrow>
     (let profile_dir = path_join work_dir ''libreoffice-profile'' in
      case write_macro_security_profile E w profile_dir (lo_profile_text V) of
        (Inl e, w1) \<Rightarrow> (Err e, w1)
      | (Inr _, w1) \<Rightarrow>
     (case lo_directory_url V profile_dir of
        None \<Rightarrow>
          (Err (OeIo \<lparr>io_kind = InvalidInput, io_msg = ''invalid LibreOffice profile path''\<rparr>), w1)
      | Some profile_url \<Rightarrow>
     (case path_parent output_path of
        None \<Rightarrow> (Err (OeIo \<lparr>io_kind = InvalidInput, io_msg = ''PDF output has no parent''\<rparr>), w1)
      | Some output_dir \<Rightarrow>
     (case execute_converter_command E w1
             (build_command executable profile_url input_path output_dir) CONVERTER
             OFFICE_CONVERSION_TIMEOUT of
        (Inl e, w2) \<Rightarrow> (Err e, w2)
      | (Inr (success, status, out, err), w2) \<Rightarrow>
          if \<not> success then (Err (command_failed CONVERTER status out err), w2)
          else (Ok CONVERTER, w2)))))))"

definition libreoffice_convert :: "libreoffice_env \<Rightarrow> os_env \<Rightarrow> office_converter" where
  "libreoffice_convert V E input_path format output_path w =
     libreoffice_convert_with V E (find_libreoffice (lo_target V) E w (lo_path V)) input_path format output_path w"

definition office_to_pdf ::
  "libreoffice_env \<Rightarrow> os_env \<Rightarrow> world \<Rightarrow> string \<Rightarrow> office_format \<Rightarrow> string \<Rightarrow>
   (office_convert_error, string) result \<times> world" where
  "office_to_pdf V E w input_path format output_path =
     office_to_pdf_with_converter E w input_path format output_path (libreoffice_convert V E)"

section \<open>Properties\<close>

lemma validate_pdf_files [simp]: "w_files (snd (validate_pdf E w p c)) = w_files w"
  by (auto simp: validate_pdf_def split: prod.splits sum.splits if_splits)
    (metis snd_conv w_files_fs_read)+

lemma validate_pdf_ok:
  "validate_pdf E w p c = (Inr u, w') \<Longrightarrow>
     \<exists>content. w_files w' p = Some content \<and> 5 < length content \<and> take 5 content = PDF_MAGIC"
  by (auto simp: validate_pdf_def split: prod.splits sum.splits if_splits dest!: fs_read_ok)

lemma remove_dir_keeps:
  "\<not> under d p \<Longrightarrow> w_files (snd (fs_remove_dir_all E w d)) p = w_files w p"
  by (auto simp: fs_remove_dir_all_def split: option.splits)

lemma finish_ok:
  assumes "finish_conversion E out wd conv = (Inr name, w')" and "\<not> under wd out"
  shows "\<exists>content. w_files w' out = Some content \<and> 5 < length content \<and> take 5 content = PDF_MAGIC"
    and "wd \<notin> w_dirs w'" and "under wd p \<Longrightarrow> w_files w' p = None"
proof -
  obtain w0 w1 w2 u v where v: "validate_pdf E w0 out name = (Inr u, w1)"
    and r: "fs_remove_dir_all E w1 wd = (Inr v, w2)" and w: "w' = w2"
    using assms(1)
    by (auto simp: finish_conversion_def Let_def split: prod.splits sum.splits)
  from validate_pdf_ok [OF v] remove_dir_keeps [OF assms(2), of E w1] r w
  show "\<exists>content. w_files w' out = Some content \<and> 5 < length content \<and> take 5 content = PDF_MAGIC"
    by simp
  from r w show "wd \<notin> w_dirs w'" "under wd p \<Longrightarrow> w_files w' p = None"
    by (auto simp: fs_remove_dir_all_def tick_def split: option.splits if_splits)
qed

lemma finish_err:
  assumes "finish_conversion E out wd conv = (Inl e, w')" and "\<forall>n. os_fail E n = None"
  shows "w_files w' out = None"
proof -
  obtain w2 where "w' = snd (fs_remove E w2 out)"
    using assms(1) by (auto simp: finish_conversion_def Let_def split: prod.splits sum.splits)
  with assms(2) show ?thesis by (simp add: fs_remove_def)
qed

text \<open>Whatever the converter does: a success means a PDF at the output path and no work
  directory; a failure without I/O faults leaves no output.\<close>

definition conversion_ok ::
  "os_env \<Rightarrow> string \<Rightarrow> string \<Rightarrow> (office_convert_error, string) result \<times> world \<Rightarrow> bool" where
  "conversion_ok E out wd res \<longleftrightarrow>
     (case fst res of
        Inr name \<Rightarrow>
          (\<exists>content. w_files (snd res) out = Some content \<and> 5 < length content
             \<and> take 5 content = PDF_MAGIC)
          \<and> wd \<notin> w_dirs (snd res) \<and> (\<forall>p. under wd p \<longrightarrow> w_files (snd res) p = None)
      | Inl e \<Rightarrow> (\<forall>n. os_fail E n = None) \<longrightarrow> w_files (snd res) out = None)"

lemma finish_conversion_ok:
  "\<not> under wd out \<Longrightarrow> conversion_ok E out wd (finish_conversion E out wd conv)"
proof -
  assume u: "\<not> under wd out"
  obtain r w' where f: "finish_conversion E out wd conv = (r, w')" by fastforce
  show ?thesis
  proof (cases r)
    case (Inl e)
    with f show ?thesis using finish_err [of E out wd conv e w'] by (simp add: conversion_ok_def)
  next
    case (Inr name)
    with f u show ?thesis
      using finish_ok [of E out wd conv name w'] by (auto simp: conversion_ok_def)
  qed
qed

lemma remove_file_if_exists_ok:
  "remove_file_if_exists E w p = (Inr u, w') \<Longrightarrow> \<forall>n. os_fail E n = None \<Longrightarrow> w_files w' p = None"
  by (auto simp: remove_file_if_exists_def fs_remove_def split: if_splits)

lemma create_dir_files [simp]: "w_files (snd (fs_create_dir E w p)) = w_files w"
  by (simp add: fs_create_dir_def fs_create_dir_all_def split: option.splits)

lemma stage_input_err:
  assumes "stage_input E w inp f out wd = (Inl e, w')" and "\<forall>n. os_fail E n = None"
  shows "w_files w' = w_files w"
  using assms
  by (auto simp: stage_input_def fs_copy_def fs_write_def fs_read_def
      split: sum.splits prod.splits option.splits)

lemma no_fault_removals:
  assumes "\<forall>n. os_fail E n = None"
  shows "is_ok (fst (remove_dir_if_exists E w d))" "is_ok (fst (remove_file_if_exists E w p))"
  using assms
  by (simp_all add: remove_dir_if_exists_def remove_file_if_exists_def fs_remove_dir_all_def
      fs_remove_def not_found_def)

lemma staging_failed_ok:
  assumes "stage_input E w inp f out wd = (Inl e, w')"
    and "(\<forall>n. os_fail E n = None) \<longrightarrow> w_files w out = None"
  shows "conversion_ok E out wd (Inl e, snd (fs_remove_dir_all E w' wd))"
  using assms stage_input_err [OF assms(1)]
  by (auto simp: conversion_ok_def fs_remove_dir_all_def split: option.splits)

lemma conversion_ok_err:
  "((\<forall>n. os_fail E n = None) \<Longrightarrow> w_files w out = None) \<Longrightarrow> conversion_ok E out wd (Inl e, w)"
  by (simp add: conversion_ok_def)

lemma office_to_pdf_with_converter_ok:
  assumes "\<not> under (with_extension input_path ''office-work'') output_path"
  shows "conversion_ok E output_path (with_extension input_path ''office-work'')
    (office_to_pdf_with_converter E w input_path format output_path converter)"
proof -
  let ?wd = "with_extension input_path ''office-work''"
  obtain r1 w1 where s1: "remove_dir_if_exists E w ?wd = (r1, w1)" by fastforce
  obtain r2 w2 where s2: "remove_file_if_exists E w1 output_path = (r2, w2)" by fastforce
  obtain r3 w3 where s3: "fs_create_dir E w2 ?wd = (r3, w3)" by fastforce
  obtain r4 w4 where s4: "stage_input E w3 input_path format output_path ?wd = (r4, w4)" by fastforce
  have gone: "(\<forall>n. os_fail E n = None) \<longrightarrow> w_files w3 output_path = None" if "r2 = Inr u" for u
    using that remove_file_if_exists_ok [of E w1 output_path u w2] s2 s3
      create_dir_files [of E w2 ?wd] by simp
  consider e where "r1 = Inl e" | e where "r1 = Inr ()" "r2 = Inl e"
    | e where "r1 = Inr ()" "r2 = Inr ()" "r3 = Inl e"
    | e where "r1 = Inr ()" "r2 = Inr ()" "r3 = Inr ()" "r4 = Inl e"
    | staged where "r1 = Inr ()" "r2 = Inr ()" "r3 = Inr ()" "r4 = Inr staged"
    by (metis (full_types) old.unit.exhaust sum.exhaust)
  then show ?thesis
  proof cases
    case 1
    then show ?thesis
      using s1 no_fault_removals(1) [of E w ?wd]
      by (auto simp: office_to_pdf_with_converter_def intro!: conversion_ok_err)
  next
    case 2
    then show ?thesis
      using s1 s2 no_fault_removals(2) [of E w1 output_path]
      by (auto simp: office_to_pdf_with_converter_def intro!: conversion_ok_err)
  next
    case 3
    with s1 s2 s3 gone show ?thesis
      by (auto simp: office_to_pdf_with_converter_def intro!: conversion_ok_err)
  next
    case (4 e)
    with s1 s2 s3 s4 show ?thesis
      using staging_failed_ok [of E w3 input_path format output_path ?wd e w4] gone
      by (simp add: office_to_pdf_with_converter_def)
  next
    case 5
    with s1 s2 s3 s4 show ?thesis
      by (simp add: office_to_pdf_with_converter_def finish_conversion_ok [OF assms])
  qed
qed

lemma pdf_not_under_work_dir:
  "\<not> under (with_extension p ''office-work'') (with_extension p ''pdf'')"
  by (auto simp: under_def with_extension_def starts_with_iff split: option.splits)


end
