(* ===== verification/Paper.thy ===== *)
theory Paper
  imports Printing Rust_F64
begin

text \<open>
  \<open>crates/runtime/src/printing/mod.rs\<close>: names and media options of papers, the built-in presets and
  the match of a requested size against the papers of a driver.
\<close>

definition format_mm :: "f64 \<Rightarrow> string" where
  "format_mm value =
     (if f64_less (f64_abs (f64_fract value)) f64_EPSILON then format_fixed 0 value
      else trim_end_matches (CHR ''.'') (trim_end_matches (CHR ''0'') (format_fixed 2 value)))"

definition standard_paper_name :: "f64 \<Rightarrow> f64 \<Rightarrow> string option" where
  "standard_paper_name width_mm height_mm =
     (let k = (f64_round_i32 width_mm, f64_round_i32 height_mm) in
      if k = (105, 148) then Some ''A6''
      else if k = (148, 210) then Some ''A5''
      else if k = (210, 297) then Some ''A4''
      else if k = (297, 420) then Some ''A3''
      else if k = (216, 279) then Some ''Letter''
      else if k = (216, 356) then Some ''Legal''
      else None)"

definition paper_name :: "f64 \<Rightarrow> f64 \<Rightarrow> string" where
  "paper_name width_mm height_mm =
     unwrap_or (standard_paper_name width_mm height_mm)
       (format_mm width_mm @ '' x '' @ format_mm height_mm @ '' mm'')"

definition custom_media_option :: "f64 \<Rightarrow> f64 \<Rightarrow> string" where
  "custom_media_option width_mm height_mm =
     ''Custom.'' @ format_mm width_mm @ ''x'' @ format_mm height_mm @ ''mm''"

definition is_cups_media_token :: "string \<Rightarrow> bool" where
  "is_cups_media_token value = starts_with value ''Custom.''"

definition cups_media_option :: "paper_info \<Rightarrow> string" where
  "cups_media_option paper =
     (if is_cups_media_token (pa_id paper) then pa_id paper
      else custom_media_option (pa_width_mm paper) (pa_height_mm paper))"

definition sumatra_print_settings :: "u16 \<Rightarrow> paper_info \<Rightarrow> string" where
  "sumatra_print_settings copies paper =
     (let orientation =
            (if f64_less (pa_height_mm paper) (pa_width_mm paper) then ''landscape,''
             else if f64_less (pa_width_mm paper) (pa_height_mm paper) then ''portrait,''
             else [])
      in show_nat (max (unat copies) 1) @ ''x,fit,'' @ orientation @ ''paper=''
         @ format_mm (pa_width_mm paper) @ ''mm x '' @ format_mm (pa_height_mm paper) @ ''mm'')"

definition mk_paper :: "string \<Rightarrow> rat \<Rightarrow> rat \<Rightarrow> paper_info" where
  "mk_paper ident width height =
     (let w = round_f64 width; h = round_f64 height in
      \<lparr>pa_id = ident, pa_name = paper_name w h, pa_width_mm = w, pa_height_mm = h\<rparr>)"

definition common_label_papers :: "paper_info list" where
  "common_label_papers =
     [mk_paper ''label_40x30'' 40 30, mk_paper ''label_50x30'' 50 30, mk_paper ''label_60x40'' 60 40,
      mk_paper ''label_80x50'' 80 50, mk_paper ''label_100x150'' 100 150,
      mk_paper ''iso_a6'' 105 148, mk_paper ''iso_a5'' 148 210, mk_paper ''iso_a4'' 210 297,
      mk_paper ''iso_a3'' 297 420, mk_paper ''na_letter'' (2159 / 10) (2794 / 10),
      mk_paper ''na_legal'' (2159 / 10) (3556 / 10)]"

definition find_matching_paper :: "paper_info list \<Rightarrow> paper_info \<Rightarrow> paper_info option" where
  "find_matching_paper papers paper =
     find (\<lambda>candidate.
             f64_less (f64_abs (f64_sub (pa_width_mm candidate) (pa_width_mm paper)))
               (round_f64 (1 / 100)) \<and>
             f64_less (f64_abs (f64_sub (pa_height_mm candidate) (pa_height_mm paper)))
               (round_f64 (1 / 100))) papers"

definition resolve_paper_for_print :: "paper_info list \<Rightarrow> paper_info \<Rightarrow> paper_info" where
  "resolve_paper_for_print papers paper = unwrap_or (find_matching_paper papers paper) paper"

lemma format_mm_nat: "format_mm (Fin (of_nat n)) = show_nat n"
proof -
  have "floor (of_nat n :: rat) = int n" by simp
  then show ?thesis
    by (simp add: format_mm_def f64_EPSILON_def show_fixed_nat)
qed

end
