(* ===== verification/Html.thy ===== *)
theory Html
  imports Protocol Fs
begin

text \<open>
  \<open>crates/runtime/src/html/mod.rs\<close>: the request, result and errors of the HTML renderer and the trait
  \<open>HtmlRenderer\<close>. A renderer is a function of the call number, the request and the world, which
  it may change.
\<close>

datatype html_source = SourceUrl url | SourceInline string

record html_render_request =
  rq_source :: html_source
  rq_allowed_loopback_origin :: "url option"
  rq_paper :: effective_paper
  rq_wait_ms :: u64
  rq_output_path :: string

record html_render_result =
  rr_renderer :: string
  rr_output_path :: string

datatype html_render_error =
    HeRendererUnavailable "string list"
  | HeBlockedResource string
  | HeNavigation string
  | HeTimeout u64
  | HePdfExport string
  | HeInvalidProxyRequest string
  | HeIo io_error
  | HeHttp string

text \<open>The list of searched paths is printed in the debug format, the parameter \<open>dbg\<close>.\<close>

fun html_error_msg :: "(string list \<Rightarrow> string) \<Rightarrow> html_render_error \<Rightarrow> string" where
  "html_error_msg dbg (HeRendererUnavailable searched) =
     ''no installed Chromium-family browser is available; searched: '' @ dbg searched"
| "html_error_msg dbg (HeBlockedResource r) = ''blocked HTML resource: '' @ r"
| "html_error_msg dbg (HeNavigation m) = ''browser navigation failed: '' @ m"
| "html_error_msg dbg (HeTimeout t) =
     ''browser rendering timed out after '' @ show_nat (unat t) @ ''ms''"
| "html_error_msg dbg (HePdfExport m) = ''browser PDF export failed: '' @ m"
| "html_error_msg dbg (HeInvalidProxyRequest r) = ''invalid proxy request: '' @ r"
| "html_error_msg dbg (HeIo e) = ''HTML proxy I/O error: '' @ io_msg e"
| "html_error_msg dbg (HeHttp e) = ''HTML proxy HTTP error: '' @ e"

type_synonym html_renderer =
  "nat \<Rightarrow> html_render_request \<Rightarrow> world \<Rightarrow> (html_render_error, html_render_result) result \<times> world"

end
