(* ===== verification/Worker.thy ===== *)
theory Worker
  imports Agent_State Download Office Paper Html
begin

text \<open>
  \<open>crates/runtime/src/queue.rs\<close>: the print worker. It resolves the options of a job, fetches or
  renders its document, submits it to the print backend, tracks it, and logs every step to
  the memory log, the broadcast channel and the history. The collaborators are the fields of
  \<open>worker_env\<close>; the state is the world and the agent state.
\<close>

section \<open>Collaborators, state and errors\<close>

record worker_env =
  we_lib :: ext_lib
  we_http :: http_client
  we_os :: os_env
  we_image :: image_lib
  we_zip :: zip_lib
  we_office :: libreoffice_env
  we_backend :: print_backend
  we_render :: html_renderer
  we_sql :: "nat \<Rightarrow> sql_faults"
  we_debug_list :: "string list \<Rightarrow> string"

type_synonym sys = "world \<times> agent_state"

datatype process_job_error =
    PePrinterNotConfigured
  | PePaperNotConfigured
  | PeCopiesOutOfRange
  | PeUnsupportedFormat
  | PeInvalidMessage string
  | PeFileTooLarge
  | PeFormatMismatch string string
  | PeDownload download_error
  | PeDocument document_error
  | PeOfficeConvert office_convert_error
  | PeHtml html_render_error
  | PeIo io_error
  | PePrint print_error

fun process_job_error_msg :: "(string list \<Rightarrow> string) \<Rightarrow> process_job_error \<Rightarrow> string" where
  "process_job_error_msg dbg PePrinterNotConfigured = ''printer not configured''"
| "process_job_error_msg dbg PePaperNotConfigured = ''paper not configured''"
| "process_job_error_msg dbg PeCopiesOutOfRange = ''copies out of range''"
| "process_job_error_msg dbg PeUnsupportedFormat = ''unsupported document format''"
| "process_job_error_msg dbg (PeInvalidMessage m) = m"
| "process_job_error_msg dbg PeFileTooLarge = ''file too large''"
| "process_job_error_msg dbg (PeFormatMismatch expected actual) =
     ''format mismatch: expected '' @ expected @ '', got '' @ actual"
| "process_job_error_msg dbg (PeDownload e) = ''download failed: '' @ download_error_msg e"
| "process_job_error_msg dbg (PeDocument e) =
     ''document normalization failed: '' @ document_error_msg e"
| "process_job_error_msg dbg (PeOfficeConvert e) = office_error_msg e"
| "process_job_error_msg dbg (PeHtml e) = ''HTML rendering failed: '' @ html_error_msg dbg e"
| "process_job_error_msg dbg (PeIo e) = io_msg e"
| "process_job_error_msg dbg (PePrint e) = ''print failed: '' @ print_error_msg e"

section \<open>Names\<close>

fun supported_format_name :: "supported_format \<Rightarrow> string" where
  "supported_format_name Pdf = ''pdf''"
| "supported_format_name Image = ''image''"
| "supported_format_name Png = ''png''"
| "supported_format_name Jpg = ''jpg''"
| "supported_format_name Jpeg = ''jpeg''"
| "supported_format_name Docx = ''docx''"
| "supported_format_name Xlsx = ''xlsx''"
| "supported_format_name Pptx = ''pptx''"
| "supported_format_name Raw = ''raw''"
| "supported_format_name Html = ''html''"
| "supported_format_name RawHtml = ''raw-html''"

fun document_format_name :: "document_format \<Rightarrow> string" where
  "document_format_name DfPdf = ''pdf''"
| "document_format_name DfPng = ''png''"
| "document_format_name DfJpeg = ''jpeg''"

fun office_format_name :: "office_format \<Rightarrow> string" where
  "office_format_name OfDocx = ''docx''"
| "office_format_name OfXlsx = ''xlsx''"
| "office_format_name OfPptx = ''pptx''"

fun format_matches :: "supported_format \<Rightarrow> document_format \<Rightarrow> bool" where
  "format_matches Pdf DfPdf = True"
| "format_matches Image DfPng = True"
| "format_matches Image DfJpeg = True"
| "format_matches Png DfPng = True"
| "format_matches Jpg DfJpeg = True"
| "format_matches Jpeg DfJpeg = True"
| "format_matches _ _ = False"

fun task_history_status_of :: "job_status \<Rightarrow> task_history_status" where
  "task_history_status_of JsQueued = HsQueued"
| "task_history_status_of JsDownloading = HsDownloading"
| "task_history_status_of JsPrinting = HsPrinting"
| "task_history_status_of JsSubmitted = HsSubmitted"
| "task_history_status_of JsCompleted = HsCompleted"
| "task_history_status_of JsFailed = HsFailed"
| "task_history_status_of JsUnknown = HsUnknown"
| "task_history_status_of JsCancelled = HsCancelled"

definition format_paper_dimension :: "f64 \<Rightarrow> string" where
  "format_paper_dimension value =
     (if f64_less (f64_abs (f64_fract value)) f64_EPSILON then format_fixed 0 value
      else trim_end_matches (CHR ''.'') (trim_end_matches (CHR ''0'') (format_fixed 2 value)))"

definition paper_info_from_effective :: "effective_paper \<Rightarrow> paper_info" where
  "paper_info_from_effective paper =
     \<lparr>pa_id = ''custom_'' @ format_paper_dimension (ep_width_mm paper) @ ''x''
        @ format_paper_dimension (ep_height_mm paper) @ ''mm'',
      pa_name = paper_name (ep_width_mm paper) (ep_height_mm paper),
      pa_width_mm = ep_width_mm paper, pa_height_mm = ep_height_mm paper\<rparr>"

section \<open>Logging\<close>

record print_log_metadata =
  pm_printer_name :: "string option"
  pm_paper_name :: "string option"
  pm_copies :: "u16 option"

definition file_metadata :: "print_opts \<Rightarrow> print_log_metadata" where
  "file_metadata options =
     \<lparr>pm_printer_name = Some (po_printer_name options),
      pm_paper_name = Some (pa_name (po_paper options)), pm_copies = Some (po_copies options)\<rparr>"

definition raw_metadata :: "raw_print_options \<Rightarrow> print_log_metadata" where
  "raw_metadata options =
     \<lparr>pm_printer_name = Some (ro_printer_name options), pm_paper_name = None, pm_copies = None\<rparr>"

definition log_entry :: "string \<Rightarrow> queued_job \<Rightarrow> job_status \<Rightarrow> string \<Rightarrow> task_log_entry" where
  "log_entry timestamp qj status message =
     \<lparr>tl_timestamp = timestamp, tl_request_id = Some (qj_request_id qj),
      tl_batch_id = qj_batch_id qj, tl_job_id = Some (pj_job_id (qj_job qj)), tl_origin = None,
      tl_status = status, tl_message = message\<rparr>"

definition history_event ::
  "string \<Rightarrow> queued_job \<Rightarrow> job_status \<Rightarrow> string \<Rightarrow> print_log_metadata option \<Rightarrow>
   new_task_history_event" where
  "history_event timestamp qj status message metadata =
     \<lparr>ne_job_id = pj_job_id (qj_job qj), ne_request_id = Some (qj_request_id qj),
      ne_batch_id = qj_batch_id qj, ne_source = SrcWebSocket,
      ne_status = task_history_status_of status,
      ne_message = (if message = [] then None else Some message),
      ne_printer_name = Option.bind metadata pm_printer_name,
      ne_paper_name = Option.bind metadata pm_paper_name,
      ne_copies = Option.bind metadata pm_copies, ne_occurred_at = timestamp\<rparr>"

definition push_log_with_print_metadata ::
  "worker_env \<Rightarrow> queued_job \<Rightarrow> job_status \<Rightarrow> string \<Rightarrow> print_log_metadata option \<Rightarrow> sys \<Rightarrow> sys" where
  "push_log_with_print_metadata X qj status message metadata s =
     (case s of (w, st) \<Rightarrow>
        let (timestamp, w1) = now (we_os X) w;
            entry = log_entry timestamp qj status message;
            st1 = broadcast_status (st\<lparr>as_logs := log_push (as_logs st) entry\<rparr>) entry
        in (w1, case as_task_history st1 of
                  None \<Rightarrow> st1
                | Some db \<Rightarrow>
                    st1\<lparr>as_task_history :=
                      Some (snd (record_event (we_sql X (w_tick w1)) db
                                   (history_event timestamp qj status message metadata)))\<rparr>))"

definition push_log :: "worker_env \<Rightarrow> queued_job \<Rightarrow> job_status \<Rightarrow> string \<Rightarrow> sys \<Rightarrow> sys" where
  "push_log X qj status message s = push_log_with_print_metadata X qj status message None s"

definition push_log_with_metadata ::
  "worker_env \<Rightarrow> queued_job \<Rightarrow> job_status \<Rightarrow> string \<Rightarrow> print_opts option \<Rightarrow> sys \<Rightarrow> sys" where
  "push_log_with_metadata X qj status message options s =
     push_log_with_print_metadata X qj status message (map_option file_metadata options) s"

definition push_log_with_raw_metadata ::
  "worker_env \<Rightarrow> queued_job \<Rightarrow> job_status \<Rightarrow> string \<Rightarrow> raw_print_options \<Rightarrow> sys \<Rightarrow> sys" where
  "push_log_with_raw_metadata X qj status message options s =
     push_log_with_print_metadata X qj status message (Some (raw_metadata options)) s"

definition cleanup_file :: "worker_env \<Rightarrow> string \<Rightarrow> sys \<Rightarrow> sys" where
  "cleanup_file X path s = (case s of (w, st) \<Rightarrow> (snd (fs_remove (we_os X) w path), st))"

section \<open>Options\<close>

definition resolve_printer_name ::
  "queued_job \<Rightarrow> agent_config \<Rightarrow> (process_job_error, string) result" where
  "resolve_printer_name qj config =
     ok_or PePrinterNotConfigured
       (opt_or (pj_printer_name (qj_job qj)) (pc_default_printer (cf_printing config)))"

definition resolve_file_print_options ::
  "queued_job \<Rightarrow> agent_config \<Rightarrow> (process_job_error, print_opts) result" where
  "resolve_file_print_options qj config =
     and_then (resolve_printer_name qj config) (\<lambda>printer_name.
     and_then (ok_or PePaperNotConfigured
                 (opt_or (pj_paper (qj_job qj)) (pc_default_paper (cf_printing config))))
       (\<lambda>paper.
          let copies = unwrap_or (pj_copies (qj_job qj)) 1 in
          if copies = 0 \<or> copies > lc_max_copies (cf_limits config) then Err PeCopiesOutOfRange
          else Ok \<lparr>po_printer_name = printer_name, po_paper = paper_info_from_effective paper,
                   po_copies = copies\<rparr>))"

definition resolve_print_options ::
  "queued_job \<Rightarrow> agent_config \<Rightarrow> (process_job_error, print_opts) result" where
  "resolve_print_options qj config = resolve_file_print_options qj config"

definition resolve_raw_print_options ::
  "queued_job \<Rightarrow> agent_config \<Rightarrow> (process_job_error, raw_print_options) result" where
  "resolve_raw_print_options qj config =
     and_then (resolve_printer_name qj config) (\<lambda>n. Ok \<lparr>ro_printer_name = n\<rparr>)"

section \<open>Preparing a PDF\<close>

definition normalize_pdf_path ::
  "worker_env \<Rightarrow> world \<Rightarrow> string \<Rightarrow> (process_job_error, string) result \<times> world" where
  "normalize_pdf_path X w downloaded_path =
     (if is_some_and (\<lambda>e. eq_ignore_ascii_case e ''pdf'') (path_extension downloaded_path)
      then (Ok downloaded_path, w)
      else
        (let output_path = with_extension downloaded_path ''pdf'' in
         case fs_copy (we_os X) w downloaded_path output_path of
           (Inl e, w') \<Rightarrow> (Err (PeIo e), w')
         | (Inr _, w') \<Rightarrow> (Ok output_path, w')))"

record prepared_pdf =
  pp_path :: string
  pp_office_converter :: "string option"

definition prepare_office_pdf ::
  "worker_env \<Rightarrow> world \<Rightarrow> string \<Rightarrow> office_format \<Rightarrow>
   (process_job_error, prepared_pdf) result \<times> world" where
  "prepare_office_pdf X w downloaded_path expected =
     (case detect_office_format (we_zip X) (we_os X) w downloaded_path of
        (Inl e, w1) \<Rightarrow> (Err (PeOfficeConvert e), w1)
      | (Inr actual, w1) \<Rightarrow>
          if actual \<noteq> Some expected then
            (Err (PeFormatMismatch (office_format_name expected)
                    (case actual of None \<Rightarrow> ''unsupported'' | Some a \<Rightarrow> office_format_name a)), w1)
          else
            (let output_path = with_extension downloaded_path ''pdf'' in
             case office_to_pdf (we_office X) (we_os X) w1 downloaded_path expected output_path of
               (Inl e, w2) \<Rightarrow> (Err (PeOfficeConvert e), w2)
             | (Inr converter, w2) \<Rightarrow>
                 (Ok \<lparr>pp_path = output_path, pp_office_converter = Some converter\<rparr>, w2)))"

definition prepare_printable_pdf ::
  "worker_env \<Rightarrow> world \<Rightarrow> string \<Rightarrow> supported_format \<Rightarrow> paper_info \<Rightarrow>
   (process_job_error, prepared_pdf) result \<times> world" where
  "prepare_printable_pdf X w downloaded_path expected_format paper =
     (case office_format_from_supported expected_format of
        Some expected \<Rightarrow> prepare_office_pdf X w downloaded_path expected
      | None \<Rightarrow>
     (case detect_format (we_os X) w downloaded_path of
        (Inl e, w1) \<Rightarrow> (Err (PeDocument e), w1)
      | (Inr None, w1) \<Rightarrow> (Err PeUnsupportedFormat, w1)
      | (Inr (Some actual), w1) \<Rightarrow>
          if \<not> format_matches expected_format actual then
            (Err (PeFormatMismatch (supported_format_name expected_format)
                    (document_format_name actual)), w1)
          else if actual = DfPdf then
            (case normalize_pdf_path X w1 downloaded_path of
               (Inl e, w2) \<Rightarrow> (Err e, w2)
             | (Inr path, w2) \<Rightarrow> (Ok \<lparr>pp_path = path, pp_office_converter = None\<rparr>, w2))
          else
            (let output_path = with_extension downloaded_path ''pdf'' in
             case image_to_pdf (we_image X) (we_os X) w1 downloaded_path
                    \<lparr>ep_width_mm = pa_width_mm paper, ep_height_mm = pa_height_mm paper\<rparr>
                    output_path of
               (Inl e, w2) \<Rightarrow> (Err (PeDocument e), w2)
             | (Inr _, w2) \<Rightarrow>
                 (Ok \<lparr>pp_path = output_path, pp_office_converter = None\<rparr>, w2))))"

section \<open>Printing\<close>

fun tracking_status :: "print_tracking_outcome \<Rightarrow> job_status \<times> string" where
  "tracking_status (TrackCompleted m) = (JsCompleted, m)"
| "tracking_status (TrackFailed m) = (JsFailed, m)"
| "tracking_status (TrackUnknown m) = (JsUnknown, m)"

definition submit_pdf_and_track ::
  "worker_env \<Rightarrow> queued_job \<Rightarrow> print_opts \<Rightarrow> string \<Rightarrow> sys \<Rightarrow>
   (process_job_error, unit) result \<times> sys" where
  "submit_pdf_and_track X qj options pdf_path s =
     (let s1 = push_log_with_metadata X qj JsPrinting ''printing'' (Some options) s;
          (w1, st1) = s1 in
      case be_print_pdf (we_backend X) (w_tick w1) pdf_path options of
        Inl e \<Rightarrow> (Err (PePrint e), (tick w1, st1))
      | Inr submission \<Rightarrow>
          (let s2 = push_log_with_metadata X qj JsSubmitted ''submitted to system print queue''
                      (Some options) (tick w1, st1);
               (w2, st2) = s2 in
           if \<not> ps_tracking_supported submission then (Ok (), s2)
           else
             (let (status, message) =
                    tracking_status (be_track_submission (we_backend X) (w_tick w2) submission options)
              in (Ok (), push_log_with_metadata X qj status message (Some options) (tick w2, st2)))))"

definition print_raw_job ::
  "worker_env \<Rightarrow> queued_job \<Rightarrow> raw_print_options \<Rightarrow> agent_config \<Rightarrow> sys \<Rightarrow>
   (process_job_error, unit) result \<times> sys" where
  "print_raw_job X qj options config s =
     (case pj_data_base64 (qj_job qj) of
        None \<Rightarrow> (Err (PeInvalidMessage ''raw job requires data_base64''), s)
      | Some data_base64 \<Rightarrow>
     (case x_b64_decode (we_lib X) data_base64 of
        None \<Rightarrow> (Err (PeInvalidMessage ''invalid raw data_base64''), s)
      | Some data \<Rightarrow>
          if length data > unat (max_bytes_of (lc_max_file_size_mb (cf_limits config)))
          then (Err PeFileTooLarge, s)
          else
            (let (w1, st1) = push_log_with_raw_metadata X qj JsPrinting ''printing raw'' options s in
             case be_print_raw (we_backend X) (w_tick w1) data options of
               Inl e \<Rightarrow> (Err (PePrint e), (tick w1, st1))
             | Inr submission \<Rightarrow>
                 (let s2 = push_log_with_raw_metadata X qj JsSubmitted
                             ''submitted to system print queue'' options (tick w1, st1);
                      (w2, st2) = s2 in
                  if \<not> ps_tracking_supported submission then (Ok (), s2)
                  else
                    (let (status, message) =
                           tracking_status
                             (be_track_raw_submission (we_backend X) (w_tick w2) submission options)
                     in (Ok (),
                         push_log_with_raw_metadata X qj status message options (tick w2, st2)))))))"

definition html_job_source ::
  "worker_env \<Rightarrow> queued_job \<Rightarrow> (process_job_error, html_source) result" where
  "html_job_source X qj =
     (case pj_format (qj_job qj) of
        Html \<Rightarrow>
          and_then (ok_or (PeInvalidMessage ''html job requires file_url'') (pj_file_url (qj_job qj)))
            (\<lambda>file_url.
               and_then
                 (map_err (\<lambda>e. PeInvalidMessage (''invalid html file_url: '' @ protocol_error_msg e))
                    (validate_html_file_url (we_lib X) file_url))
                 (\<lambda>u. Ok (SourceUrl u)))
      | RawHtml \<Rightarrow>
          and_then (ok_or (PeInvalidMessage ''raw-html job requires html'') (pj_html (qj_job qj)))
            (\<lambda>html. Ok (SourceInline html))
      | _ \<Rightarrow> Err PeUnsupportedFormat)"

definition html_request ::
  "worker_env \<Rightarrow> queued_job \<Rightarrow> print_opts \<Rightarrow> html_source \<Rightarrow> string \<Rightarrow> html_render_request" where
  "html_request X qj options source output_path =
     \<lparr>rq_source = source,
      rq_allowed_loopback_origin =
        Option.bind (qj_html_local_origin qj) (x_url_parse (we_lib X)),
      rq_paper = unwrap_or (pj_paper (qj_job qj))
        \<lparr>ep_width_mm = pa_width_mm (po_paper options), ep_height_mm = pa_height_mm (po_paper options)\<rparr>,
      rq_wait_ms = unwrap_or (pj_wait_ms (qj_job qj)) DEFAULT_HTML_WAIT_MS,
      rq_output_path = output_path\<rparr>"

definition print_html_job ::
  "worker_env \<Rightarrow> queued_job \<Rightarrow> print_opts \<Rightarrow> sys \<Rightarrow> (process_job_error, unit) result \<times> sys" where
  "print_html_job X qj options s =
     (case html_job_source X qj of
        Inl e \<Rightarrow> (Err e, s)
      | Inr source \<Rightarrow>
          (case s of (w, st) \<Rightarrow>
           let (uuid, w0) = new_uuid (we_os X) w;
               output_path = path_join (os_temp_dir (we_os X)) (''yinshu-html-'' @ uuid @ ''.pdf'')
           in case we_render X (w_tick w0) (html_request X qj options source output_path) (tick w0) of
                (Inl e, w1) \<Rightarrow> (Err (PeHtml e), cleanup_file X output_path (w1, st))
              | (Inr rendered, w1) \<Rightarrow>
                  (let s2 = push_log_with_metadata X qj JsPrinting
                              (''rendering html with '' @ rr_renderer rendered) (Some options) (w1, st);
                       (result, s3) = submit_pdf_and_track X qj options (rr_output_path rendered) s2;
                       s4 = cleanup_file X (rr_output_path rendered) s3;
                       s5 = (if rr_output_path rendered \<noteq> output_path
                             then cleanup_file X output_path s4 else s4)
                   in (result, s5))))"

definition print_downloaded_file ::
  "worker_env \<Rightarrow> queued_job \<Rightarrow> print_opts \<Rightarrow> string \<Rightarrow> sys \<Rightarrow>
   (process_job_error, unit) result \<times> sys" where
  "print_downloaded_file X qj options downloaded_path s =
     (case s of (w, st) \<Rightarrow>
      case prepare_printable_pdf X w downloaded_path (pj_format (qj_job qj)) (po_paper options) of
        (Inl e, w1) \<Rightarrow> (Err e, (w1, st))
      | (Inr printable, w1) \<Rightarrow>
          (let s2 = (case pp_office_converter printable of
                       None \<Rightarrow> (w1, st)
                     | Some converter \<Rightarrow>
                         push_log_with_metadata X qj JsPrinting
                           (''converted office with '' @ converter) (Some options) (w1, st));
               (result, s3) = submit_pdf_and_track X qj options (pp_path printable) s2
           in (result,
               if pp_path printable \<noteq> downloaded_path then cleanup_file X (pp_path printable) s3
               else s3)))"

definition process_file_job ::
  "worker_env \<Rightarrow> queued_job \<Rightarrow> agent_config \<Rightarrow> sys \<Rightarrow> (process_job_error, unit) result \<times> sys" where
  "process_file_job X qj config s =
     (let s1 = push_log X qj JsDownloading ''downloading'' s in
      case pj_file_url (qj_job qj) of
        None \<Rightarrow> (Err (PeInvalidMessage ''file job requires file_url''), s1)
      | Some file_url \<Rightarrow>
     (case resolve_print_options qj config of
        Inl e \<Rightarrow> (Err e, s1)
      | Inr options \<Rightarrow>
          (case s1 of (w1, st1) \<Rightarrow>
           case download_to_temp (we_lib X) (we_http X) (we_os X) w1 file_url (cf_limits config) of
             (Inl e, w2) \<Rightarrow> (Err (PeDownload e), (w2, st1))
           | (Inr downloaded_path, w2) \<Rightarrow>
               (case print_downloaded_file X qj options downloaded_path (w2, st1) of (result, s3) \<Rightarrow>
                  (result, cleanup_file X downloaded_path s3)))))"

definition process_job_inner ::
  "worker_env \<Rightarrow> queued_job \<Rightarrow> sys \<Rightarrow> (process_job_error, unit) result \<times> sys" where
  "process_job_inner X qj s =
     (let config = as_config (snd s) in
      if pj_format (qj_job qj) = Html \<or> pj_format (qj_job qj) = RawHtml then
        (case resolve_print_options qj config of
           Inl e \<Rightarrow> (Err e, s)
         | Inr options \<Rightarrow> print_html_job X qj options s)
      else if pj_format (qj_job qj) = Raw then
        (case resolve_raw_print_options qj config of
           Inl e \<Rightarrow> (Err e, s)
         | Inr options \<Rightarrow> print_raw_job X qj options config s)
      else process_file_job X qj config s)"

definition process_job :: "worker_env \<Rightarrow> queued_job \<Rightarrow> sys \<Rightarrow> sys" where
  "process_job X qj s =
     (case process_job_inner X qj (push_log X qj JsQueued ''queued'' s) of
        (Inl e, s') \<Rightarrow>
          push_log X qj JsFailed (process_job_error_msg (we_debug_list X) e) s'
      | (Inr _, s') \<Rightarrow> s')"

section \<open>What a job logs\<close>

text \<open>\<open>job_log X qj ss st st'\<close>: from \<open>st\<close> to \<open>st'\<close> only the logs changed, by entries of this job with
  the statuses \<open>ss\<close>, the same in the memory log, on the channel and (without SQL faults) in the
  history.\<close>

definition entry_of :: "queued_job \<Rightarrow> task_log_entry \<Rightarrow> bool" where
  "entry_of qj e \<longleftrightarrow>
     tl_job_id e = Some (pj_job_id (qj_job qj)) \<and> tl_request_id e = Some (qj_request_id qj)
     \<and> tl_batch_id e = qj_batch_id qj"

definition history_log ::
  "worker_env \<Rightarrow> queued_job \<Rightarrow> job_status list \<Rightarrow> task_db option \<Rightarrow> task_db option \<Rightarrow> bool" where
  "history_log X qj ss h h' \<longleftrightarrow>
     (case h of
        None \<Rightarrow> h' = None
      | Some db \<Rightarrow>
          h' \<noteq> None \<and>
          ((\<forall>n k. \<not> we_sql X n k) \<longrightarrow>
             (\<exists>evs. h' = Some (record_all db evs) \<and> map ne_status evs = map task_history_status_of ss
                \<and> (\<forall>ev \<in> set evs. ne_job_id ev = pj_job_id (qj_job qj)))))"

definition job_log ::
  "worker_env \<Rightarrow> queued_job \<Rightarrow> job_status list \<Rightarrow> agent_state \<Rightarrow> agent_state \<Rightarrow> bool" where
  "job_log X qj ss st st' \<longleftrightarrow>
     (\<exists>es. map tl_status es = ss \<and> (\<forall>e \<in> set es. entry_of qj e)
        \<and> st' = st\<lparr>as_logs := foldl log_push (as_logs st) es,
                   as_status_events := as_status_events st @ es,
                   as_task_history := as_task_history st'\<rparr>)
     \<and> history_log X qj ss (as_task_history st) (as_task_history st')"

lemma record_all_append: "record_all db (es @ fs) = record_all (record_all db es) fs"
  by (simp add: record_all_def)

lemma record_all_Nil [simp]: "record_all db [] = db"
  by (simp add: record_all_def)

lemma history_log_refl: "history_log X qj [] h h"
  by (auto simp: history_log_def split: option.splits intro: exI [of _ "[]"])

lemma history_log_trans:
  assumes "history_log X qj ss h h1" and "history_log X qj tt h1 h2"
  shows "history_log X qj (ss @ tt) h h2"
proof (cases h)
  case None
  with assms show ?thesis by (simp add: history_log_def)
next
  case (Some db)
  with assms obtain db1 where h1: "h1 = Some db1" by (auto simp: history_log_def)
  show ?thesis
  proof (cases "\<forall>n k. \<not> we_sql X n k")
    case True
    with assms Some h1 obtain evs fvs where
      "db1 = record_all db evs" "h2 = Some (record_all db1 fvs)"
      "map ne_status evs = map task_history_status_of ss"
      "map ne_status fvs = map task_history_status_of tt"
      "\<forall>ev \<in> set evs. ne_job_id ev = pj_job_id (qj_job qj)"
      "\<forall>ev \<in> set fvs. ne_job_id ev = pj_job_id (qj_job qj)"
      by (auto simp: history_log_def)
    then have "h2 = Some (record_all db (evs @ fvs))
        \<and> map ne_status (evs @ fvs) = map task_history_status_of (ss @ tt)
        \<and> (\<forall>ev \<in> set (evs @ fvs). ne_job_id ev = pj_job_id (qj_job qj))"
      by (auto simp: record_all_append)
    then show ?thesis using Some by (auto simp: history_log_def)
  next
    case False
    with assms Some h1 show ?thesis by (auto simp: history_log_def)
  qed
qed

lemma job_log_refl [simp, intro]: "job_log X qj [] st st"
  by (auto simp: job_log_def history_log_refl intro: exI [of _ "[]"])

lemma job_log_trans:
  assumes "job_log X qj ss st st1" and "job_log X qj tt st1 st2"
  shows "job_log X qj (ss @ tt) st st2"
proof -
  from assms obtain es fs where e: "map tl_status es = ss" "\<forall>e \<in> set es. entry_of qj e"
      "st1 = st\<lparr>as_logs := foldl log_push (as_logs st) es,
                as_status_events := as_status_events st @ es, as_task_history := as_task_history st1\<rparr>"
    and f: "map tl_status fs = tt" "\<forall>e \<in> set fs. entry_of qj e"
      "st2 = st1\<lparr>as_logs := foldl log_push (as_logs st1) fs,
                as_status_events := as_status_events st1 @ fs, as_task_history := as_task_history st2\<rparr>"
    unfolding job_log_def by blast
  have logs: "as_logs st1 = foldl log_push (as_logs st) es"
    "as_status_events st1 = as_status_events st @ es"
    using arg_cong [OF e(3), of as_logs] arg_cong [OF e(3), of as_status_events] by simp_all
  have "st2 = st\<lparr>as_logs := foldl log_push (as_logs st) (es @ fs),
      as_status_events := as_status_events st @ es @ fs, as_task_history := as_task_history st2\<rparr>"
    using e(3) f(3) logs by (cases st, cases st1, cases st2) simp
  with e f have "\<exists>gs. map tl_status gs = ss @ tt \<and> (\<forall>e \<in> set gs. entry_of qj e)
        \<and> st2 = st\<lparr>as_logs := foldl log_push (as_logs st) gs,
                   as_status_events := as_status_events st @ gs,
                   as_task_history := as_task_history st2\<rparr>"
    by (intro exI [of _ "es @ fs"]) auto
  moreover have "history_log X qj (ss @ tt) (as_task_history st) (as_task_history st2)"
    using assms history_log_trans by (auto simp: job_log_def)
  ultimately show ?thesis by (simp add: job_log_def)
qed

lemma push_job_log:
  "job_log X qj [status] (snd s) (snd (push_log_with_print_metadata X qj status msg md s))"
proof -
  obtain w st where s: "s = (w, st)" by fastforce
  let ?e = "log_entry (os_now (we_os X) (w_tick w)) qj status msg"
  let ?ev = "history_event (os_now (we_os X) (w_tick w)) qj status msg md"
  let ?st' = "snd (push_log_with_print_metadata X qj status msg md s)"
  have "?st' = st\<lparr>as_logs := foldl log_push (as_logs st) [?e],
      as_status_events := as_status_events st @ [?e], as_task_history := as_task_history ?st'\<rparr>"
    by (simp add: s push_log_with_print_metadata_def now_def Let_def broadcast_status_def
        split: option.splits)
  moreover have "entry_of qj ?e" "tl_status ?e = status"
    by (simp_all add: entry_of_def log_entry_def)
  ultimately have "\<exists>es. map tl_status es = [status] \<and> (\<forall>e \<in> set es. entry_of qj e)
        \<and> ?st' = st\<lparr>as_logs := foldl log_push (as_logs st) es,
                   as_status_events := as_status_events st @ es,
                   as_task_history := as_task_history ?st'\<rparr>"
    by (intro exI [of _ "[?e]"]) simp
  moreover have "history_log X qj [status] (as_task_history st) (as_task_history ?st')"
  proof (cases "as_task_history st")
    case None
    then show ?thesis
      by (simp add: history_log_def s push_log_with_print_metadata_def now_def Let_def
          broadcast_status_def)
  next
    case (Some db)
    have "snd (record_event (we_sql X n) db ?ev) = record_all db [?ev]" if "\<forall>n k. \<not> we_sql X n k" for n
    proof -
      from that have "we_sql X n = (\<lambda>_. False)" by (intro ext) blast
      then show ?thesis by (simp add: record_all_def)
    qed
    moreover have "ne_status ?ev = task_history_status_of status"
      "ne_job_id ?ev = pj_job_id (qj_job qj)"
      by (simp_all add: history_event_def)
    ultimately show ?thesis
      using Some by (auto simp: history_log_def s push_log_with_print_metadata_def now_def Let_def
          broadcast_status_def intro!: exI [of _ "[?ev]"])
  qed
  ultimately show ?thesis by (simp add: job_log_def s)
qed

lemmas push_defs = push_log_def push_log_with_metadata_def push_log_with_raw_metadata_def

lemma push_job_logs [worker_simps]:
  "job_log X qj [status] (snd s) (snd (push_log X qj status msg s))"
  "job_log X qj [status] (snd s) (snd (push_log_with_metadata X qj status msg opts s))"
  "job_log X qj [status] (snd s) (snd (push_log_with_raw_metadata X qj status msg ropts s))"
  by (simp_all add: push_defs push_job_log)

lemma snd_cleanup_file [simp]: "snd (cleanup_file X p s) = snd s"
  by (simp add: cleanup_file_def split: prod.splits)

section \<open>The life of a job\<close>

definition submitted_end :: "job_status list \<Rightarrow> bool" where
  "submitted_end fin \<longleftrightarrow>
     fin = [JsSubmitted] \<or> (\<exists>t \<in> {JsCompleted, JsFailed, JsUnknown}. fin = [JsSubmitted, t])"

text \<open>The statuses the steps after the first one log: a download at most once and first, then at
  most two printing messages, and on success the submission and at most one tracking result.\<close>

definition inner_statuses :: "(process_job_error, unit) result \<Rightarrow> job_status list \<Rightarrow> bool" where
  "inner_statuses r ss \<longleftrightarrow>
     (\<exists>d n fin. ss = d @ replicate n JsPrinting @ fin \<and> d \<in> {[], [JsDownloading]} \<and> n \<le> 2 \<and>
        (case r of Inl _ \<Rightarrow> fin = [] | Inr _ \<Rightarrow> 1 \<le> n \<and> submitted_end fin))"

definition lifecycle :: "job_status list \<Rightarrow> bool" where
  "lifecycle ss \<longleftrightarrow>
     (\<exists>d n fin. ss = JsQueued # d @ replicate n JsPrinting @ fin \<and> d \<in> {[], [JsDownloading]} \<and> n \<le> 2 \<and>
        (fin = [JsFailed] \<or> 1 \<le> n \<and> submitted_end fin))"

lemma tracking_status_end: "submitted_end [JsSubmitted, fst (tracking_status t)]"
  by (cases t) (simp_all add: submitted_end_def)

text \<open>Raw and PDF submissions share their shape: print, log the submission, track if supported.\<close>

definition print_and_track ::
  "(job_status \<Rightarrow> string \<Rightarrow> sys \<Rightarrow> sys) \<Rightarrow> (nat \<Rightarrow> (print_error, print_submission) result) \<Rightarrow>
   (nat \<Rightarrow> print_submission \<Rightarrow> print_tracking_outcome) \<Rightarrow> sys \<Rightarrow>
   (process_job_error, unit) result \<times> sys" where
  "print_and_track push prnt track s =
     (case prnt (w_tick (fst s)) of
        Inl e \<Rightarrow> (Err (PePrint e), (tick (fst s), snd s))
      | Inr sub \<Rightarrow>
          (let s2 = push JsSubmitted ''submitted to system print queue'' (tick (fst s), snd s) in
           if \<not> ps_tracking_supported sub then (Ok (), s2)
           else
             (let t = tracking_status (track (w_tick (fst s2)) sub)
              in (Ok (), push (fst t) (snd t) (tick (fst s2), snd s2)))))"

lemma submit_pdf_eq:
  "submit_pdf_and_track X qj opts p s =
     print_and_track (\<lambda>st m. push_log_with_metadata X qj st m (Some opts))
       (\<lambda>k. be_print_pdf (we_backend X) k p opts)
       (\<lambda>k sub. be_track_submission (we_backend X) k sub opts)
       (push_log_with_metadata X qj JsPrinting ''printing'' (Some opts) s)"
  by (simp add: submit_pdf_and_track_def print_and_track_def Let_def split: prod.splits sum.splits)

lemma print_raw_eq:
  "print_raw_job X qj opts config s =
     (case pj_data_base64 (qj_job qj) of
        None \<Rightarrow> (Err (PeInvalidMessage ''raw job requires data_base64''), s)
      | Some data_base64 \<Rightarrow>
     (case x_b64_decode (we_lib X) data_base64 of
        None \<Rightarrow> (Err (PeInvalidMessage ''invalid raw data_base64''), s)
      | Some data \<Rightarrow>
          if length data > unat (max_bytes_of (lc_max_file_size_mb (cf_limits config)))
          then (Err PeFileTooLarge, s)
          else
            print_and_track (\<lambda>st m. push_log_with_raw_metadata X qj st m opts)
              (\<lambda>k. be_print_raw (we_backend X) k data opts)
              (\<lambda>k sub. be_track_raw_submission (we_backend X) k sub opts)
              (push_log_with_raw_metadata X qj JsPrinting ''printing raw'' opts s)))"
  by (simp add: print_raw_job_def print_and_track_def Let_def
      split: prod.splits sum.splits option.splits)

lemma print_and_track_log:
  assumes push: "\<And>status msg s. job_log X qj [status] (snd s) (snd (push status msg s))"
  shows "\<exists>fin. job_log X qj fin (snd s) (snd (snd (print_and_track push prnt track s)))
    \<and> (case fst (print_and_track push prnt track s) of Inl _ \<Rightarrow> fin = [] | Inr _ \<Rightarrow> submitted_end fin)"
proof (cases "prnt (w_tick (fst s))")
  case (Inl e)
  then show ?thesis by (auto simp: print_and_track_def)
next
  case (Inr sub)
  let ?s2 = "push JsSubmitted ''submitted to system print queue'' (tick (fst s), snd s)"
  let ?t = "tracking_status (track (w_tick (fst ?s2)) sub)"
  have l2: "job_log X qj [JsSubmitted] (snd s) (snd ?s2)"
    using push [of JsSubmitted "(tick (fst s), snd s)"] by simp
  have l3: "job_log X qj [JsSubmitted, fst ?t] (snd s) (snd (push (fst ?t) (snd ?t) (tick (fst ?s2), snd ?s2)))"
    using job_log_trans [OF l2 push [of "fst ?t" "(tick (fst ?s2), snd ?s2)" "snd ?t", unfolded snd_conv]]
    by simp
  show ?thesis
  proof (cases "ps_tracking_supported sub")
    case True
    with Inr l3 tracking_status_end [of "track (w_tick (fst ?s2)) sub"] show ?thesis
      by (intro exI [of _ "[JsSubmitted, fst ?t]"]) (simp add: print_and_track_def Let_def)
  next
    case False
    with Inr l2 show ?thesis
      by (intro exI [of _ "[JsSubmitted]"]) (simp add: print_and_track_def Let_def submitted_end_def)
  qed
qed

lemma submit_pdf_log:
  "\<exists>fin. job_log X qj (JsPrinting # fin) (snd s) (snd (snd (submit_pdf_and_track X qj opts p s)))
    \<and> (case fst (submit_pdf_and_track X qj opts p s) of Inl _ \<Rightarrow> fin = [] | Inr _ \<Rightarrow> submitted_end fin)"
proof -
  let ?s1 = "push_log_with_metadata X qj JsPrinting ''printing'' (Some opts) s"
  let ?r = "submit_pdf_and_track X qj opts p s"
  have "\<exists>fin. job_log X qj fin (snd ?s1) (snd (snd ?r))
      \<and> (case fst ?r of Inl _ \<Rightarrow> fin = [] | Inr _ \<Rightarrow> submitted_end fin)"
    unfolding submit_pdf_eq by (rule print_and_track_log) (rule push_job_logs)
  then show ?thesis
    using job_log_trans [OF push_job_logs(2) [of X qj JsPrinting s "''printing''" "Some opts"]]
    by fastforce
qed

lemma inner_statuses_none: "inner_statuses (Inl e) []"
  by (auto simp: inner_statuses_def intro!: exI [of _ "0::nat"])

lemma inner_statuses_print:
  "(case r of Inl _ \<Rightarrow> fin = [] | Inr _ \<Rightarrow> submitted_end fin) \<Longrightarrow> inner_statuses r (JsPrinting # fin)"
  unfolding inner_statuses_def
  by (intro exI [of _ "[]"] exI [of _ "1::nat"] exI [of _ fin]) (auto split: sum.splits)

lemma inner_statuses_print2:
  "(case r of Inl _ \<Rightarrow> fin = [] | Inr _ \<Rightarrow> submitted_end fin) \<Longrightarrow>
     inner_statuses r (JsPrinting # JsPrinting # fin)"
  unfolding inner_statuses_def
  by (intro exI [of _ "[]"] exI [of _ "2::nat"] exI [of _ fin])
    (auto simp: numeral_2_eq_2 split: sum.splits)

text \<open>The result and the log of one branch of the worker.\<close>

definition branch_ok ::
  "worker_env \<Rightarrow> queued_job \<Rightarrow> sys \<Rightarrow> (process_job_error, unit) result \<times> sys \<Rightarrow> bool" where
  "branch_ok X qj s res \<longleftrightarrow>
     (\<exists>ss. job_log X qj ss (snd s) (snd (snd res)) \<and> inner_statuses (fst res) ss
        \<and> JsDownloading \<notin> set ss)"

lemma branch_ok_err: "snd s' = snd s \<Longrightarrow> branch_ok X qj s (Inl e, s')"
  by (auto simp: branch_ok_def inner_statuses_none intro!: exI [of _ "[]"])

lemma submitted_no_download:
  "(case r of Inl _ \<Rightarrow> fin = [] | Inr _ \<Rightarrow> submitted_end fin) \<Longrightarrow> JsDownloading \<notin> set fin"
  by (auto simp: submitted_end_def split: sum.splits)

lemma branch_ok_printI:
  assumes "job_log X qj (JsPrinting # fin) (snd s) (snd (snd res))"
    and "case fst res of Inl _ \<Rightarrow> fin = [] | Inr _ \<Rightarrow> submitted_end fin"
  shows "branch_ok X qj s res"
  unfolding branch_ok_def
  using assms inner_statuses_print [OF assms(2)] submitted_no_download [OF assms(2)]
  by (intro exI [of _ "JsPrinting # fin"]) simp

lemma branch_ok_submit: "branch_ok X qj s (submit_pdf_and_track X qj opts p s)"
  using submit_pdf_log [of X qj s opts p] branch_ok_printI by blast

lemma branch_ok_log_submit:
  "branch_ok X qj s
     (submit_pdf_and_track X qj opts p (push_log_with_metadata X qj JsPrinting m o' s))"
proof -
  let ?s1 = "push_log_with_metadata X qj JsPrinting m o' s"
  obtain fin where f: "job_log X qj (JsPrinting # fin) (snd ?s1) (snd (snd (submit_pdf_and_track X qj opts p ?s1)))"
    "case fst (submit_pdf_and_track X qj opts p ?s1) of Inl _ \<Rightarrow> fin = [] | Inr _ \<Rightarrow> submitted_end fin"
    using submit_pdf_log [of X qj ?s1 opts p] by blast
  from job_log_trans [OF push_job_logs(2) f(1)]
  have "job_log X qj (JsPrinting # JsPrinting # fin) (snd s) (snd (snd (submit_pdf_and_track X qj opts p ?s1)))"
    by simp
  then show ?thesis
    unfolding branch_ok_def using inner_statuses_print2 [OF f(2)] submitted_no_download [OF f(2)]
    by (intro exI [of _ "JsPrinting # JsPrinting # fin"]) simp
qed

lemma branch_ok_cleanup:
  "branch_ok X qj s (r, s') \<Longrightarrow> snd s'' = snd s' \<Longrightarrow> branch_ok X qj s (r, s'')"
  by (simp add: branch_ok_def)

lemma branch_ok_raw: "branch_ok X qj s (print_raw_job X qj opts config s)"
proof -
  let ?s1 = "push_log_with_raw_metadata X qj JsPrinting ''printing raw'' opts s"
  have "branch_ok X qj s (print_and_track (\<lambda>st m. push_log_with_raw_metadata X qj st m opts) a b ?s1)"
    for a b
  proof -
    let ?r = "print_and_track (\<lambda>st m. push_log_with_raw_metadata X qj st m opts) a b ?s1"
    have "\<exists>fin. job_log X qj fin (snd ?s1) (snd (snd ?r))
        \<and> (case fst ?r of Inl _ \<Rightarrow> fin = [] | Inr _ \<Rightarrow> submitted_end fin)"
      by (rule print_and_track_log) (rule push_job_logs)
    then obtain fin where f: "job_log X qj fin (snd ?s1) (snd (snd ?r))"
        "case fst ?r of Inl _ \<Rightarrow> fin = [] | Inr _ \<Rightarrow> submitted_end fin" by blast
    from job_log_trans [OF push_job_logs(3) f(1)] f(2) show ?thesis
      by (intro branch_ok_printI [of X qj fin]) simp_all
  qed
  then show ?thesis
    unfolding print_raw_eq by (auto intro: branch_ok_err split: option.split)
qed

lemma branch_ok_html: "branch_ok X qj s (print_html_job X qj opts s)"
proof -
  obtain w st where s: "s = (w, st)" by fastforce
  show ?thesis
  proof (cases "html_job_source X qj")
    case (Inl e)
    then show ?thesis by (simp add: print_html_job_def branch_ok_err)
  next
    case (Inr source)
    let ?w0 = "tick w"
    let ?out = "path_join (os_temp_dir (we_os X)) (''yinshu-html-'' @ os_uuid (we_os X) (w_tick w) @ ''.pdf'')"
    obtain r w1 where r: "we_render X (w_tick ?w0) (html_request X qj opts source ?out) (tick ?w0) = (r, w1)"
      by fastforce
    show ?thesis
    proof (cases r)
      case (Inl e)
      with Inr r s show ?thesis
        by (simp add: print_html_job_def new_uuid_def branch_ok_err)
    next
      case ok: (Inr rendered)
      let ?s2 = "push_log_with_metadata X qj JsPrinting (''rendering html with '' @ rr_renderer rendered)
          (Some opts) (w1, st)"
      obtain res s3 where sub: "submit_pdf_and_track X qj opts (rr_output_path rendered) ?s2 = (res, s3)"
        by (rule prod.exhaust)
      have "branch_ok X qj (w1, st) (res, s3)"
        using branch_ok_log_submit [of X qj "(w1, st)" opts] sub by metis
      then have b: "branch_ok X qj (w, st) (res, s3)" by (simp add: branch_ok_def)
      show ?thesis
        using Inr r ok sub s
        by (auto simp: print_html_job_def new_uuid_def Let_def intro: branch_ok_cleanup [OF b])
    qed
  qed
qed

lemma branch_ok_downloaded: "branch_ok X qj s (print_downloaded_file X qj opts p s)"
proof -
  obtain w st where s: "s = (w, st)" by fastforce
  obtain r w1 where r: "prepare_printable_pdf X w p (pj_format (qj_job qj)) (po_paper opts) = (r, w1)"
    by fastforce
  show ?thesis
  proof (cases r)
    case (Inl e)
    with r s show ?thesis by (simp add: print_downloaded_file_def branch_ok_err)
  next
    case (Inr pp)
    let ?s2 = "case pp_office_converter pp of None \<Rightarrow> (w1, st)
        | Some c \<Rightarrow> push_log_with_metadata X qj JsPrinting (''converted office with '' @ c) (Some opts) (w1, st)"
    obtain res s3 where sub: "submit_pdf_and_track X qj opts (pp_path pp) ?s2 = (res, s3)"
      by (rule prod.exhaust)
    have "branch_ok X qj (w1, st) (submit_pdf_and_track X qj opts (pp_path pp) ?s2)"
      by (simp add: branch_ok_submit branch_ok_log_submit split: option.split)
    then have b: "branch_ok X qj (w, st) (res, s3)" by (simp add: branch_ok_def sub)
    show ?thesis
      using r Inr sub s
      by (auto simp: print_downloaded_file_def Let_def intro: branch_ok_cleanup [OF b])
  qed
qed

lemma inner_statuses_download:
  assumes "inner_statuses r ss" and "JsDownloading \<notin> set ss"
  shows "inner_statuses r (JsDownloading # ss)"
proof -
  from assms obtain n fin where "ss = replicate n JsPrinting @ fin" "n \<le> 2"
      "case r of Inl _ \<Rightarrow> fin = [] | Inr _ \<Rightarrow> 1 \<le> n \<and> submitted_end fin"
    by (auto simp: inner_statuses_def)
  then show ?thesis
    unfolding inner_statuses_def
    by (intro exI [of _ "[JsDownloading]"] exI [of _ n] exI [of _ fin]) simp
qed

lemma file_job_log:
  "\<exists>ss. job_log X qj ss (snd s) (snd (snd (process_file_job X qj config s)))
     \<and> inner_statuses (fst (process_file_job X qj config s)) ss"
proof -
  let ?s1 = "push_log X qj JsDownloading ''downloading'' s"
  let ?r = "process_file_job X qj config s"
  obtain w1 st1 where s1: "?s1 = (w1, st1)" by fastforce
  have "branch_ok X qj ?s1 ?r"
  proof (cases "pj_file_url (qj_job qj)")
    case None
    then show ?thesis by (simp add: process_file_job_def branch_ok_err)
  next
    case url: (Some u)
    show ?thesis
    proof (cases "resolve_print_options qj config")
      case (Inl e)
      with url show ?thesis by (simp add: process_file_job_def branch_ok_err)
    next
      case opts: (Inr opts)
      obtain r w2 where d: "download_to_temp (we_lib X) (we_http X) (we_os X) w1 u (cf_limits config) = (r, w2)"
        by fastforce
      show ?thesis
      proof (cases r)
        case (Inl e)
        with url opts d s1 show ?thesis by (simp add: process_file_job_def branch_ok_err)
      next
        case (Inr p)
        obtain res s3 where p: "print_downloaded_file X qj opts p (w2, st1) = (res, s3)"
          by (rule prod.exhaust)
        have "branch_ok X qj (w2, st1) (res, s3)"
          using branch_ok_downloaded [of X qj "(w2, st1)" opts p] p by simp
        then have "branch_ok X qj ?s1 (res, cleanup_file X p s3)"
          by (simp add: branch_ok_def s1)
        with url opts d s1 Inr p show ?thesis by (simp add: process_file_job_def)
      qed
    qed
  qed
  then obtain ss where "job_log X qj ss (snd ?s1) (snd (snd ?r))" "inner_statuses (fst ?r) ss"
      "JsDownloading \<notin> set ss"
    by (auto simp: branch_ok_def)
  with job_log_trans [OF push_job_logs(1) [of X qj JsDownloading s "''downloading''"]]
    inner_statuses_download [of "fst ?r" ss]
  show ?thesis by (intro exI [of _ "JsDownloading # ss"]) fastforce
qed

lemma process_job_inner_log:
  "\<exists>ss. job_log X qj ss (snd s) (snd (snd (process_job_inner X qj s)))
     \<and> inner_statuses (fst (process_job_inner X qj s)) ss"
proof -
  have branch: "branch_ok X qj s r \<Longrightarrow> \<exists>ss. job_log X qj ss (snd s) (snd (snd r)) \<and> inner_statuses (fst r) ss"
    for r by (auto simp: branch_ok_def)
  have early: "\<exists>ss. job_log X qj ss (snd s) (snd s) \<and> inner_statuses (Inl e) ss" for e
    using inner_statuses_none job_log_refl by blast
  show ?thesis
    unfolding process_job_inner_def Let_def
    using early branch [OF branch_ok_html] branch [OF branch_ok_raw] file_job_log
    by (auto split: sum.split)
qed

lemma process_job_log:
  "\<exists>ss. lifecycle ss \<and> job_log X qj ss (snd s) (snd (process_job X qj s))"
proof -
  let ?s1 = "push_log X qj JsQueued ''queued'' s"
  obtain r s2 where r: "process_job_inner X qj ?s1 = (r, s2)" by (rule prod.exhaust)
  obtain ss where l: "job_log X qj ss (snd ?s1) (snd s2)" and i: "inner_statuses r ss"
    using process_job_inner_log [of X qj ?s1] r by auto
  from job_log_trans [OF push_job_logs(1) l]
  have l1: "job_log X qj (JsQueued # ss) (snd s) (snd s2)" by simp
  show ?thesis
  proof (cases r)
    case (Inl e)
    from job_log_trans [OF l1 push_job_logs(1)]
    have "job_log X qj (JsQueued # ss @ [JsFailed]) (snd s) (snd (process_job X qj s))"
      using r Inl by (simp add: process_job_def)
    moreover from i Inl obtain d n where "ss = d @ replicate n JsPrinting" "d \<in> {[], [JsDownloading]}" "n \<le> 2"
      by (auto simp: inner_statuses_def)
    then have "lifecycle (JsQueued # ss @ [JsFailed])"
      unfolding lifecycle_def by (intro exI [of _ d] exI [of _ n] exI [of _ "[JsFailed]"]) simp
    ultimately show ?thesis by blast
  next
    case (Inr u)
    from i Inr obtain d n fin where "ss = d @ replicate n JsPrinting @ fin" "d \<in> {[], [JsDownloading]}"
        "n \<le> 2" "1 \<le> n" "submitted_end fin"
      by (auto simp: inner_statuses_def)
    then have "lifecycle (JsQueued # ss)"
      unfolding lifecycle_def by (intro exI [of _ d] exI [of _ n] exI [of _ fin]) simp
    with l1 r Inr show ?thesis by (auto simp: process_job_def)
  qed
qed

text \<open>
  C9. Every job the worker takes runs through one life cycle and ends: \<open>process_job\<close> always returns,
  and what it logs for the job is \<open>queued\<close>, then at most one \<open>downloading\<close> and at most two
  \<open>printing\<close> entries, then either \<open>failed\<close>, or \<open>submitted\<close> (never without a \<open>printing\<close> before it)
  with at most one tracking result after it. All entries carry the identifiers of this job;
  the memory log, the channel and the history get the same entries, and the configuration,
  the queue and the notification are untouched.
\<close>

theorem process_job_lifecycle:
  "\<exists>ss. lifecycle ss \<and> job_log X qj ss (snd s) (snd (process_job X qj s))"
  by (rule process_job_log)

end
