(* ===== verification/Worker_Props.thy ===== *)
theory Worker_Props
  imports Worker
begin

text \<open>
  More properties of the print worker: which options a job is printed with, that a file job
  leaves no temporary file, and that a finished job has a terminal status in the history.
\<close>

section \<open>Options\<close>

text \<open>
  A file or HTML job is printed with the printer and paper of the job or else of the
  configuration, and with the number of copies of the job, one when it names none, always
  between one and the configured maximum; otherwise the first of printer, paper and copies
  that is missing or out of range is the error.
\<close>

theorem resolve_print_options_eq:
  "resolve_print_options qj config =
     (case opt_or (pj_printer_name (qj_job qj)) (pc_default_printer (cf_printing config)) of
        None \<Rightarrow> Inl PePrinterNotConfigured
      | Some printer \<Rightarrow>
     (case opt_or (pj_paper (qj_job qj)) (pc_default_paper (cf_printing config)) of
        None \<Rightarrow> Inl PePaperNotConfigured
      | Some paper \<Rightarrow>
          (let n = (case pj_copies (qj_job qj) of None \<Rightarrow> 1 | Some c \<Rightarrow> unat c) in
           if 1 \<le> n \<and> n \<le> unat (lc_max_copies (cf_limits config))
           then Inr \<lparr>po_printer_name = printer, po_paper = paper_info_from_effective paper,
                     po_copies = of_nat n\<rparr>
           else Inl PeCopiesOutOfRange)))"
  by (auto simp: resolve_print_options_def resolve_file_print_options_def resolve_printer_name_def
      ok_or_def and_then_def unwrap_or_def Let_def word_less_nat_alt unat_eq_zero not_le
      split: option.splits)

section \<open>Temporary files\<close>

lemma w_files_push_log [simp]:
  "w_files (fst (push_log_with_print_metadata X qj status m md s)) = w_files (fst s)"
  by (simp add: push_log_with_print_metadata_def now_def Let_def split: prod.splits)

lemma w_files_submit [simp]:
  "w_files (fst (snd (submit_pdf_and_track X qj opts p s))) = w_files (fst s)"
  by (simp add: submit_pdf_eq print_and_track_def push_defs Let_def split: sum.splits)

lemma cleanup_file_files:
  "\<forall>n. os_fail (we_os X) n = None \<Longrightarrow>
     w_files (fst (cleanup_file X p s)) = (w_files (fst s))(p := None)"
  by (auto simp: cleanup_file_def fs_remove_def split: prod.splits)

lemma fs_copy_no_fault:
  "\<forall>n. os_fail E n = None \<Longrightarrow> fs_copy E w a b = (Inl e, w') \<Longrightarrow> w_files w' = w_files w"
  by (auto simp: fs_copy_def fs_read_def fs_write_def split: option.splits prod.splits sum.splits)

lemma detect_format_files: "detect_format E w p = (r, w') \<Longrightarrow> w_files w' = w_files w"
  by (auto simp: detect_format_def split: prod.splits sum.splits)
    (metis snd_conv w_files_fs_read)+

lemma detect_office_files: "detect_office_format Z E w p = (r, w') \<Longrightarrow> w_files w' = w_files w"
  by (auto simp: detect_office_format_def split: prod.splits sum.splits zip_error.splits)
    (metis snd_conv w_files_fs_read)+

lemma fs_write_no_fault: "\<forall>n. os_fail E n = None \<Longrightarrow> fs_write E w p b \<noteq> (Inl e, w')"
  by (simp add: fs_write_def)

lemma image_to_pdf_err_files:
  assumes "\<forall>n. os_fail E n = None" and "image_to_pdf I E w p paper out = (Inl e, w')"
  shows "w_files w' = w_files w"
proof -
  obtain r w1 where d: "detect_format E w p = (r, w1)" by fastforce
  obtain r2 w2 where f: "fs_read E w1 p = (r2, w2)" by fastforce
  have w1: "w_files w1 = w_files w" by (rule detect_format_files [OF d])
  have w2: "w_files w2 = w_files w" using w_files_fs_read [of E w1 p] f w1 by simp
  have "w' = w1 \<or> w' = w2"
    using assms(2) d f fs_write_no_fault [OF assms(1)]
    by (auto simp: image_to_pdf_def split: sum.splits option.splits document_format.splits
        if_splits prod.splits)
  with w1 w2 show ?thesis by auto
qed

text \<open>Where a prepared PDF can be, and what a failed preparation leaves.\<close>

definition prepared_ok ::
  "string \<Rightarrow> (string \<rightharpoonup> bytes) \<Rightarrow> (process_job_error, prepared_pdf) result \<times> world \<Rightarrow> bool" where
  "prepared_ok dl files res \<longleftrightarrow>
     (case fst res of
        Inl _ \<Rightarrow> w_files (snd res) (with_extension dl ''pdf'') = None
      | Inr pp \<Rightarrow>
          pp_path pp = with_extension dl ''pdf''
          \<or> pp_path pp = dl \<and> w_files (snd res) = files)"

lemma prepare_office_ok:
  assumes io: "\<forall>n. os_fail (we_os X) n = None"
    and fresh: "w_files w (with_extension dl ''pdf'') = None"
  shows "prepared_ok dl (w_files w) (prepare_office_pdf X w dl expected)"
proof -
  obtain r w1 where d: "detect_office_format (we_zip X) (we_os X) w dl = (r, w1)" by fastforce
  note f1 = detect_office_files [OF d]
  obtain r2 w2 where c: "office_to_pdf (we_office X) (we_os X) w1 dl expected (with_extension dl ''pdf'')
      = (r2, w2)" by fastforce
  have "conversion_ok (we_os X) (with_extension dl ''pdf'') (with_extension dl ''office-work'') (r2, w2)"
    using office_to_pdf_with_converter_ok [OF pdf_not_under_work_dir] c
    by (metis office_to_pdf_def)
  then have "r2 = Inl e \<Longrightarrow> w_files w2 (with_extension dl ''pdf'') = None" for e
    using io by (simp add: conversion_ok_def)
  with d c f1 fresh show ?thesis
    by (auto simp: prepared_ok_def prepare_office_pdf_def Let_def split: sum.splits)
qed

lemma normalize_pdf_ok:
  assumes "\<forall>n. os_fail (we_os X) n = None" and "w_files w (with_extension dl ''pdf'') = None"
  shows "case normalize_pdf_path X w dl of
     (Inl e, w') \<Rightarrow> w_files w' (with_extension dl ''pdf'') = None
   | (Inr p, w') \<Rightarrow> p = with_extension dl ''pdf'' \<or> p = dl \<and> w_files w' = w_files w"
  using assms fs_copy_no_fault [OF assms(1)]
  by (auto simp: normalize_pdf_path_def Let_def split: sum.splits prod.splits)

lemma prepare_ok:
  assumes io: "\<forall>n. os_fail (we_os X) n = None"
    and fresh: "w_files w (with_extension dl ''pdf'') = None"
  shows "prepared_ok dl (w_files w) (prepare_printable_pdf X w dl fmt paper)"
proof (cases "office_format_from_supported fmt")
  case (Some expected)
  then show ?thesis using prepare_office_ok [OF io fresh] by (simp add: prepare_printable_pdf_def)
next
  case None
  obtain r w1 where d: "detect_format (we_os X) w dl = (r, w1)" by fastforce
  note f1 = detect_format_files [OF d]
  obtain r2 w2 where n: "normalize_pdf_path X w1 dl = (r2, w2)" by fastforce
  obtain r3 w3 where i: "image_to_pdf (we_image X) (we_os X) w1 dl
      \<lparr>ep_width_mm = pa_width_mm paper, ep_height_mm = pa_height_mm paper\<rparr>
      (with_extension dl ''pdf'') = (r3, w3)" by fastforce
  have norm: "case r2 of Inl e \<Rightarrow> w_files w2 (with_extension dl ''pdf'') = None
      | Inr p \<Rightarrow> p = with_extension dl ''pdf'' \<or> p = dl \<and> w_files w2 = w_files w"
    using normalize_pdf_ok [OF io, of w1 dl] n f1 fresh by (auto split: sum.splits)
  have img: "r3 = Inl e \<Longrightarrow> w_files w3 (with_extension dl ''pdf'') = None" for e
    using image_to_pdf_err_files [OF io] i f1 fresh by fastforce
  show ?thesis
    using None d n i f1 fresh norm img
    by (auto simp: prepared_ok_def prepare_printable_pdf_def Let_def
        split: sum.splits option.splits if_splits)
qed

lemma print_downloaded_files:
  assumes io: "\<forall>n. os_fail (we_os X) n = None"
    and fresh: "w_files (fst s) (with_extension dl ''pdf'') = None"
  shows "w_files (fst (snd (print_downloaded_file X qj opts dl s))) (with_extension dl ''pdf'') = None
    \<or> with_extension dl ''pdf'' = dl"
proof -
  obtain w st where s: "s = (w, st)" by fastforce
  obtain r w1 where p: "prepare_printable_pdf X w dl (pj_format (qj_job qj)) (po_paper opts) = (r, w1)"
    by fastforce
  have ok: "prepared_ok dl (w_files w) (r, w1)"
    using prepare_ok [OF io, of w dl "pj_format (qj_job qj)" "po_paper opts"] p s fresh by simp
  show ?thesis
  proof (cases r)
    case (Inl e)
    with ok p s show ?thesis by (simp add: print_downloaded_file_def prepared_ok_def)
  next
    case (Inr pp)
    let ?s2 = "case pp_office_converter pp of None \<Rightarrow> (w1, st)
        | Some c \<Rightarrow> push_log_with_metadata X qj JsPrinting (''converted office with '' @ c) (Some opts) (w1, st)"
    obtain res s3 where sub: "submit_pdf_and_track X qj opts (pp_path pp) ?s2 = (res, s3)"
      by (rule prod.exhaust)
    have f3: "w_files (fst s3) = w_files w1"
      using w_files_submit [of X qj opts "pp_path pp" ?s2] sub
      by (simp add: push_defs split: option.splits)
    show ?thesis
      using p s Inr sub ok f3 fresh
      by (auto simp: print_downloaded_file_def prepared_ok_def Let_def cleanup_file_files [OF io])
  qed
qed


definition example_backend :: print_backend where
  "example_backend =
     \<lparr>be_list_printers = (\<lambda>_. Ok [printer_info_new ''P'' True]), be_list_papers = (\<lambda>_ _. Ok []),
      be_list_trays = default_list_trays, be_list_media_types = default_list_media_types,
      be_print_pdf = (\<lambda>_ _ _. Err PrinterOffline),
      be_print_raw = (\<lambda>_ _ _. Ok \<lparr>ps_submitted_at = [], ps_backend = ''cups'',
         ps_system_job_id = None, ps_tracking_supported = False\<rparr>),
      be_track_submission = default_track_submission,
      be_track_raw_submission = default_track_raw_submission\<rparr>"

definition example_lib :: ext_lib where
  "example_lib = \<lparr>x_url_parse = (\<lambda>_. None), x_b64_decode = (\<lambda>s. Some (as_bytes s)),
     x_b64_encode = string_of_bytes, x_ipnet_parse = cidr_net\<rparr>"

definition example_worker :: worker_env where
  "example_worker =
     \<lparr>we_lib = example_lib, we_http = (\<lambda>_ _ _. Err ''timeout''), we_os = example_env,
      we_image = \<lparr>img_decode = (\<lambda>_ _. Err ''bad''), img_pdf = \<lparr>pd_mm_to_pt = (\<lambda>x. x), pd_save = (\<lambda>_ _ _ _. PDF_MAGIC)\<rparr>\<rparr>,
      we_zip = (\<lambda>_. Err ZipUnreadable),
      we_office = \<lparr>lo_target = TargetLinux, lo_path = None, lo_profile_text = [],
                   lo_directory_url = (\<lambda>_. None)\<rparr>,
      we_backend = example_backend,
      we_render = (\<lambda>_ _ w. (Err (HeNavigation ''no browser''), w)),
      we_sql = (\<lambda>_ _. False), we_debug_list = (\<lambda>_. [])\<rparr>"

definition example_job :: "supported_format \<Rightarrow> queued_job" where
  "example_job f =
     \<lparr>qj_request_id = ''r1'', qj_batch_id = None,
      qj_job = \<lparr>pj_job_id = ''j1'', pj_format = f, pj_printer_name = Some ''P'',
                pj_file_url = Some ''data:application/pdf;base64,JVBERi0'',
                pj_data_base64 = Some ''XkFC'', pj_html = None, pj_wait_ms = None,
                pj_copies = None, pj_paper = None\<rparr>,
      qj_html_local_origin = None\<rparr>"

definition example_state :: agent_state where
  "example_state =
     with_task_history_store (with_printing_and_config_path agent_config_default None) empty_db"


section \<open>The history of a finished job\<close>

lemma lifecycle_terminal: "lifecycle ss \<Longrightarrow> ss \<noteq> [] \<and> is_terminal (task_history_status_of (last ss))"
  by (auto simp: lifecycle_def submitted_end_def)

lemma row_of_record_all_last:
  assumes "evs \<noteq> []" and "\<forall>ev \<in> set evs. ne_job_id ev = j"
  shows "\<exists>row. row_of (record_all db evs) j = Some row
    \<and> jr_current_status row = status_as_str (ne_status (last evs))
    \<and> (is_terminal (ne_status (last evs)) \<longrightarrow> jr_finished_at row = Some (ne_occurred_at (last evs)))"
proof -
  from assms(1) obtain es e where ev: "evs = es @ [e]" by (metis rev_exhaust)
  have step: "record_all db (es @ [e]) = upsert_job (new_job_row e) (insert_event e (record_all db es))"
    by (simp add: record_all_def record_event_ok)
  from assms(2) ev have "ne_job_id e = j" by simp
  then show ?thesis
    unfolding ev step row_of_record
    by (auto simp: new_job_row_def merge_job_row_def event_finished_at_def split: option.splits)
qed

text \<open>
  C17. When \<open>process_job\<close> returns, the history (when one is kept and its database accepts the
  writes) holds a summary of the job in a terminal status, with the time it finished.
\<close>

theorem processed_job_is_finished_in_history:
  assumes "as_task_history (snd s) = Some db" and "\<forall>n k. \<not> we_sql X n k"
  shows "\<exists>db' row status.
      as_task_history (snd (process_job X qj s)) = Some db'
      \<and> row_of db' (pj_job_id (qj_job qj)) = Some row
      \<and> status_from_storage_str (jr_current_status row) = Some status
      \<and> is_terminal status \<and> jr_finished_at row \<noteq> None"
proof -
  obtain ss where l: "lifecycle ss" and j: "job_log X qj ss (snd s) (snd (process_job X qj s))"
    using process_job_log by blast
  from j assms obtain evs where h: "as_task_history (snd (process_job X qj s)) = Some (record_all db evs)"
      and m: "map ne_status evs = map task_history_status_of ss"
      and id: "\<forall>ev \<in> set evs. ne_job_id ev = pj_job_id (qj_job qj)"
    by (auto simp: job_log_def history_log_def)
  from lifecycle_terminal [OF l] m have ne: "evs \<noteq> []" by auto
  have "ne_status (last evs) = last (map ne_status evs)" using ne by (simp add: last_map)
  also have "\<dots> = task_history_status_of (last ss)"
    using m lifecycle_terminal [OF l] by (simp add: last_map)
  finally have t: "is_terminal (ne_status (last evs))" using lifecycle_terminal [OF l] by simp
  with row_of_record_all_last [OF ne id, of db] h show ?thesis by fastforce
qed

theorem processed_job_is_finished_in_history_witness:
  "\<exists>db' row status.
      as_task_history (snd (process_job example_worker (example_job Raw) (example_world, example_state)))
        = Some db'
      \<and> row_of db' (pj_job_id (qj_job (example_job Raw))) = Some row
      \<and> status_from_storage_str (jr_current_status row) = Some status
      \<and> is_terminal status \<and> jr_finished_at row \<noteq> None"
  by (rule processed_job_is_finished_in_history [where db = empty_db])
    (simp_all add: example_worker_def example_state_def with_task_history_store_def)

end
