(* ===== verification/Io_Monad.thy ===== *)
theory Io_Monad
  imports Fs Rust_Text
begin

text \<open>
  Sequencing of calls to the operating system with the early return of the question-mark
  operator (over any state), and the call of a command line program that waits for its output.
\<close>

type_synonym ('e, 'a) io = "world \<Rightarrow> ('e, 'a) result \<times> world"

definition io_then ::
  "('e, 'a) result \<times> 's \<Rightarrow> ('a \<Rightarrow> 's \<Rightarrow> ('e, 'b) result \<times> 's) \<Rightarrow> ('e, 'b) result \<times> 's" where
  "io_then m f = (case m of (Inl e, w) \<Rightarrow> (Inl e, w) | (Inr x, w) \<Rightarrow> f x w)"

definition io_map_err :: "('e \<Rightarrow> 'f) \<Rightarrow> ('e, 'a) result \<times> 's \<Rightarrow> ('f, 'a) result \<times> 's" where
  "io_map_err f m = (map_err f (fst m), snd m)"

lemma io_then_simps [simp, result_simps]:
  "io_then (Inl e, w) f = (Inl e, w)" "io_then (Inr x, w) f = f x w"
  by (simp_all add: io_then_def)

lemma io_then_ok_iff:
  "io_then m f = (Inr y, w2) \<longleftrightarrow> (\<exists>x w1. m = (Inr x, w1) \<and> f x w1 = (Inr y, w2))"
  by (cases m; cases "fst m") auto

lemma io_then_err_iff:
  "io_then m f = (Inl e, w2) \<longleftrightarrow>
     m = (Inl e, w2) \<or> (\<exists>x w1. m = (Inr x, w1) \<and> f x w1 = (Inl e, w2))"
  by (cases m; cases "fst m") auto

lemma io_map_err_ok_iff [simp]: "io_map_err f m = (Inr y, w) \<longleftrightarrow> m = (Inr y, w)"
  by (cases m) (simp add: io_map_err_def)

lemma io_map_err_simps [simp, result_simps]:
  "io_map_err f (Inl e, w) = (Inl (f e), w)" "io_map_err f (Inr x, w) = (Inr x, w)"
  by (simp_all add: io_map_err_def)

lemma io_map_err_err_iff: "io_map_err f m = (Inl e, w) \<longleftrightarrow> (\<exists>d. m = (Inl d, w) \<and> e = f d)"
  by (cases m; cases "fst m") auto

lemma snd_io_map_err [simp]: "snd (io_map_err f m) = snd m"
  by (simp add: io_map_err_def)

lemma case_result_ok_iff:
  "(case r of Inl e \<Rightarrow> (Inl (g e), w) | Inr x \<Rightarrow> f x) = (Inr y, w') \<longleftrightarrow> (\<exists>x. r = Inr x \<and> f x = (Inr y, w'))"
  by (cases r) auto

text \<open>A property of the world that both parts keep is kept by the sequence.\<close>

lemma io_then_world:
  assumes "P (snd m)" and "\<And>x w. m = (Inr x, w) \<Longrightarrow> P w \<Longrightarrow> P (snd (f x w))"
  shows "P (snd (io_then m f))"
  using assms by (cases m; cases "fst m") auto

section \<open>Programs\<close>

text \<open>\<open>Command::output\<close> waits for the program without a limit, so it never times out; a timeout
  reported by the environment counts as a failure to wait.\<close>

definition command_output :: "os_env \<Rightarrow> string list \<Rightarrow> (io_error, bool \<times> bytes \<times> bytes) io" where
  "command_output E argv w =
     (case os_run E (w_tick w) argv w of (outcome, w') \<Rightarrow>
        ((case outcome of
            SpawnError e \<Rightarrow> Err e
          | WaitError e \<Rightarrow> Err e
          | OutputError e \<Rightarrow> Err e
          | ProcessTimeout \<Rightarrow> Err \<lparr>io_kind = IoOther, io_msg = ''timed out''\<rparr>
          | Exited success _ out err \<Rightarrow> Ok (success, out, err)), tick w'))"

lemma command_output_ok:
  assumes "command_output E argv w = (Inr (success, out, err), w')"
  shows "\<exists>status w1. os_run E (w_tick w) argv w = (Exited success status out err, w1) \<and> w' = tick w1"
  using assms by (auto simp: command_output_def split: prod.splits process_outcome.splits)

end
