(* ===== verification/Config_Transfer.thy ===== *)
theory Config_Transfer
  imports Config Rust_Text Io_Monad
begin

text \<open>
  \<open>crates/cli/src/config_transfer.rs\<close>: export and import of a part of the configuration in an
  encrypted file. Argon2, AES-GCM, SHA-256, the random generator and serde are parameters, the
  record \<open>transfer_lib\<close>; the files and the merge are modelled.
\<close>

section \<open>Data\<close>

record export_options =
  ex_service_port :: bool
  ex_allowed_origins :: bool
  ex_allowed_ips :: bool

definition export_all :: export_options where
  "export_all = \<lparr>ex_service_port = True, ex_allowed_origins = True, ex_allowed_ips = True\<rparr>"

record crypto_metadata =
  cm_kdf :: string
  cm_memory_kib :: u32
  cm_iterations :: u32
  cm_parallelism :: u32
  cm_cipher :: string
  cm_tag_bytes :: u8
  cm_salt :: string
  cm_nonce :: string

record encrypted_config_file =
  ef_format :: string
  ef_version :: u16
  ef_crypto :: crypto_metadata
  ef_payload :: string

record partial_security =
  pt_allowed_origins :: "string list option"
  pt_allowed_ips :: "string list option"

record partial_service =
  pt_port :: "u16 option"

record partial_transfer_config =
  pt_service :: "partial_service option"
  pt_security :: "partial_security option"

record config_transfer_payload =
  tp_format :: string
  tp_version :: u16
  tp_config :: partial_transfer_config

record import_preview_item =
  ii_key :: string
  ii_label :: string
  ii_current :: string
  ii_next :: string

record import_preview =
  ip_file_hash :: string
  ip_items :: "import_preview_item list"

datatype config_transfer_error = CtInvalidFile | CtInvalidPasswordOrPayload | CtSerialize | CtInvalidField string

text \<open>The messages are the UTF-8 bytes of the source's literals.\<close>

definition msg_invalid_file :: string where
  "msg_invalid_file = [CHR 0xE4, CHR 0xB8, CHR 0x8D, CHR 0xE6, CHR 0x98, CHR 0xAF, CHR
     0xE6, CHR 0x9C, CHR 0x89, CHR 0xE6, CHR 0x95, CHR 0x88, CHR 0xE7, CHR 0x9A, CHR
     0x84] @ '' YinShu '' @ [CHR 0xE9, CHR 0x85, CHR 0x8D, CHR 0xE7, CHR 0xBD, CHR
     0xAE, CHR 0xE6, CHR 0x96, CHR 0x87, CHR 0xE4, CHR 0xBB, CHR 0xB6]"

definition msg_invalid_password :: string where
  "msg_invalid_password = [CHR 0xE5, CHR 0xAF, CHR 0x86, CHR 0xE7, CHR 0xA0, CHR 0x81,
     CHR 0xE9, CHR 0x94, CHR 0x99, CHR 0xE8, CHR 0xAF, CHR 0xAF, CHR 0xE6, CHR 0x88,
     CHR 0x96, CHR 0xE6, CHR 0x96, CHR 0x87, CHR 0xE4, CHR 0xBB, CHR 0xB6, CHR 0xE6,
     CHR 0x8D, CHR 0x9F, CHR 0xE5, CHR 0x9D, CHR 0x8F]"

definition msg_serialize :: string where
  "msg_serialize = [CHR 0xE9, CHR 0x85, CHR 0x8D, CHR 0xE7, CHR 0xBD, CHR 0xAE, CHR
     0xE5, CHR 0xAF, CHR 0xBC, CHR 0xE5, CHR 0x87, CHR 0xBA, CHR 0xE5, CHR 0xA4, CHR
     0xB1, CHR 0xE8, CHR 0xB4, CHR 0xA5]"

definition msg_port_positive :: string where
  "msg_port_positive = [CHR 0xE6, CHR 0x9C, CHR 0xAC, CHR 0xE5, CHR 0x9C, CHR 0xB0, CHR
     0xE7, CHR 0xAB, CHR 0xAF, CHR 0xE5, CHR 0x8F, CHR 0xA3, CHR 0xE5, CHR 0xBF, CHR
     0x85, CHR 0xE9, CHR 0xA1, CHR 0xBB, CHR 0xE5, CHR 0xA4, CHR 0xA7, CHR 0xE4, CHR
     0xBA, CHR 0x8E] @ '' 0''"

definition msg_origin_invalid :: string where
  "msg_origin_invalid = ''Origin '' @ [CHR 0xE6, CHR 0x97, CHR 0xA0, CHR 0xE6, CHR
     0x95, CHR 0x88] @ '': ''"

definition msg_ip_empty :: string where
  "msg_ip_empty = ''IP '' @ [CHR 0xE7, CHR 0x99, CHR 0xBD, CHR 0xE5, CHR 0x90, CHR
     0x8D, CHR 0xE5, CHR 0x8D, CHR 0x95, CHR 0xE4, CHR 0xB8, CHR 0x8D, CHR 0xE8, CHR
     0x83, CHR 0xBD, CHR 0xE4, CHR 0xB8, CHR 0xBA, CHR 0xE7, CHR 0xA9, CHR 0xBA]"

definition msg_ip_any :: string where
  "msg_ip_any = [CHR 0xE4, CHR 0xB8, CHR 0x8D, CHR 0xE8, CHR 0x83, CHR 0xBD, CHR 0xE4,
     CHR 0xBD, CHR 0xBF, CHR 0xE7, CHR 0x94, CHR 0xA8, CHR 0xE4, CHR 0xBB, CHR 0xBB,
     CHR 0xE6, CHR 0x84, CHR 0x8F, CHR 0xE5, CHR 0x9C, CHR 0xB0, CHR 0xE5, CHR 0x9D,
     CHR 0x80, CHR 0xE4, CHR 0xBD, CHR 0x9C, CHR 0xE4, CHR 0xB8, CHR 0xBA] @ '' IP '' @
     [CHR 0xE7, CHR 0x99, CHR 0xBD, CHR 0xE5, CHR 0x90, CHR 0x8D, CHR 0xE5, CHR 0x8D,
     CHR 0x95, CHR 0xE9, CHR 0xA1, CHR 0xB9]"

definition msg_ip_invalid :: string where
  "msg_ip_invalid = ''IP '' @ [CHR 0xE6, CHR 0x88, CHR 0x96, CHR 0xE7, CHR 0xBD, CHR
     0x91, CHR 0xE6, CHR 0xAE, CHR 0xB5, CHR 0xE6, CHR 0x97, CHR 0xA0, CHR 0xE6, CHR
     0x95, CHR 0x88] @ '': ''"

definition label_port :: string where
  "label_port = [CHR 0xE6, CHR 0x9C, CHR 0xAC, CHR 0xE5, CHR 0x9C, CHR 0xB0, CHR 0xE7,
     CHR 0xAB, CHR 0xAF, CHR 0xE5, CHR 0x8F, CHR 0xA3]"

definition label_origins :: string where
  "label_origins = [CHR 0xE7, CHR 0xBD, CHR 0x91, CHR 0xE7, CHR 0xAB, CHR 0x99, CHR
     0xE7, CHR 0x99, CHR 0xBD, CHR 0xE5, CHR 0x90, CHR 0x8D, CHR 0xE5, CHR 0x8D, CHR
     0x95]"

definition label_ips :: string where
  "label_ips = ''IP '' @ [CHR 0xE7, CHR 0x99, CHR 0xBD, CHR 0xE5, CHR 0x90, CHR 0x8D,
     CHR 0xE5, CHR 0x8D, CHR 0x95]"

definition suffix_items :: string where
  "suffix_items = '' '' @ [CHR 0xE9, CHR 0xA1, CHR 0xB9]"

fun config_transfer_error_msg :: "config_transfer_error \<Rightarrow> string" where
  "config_transfer_error_msg CtInvalidFile = msg_invalid_file"
| "config_transfer_error_msg CtInvalidPasswordOrPayload = msg_invalid_password"
| "config_transfer_error_msg CtSerialize = msg_serialize"
| "config_transfer_error_msg (CtInvalidField m) = m"

fun ip_entry_error_msg :: "ip_entry_error \<Rightarrow> string" where
  "ip_entry_error_msg EmptyIpEntry = msg_ip_empty"
| "ip_entry_error_msg AnyAddressEntry = msg_ip_any"
| "ip_entry_error_msg (InvalidIpEntry e) = msg_ip_invalid @ e"

definition ENCRYPTED_FORMAT :: string where "ENCRYPTED_FORMAT = ''yinshu-config-encrypted''"
definition PAYLOAD_FORMAT :: string where "PAYLOAD_FORMAT = ''yinshu-config''"
definition TRANSFER_VERSION :: u16 where "TRANSFER_VERSION = 1"
definition SALT_LEN :: nat where "SALT_LEN = 16"
definition NONCE_LEN :: nat where "NONCE_LEN = 12"
definition ARGON2_MEMORY_KIB :: u32 where "ARGON2_MEMORY_KIB = 19456"
definition ARGON2_ITERATIONS :: u32 where "ARGON2_ITERATIONS = 2"
definition ARGON2_PARALLELISM :: u32 where "ARGON2_PARALLELISM = 1"
definition GCM_TAG_BYTES :: u8 where "GCM_TAG_BYTES = 16"

lemmas transfer_consts = ENCRYPTED_FORMAT_def PAYLOAD_FORMAT_def TRANSFER_VERSION_def SALT_LEN_def
  NONCE_LEN_def ARGON2_MEMORY_KIB_def ARGON2_ITERATIONS_def ARGON2_PARALLELISM_def GCM_TAG_BYTES_def

section \<open>Libraries\<close>

text \<open>\<open>tx_argon2\<close> is Argon2id with the parameters of the file format from password and salt to a
  32-byte key, \<open>tx_encrypt\<close> and \<open>tx_decrypt\<close> are AES-256-GCM under a key and a nonce; \<open>None\<close> is an
  error of the crate. \<open>tx_random k n\<close> are the n bytes of the k-th request to the generator.\<close>

record transfer_lib =
  tx_argon2 :: "bytes \<Rightarrow> bytes \<Rightarrow> bytes option"
  tx_encrypt :: "bytes \<Rightarrow> bytes \<Rightarrow> bytes \<Rightarrow> bytes option"
  tx_decrypt :: "bytes \<Rightarrow> bytes \<Rightarrow> bytes \<Rightarrow> bytes option"
  tx_sha256 :: "bytes \<Rightarrow> bytes"
  tx_random :: "nat \<Rightarrow> nat \<Rightarrow> bytes"
  tx_payload_to_vec :: "config_transfer_payload \<Rightarrow> bytes option"
  tx_payload_from_slice :: "bytes \<Rightarrow> config_transfer_payload option"
  tx_file_to_string :: "encrypted_config_file \<Rightarrow> string option"
  tx_file_from_str :: "string \<Rightarrow> encrypted_config_file option"

section \<open>Files\<close>

definition write_encrypted_file ::
  "transfer_lib \<Rightarrow> os_env \<Rightarrow> string \<Rightarrow> encrypted_config_file \<Rightarrow> (config_transfer_error, unit) io" where
  "write_encrypted_file T E path file w =
     (case tx_file_to_string T file of
        None \<Rightarrow> (Err CtSerialize, w)
      | Some content \<Rightarrow>
          io_map_err (\<lambda>e. CtInvalidField (io_msg e)) (fs_write E w path (as_bytes content)))"

definition sha256_hex :: "transfer_lib \<Rightarrow> bytes \<Rightarrow> string" where
  "sha256_hex T content = hex_bytes (tx_sha256 T content)"

definition read_encrypted_file_with_hash ::
  "transfer_lib \<Rightarrow> os_env \<Rightarrow> string \<Rightarrow> (config_transfer_error, encrypted_config_file \<times> string) io" where
  "read_encrypted_file_with_hash T E path w =
     (case fs_read_to_string E w path of
        (Inl _, w') \<Rightarrow> (Err CtInvalidFile, w')
      | (Inr content, w') \<Rightarrow>
          (case tx_file_from_str T content of
             None \<Rightarrow> (Err CtInvalidFile, w')
           | Some file \<Rightarrow> (Ok (file, sha256_hex T (as_bytes content)), w')))"

definition read_encrypted_file ::
  "transfer_lib \<Rightarrow> os_env \<Rightarrow> string \<Rightarrow> (config_transfer_error, encrypted_config_file) io" where
  "read_encrypted_file T E path w =
     io_then (read_encrypted_file_with_hash T E path w) (\<lambda>(file, _) w'. (Ok file, w'))"

section \<open>Payload\<close>

definition build_transfer_payload :: "agent_config \<Rightarrow> export_options \<Rightarrow> config_transfer_payload" where
  "build_transfer_payload config options =
     \<lparr>tp_format = PAYLOAD_FORMAT, tp_version = TRANSFER_VERSION,
      tp_config =
        \<lparr>pt_service =
           (if ex_service_port options then Some \<lparr>pt_port = Some (sc_port (cf_service config))\<rparr> else None),
         pt_security =
           (if ex_allowed_origins options \<or> ex_allowed_ips options then
              Some \<lparr>pt_allowed_origins =
                      (if ex_allowed_origins options
                       then Some (se_allowed_origins (cf_security config)) else None),
                    pt_allowed_ips =
                      (if ex_allowed_ips options then Some (se_allowed_ips (cf_security config)) else None)\<rparr>
            else None)\<rparr>\<rparr>"

definition derive_key :: "transfer_lib \<Rightarrow> string \<Rightarrow> bytes \<Rightarrow> (config_transfer_error, bytes) result" where
  "derive_key T password salt = ok_or CtInvalidPasswordOrPayload (tx_argon2 T (as_bytes password) salt)"

definition encrypt_payload_with ::
  "ext_lib \<Rightarrow> transfer_lib \<Rightarrow> config_transfer_payload \<Rightarrow> string \<Rightarrow> bytes \<Rightarrow> bytes \<Rightarrow>
   (config_transfer_error, encrypted_config_file) result" where
  "encrypt_payload_with L T payload password salt nonce =
     and_then (derive_key T password salt) (\<lambda>key.
     and_then (ok_or CtSerialize (tx_payload_to_vec T payload)) (\<lambda>plaintext.
     and_then (ok_or CtSerialize (tx_encrypt T key nonce plaintext)) (\<lambda>ciphertext.
       Ok \<lparr>ef_format = ENCRYPTED_FORMAT, ef_version = TRANSFER_VERSION,
           ef_crypto =
             \<lparr>cm_kdf = ''argon2id13'', cm_memory_kib = ARGON2_MEMORY_KIB,
              cm_iterations = ARGON2_ITERATIONS, cm_parallelism = ARGON2_PARALLELISM,
              cm_cipher = ''aes-256-gcm'', cm_tag_bytes = GCM_TAG_BYTES,
              cm_salt = x_b64_encode L salt, cm_nonce = x_b64_encode L nonce\<rparr>,
           ef_payload = x_b64_encode L ciphertext\<rparr>)))"

definition encrypt_payload ::
  "ext_lib \<Rightarrow> transfer_lib \<Rightarrow> config_transfer_payload \<Rightarrow> string \<Rightarrow>
   (config_transfer_error, encrypted_config_file) io" where
  "encrypt_payload L T payload password w =
     (let salt = tx_random T (w_tick w) SALT_LEN;
          nonce = tx_random T (Suc (w_tick w)) NONCE_LEN
      in (encrypt_payload_with L T payload password salt nonce, tick (tick w)))"

definition validate_envelope :: "encrypted_config_file \<Rightarrow> (config_transfer_error, unit) result" where
  "validate_envelope file =
     (if ef_format file \<noteq> ENCRYPTED_FORMAT \<or> ef_version file \<noteq> TRANSFER_VERSION
         \<or> cm_kdf (ef_crypto file) \<noteq> ''argon2id13''
         \<or> cm_memory_kib (ef_crypto file) \<noteq> ARGON2_MEMORY_KIB
         \<or> cm_iterations (ef_crypto file) \<noteq> ARGON2_ITERATIONS
         \<or> cm_parallelism (ef_crypto file) \<noteq> ARGON2_PARALLELISM
         \<or> cm_cipher (ef_crypto file) \<noteq> ''aes-256-gcm''
         \<or> cm_tag_bytes (ef_crypto file) \<noteq> GCM_TAG_BYTES
      then Err CtInvalidFile else Ok ())"

definition validate_payload :: "config_transfer_payload \<Rightarrow> (config_transfer_error, unit) result" where
  "validate_payload payload =
     (if tp_format payload \<noteq> PAYLOAD_FORMAT \<or> tp_version payload \<noteq> TRANSFER_VERSION
      then Err CtInvalidFile else Ok ())"

definition decode_fixed :: "ext_lib \<Rightarrow> nat \<Rightarrow> string \<Rightarrow> (config_transfer_error, bytes) result" where
  "decode_fixed L n value =
     and_then (ok_or CtInvalidPasswordOrPayload (x_b64_decode L value)) (\<lambda>b.
       if length b = n then Ok b else Err CtInvalidPasswordOrPayload)"

definition decrypt_payload ::
  "ext_lib \<Rightarrow> transfer_lib \<Rightarrow> encrypted_config_file \<Rightarrow> string \<Rightarrow>
   (config_transfer_error, config_transfer_payload) result" where
  "decrypt_payload L T file password =
     and_then (validate_envelope file) (\<lambda>_.
     and_then (decode_fixed L SALT_LEN (cm_salt (ef_crypto file))) (\<lambda>salt.
     and_then (decode_fixed L NONCE_LEN (cm_nonce (ef_crypto file))) (\<lambda>nonce.
     and_then (ok_or CtInvalidPasswordOrPayload (x_b64_decode L (ef_payload file))) (\<lambda>ciphertext.
     and_then (derive_key T password salt) (\<lambda>key.
     and_then (ok_or CtInvalidPasswordOrPayload (tx_decrypt T key nonce ciphertext)) (\<lambda>plaintext.
     and_then (ok_or CtInvalidPasswordOrPayload (tx_payload_from_slice T plaintext)) (\<lambda>payload.
     and_then (validate_payload payload) (\<lambda>_. Ok payload))))))))"

section \<open>Merge and preview\<close>

definition payload_port :: "config_transfer_payload \<Rightarrow> u16 option" where
  "payload_port payload = Option.bind (pt_service (tp_config payload)) pt_port"

definition payload_origins :: "config_transfer_payload \<Rightarrow> string list option" where
  "payload_origins payload = Option.bind (pt_security (tp_config payload)) pt_allowed_origins"

definition payload_ips :: "config_transfer_payload \<Rightarrow> string list option" where
  "payload_ips payload = Option.bind (pt_security (tp_config payload)) pt_allowed_ips"

definition merge_payload ::
  "ext_lib \<Rightarrow> agent_config \<Rightarrow> config_transfer_payload \<Rightarrow> (config_transfer_error, agent_config) result" where
  "merge_payload L current payload =
     and_then (validate_payload payload) (\<lambda>_.
     and_then
       (case payload_port payload of
          None \<Rightarrow> Ok current
        | Some port \<Rightarrow>
            if port = 0 then Err (CtInvalidField msg_port_positive)
            else Ok (current\<lparr>cf_service := (cf_service current)\<lparr>sc_port := port\<rparr>\<rparr>)) (\<lambda>c1.
     and_then
       (case payload_origins payload of
          None \<Rightarrow> Ok c1
        | Some allowed_origins \<Rightarrow>
            and_then (check_all (\<lambda>origin. map_err (\<lambda>_. CtInvalidField (msg_origin_invalid @ origin))
                        (validate_origin L origin)) allowed_origins) (\<lambda>_.
              Ok (c1\<lparr>cf_security := (cf_security c1)\<lparr>se_allowed_origins := allowed_origins\<rparr>\<rparr>))) (\<lambda>c2.
     and_then
       (case payload_ips payload of
          None \<Rightarrow> Ok c2
        | Some allowed_ips \<Rightarrow>
            and_then (check_all (\<lambda>entry. map_err (\<lambda>e. CtInvalidField (ip_entry_error_msg e))
                        (validate_allowed_ip_entry L entry)) allowed_ips) (\<lambda>_.
              Ok (c2\<lparr>cf_security := (cf_security c2)\<lparr>se_allowed_ips := allowed_ips\<rparr>\<rparr>))) (\<lambda>c3.
       Ok (config_normalized c3)))))"

definition preview_item :: "string \<Rightarrow> string \<Rightarrow> string \<Rightarrow> string \<Rightarrow> import_preview_item" where
  "preview_item key label current next0 =
     \<lparr>ii_key = key, ii_label = label, ii_current = current, ii_next = next0\<rparr>"

definition count_label :: "'a list \<Rightarrow> string" where
  "count_label xs = show_nat (length xs) @ suffix_items"

definition preview_payload ::
  "ext_lib \<Rightarrow> agent_config \<Rightarrow> config_transfer_payload \<Rightarrow> (config_transfer_error, import_preview) result" where
  "preview_payload L current payload =
     and_then (merge_payload L current payload) (\<lambda>next0.
       Ok \<lparr>ip_file_hash = [],
           ip_items =
             (if payload_port payload \<noteq> None then
                [preview_item ''service.port'' label_port
                   (show_nat (unat (sc_port (cf_service current))))
                   (show_nat (unat (sc_port (cf_service next0))))] else [])
             @ (if payload_origins payload \<noteq> None then
                  [preview_item ''security.allowed_origins'' label_origins
                     (count_label (se_allowed_origins (cf_security current)))
                     (count_label (se_allowed_origins (cf_security next0)))] else [])
             @ (if payload_ips payload \<noteq> None then
                  [preview_item ''security.allowed_ips'' label_ips
                     (count_label (se_allowed_ips (cf_security current)))
                     (count_label (se_allowed_ips (cf_security next0)))] else [])\<rparr>)"

section \<open>What an import changes\<close>

text \<open>The configuration with the fields of a payload in place of its own.\<close>

definition overlay :: "config_transfer_payload \<Rightarrow> agent_config \<Rightarrow> agent_config" where
  "overlay p c =
     c\<lparr>cf_service := (cf_service c)\<lparr>sc_port := unwrap_or (payload_port p) (sc_port (cf_service c))\<rparr>,
       cf_security := (cf_security c)
         \<lparr>se_allowed_origins := unwrap_or (payload_origins p) (se_allowed_origins (cf_security c)),
          se_allowed_ips := unwrap_or (payload_ips p) (se_allowed_ips (cf_security c))\<rparr>\<rparr>"

definition payload_acceptable :: "ext_lib \<Rightarrow> config_transfer_payload \<Rightarrow> bool" where
  "payload_acceptable L p \<longleftrightarrow>
     tp_format p = PAYLOAD_FORMAT \<and> tp_version p = TRANSFER_VERSION \<and> payload_port p \<noteq> Some 0
     \<and> list_all (\<lambda>og. is_ok (validate_origin L og)) (unwrap_or (payload_origins p) [])
     \<and> list_all (\<lambda>e. is_ok (validate_allowed_ip_entry L e)) (unwrap_or (payload_ips p) [])"

lemma check_all_and_then:
  "and_then (check_all f xs) g = Inr y \<longleftrightarrow> list_all (\<lambda>x. is_ok (f x)) xs \<and> g () = Inr y"
proof (cases "check_all f xs")
  case (Inl e)
  then have "\<not> list_all (\<lambda>x. is_ok (f x)) xs"
    using check_all_ok_iff [of f xs "()"] by (auto simp: list_all_iff)
  with Inl show ?thesis by simp
next
  case (Inr u)
  then show ?thesis using check_all_ok_iff [of f xs u] by (simp add: list_all_iff)
qed

lemma merge_payload_iff:
  "merge_payload L c p = Inr d \<longleftrightarrow> payload_acceptable L p \<and> d = config_normalized (overlay p c)"
  unfolding merge_payload_def and_then_eq_Inr_iff check_all_and_then
  by (cases "payload_port p"; cases "payload_origins p"; cases "payload_ips p")
    (auto simp: validate_payload_def payload_acceptable_def overlay_def check_all_and_then)

text \<open>
  C29. An import is accepted exactly when the payload has the format and version of this program, its
  port is not zero and all its origins and addresses are valid; then the port, the origins and
  the addresses it carries replace those of the current configuration, everything else is kept,
  and the result is in normal form.
\<close>

theorem merge_payload_exact:
  "merge_payload L current payload = Inr next0 \<longleftrightarrow>
     payload_acceptable L payload \<and> next0 = config_normalized (overlay payload current)
     \<and> config_normal next0 \<and> cf_printing next0 = cf_printing current
     \<and> cf_limits next0 = cf_limits current \<and> cf_app next0 = cf_app current"
  by (auto simp: merge_payload_iff overlay_def config_normalized_def config_normal_def
      normalize_allowed_ips_normal)

section \<open>Round trip\<close>

text \<open>Documented behaviour of the crates: the cipher decrypts what it encrypted under the same key and
  nonce, base64 and serde read back what they wrote, the JSON of a file is UTF-8, and the random
  generator fills the buffer it is given.\<close>

definition transfer_documented :: "ext_lib \<Rightarrow> transfer_lib \<Rightarrow> bool" where
  "transfer_documented L T \<longleftrightarrow>
     (\<forall>k n p c. tx_encrypt T k n p = Some c \<longrightarrow> tx_decrypt T k n c = Some p)
     \<and> (\<forall>b. x_b64_decode L (x_b64_encode L b) = Some b)
     \<and> (\<forall>p j. tx_payload_to_vec T p = Some j \<longrightarrow> tx_payload_from_slice T j = Some p)
     \<and> (\<forall>f j. tx_file_to_string T f = Some j \<longrightarrow> tx_file_from_str T j = Some f \<and> valid_utf8 j)
     \<and> (\<forall>k n. length (tx_random T k n) = n)"

lemma decrypt_encrypted:
  assumes doc: "transfer_documented L T"
    and enc: "encrypt_payload_with L T payload password salt nonce = Inr file"
    and len: "length salt = SALT_LEN" "length nonce = NONCE_LEN"
    and v: "validate_payload payload = Inr ()"
  shows "decrypt_payload L T file password = Inr payload"
proof -
  from doc have laws: "\<And>k n p c. tx_encrypt T k n p = Some c \<Longrightarrow> tx_decrypt T k n c = Some p"
      "\<And>b. x_b64_decode L (x_b64_encode L b) = Some b"
      "\<And>p j. tx_payload_to_vec T p = Some j \<Longrightarrow> tx_payload_from_slice T j = Some p"
    by (auto simp: transfer_documented_def)
  from enc obtain key plaintext ciphertext where
    "derive_key T password salt = Inr key" "tx_payload_to_vec T payload = Some plaintext"
    "tx_encrypt T key nonce plaintext = Some ciphertext"
    and "file = \<lparr>ef_format = ENCRYPTED_FORMAT, ef_version = TRANSFER_VERSION,
           ef_crypto =
             \<lparr>cm_kdf = ''argon2id13'', cm_memory_kib = ARGON2_MEMORY_KIB,
              cm_iterations = ARGON2_ITERATIONS, cm_parallelism = ARGON2_PARALLELISM,
              cm_cipher = ''aes-256-gcm'', cm_tag_bytes = GCM_TAG_BYTES,
              cm_salt = x_b64_encode L salt, cm_nonce = x_b64_encode L nonce\<rparr>,
           ef_payload = x_b64_encode L ciphertext\<rparr>"
    by (auto simp: encrypt_payload_with_def and_then_eq_Inr_iff)
  with laws len v show ?thesis
    by (simp add: decrypt_payload_def validate_envelope_def decode_fixed_def)
qed

lemma read_written:
  assumes doc: "transfer_documented L T"
    and wr: "write_encrypted_file T E path file w = (Inr (), w')"
    and io: "os_fail E (w_tick w') = None"
  shows "\<exists>h. read_encrypted_file_with_hash T E path w' = (Inr (file, h), tick w')"
proof -
  from wr obtain j where j: "tx_file_to_string T file = Some j"
      and f: "fs_write E w path (as_bytes j) = (Inr (), w')"
    by (auto simp: write_encrypted_file_def split: option.splits)
  from fs_write_ok [OF f] have "w_files w' path = Some (as_bytes j)" by simp
  moreover from doc j have "tx_file_from_str T j = Some file" "valid_utf8 j"
    by (auto simp: transfer_documented_def)
  ultimately show ?thesis
    using io by (simp add: read_encrypted_file_with_hash_def fs_read_to_string_def fs_read_def from_utf8_def)
qed

lemma build_payload_valid: "validate_payload (build_transfer_payload c opts) = Inr ()"
  by (simp add: validate_payload_def build_transfer_payload_def)

lemma build_payload_fields:
  "tp_format (build_transfer_payload c opts) = PAYLOAD_FORMAT"
  "tp_version (build_transfer_payload c opts) = TRANSFER_VERSION"
  "payload_port (build_transfer_payload c opts) =
     (if ex_service_port opts then Some (sc_port (cf_service c)) else None)"
  "payload_origins (build_transfer_payload c opts) =
     (if ex_allowed_origins opts then Some (se_allowed_origins (cf_security c)) else None)"
  "payload_ips (build_transfer_payload c opts) =
     (if ex_allowed_ips opts then Some (se_allowed_ips (cf_security c)) else None)"
  by (simp_all add: build_transfer_payload_def payload_port_def payload_origins_def payload_ips_def)

text \<open>
  C30. What was exported is what is imported: after a successful encryption and write, reading the
  file and decrypting it with the same password gives the exported payload, and merging a full
  export of a configuration with valid port and lists into any other configuration makes its
  port, origins and addresses those of the exported one.
\<close>

theorem export_import_roundtrip:
  assumes "transfer_documented L T"
    and "encrypt_payload L T (build_transfer_payload src export_all) password w = (Inr file, w1)"
    and "write_encrypted_file T E path file w1 = (Inr (), w2)"
    and "os_fail E (w_tick w2) = None"
    and "sc_port (cf_service src) \<noteq> 0"
    and "list_all (\<lambda>og. is_ok (validate_origin L og)) (se_allowed_origins (cf_security src))"
    and "list_all (\<lambda>e. is_ok (validate_allowed_ip_entry L e)) (se_allowed_ips (cf_security src))"
  shows "\<exists>h. read_encrypted_file_with_hash T E path w2 = (Inr (file, h), tick w2)
    \<and> decrypt_payload L T file password = Inr (build_transfer_payload src export_all)
    \<and> merge_payload L current (build_transfer_payload src export_all) =
        Inr (config_normalized (current\<lparr>cf_service := (cf_service current)\<lparr>sc_port := sc_port (cf_service src)\<rparr>,
                                        cf_security := cf_security src\<rparr>))"
proof -
  have lens: "length (tx_random T k n) = n" for k n
    using assms(1) by (simp add: transfer_documented_def)
  from assms(2) have "encrypt_payload_with L T (build_transfer_payload src export_all) password
      (tx_random T (w_tick w) SALT_LEN) (tx_random T (Suc (w_tick w)) NONCE_LEN) = Inr file"
    by (simp add: encrypt_payload_def Let_def)
  from decrypt_encrypted [OF assms(1) this lens lens build_payload_valid]
  have "decrypt_payload L T file password = Inr (build_transfer_payload src export_all)" .
  moreover have "merge_payload L current (build_transfer_payload src export_all) =
      Inr (config_normalized (overlay (build_transfer_payload src export_all) current))"
    using assms(5-7)
    by (simp add: merge_payload_iff payload_acceptable_def build_payload_fields export_all_def)
  moreover have "overlay (build_transfer_payload src export_all) current =
      current\<lparr>cf_service := (cf_service current)\<lparr>sc_port := sc_port (cf_service src)\<rparr>, cf_security := cf_security src\<rparr>"
    by (simp add: overlay_def build_payload_fields export_all_def)
  ultimately show ?thesis using read_written [OF assms(1,3,4)] by auto
qed


definition example_source :: agent_config where
  "example_source = agent_config_default\<lparr>cf_service := \<lparr>sc_host = ''127.0.0.1'', sc_port = 18000\<rparr>\<rparr>"

definition example_b64 :: ext_lib where
  "example_b64 = \<lparr>x_url_parse = (\<lambda>_. None), x_b64_decode = (\<lambda>s. Some (as_bytes s)),
     x_b64_encode = string_of_bytes, x_ipnet_parse = cidr_net\<rparr>"

definition example_file :: encrypted_config_file where
  "example_file =
     \<lparr>ef_format = ENCRYPTED_FORMAT, ef_version = TRANSFER_VERSION,
      ef_crypto =
        \<lparr>cm_kdf = ''argon2id13'', cm_memory_kib = ARGON2_MEMORY_KIB,
         cm_iterations = ARGON2_ITERATIONS, cm_parallelism = ARGON2_PARALLELISM,
         cm_cipher = ''aes-256-gcm'', cm_tag_bytes = GCM_TAG_BYTES,
         cm_salt = string_of_bytes (replicate SALT_LEN 7),
         cm_nonce = string_of_bytes (replicate NONCE_LEN 7)\<rparr>,
      ef_payload = string_of_bytes [3, 2, 1]\<rparr>"

text \<open>A toy library for one payload and one file: the cipher reverses.\<close>

definition example_transfer :: transfer_lib where
  "example_transfer =
     \<lparr>tx_argon2 = (\<lambda>p s. Some (p @ s)), tx_encrypt = (\<lambda>_ _ p. Some (rev p)),
      tx_decrypt = (\<lambda>_ _ c. Some (rev c)), tx_sha256 = (\<lambda>b. b), tx_random = (\<lambda>_ n. replicate n 7),
      tx_payload_to_vec =
        (\<lambda>p. if p = build_transfer_payload example_source export_all then Some [1, 2, 3] else None),
      tx_payload_from_slice =
        (\<lambda>b. if b = [1, 2, 3] then Some (build_transfer_payload example_source export_all) else None),
      tx_file_to_string = (\<lambda>f. if f = example_file then Some ''{}'' else None),
      tx_file_from_str = (\<lambda>s. if s = ''{}'' then Some example_file else None)\<rparr>"

lemma example_transfer_documented: "transfer_documented example_b64 example_transfer"
  by (simp add: transfer_documented_def example_transfer_def example_b64_def)

lemma example_encrypt:
  "encrypt_payload example_b64 example_transfer (build_transfer_payload example_source export_all)
     ''secret'' example_world = (Inr example_file, tick (tick example_world))"
  by (simp add: encrypt_payload_def encrypt_payload_with_def derive_key_def example_transfer_def
      example_b64_def example_file_def)

lemma example_transfer_write:
  "write_encrypted_file example_transfer example_env ''/c.yinshu'' example_file (tick (tick example_world)) =
     (Inr (), tick ((tick (tick example_world))\<lparr>w_files := [''/c.yinshu'' \<mapsto> as_bytes ''{}'']\<rparr>))"
  by (simp add: write_encrypted_file_def example_transfer_def fs_write_def example_env_def example_world_def)

theorem export_import_roundtrip_witness:
  "\<exists>d. decrypt_payload example_b64 example_transfer example_file ''secret'' =
         Inr (build_transfer_payload example_source export_all)
     \<and> merge_payload example_b64 agent_config_default (build_transfer_payload example_source export_all) = Inr d
     \<and> sc_port (cf_service d) = 18000"
proof -
  have "validate_allowed_ip_entry example_b64 REQUIRED_LOOPBACK_IP = Inr ()"
    by code_simp
  then show ?thesis
    using export_import_roundtrip [OF example_transfer_documented example_encrypt example_transfer_write,
        where current = agent_config_default]
    by (simp add: example_source_def example_env_def agent_config_default_def default_allowed_ips_def
        config_normalized_def)
qed

section \<open>The port of an import\<close>

text \<open>
  The range of service ports that the rest of the program enforces, from 10000 on, is not
  enforced by an import: a payload with any non-zero port below it and nothing else is merged,
  and the resulting configuration listens on that port.
\<close>

theorem import_accepts_low_port:
  assumes "port \<noteq> 0" "port < MIN_SERVICE_PORT"
  shows "\<exists>d. merge_payload L current
      \<lparr>tp_format = PAYLOAD_FORMAT, tp_version = TRANSFER_VERSION,
       tp_config = \<lparr>pt_service = Some \<lparr>pt_port = Some port\<rparr>, pt_security = None\<rparr>\<rparr> = Inr d
    \<and> sc_port (cf_service d) = port \<and> sc_port (cf_service d) < MIN_SERVICE_PORT"
  using assms
  by (simp add: merge_payload_iff payload_acceptable_def payload_port_def payload_origins_def payload_ips_def
      overlay_def config_normalized_def)

theorem import_accepts_low_port_witness:
  "\<exists>d. merge_payload example_b64 agent_config_default
      \<lparr>tp_format = PAYLOAD_FORMAT, tp_version = TRANSFER_VERSION,
       tp_config = \<lparr>pt_service = Some \<lparr>pt_port = Some 80\<rparr>, pt_security = None\<rparr>\<rparr> = Inr d
    \<and> sc_port (cf_service d) = 80 \<and> sc_port (cf_service d) < MIN_SERVICE_PORT"
  by (rule import_accepts_low_port) (simp_all add: MIN_SERVICE_PORT_def)

end
