(* ===== verification/Command.thy ===== *)
theory Command
  imports Config_Transfer Printing Activity Task_History
begin

text \<open>
  The command layer of \<open>crates/cli/src\<close>: the commands and their results (\<open>command.rs\<close>,
  \<open>output.rs\<close>), the policy of a command (\<open>policy.rs\<close>), the service that chooses between a running
  agent and local execution (\<open>service.rs\<close>), and the product and terminal interfaces
  (\<open>product.rs\<close>, \<open>interaction.rs\<close>). An implementation of the trait \<open>CommandExecutor\<close> is a function
  on the state it acts on.
\<close>

section \<open>Errors and results\<close>

datatype command_error_kind = CkInvalidInput | CkNotRunning | CkPermissionDenied | CkConflict | CkRuntime | CkUnsupported

record command_error =
  ce_kind :: command_error_kind
  ce_message :: string

definition command_error_new :: "command_error_kind \<Rightarrow> string \<Rightarrow> command_error" where
  "command_error_new kind message = \<lparr>ce_kind = kind, ce_message = message\<rparr>"

definition exit_code :: "command_error \<Rightarrow> int" where
  "exit_code e =
     (case ce_kind e of
        CkInvalidInput \<Rightarrow> 2
      | CkNotRunning \<Rightarrow> 3
      | CkPermissionDenied \<Rightarrow> 4
      | CkConflict \<Rightarrow> 5
      | CkRuntime \<Rightarrow> 1
      | CkUnsupported \<Rightarrow> 1)"

record agent_status =
  ag_running :: bool
  ag_listen_addr :: "socket_addr option"

datatype product_kind = Desktop | Headless

datatype doctor_status = DsPass | DsWarn | DsFail

record doctor_check =
  dc_code :: string
  dc_status :: doctor_status
  dc_message :: string
  dc_suggestion :: "string option"

record doctor_summary =
  du_pass :: nat
  du_warn :: nat
  du_fail :: nat

record doctor_report =
  dr_checks :: "doctor_check list"
  dr_summary :: doctor_summary

fun count_check :: "doctor_summary \<Rightarrow> doctor_check \<Rightarrow> doctor_summary" where
  "count_check s c =
     (case dc_status c of
        DsPass \<Rightarrow> s\<lparr>du_pass := du_pass s + 1\<rparr>
      | DsWarn \<Rightarrow> s\<lparr>du_warn := du_warn s + 1\<rparr>
      | DsFail \<Rightarrow> s\<lparr>du_fail := du_fail s + 1\<rparr>)"

definition doctor_report_new :: "doctor_check list \<Rightarrow> doctor_report" where
  "doctor_report_new checks =
     \<lparr>dr_checks = checks, dr_summary = foldl count_check \<lparr>du_pass = 0, du_warn = 0, du_fail = 0\<rparr> checks\<rparr>"

datatype command_result =
    RsEmpty
  | RsConfig agent_config
  | RsPrinters "printer_info list"
  | RsPapers "paper_info list"
  | RsLogs "task_log_entry list"
  | RsTaskHistory "task_history_job list"
  | RsTaskHistoryEvents "task_history_event list"
  | RsImportPreview import_preview
  | RsDoctor doctor_report
  | RsDiagnostics string
  | RsStatus agent_status

section \<open>Commands\<close>

datatype command =
    GetConfig
  | SaveConfig agent_config
  | ListPrinters
  | ListPapers string
  | GetLogs
  | GetTaskHistory
  | GetTaskHistoryEvents string
  | ClearTaskHistory
  | ExportConfig string string export_options
  | PreviewConfigImport string string
  | ImportConfig string string string
  | TestPrint agent_config
  | ValidateConfig "string option"
  | Doctor product_kind
  | ExportDiagnostics "string option" "string option"
  | Status

datatype command_policy = OnlineOnly | OnlinePreferred | OfflineAllowed

fun policy :: "command \<Rightarrow> command_policy" where
  "policy GetLogs = OnlineOnly"
| "policy (TestPrint _) = OnlineOnly"
| "policy Status = OnlineOnly"
| "policy GetConfig = OnlinePreferred"
| "policy (SaveConfig _) = OnlinePreferred"
| "policy ListPrinters = OnlinePreferred"
| "policy (ListPapers _) = OnlinePreferred"
| "policy GetTaskHistory = OnlinePreferred"
| "policy (GetTaskHistoryEvents _) = OnlinePreferred"
| "policy ClearTaskHistory = OnlinePreferred"
| "policy (ExportConfig _ _ _) = OnlinePreferred"
| "policy (PreviewConfigImport _ _) = OnlinePreferred"
| "policy (ImportConfig _ _ _) = OnlinePreferred"
| "policy (Doctor _) = OnlinePreferred"
| "policy (ValidateConfig _) = OfflineAllowed"
| "policy (ExportDiagnostics _ _) = OfflineAllowed"

section \<open>The command service\<close>

type_synonym 's executor = "command \<Rightarrow> 's \<Rightarrow> (command_error, command_result) result \<times> 's"

record 's command_service =
  cs_online :: "'s executor option"
  cs_offline :: "'s executor"

definition command_service_new :: "'s executor option \<Rightarrow> 's executor \<Rightarrow> 's command_service" where
  "command_service_new online offline = \<lparr>cs_online = online, cs_offline = offline\<rparr>"

definition not_running_error :: command_error where
  "not_running_error = command_error_new CkNotRunning ''agent is not running''"

definition command_service_execute :: "'s command_service \<Rightarrow> 's executor" where
  "command_service_execute sv command s =
     (case policy command of
        OfflineAllowed \<Rightarrow> cs_offline sv command s
      | OnlineOnly \<Rightarrow>
          (case cs_online sv of
             None \<Rightarrow> (Err not_running_error, s)
           | Some online \<Rightarrow> online command s)
      | OnlinePreferred \<Rightarrow>
          (case cs_online sv of
             None \<Rightarrow> cs_offline sv command s
           | Some online \<Rightarrow>
               (case online command s of
                  (Inl e, s') \<Rightarrow>
                    if ce_kind e = CkNotRunning then cs_offline sv command s' else (Err e, s')
                | (Inr r, s') \<Rightarrow> (Ok r, s'))))"

section \<open>Product adapter\<close>

record 's product_command_adapter =
  pa_product_kind :: product_kind
  pa_autostart_status :: "'s \<Rightarrow> (command_error, bool) result \<times> 's"
  pa_set_autostart :: "bool \<Rightarrow> 's \<Rightarrow> (command_error, unit) result \<times> 's"
  pa_set_language :: "string \<Rightarrow> 's \<Rightarrow> (command_error, unit) result \<times> 's"

record unsupported_product =
  up_reason :: string
  up_kind :: product_kind

definition unsupported_new :: "string \<Rightarrow> unsupported_product" where
  "unsupported_new reason = \<lparr>up_reason = reason, up_kind = Desktop\<rparr>"

definition unsupported_headless :: "string \<Rightarrow> unsupported_product" where
  "unsupported_headless reason = \<lparr>up_reason = reason, up_kind = Headless\<rparr>"

definition unsupported_error :: "unsupported_product \<Rightarrow> command_error" where
  "unsupported_error u = command_error_new CkUnsupported (up_reason u)"

definition unsupported_adapter :: "unsupported_product \<Rightarrow> 's product_command_adapter" where
  "unsupported_adapter u =
     \<lparr>pa_product_kind = up_kind u,
      pa_autostart_status = (\<lambda>s. (Err (unsupported_error u), s)),
      pa_set_autostart = (\<lambda>_ s. (Err (unsupported_error u), s)),
      pa_set_language = (\<lambda>_ s. (Err (unsupported_error u), s))\<rparr>"

section \<open>Interaction\<close>

record cli_interaction =
  ci_read_password :: "string \<Rightarrow> (command_error, string) result"
  ci_confirm :: "string \<Rightarrow> (command_error, bool) result"
  ci_is_interactive :: bool

definition interaction_error :: "string \<Rightarrow> command_error" where
  "interaction_error e = command_error_new CkRuntime e"

text \<open>The terminal: what the flush, the line reader and each password prompt gave, and which streams
  are terminals.\<close>

record terminal =
  tm_flush :: "io_error option"
  tm_line :: "(io_error, string) result"
  tm_password :: "string \<Rightarrow> (io_error, string) result"
  tm_stdin_tty :: bool
  tm_stderr_tty :: bool

definition terminal_confirm :: "terminal \<Rightarrow> (command_error, bool) result" where
  "terminal_confirm t =
     (case tm_flush t of
        Some e \<Rightarrow> Err (interaction_error (io_msg e))
      | None \<Rightarrow>
          and_then (map_err (\<lambda>e. interaction_error (io_msg e)) (tm_line t)) (\<lambda>answer.
            Ok (to_ascii_lowercase (trim answer) \<in> {''y'', ''yes''})))"

definition terminal_interaction :: "terminal \<Rightarrow> cli_interaction" where
  "terminal_interaction t =
     \<lparr>ci_read_password = (\<lambda>prompt. map_err (\<lambda>e. interaction_error (io_msg e)) (tm_password t prompt)),
      ci_confirm = (\<lambda>_. terminal_confirm t),
      ci_is_interactive = (tm_stdin_tty t \<and> tm_stderr_tty t)\<rparr>"

section \<open>Lemmas\<close>

lemma ce_kind_new [simp]: "ce_kind (command_error_new k m) = k"
  by (simp add: command_error_new_def)

lemma exit_code_range: "exit_code e \<in> {1 .. 5}"
  by (cases "ce_kind e") (simp_all add: exit_code_def)

lemma count_checks:
  "foldl count_check s cs =
     \<lparr>du_pass = du_pass s + length (filter (\<lambda>c. dc_status c = DsPass) cs),
      du_warn = du_warn s + length (filter (\<lambda>c. dc_status c = DsWarn) cs),
      du_fail = du_fail s + length (filter (\<lambda>c. dc_status c = DsFail) cs)\<rparr>"
  by (induction cs arbitrary: s) (auto split: doctor_status.splits)

lemma doctor_report_total:
  "du_pass (dr_summary (doctor_report_new cs)) + du_warn (dr_summary (doctor_report_new cs))
     + du_fail (dr_summary (doctor_report_new cs)) = length cs"
proof -
  have "length (filter (\<lambda>c. dc_status c = DsPass) cs) + length (filter (\<lambda>c. dc_status c = DsWarn) cs)
      + length (filter (\<lambda>c. dc_status c = DsFail) cs) = length cs"
    by (induction cs) (auto split: doctor_status.splits, (meson doctor_status.exhaust)+)
  then show ?thesis by (simp add: doctor_report_new_def count_checks)
qed

text \<open>
  The contract of an online executor: when it answers that no agent is running, nothing was
  executed. Under it the service performs a command once: its outcome is that of the online
  executor or that of the offline one on the state it was given, never one after the other.
\<close>

locale online_executor =
  fixes online :: "'s executor"
  assumes not_running_untouched:
    "online c s = (Inl e, s') \<Longrightarrow> ce_kind e = CkNotRunning \<Longrightarrow> s' = s"
begin

lemma at_most_once:
  fixes offline :: "'s executor"
  shows "command_service_execute (command_service_new (Some online) offline) c s
     \<in> {online c s, offline c s}"
  using not_running_untouched [of c s]
  by (auto simp: command_service_execute_def command_service_new_def
      split: command_policy.splits prod.splits sum.splits)

lemma offline_only_when_not_running:
  fixes offline :: "'s executor"
  assumes "policy c = OnlinePreferred"
  shows "command_service_execute (command_service_new (Some online) offline) c s =
    (case online c s of
       (Inl e, s') \<Rightarrow> if ce_kind e = CkNotRunning then offline c s else (Inl e, s')
     | (Inr r, s') \<Rightarrow> (Inr r, s'))"
  using assms not_running_untouched [of c s]
  by (auto simp: command_service_execute_def command_service_new_def split: prod.splits sum.splits)

lemma keeps_invariant:
  fixes offline :: "'s executor"
  assumes "\<And>c s. P s \<Longrightarrow> P (snd (online c s))" "\<And>c s. P s \<Longrightarrow> P (snd (offline c s))" "P s"
  shows "P (snd (command_service_execute (command_service_new (Some online) offline) c s))"
  using at_most_once [of offline c s] assms by auto

end

end
