(* ===== verification/Diagnostics.thy ===== *)
theory Diagnostics
  imports Command "HOL-Library.List_Lexorder" "HOL-Library.Char_ord"
begin

text \<open>
  The diagnostics bundle: the choice of files of \<open>crates/core/src/diagnostics.rs\<close> and the archive
  of \<open>crates/cli/src/diagnostics.rs\<close>. The listing of a directory and the writer of the \<open>zip\<close> crate
  are parameters; the archive is the list of its entries, and the file on disk is the image the
  crate gives for them after every call.
\<close>

section \<open>Which files are collected\<close>

definition is_log_file :: "string \<Rightarrow> bool" where
  "is_log_file lower \<longleftrightarrow>
     ends_with lower ''.log''
     \<or> is_some_and (\<lambda>(_, suffix). suffix \<noteq> [] \<and> list_all ascii_digit suffix) (rsplit_once_str ''.log.'' lower)"

definition is_collectable_diagnostic_file :: "string \<Rightarrow> bool" where
  "is_collectable_diagnostic_file name =
     (let file_name = last (split_on (\<lambda>c. c = CHR ''/'' \<or> c = CHR 0x5C) name);
          lower = to_ascii_lowercase file_name
      in if lower = ''config.json'' \<or> ends_with lower ''.sqlite3'' \<or> ends_with lower ''.sqlite''
            \<or> contains_str lower ''password'' \<or> contains_str lower ''yinshu-config''
         then False
         else is_log_file lower \<or> lower = STARTUP_ERROR_FILE_NAME \<or> lower = INSTALL_LOG_FILE_NAME
              \<or> (starts_with lower ''crash-'' \<and> ends_with lower ''.txt''))"

definition path_file_name :: "string \<Rightarrow> string option" where
  "path_file_name p = (let f = file_name p in if f = [] \<or> f = ''..'' then None else Some f)"

definition to_str :: "string \<Rightarrow> string option" where
  "to_str s = (if valid_utf8 s then Some s else None)"

definition utf8_file_name :: "string \<Rightarrow> string option" where
  "utf8_file_name p = Option.bind (path_file_name p) to_str"

text \<open>Paths are ordered by their components.\<close>

definition path_components :: "string \<Rightarrow> string list" where
  "path_components p =
     (if starts_with p ''/'' then [''/''] else []) @
     filter (\<lambda>c. c \<noteq> [] \<and> c \<noteq> ''.'') (split_on (\<lambda>c. c = CHR ''/'') p)"

type_synonym dir_listing = "world \<Rightarrow> string \<Rightarrow> (io_error, (io_error, string) result list) result"

fun collect_entries :: "world \<Rightarrow> (io_error, string) result list \<Rightarrow> (io_error, string list) result" where
  "collect_entries w [] = Ok []"
| "collect_entries w (Inl e # _) = Err e"
| "collect_entries w (Inr path # es) =
     and_then (collect_entries w es) (\<lambda>files.
       Ok (if w_files w path \<noteq> None \<and> is_some_and is_collectable_diagnostic_file (utf8_file_name path)
           then path # files else files))"

definition collect_diagnostic_files :: "dir_listing \<Rightarrow> world \<Rightarrow> string \<Rightarrow> (io_error, string list) result" where
  "collect_diagnostic_files ls w dir =
     (case ls w dir of
        Inl e \<Rightarrow> (if io_kind e = NotFound then Ok [] else Err e)
      | Inr entries \<Rightarrow>
          and_then (collect_entries w entries) (\<lambda>files. Ok (sort_key path_components files)))"

section \<open>Crash logs\<close>

definition crash_log_file_name :: "nat \<Rightarrow> string" where
  "crash_log_file_name unix_secs = ''crash-'' @ show_nat unix_secs @ ''.txt''"

definition write_crash_log :: "unix_platform \<Rightarrow> env_vars \<Rightarrow> os_env \<Rightarrow> string \<Rightarrow> (io_error, string) io" where
  "write_crash_log P V E message w =
     (case cli_log_dir P V of
        Inl e \<Rightarrow> (Err e, w)
      | Inr dir \<Rightarrow>
          io_then (fs_create_dir_all E w dir) (\<lambda>_ w1.
            (let secs = os_millis E (w_tick w1) div 1000;
                 path = path_join dir (crash_log_file_name secs)
             in io_then (fs_write E (tick w1) path (as_bytes (message @ [newline]))) (\<lambda>_ w2. (Ok path, w2)))))"

section \<open>The archive\<close>

type_synonym zip_entries = "(string \<times> bytes) list"

record zip_writer =
  zw_start :: "zip_entries \<Rightarrow> string \<Rightarrow> string option"
  zw_finish :: "zip_entries \<Rightarrow> string option"
  zw_image :: "bool \<Rightarrow> zip_entries \<Rightarrow> bytes"
  zw_summary :: "string \<Rightarrow> string list \<Rightarrow> (string, string) result"

definition runtime_io :: "io_error \<Rightarrow> command_error" where
  "runtime_io e = command_error_new CkRuntime (io_msg e)"

definition zip_start_file ::
  "zip_writer \<Rightarrow> os_env \<Rightarrow> string \<Rightarrow> zip_entries \<Rightarrow> string \<Rightarrow> (command_error, zip_entries) io" where
  "zip_start_file Z E output ar name w =
     (case zw_start Z ar name of
        Some e \<Rightarrow> (Err (command_error_new CkRuntime e), w)
      | None \<Rightarrow>
          io_then (io_map_err runtime_io (fs_write E w output (zw_image Z False (ar @ [(name, [])])))) (\<lambda>_ w1.
            (Ok (ar @ [(name, [])]), w1)))"

definition zip_write_all ::
  "zip_writer \<Rightarrow> os_env \<Rightarrow> string \<Rightarrow> zip_entries \<Rightarrow> bytes \<Rightarrow> (command_error, zip_entries) io" where
  "zip_write_all Z E output ar content w =
     (let ar' = butlast ar @ [(fst (last ar), snd (last ar) @ content)]
      in io_then (io_map_err runtime_io (fs_write E w output (zw_image Z False ar'))) (\<lambda>_ w1. (Ok ar', w1)))"

definition write_zip_string ::
  "zip_writer \<Rightarrow> os_env \<Rightarrow> string \<Rightarrow> zip_entries \<Rightarrow> string \<Rightarrow> string \<Rightarrow> (command_error, zip_entries) io" where
  "write_zip_string Z E output ar name contents w =
     io_then (zip_start_file Z E output ar name w) (\<lambda>ar' w1.
       zip_write_all Z E output ar' (as_bytes contents) w1)"

fun write_zip_files ::
  "zip_writer \<Rightarrow> os_env \<Rightarrow> string \<Rightarrow> string list \<Rightarrow> zip_entries \<Rightarrow> (command_error, zip_entries) io" where
  "write_zip_files Z E output [] ar w = (Ok ar, w)"
| "write_zip_files Z E output (path # paths) ar w =
     (case utf8_file_name path of
        None \<Rightarrow> (Err (command_error_new CkRuntime ''diagnostic file name is invalid''), w)
      | Some name \<Rightarrow>
          io_then (io_map_err runtime_io (fs_read E w path)) (\<lambda>content w1.
          io_then (zip_start_file Z E output ar name w1) (\<lambda>ar1 w2.
          io_then (zip_write_all Z E output ar1 content w2) (\<lambda>ar2 w3.
            write_zip_files Z E output paths ar2 w3))))"

definition archive_names :: "string list \<Rightarrow> string option \<Rightarrow> string list" where
  "archive_names files doctor_json =
     ''summary.json'' # sort (List.map_filter utf8_file_name files)
       @ (if doctor_json \<noteq> None then [''doctor.json''] else [])"

text \<open>The entries of the archive are returned beside its path.\<close>

definition write_archive ::
  "zip_writer \<Rightarrow> os_env \<Rightarrow> string \<Rightarrow> string \<Rightarrow> string list \<Rightarrow> string option \<Rightarrow> (command_error, string \<times> zip_entries) io" where
  "write_archive Z E output log_dir files doctor_json w =
     io_then (io_map_err runtime_io (fs_write E w output [])) (\<lambda>_ w1.
     io_then (case zw_summary Z log_dir (archive_names files doctor_json) of
                Inl e \<Rightarrow> (Err (command_error_new CkRuntime e), w1)
              | Inr summary \<Rightarrow> write_zip_string Z E output [] ''summary.json'' summary w1) (\<lambda>zip1 w2.
     io_then (write_zip_files Z E output files zip1 w2) (\<lambda>zip2 w3.
     io_then (case doctor_json of
                None \<Rightarrow> (Ok zip2, w3)
              | Some json \<Rightarrow> write_zip_string Z E output zip2 ''doctor.json'' json w3) (\<lambda>zip3 w4.
     io_then (case zw_finish Z zip3 of
                Some e \<Rightarrow> (Err (command_error_new CkRuntime e), w4)
              | None \<Rightarrow> io_map_err runtime_io (fs_write E w4 output (zw_image Z True zip3))) (\<lambda>_ w5.
       (Ok (output, zip3), w5))))))"

definition write_diagnostics_bundle ::
  "zip_writer \<Rightarrow> dir_listing \<Rightarrow> unix_platform \<Rightarrow> env_vars \<Rightarrow> os_env \<Rightarrow> string option \<Rightarrow> string option \<Rightarrow>
   (command_error, string \<times> zip_entries) io" where
  "write_diagnostics_bundle Z ls P V E output doctor_json w =
     (case (case output of Some path \<Rightarrow> Ok path | None \<Rightarrow> map_err runtime_io (default_diagnose_output_path V)) of
        Inl e \<Rightarrow> (Err e, w)
      | Inr output \<Rightarrow>
          io_then (case path_parent output of
                     None \<Rightarrow> (Ok (), w)
                   | Some parent \<Rightarrow> io_map_err runtime_io (fs_create_dir_all E w parent)) (\<lambda>_ w1.
          (case map_err runtime_io (cli_log_dir P V) of
             Inl e \<Rightarrow> (Err e, w1)
           | Inr log_dir \<Rightarrow>
               (case map_err runtime_io (collect_diagnostic_files ls w1 log_dir) of
                  Inl e \<Rightarrow> (Err e, w1)
                | Inr files \<Rightarrow> write_archive Z E output log_dir files doctor_json w1))))"

definition diagnostics_execute ::
  "zip_writer \<Rightarrow> dir_listing \<Rightarrow> unix_platform \<Rightarrow> env_vars \<Rightarrow> os_env \<Rightarrow> world executor" where
  "diagnostics_execute Z ls P V E command w =
     (case command of
        ExportDiagnostics path doctor_json \<Rightarrow>
          io_then (write_diagnostics_bundle Z ls P V E path doctor_json w) (\<lambda>(output, _) w1.
            (Ok (RsDiagnostics output), w1))
      | _ \<Rightarrow> (Err (command_error_new CkUnsupported ''diagnostics executor only supports export_diagnostics''), w))"

definition diagnose_command_service ::
  "zip_writer \<Rightarrow> dir_listing \<Rightarrow> unix_platform \<Rightarrow> env_vars \<Rightarrow> os_env \<Rightarrow> world command_service" where
  "diagnose_command_service Z ls P V E = command_service_new None (diagnostics_execute Z ls P V E)"

section \<open>What a bundle contains\<close>

definition only_file :: "string \<Rightarrow> world \<Rightarrow> world \<Rightarrow> bool" where
  "only_file p w w' \<longleftrightarrow> (\<forall>q. q \<noteq> p \<longrightarrow> w_files w' q = w_files w q)"

lemma only_file_refl [simp]: "only_file p w w"
  by (simp add: only_file_def)

lemma only_file_trans: "only_file p w w1 \<Longrightarrow> only_file p w1 w2 \<Longrightarrow> only_file p w w2"
  by (auto simp: only_file_def)

lemma only_file_write: "only_file p w w1 \<Longrightarrow> only_file p w (snd (fs_write E w1 p b))"
  by (auto simp: only_file_def w_files_fs_write_other)

lemma zip_start_file_world: "only_file output w w1 \<Longrightarrow> only_file output w (snd (zip_start_file Z E output ar name w1))"
  by (cases "zw_start Z ar name")
    (auto simp: zip_start_file_def intro!: io_then_world [where P = "only_file output w"] only_file_write)

lemma zip_write_all_world: "only_file output w w1 \<Longrightarrow> only_file output w (snd (zip_write_all Z E output ar b w1))"
  by (auto simp: zip_write_all_def Let_def intro!: io_then_world [where P = "only_file output w"] only_file_write)

lemma write_zip_string_world:
  "only_file output w w1 \<Longrightarrow> only_file output w (snd (write_zip_string Z E output ar n c w1))"
  by (auto simp: write_zip_string_def intro!: io_then_world [where P = "only_file output w"] zip_start_file_world zip_write_all_world)

lemma write_zip_files_world:
  "only_file output w w1 \<Longrightarrow> only_file output w (snd (write_zip_files Z E output paths ar w1))"
proof (induction paths arbitrary: ar w1)
  case (Cons path paths)
  show ?case
  proof (cases "utf8_file_name path")
    case (Some name)
    have "only_file output w (snd (fs_read E w1 path))"
      using Cons.prems by (simp add: only_file_def)
    with Some show ?thesis
      by (auto intro!: io_then_world [where P = "only_file output w"] zip_start_file_world zip_write_all_world Cons.IH)
  qed (use Cons.prems in simp)
qed simp

lemma zip_start_file_ok: "zip_start_file Z E output ar name w = (Inr ar', w') \<Longrightarrow> ar' = ar @ [(name, [])]"
  by (auto simp: zip_start_file_def io_then_ok_iff split: option.splits)

lemma zip_write_all_ok:
  "zip_write_all Z E output (ar @ [(name, b)]) c w = (Inr ar', w') \<Longrightarrow> ar' = ar @ [(name, b @ c)]"
  by (auto simp: zip_write_all_def Let_def io_then_ok_iff)

lemma write_zip_string_ok:
  "write_zip_string Z E output ar name contents w = (Inr ar', w') \<Longrightarrow> ar' = ar @ [(name, as_bytes contents)]"
  by (auto simp: write_zip_string_def io_then_ok_iff dest!: zip_start_file_ok zip_write_all_ok)

definition entry_of :: "world \<Rightarrow> string \<Rightarrow> string \<Rightarrow> string \<times> bytes \<Rightarrow> bool" where
  "entry_of w output path e \<longleftrightarrow>
     utf8_file_name path = Some (fst e) \<and> (path = output \<or> w_files w path = Some (snd e))"

lemma write_zip_files_ok:
  "write_zip_files Z E output paths ar w1 = (Inr ar', w2) \<Longrightarrow> only_file output w w1 \<Longrightarrow>
     \<exists>es. ar' = ar @ es \<and> list_all2 (entry_of w output) paths es"
proof (induction paths arbitrary: ar w1)
  case (Cons path paths)
  from Cons.prems(1) obtain name content wa ar1 wb ar2 wc where
    name: "utf8_file_name path = Some name" and rd: "fs_read E w1 path = (Inr content, wa)"
    and st: "zip_start_file Z E output ar name wa = (Inr ar1, wb)"
    and wr: "zip_write_all Z E output ar1 content wb = (Inr ar2, wc)"
    and rest: "write_zip_files Z E output paths ar2 wc = (Inr ar', w2)"
    by (auto simp: io_then_ok_iff split: option.splits)
  from fs_read_ok [OF rd] have r: "w_files w1 path = Some content" "w_files wa = w_files w1" by auto
  from zip_start_file_ok [OF st] have ar1: "ar1 = ar @ [(name, [])]" .
  with zip_write_all_ok wr have ar2: "ar2 = ar @ [(name, content)]" by fastforce
  have wa: "only_file output w wa" using Cons.prems(2) r by (simp add: only_file_def)
  have wb: "only_file output w wb" using zip_start_file_world [OF wa, of Z E ar name] st by simp
  have "only_file output w wc" using zip_write_all_world [OF wb, of Z E ar1 content] wr by simp
  from Cons.IH [OF rest this] obtain es where
    es: "ar' = ar2 @ es" "list_all2 (entry_of w output) paths es" by blast
  have "entry_of w output path (name, content)"
    using name r Cons.prems(2) by (auto simp: entry_of_def only_file_def)
  with es ar2 show ?case by (auto intro!: exI [of _ "(name, content) # es"])
qed simp

lemma write_archive_ok:
  assumes "write_archive Z E output dir files doctor w = (Inr (out, ar), w')"
  shows "\<exists>summary es. out = output \<and> list_all2 (entry_of w output) files es
    \<and> zw_summary Z dir (archive_names files doctor) = Inr summary
    \<and> ar = (''summary.json'', as_bytes summary) # es @ (case doctor of None \<Rightarrow> [] | Some j \<Rightarrow> [(''doctor.json'', as_bytes j)])"
proof -
  from assms obtain w1 summary ar1 w2 ar2 w3 w4 where
    cr: "fs_write E w output [] = (Inr (), w1)"
    and sm: "zw_summary Z dir (archive_names files doctor) = Inr summary"
    and s: "write_zip_string Z E output [] ''summary.json'' summary w1 = (Inr ar1, w2)"
    and f: "write_zip_files Z E output files ar1 w2 = (Inr ar2, w3)"
    and d: "(case doctor of None \<Rightarrow> (Inr ar2, w3)
       | Some json \<Rightarrow> write_zip_string Z E output ar2 ''doctor.json'' json w3) = (Inr ar, w4)"
    and out: "out = output"
    by (cases "zw_summary Z dir (archive_names files doctor)")
      (auto simp: write_archive_def io_then_ok_iff)
  have w1: "only_file output w w1" using only_file_write [OF only_file_refl, of "output" w E "[]"] cr by simp
  have "only_file output w w2"
    using write_zip_string_world [OF w1, of Z E "[]" "''summary.json''" summary] s by simp
  from write_zip_files_ok [OF f this] obtain es where
    "ar2 = ar1 @ es" "list_all2 (entry_of w output) files es" by blast
  moreover from write_zip_string_ok [OF s] have "ar1 = [(''summary.json'', as_bytes summary)]" by simp
  moreover have "ar = ar2 @ (case doctor of None \<Rightarrow> [] | Some j \<Rightarrow> [(''doctor.json'', as_bytes j)])"
    using d by (auto split: option.splits dest!: write_zip_string_ok)
  ultimately show ?thesis using sm out by auto
qed

lemma write_archive_world:
  "only_file output w (snd (write_archive Z E output dir files doctor w))"
  unfolding write_archive_def
  by (intro io_then_world [where P = "only_file output w"])
    (auto intro!: write_zip_string_world write_zip_files_world only_file_write
      split: sum.splits option.splits)

lemma collect_entries_ok:
  "collect_entries w es = Inr files \<Longrightarrow>
     files = filter (\<lambda>p. w_files w p \<noteq> None \<and> is_some_and is_collectable_diagnostic_file (utf8_file_name p))
               (map projr es) \<and> list_all is_ok es"
  by (induction es arbitrary: files rule: collect_entries.induct)
    (auto simp: and_then_eq_Inr_iff split: if_splits)

lemma collected_files:
  assumes "collect_diagnostic_files ls w dir = Inr files" and "p \<in> set files"
  shows "\<exists>es. ls w dir = Inr es \<and> Inr p \<in> set es \<and> w_files w p \<noteq> None"
    and "\<exists>n. utf8_file_name p = Some n \<and> is_collectable_diagnostic_file n"
proof -
  from assms(1) consider "files = []" | es fs where "ls w dir = Inr es" "collect_entries w es = Inr fs"
      "files = sort_key path_components fs"
    by (auto simp: collect_diagnostic_files_def and_then_eq_Inr_iff split: sum.splits if_splits)
  then have *: "(\<exists>es. ls w dir = Inr es \<and> Inr p \<in> set es \<and> w_files w p \<noteq> None)
      \<and> is_some_and is_collectable_diagnostic_file (utf8_file_name p)"
  proof cases
    case 1
    with assms(2) show ?thesis by simp
  next
    case (2 es fs)
    from collect_entries_ok [OF 2(2)] 2(3) assms(2) obtain x where
      "x \<in> set es" "projr x = p" "w_files w p \<noteq> None"
      "is_some_and is_collectable_diagnostic_file (utf8_file_name p)" "list_all is_ok es" by auto
    moreover from this have "is_ok x" by (simp add: list_all_iff)
    then have "x = Inr (projr x)" by (cases x) simp_all
    ultimately show ?thesis using 2(1) by metis
  qed
  from * show "\<exists>es. ls w dir = Inr es \<and> Inr p \<in> set es \<and> w_files w p \<noteq> None" by blast
  from * show "\<exists>n. utf8_file_name p = Some n \<and> is_collectable_diagnostic_file n"
    by (auto simp: is_some_and_def split: option.splits)
qed

text \<open>The names of files that hold settings, passwords, exported configurations or databases.\<close>

definition secret_name :: "string \<Rightarrow> bool" where
  "secret_name n \<longleftrightarrow>
     (let l = to_ascii_lowercase n in
      l = ''config.json'' \<or> ends_with l ''.sqlite3'' \<or> ends_with l ''.sqlite''
      \<or> contains_str l ''password'' \<or> contains_str l ''yinshu-config'')"

lemma file_name_no_slash: "CHR ''/'' \<notin> set (file_name p)"
proof (cases "split_once (CHR ''/'') (rev p)")
  case None
  then have "file_name p = p" by (simp add: file_name_def rsplit_once_def)
  with None show ?thesis by (simp add: split_once_None_iff)
next
  case (Some ab)
  moreover obtain a b where "ab = (a, b)" by (rule prod.exhaust)
  ultimately have "split_once (CHR ''/'') (rev p) = Some (a, b)" by simp
  moreover from this have "file_name p = rev a" by (simp add: file_name_def rsplit_once_def)
  ultimately show ?thesis by (simp add: split_once_Some_iff)
qed

lemma utf8_file_name_no_slash: "utf8_file_name p = Some n \<Longrightarrow> CHR ''/'' \<notin> set n"
  using file_name_no_slash [of p]
  by (auto simp: utf8_file_name_def path_file_name_def to_str_def Let_def split: if_splits)

lemma collectable_not_secret:
  assumes "is_collectable_diagnostic_file n" "CHR ''/'' \<notin> set n" "CHR 0x5C \<notin> set n"
  shows "\<not> secret_name n"
proof -
  have "split_on (\<lambda>c. c = CHR ''/'' \<or> c = CHR 0x5C) n = [n]"
    using assms(2,3) by (intro split_on_none) auto
  with assms(1) show ?thesis
    by (auto simp: is_collectable_diagnostic_file_def secret_name_def Let_def)
qed


definition example_listing :: dir_listing where
  "example_listing _ _ = Ok [Ok ''/logs/a.log'', Ok ''/logs/config.json'']"

definition example_zip :: zip_writer where
  "example_zip = \<lparr>zw_start = (\<lambda>_ _. None), zw_finish = (\<lambda>_. None), zw_image = (\<lambda>_ es. concat (map snd es)),
     zw_summary = (\<lambda>_ _. Ok ''{}'')\<rparr>"

definition example_log_world :: world where
  "example_log_world = \<lparr>w_files = [''/logs/a.log'' \<mapsto> [1], ''/logs/config.json'' \<mapsto> [2]], w_dirs = {}, w_tick = 0\<rparr>"

definition example_vars :: env_vars where
  "example_vars v = (if v = ''YINSHU_LOG_DIR'' then Some ''/logs'' else None)"

lemma example_names:
  "utf8_file_name ''/logs/a.log'' = Some ''a.log''" "utf8_file_name ''/logs/config.json'' = Some ''config.json''"
  "is_collectable_diagnostic_file ''a.log''" "\<not> is_collectable_diagnostic_file ''config.json''"
  "path_parent ''/o.zip'' = Some ''/''"
  by code_simp+

lemma example_collect:
  "collect_diagnostic_files example_listing w ''/logs'' = Inr [''/logs/a.log'']"
  if "w_files w = w_files example_log_world"
  using that
  by (simp add: collect_diagnostic_files_def example_listing_def example_names is_some_and_def example_log_world_def)

lemma example_os [simp]:
  "fs_write example_env w p b = (Inr (), tick (w\<lparr>w_files := (w_files w)(p \<mapsto> b)\<rparr>))"
  "fs_create_dir_all example_env w p = (Inr (), tick (w\<lparr>w_dirs := insert p (w_dirs w)\<rparr>))"
  "fs_read example_env w p = (case w_files w p of None \<Rightarrow> Err not_found | Some b \<Rightarrow> Ok b, tick w)"
  by (simp_all add: fs_write_def fs_create_dir_all_def fs_read_def example_env_def)

lemma example_archive:
  assumes "w_files w = w_files example_log_world"
  shows "\<exists>w'. write_archive example_zip example_env ''/o.zip'' ''/logs'' [''/logs/a.log''] None w =
    (Inr (''/o.zip'', [(''summary.json'', as_bytes ''{}''), (''a.log'', [1])]), w')"
  using assms
  by (simp add: write_archive_def write_zip_string_def zip_start_file_def zip_write_all_def example_zip_def
      example_names example_log_world_def)

lemma example_bundle:
  "\<exists>w'. write_diagnostics_bundle example_zip example_listing Linux example_vars example_env (Some ''/o.zip'') None
     example_log_world = (Inr (''/o.zip'', [(''summary.json'', as_bytes ''{}''), (''a.log'', [1])]), w')"
  by (simp add: write_diagnostics_bundle_def cli_log_dir_def example_vars_def example_names example_collect
      example_archive)


end
