(* ===== verification/Page_Layout.thy ===== *)
theory Page_Layout
  imports Document
begin

text \<open>
  The layout of the test page, \<open>crates/runtime/src/document.rs\<close>: its content, the sizes that depend on the
  paper, and the operations that draw frame, headings, rows, scale bar and footer. A function that pushes
  operations returns the pushed ones together with the next position.
\<close>

section \<open>Content\<close>

record test_page_row =
  tr_label :: string
  tr_value :: string

record test_page_section =
  tg_heading :: string
  tg_rows :: "test_page_row list"

record test_page_content =
  tc_title :: string
  tc_kicker :: string
  tc_subtitle :: string
  tc_sections :: "test_page_section list"
  tc_footer :: string

definition test_page_content_new :: "string list \<Rightarrow> test_page_content" where
  "test_page_content_new lines =
     \<lparr>tc_title = [], tc_kicker = [], tc_subtitle = [],
      tc_sections = [\<lparr>tg_heading = [], tg_rows = map (\<lambda>line. \<lparr>tr_label = [], tr_value = line\<rparr>) lines\<rparr>],
      tc_footer = []\<rparr>"

section \<open>Sizes\<close>

record page_type =
  pt_margin :: f64
  pt_title :: f64
  pt_kicker :: f64
  pt_subtitle :: f64
  pt_heading :: f64
  pt_body :: f64
  pt_footer :: f64
  pt_label_col_mm :: f64
  pt_show_kicker :: bool
  pt_show_subtitle :: bool
  pt_show_scale :: bool

text \<open>A literal is the double nearest to the decimal.\<close>

definition scaled :: "f64 \<Rightarrow> rat \<Rightarrow> rat \<Rightarrow> rat \<Rightarrow> f64" where
  "scaled side factor lo hi = f64_clamp (f64_mul side (round_f64 factor)) (round_f64 lo) (round_f64 hi)"

definition page_type_of :: "effective_paper \<Rightarrow> page_type" where
  "page_type_of paper =
     (let min_side = f64_min (ep_width_mm paper) (ep_height_mm paper) in
      \<lparr>pt_margin = scaled min_side (85 / 1000) (12 / 10) 18,
       pt_title = scaled min_side (124 / 1000) 8 26,
       pt_kicker = scaled min_side (43 / 1000) (55 / 10) 9,
       pt_subtitle = scaled min_side (52 / 1000) 6 11,
       pt_heading = scaled min_side (38 / 1000) (55 / 10) 8,
       pt_body = scaled min_side (52 / 1000) (65 / 10) 11,
       pt_footer = scaled min_side (38 / 1000) (55 / 10) 8,
       pt_label_col_mm = scaled min_side (114 / 1000) 12 24,
       pt_show_kicker = f64_le (Fin 36) min_side,
       pt_show_subtitle = f64_le (Fin 80) min_side,
       pt_show_scale = f64_le (Fin 140) min_side\<rparr>)"

definition pt_mm :: "f64 \<Rightarrow> f64" where
  "pt_mm size_pt = f64_div (f64_mul size_pt (round_f64 (254 / 10))) (Fin 72)"

definition chars_count :: "string \<Rightarrow> nat" where
  "chars_count s = length (filter (\<lambda>c. \<not> continuation c) s)"

definition text_width_mm :: "string \<Rightarrow> f64 \<Rightarrow> f64" where
  "text_width_mm s size_pt =
     f64_div (f64_mul (f64_mul (f64_mul (round_f64 (of_nat (chars_count s))) size_pt) (round_f64 (52 / 100)))
                (round_f64 (254 / 10))) (Fin 72)"

definition max_chars_for_width :: "f64 \<Rightarrow> f64 \<Rightarrow> nat" where
  "max_chars_for_width max_width_mm font_pt =
     (let max_pt = f64_div (f64_mul max_width_mm (Fin 72)) (round_f64 (254 / 10))
      in max (f64_floor_usize (f64_div max_pt (f64_mul font_pt (round_f64 (52 / 100))))) 8)"

section \<open>Drawing\<close>

definition point_mm :: "pdf_lib \<Rightarrow> f64 \<Rightarrow> f64 \<Rightarrow> pdf_point" where
  "point_mm M x y = (mm_to_pt M x, mm_to_pt M y)"

definition closed_line :: "pdf_lib \<Rightarrow> (f64 \<times> f64) list \<Rightarrow> pdf_op" where
  "closed_line M points = DrawLine (map (\<lambda>(x, y). point_mm M x y) points) True"

definition filled_rect :: "pdf_lib \<Rightarrow> f64 \<Rightarrow> f64 \<Rightarrow> f64 \<Rightarrow> f64 \<Rightarrow> pdf_op" where
  "filled_rect M x0 y0 x1 y1 = FillPolygon [point_mm M x0 y0, point_mm M x1 y0, point_mm M x1 y1, point_mm M x0 y1]"

definition grayscale :: "f32 \<Rightarrow> pdf_color" where
  "grayscale value = (value, value, value)"

definition text_ops :: "pdf_lib \<Rightarrow> pdf_font \<Rightarrow> f64 \<Rightarrow> f64 \<Rightarrow> f64 \<Rightarrow> f32 \<Rightarrow> string \<Rightarrow> pdf_op list" where
  "text_ops M font size_pt x y color line =
     [StartTextSection, SetFillColor (grayscale color), SetFont font (as_f32 size_pt),
      SetTextCursor (point_mm M x y), ShowText line, EndTextSection]"

text \<open>The loop over the wrapped lines; it stops below the floor and skips empty lines.\<close>

fun draw_lines ::
  "pdf_lib \<Rightarrow> pdf_font \<Rightarrow> f64 \<Rightarrow> f64 \<Rightarrow> f64 \<Rightarrow> f32 \<Rightarrow> f64 \<Rightarrow> bool \<Rightarrow> string list \<Rightarrow> f64 \<Rightarrow> pdf_op list \<times> f64" where
  "draw_lines M font size_pt x bottom color line_height first [] y = ([], y)"
| "draw_lines M font size_pt x bottom color line_height first (line # lines) y =
     (let y1 = (if first then y else f64_sub y line_height) in
      if f64_less y1 bottom then ([], y1)
      else
        (case draw_lines M font size_pt x bottom color line_height False lines y1 of (ops, y2) \<Rightarrow>
           ((if line = [] then [] else text_ops M font size_pt x y1 color line) @ ops, y2)))"

definition draw_wrapped ::
  "pdf_lib \<Rightarrow> pdf_font \<Rightarrow> f64 \<Rightarrow> f64 \<Rightarrow> f64 \<Rightarrow> f64 \<Rightarrow> string \<Rightarrow> f32 \<Rightarrow> f64 \<Rightarrow> pdf_op list \<times> f64" where
  "draw_wrapped M font size_pt x bottom max_width_mm s color y =
     (let line_height_mm = f64_mul (pt_mm size_pt) (round_f64 (128 / 100));
          max_chars = max_chars_for_width max_width_mm size_pt
      in draw_lines M font size_pt x bottom color line_height_mm True (wrap_pdf_text s max_chars) y)"

definition draw_row ::
  "pdf_lib \<Rightarrow> pdf_font \<Rightarrow> f64 \<Rightarrow> f64 \<Rightarrow> f64 \<Rightarrow> f64 \<Rightarrow> f64 \<Rightarrow> test_page_row \<Rightarrow> f64 \<Rightarrow> pdf_op list \<times> f64" where
  "draw_row M font size_pt x bottom max_width label_col_mm r y =
     (if tr_label r = [] then draw_wrapped M font size_pt x bottom max_width (tr_value r) (Fin 0) y
      else
        (let value_x = f64_add x label_col_mm;
             value_width = f64_max (f64_sub max_width label_col_mm) (Fin 8);
             (ops1, _) = draw_wrapped M font size_pt x bottom (f64_sub label_col_mm (Fin (3 / 2))) (tr_label r)
                           (round_f32 (4 / 10)) y;
             (ops2, y2) = draw_wrapped M font size_pt value_x bottom value_width (tr_value r) (Fin 0) y
         in (ops1 @ ops2, y2)))"

fun draw_rows ::
  "pdf_lib \<Rightarrow> page_type \<Rightarrow> f64 \<Rightarrow> f64 \<Rightarrow> test_page_row list \<Rightarrow> f64 \<Rightarrow> pdf_op list \<times> f64" where
  "draw_rows M layout bottom max_width [] y = ([], y)"
| "draw_rows M layout bottom max_width (r # rows) y =
     (if f64_less y bottom then ([], y)
      else
        (let (ops1, y1) = draw_row M Helvetica (pt_body layout) (pt_margin layout) bottom max_width
                            (pt_label_col_mm layout) r y;
             (ops2, y2) = draw_rows M layout bottom max_width rows
                            (f64_sub y1 (f64_mul (pt_mm (pt_body layout)) (round_f64 (138 / 100))))
         in (ops1 @ ops2, y2)))"

definition draw_heading ::
  "pdf_lib \<Rightarrow> page_type \<Rightarrow> f64 \<Rightarrow> f64 \<Rightarrow> string \<Rightarrow> f64 \<Rightarrow> pdf_op list \<times> f64" where
  "draw_heading M layout bottom max_width heading y =
     (if heading = [] then ([], y)
      else
        (let (ops, y1) = draw_wrapped M HelveticaBold (pt_heading layout) (pt_margin layout) bottom max_width
                           (to_ascii_uppercase heading) (round_f32 (4 / 10)) (f64_sub y (round_f64 (42 / 10)))
         in (ops, f64_sub y1 (f64_mul (pt_mm (pt_body layout)) (round_f64 (145 / 100))))))"

fun draw_sections ::
  "pdf_lib \<Rightarrow> page_type \<Rightarrow> f64 \<Rightarrow> f64 \<Rightarrow> test_page_section list \<Rightarrow> f64 \<Rightarrow> pdf_op list \<times> f64" where
  "draw_sections M layout bottom max_width [] y = ([], y)"
| "draw_sections M layout bottom max_width (s # ss) y =
     (if f64_less y (f64_add bottom (Fin 6)) then ([], y)
      else
        (let (ops1, y1) = draw_heading M layout bottom max_width (tg_heading s) y;
             (ops2, y2) = draw_rows M layout bottom max_width (tg_rows s) y1;
             (ops3, y3) = draw_sections M layout bottom max_width ss y2
         in (ops1 @ ops2 @ ops3, y3)))"

section \<open>The page\<close>

definition page_floor :: "page_type \<Rightarrow> test_page_content \<Rightarrow> f64" where
  "page_floor layout content =
     (if pt_show_scale layout then f64_add (pt_margin layout) (Fin 14)
      else if tc_footer content \<noteq> [] then f64_add (pt_margin layout) (Fin 8)
      else pt_margin layout)"

definition outline_ops :: "pdf_op list" where
  "outline_ops = [SetOutlineColor (grayscale (Fin 0)), SetOutlineThickness (round_f32 (35 / 100))]"

text \<open>The frame.\<close>

definition frame_ops :: "pdf_lib \<Rightarrow> page_type \<Rightarrow> effective_paper \<Rightarrow> pdf_op list" where
  "frame_ops M layout paper =
     (let inset = f64_mul (pt_margin layout) (round_f64 (4 / 10));
          right = f64_sub (ep_width_mm paper) inset;
          top = f64_sub (ep_height_mm paper) inset
      in outline_ops @ [closed_line M [(inset, inset), (right, inset), (right, top), (inset, top)]])"

text \<open>Title, kicker, rule and subtitle.\<close>

definition header_ops ::
  "pdf_lib \<Rightarrow> page_type \<Rightarrow> test_page_content \<Rightarrow> f64 \<Rightarrow> f64 \<Rightarrow> f64 \<Rightarrow> pdf_op list \<times> f64" where
  "header_ops M layout content bottom max_width y =
     (let margin = pt_margin layout;
          (ops1, y1) = (if tc_title content = [] then ([], y)
             else draw_wrapped M HelveticaBold (pt_title layout) margin bottom max_width (tc_title content) (Fin 0) y);
          (ops2, y2) = (if \<not> pt_show_kicker layout \<or> tc_kicker content = [] then ([], y1)
             else draw_wrapped M Helvetica (pt_kicker layout) margin bottom max_width (tc_kicker content) (round_f32 (4 / 10))
                    (f64_sub y1 (f64_mul (pt_mm (pt_kicker layout)) (round_f64 (155 / 100)))));
          (ops3, y3) = (if tc_title content = [] \<and> tc_kicker content = [] then ([], y2)
             else (let rule = f64_sub y2 (round_f64 (34 / 10)) in
                   (outline_ops @ [DrawLine [point_mm M margin rule, point_mm M (f64_add margin max_width) rule] False],
                    f64_sub rule (round_f64 (52 / 10)))));
          (ops4, y4) = (if \<not> pt_show_subtitle layout \<or> tc_subtitle content = [] then ([], y3)
             else (case draw_wrapped M Helvetica (pt_subtitle layout) margin bottom max_width (tc_subtitle content)
                          (round_f32 (28 / 100)) y3 of (ops, y') \<Rightarrow> (ops, f64_sub y' (Fin (13 / 2)))))
      in (ops1 @ ops2 @ ops3 @ ops4, y4))"

text \<open>Scale bar and footer.\<close>

definition scale_ops :: "pdf_lib \<Rightarrow> page_type \<Rightarrow> f64 \<Rightarrow> pdf_op list" where
  "scale_ops M layout max_width =
     (if \<not> pt_show_scale layout then []
      else
        (let margin = pt_margin layout;
             bar_y = f64_add margin (round_f64 (34 / 10));
             bar_width = f64_min (Fin 20) max_width
         in [SetFillColor (grayscale (Fin 0)),
             filled_rect M margin bar_y (f64_add margin bar_width) (f64_add bar_y (round_f64 (13 / 10)))]
            @ fst (draw_wrapped M Helvetica (Fin 7) margin margin max_width ''20 mm'' (round_f32 (35 / 100))
                     (f64_add bar_y (round_f64 (54 / 10))))))"

definition footer_ops :: "pdf_lib \<Rightarrow> page_type \<Rightarrow> test_page_content \<Rightarrow> f64 \<Rightarrow> f64 \<Rightarrow> pdf_op list" where
  "footer_ops M layout content width max_width =
     (if tc_footer content = [] then []
      else
        (let margin = pt_margin layout;
             bar_y = f64_add margin (round_f64 (34 / 10));
             footer_width = text_width_mm (tc_footer content) (pt_footer layout);
             footer_x = (if pt_show_scale layout
                         then f64_max (f64_sub (f64_sub width margin) footer_width) (f64_add margin (Fin 28)) else margin)
         in fst (draw_wrapped M Helvetica (pt_footer layout) footer_x margin max_width (tc_footer content) (round_f32 (4 / 10))
                   (if pt_show_scale layout then f64_add bar_y (round_f64 (54 / 10))
                    else f64_add margin (round_f64 (32 / 10))))))"

definition test_page_ops :: "pdf_lib \<Rightarrow> effective_paper \<Rightarrow> test_page_content \<Rightarrow> pdf_op list" where
  "test_page_ops M paper content =
     (let layout = page_type_of paper;
          width = ep_width_mm paper;
          height = ep_height_mm paper;
          margin = pt_margin layout;
          max_width = f64_max (f64_sub width (f64_mul margin (Fin 2))) (Fin 4);
          bottom = page_floor layout content;
          (ops1, y) = header_ops M layout content bottom max_width
                        (f64_sub (f64_sub height margin) (f64_mul (pt_mm (pt_title layout)) (round_f64 (88 / 100))));
          (ops2, _) = draw_sections M layout bottom max_width (tc_sections content) y
      in [SaveGraphicsState] @ frame_ops M layout paper @ ops1 @ ops2 @ scale_ops M layout max_width
         @ footer_ops M layout content width max_width @ [RestoreGraphicsState])"

section \<open>Where the text is\<close>

text \<open>Text sections are opened and closed in turn, text operations stand inside of them and drawing operations
  outside.\<close>

fun sections_ok :: "bool \<Rightarrow> pdf_op list \<Rightarrow> bool" where
  "sections_ok inside [] = (\<not> inside)"
| "sections_ok inside (op # ops) =
     (case op of
        StartTextSection \<Rightarrow> \<not> inside \<and> sections_ok True ops
      | EndTextSection \<Rightarrow> inside \<and> sections_ok False ops
      | SetFont _ _ \<Rightarrow> inside \<and> sections_ok inside ops
      | SetTextCursor _ \<Rightarrow> inside \<and> sections_ok inside ops
      | ShowText _ \<Rightarrow> inside \<and> sections_ok inside ops
      | SetFillColor _ \<Rightarrow> sections_ok inside ops
      | _ \<Rightarrow> \<not> inside \<and> sections_ok inside ops)"

text \<open>A text is printable and begins neither left of the margin nor below it.\<close>

definition op_inside :: "pdf_lib \<Rightarrow> f64 \<Rightarrow> pdf_op \<Rightarrow> bool" where
  "op_inside M margin op =
     (case op of
        ShowText s \<Rightarrow> s \<noteq> [] \<and> list_all pdf_printable s
      | SetTextCursor p \<Rightarrow> (\<exists>x y. p = point_mm M x y \<and> \<not> f64_less x margin \<and> \<not> f64_less y margin)
      | _ \<Rightarrow> True)"

definition ops_ok :: "pdf_lib \<Rightarrow> f64 \<Rightarrow> pdf_op list \<Rightarrow> bool" where
  "ops_ok M margin ops \<longleftrightarrow> sections_ok False ops \<and> list_all (op_inside M margin) ops"

lemma sections_ok_append: "sections_ok t a \<Longrightarrow> sections_ok t (a @ b) = sections_ok False b"
  by (induction a arbitrary: t) (auto split: pdf_op.splits)

lemma ops_ok_append [simp]: "ops_ok M margin a \<Longrightarrow> ops_ok M margin b \<Longrightarrow> ops_ok M margin (a @ b)"
  by (simp add: ops_ok_def sections_ok_append)

lemma ops_ok_Nil [simp]: "ops_ok M margin []"
  by (simp add: ops_ok_def)

lemma text_ops_ok:
  assumes "line \<noteq> []" "list_all pdf_printable line" "\<not> f64_less x margin" "\<not> f64_less y margin"
  shows "ops_ok M margin (text_ops M font size_pt x y color line)"
  using assms by (auto simp: ops_ok_def text_ops_def op_inside_def)

lemma above: "\<not> f64_less y (Fin b) \<Longrightarrow> m \<le> b \<Longrightarrow> \<not> f64_less y (Fin m)"
  by (cases y) auto

lemma draw_lines_ok:
  assumes "\<not> f64_less x (Fin m)" "m \<le> b"
  shows "list_all (list_all pdf_printable) lines \<Longrightarrow>
    ops_ok M (Fin m) (fst (draw_lines M font size_pt x (Fin b) color h first lines y))"
proof (induction lines arbitrary: first y)
  case (Cons line lines)
  define y1 where "y1 = (if first then y else f64_sub y h)"
  show ?case
  proof (cases "f64_less y1 (Fin b)")
    case True
    then show ?thesis by (simp add: y1_def [symmetric])
  next
    case False
    have "ops_ok M (Fin m) (if line = [] then [] else text_ops M font size_pt x y1 color line)"
      using Cons.prems assms above [OF False assms(2)] by (auto intro: text_ops_ok)
    moreover obtain ops y2 where d: "draw_lines M font size_pt x (Fin b) color h False lines y1 = (ops, y2)"
      by (rule prod.exhaust)
    have "ops_ok M (Fin m) ops" using Cons.IH [of False y1] Cons.prems d by simp
    with calculation have "ops_ok M (Fin m) ((if line = [] then [] else text_ops M font size_pt x y1 color line) @ ops)"
      by (rule ops_ok_append)
    with False d show ?thesis unfolding draw_lines.simps y1_def [symmetric] Let_def by simp
  qed
qed simp

lemma draw_wrapped_ok:
  assumes "\<not> f64_less x (Fin m)" "m \<le> b"
  shows "ops_ok M (Fin m) (fst (draw_wrapped M font size_pt x (Fin b) max_width s color y))"
proof -
  have "0 < max_chars_for_width max_width size_pt" by (simp add: max_chars_for_width_def Let_def)
  from wrap_pdf_text_lines [OF this]
  have "list_all (list_all pdf_printable) (wrap_pdf_text s (max_chars_for_width max_width size_pt))"
    by (auto simp: list_all_iff)
  then show ?thesis unfolding draw_wrapped_def Let_def by (rule draw_lines_ok [OF assms])
qed

lemma draw_wrapped_pair:
  "draw_wrapped M font size_pt x (Fin b) max_width s color y = (ops, y') \<Longrightarrow> \<not> f64_less x (Fin m) \<Longrightarrow> m \<le> b \<Longrightarrow>
     ops_ok M (Fin m) ops"
  using draw_wrapped_ok by (metis fst_conv)

text \<open>What the proofs need of the sizes: the margin and the label column have sensible values.\<close>

definition layout_ok :: "page_type \<Rightarrow> rat \<Rightarrow> bool" where
  "layout_ok layout m \<longleftrightarrow> pt_margin layout = Fin m \<and> 1 \<le> m \<and> m \<le> 19
     \<and> (\<exists>l. pt_label_col_mm layout = Fin l \<and> 11 \<le> l \<and> l \<le> 25)"

lemma draw_row_ok:
  assumes "layout_ok layout m" "m \<le> b"
    and "draw_row M font size_pt (pt_margin layout) (Fin b) max_width (pt_label_col_mm layout) r y = (ops, y')"
  shows "ops_ok M (Fin m) ops"
proof -
  from assms(1) obtain l where l: "pt_margin layout = Fin m" "pt_label_col_mm layout = Fin l" "11 \<le> l" "l \<le> 25"
    "1 \<le> m" "m \<le> 19" by (auto simp: layout_ok_def)
  from f64_add_grows [of m l] l obtain c where c: "f64_add (Fin m) (Fin l) = Fin c" "m \<le> c" by auto
  show ?thesis
    using assms(2,3) l c
    by (auto simp: draw_row_def Let_def split: if_splits prod.splits intro!: ops_ok_append elim!: draw_wrapped_pair)
qed

lemma draw_rows_ok:
  assumes "layout_ok layout m" "m \<le> b"
  shows "ops_ok M (Fin m) (fst (draw_rows M layout (Fin b) max_width rows y))"
proof (induction rows arbitrary: y)
  case (Cons r rows)
  obtain ops1 y1 where d: "draw_row M Helvetica (pt_body layout) (pt_margin layout) (Fin b) max_width
      (pt_label_col_mm layout) r y = (ops1, y1)" by (rule prod.exhaust)
  from draw_row_ok [OF assms d] Cons d show ?case by (auto split: prod.split) (metis fst_conv ops_ok_append)
qed simp

lemma margin_not_less: "layout_ok layout m \<Longrightarrow> \<not> f64_less (pt_margin layout) (Fin m)"
  by (auto simp: layout_ok_def)

lemma draw_heading_ok:
  assumes "layout_ok layout m" "m \<le> b"
  shows "ops_ok M (Fin m) (fst (draw_heading M layout (Fin b) max_width heading y))"
  using draw_wrapped_pair [OF _ margin_not_less [OF assms(1)] assms(2)]
  by (auto simp: draw_heading_def Let_def split: prod.split)

lemma draw_sections_ok:
  assumes "layout_ok layout m" "m \<le> b"
  shows "ops_ok M (Fin m) (fst (draw_sections M layout (Fin b) max_width ss y))"
proof (induction ss arbitrary: y)
  case (Cons s ss)
  obtain ops1 y1 where h: "draw_heading M layout (Fin b) max_width (tg_heading s) y = (ops1, y1)" by (rule prod.exhaust)
  obtain ops2 y2 where r: "draw_rows M layout (Fin b) max_width (tg_rows s) y1 = (ops2, y2)" by (rule prod.exhaust)
  obtain ops3 y3 where n: "draw_sections M layout (Fin b) max_width ss y2 = (ops3, y3)" by (rule prod.exhaust)
  have "ops_ok M (Fin m) ops1" "ops_ok M (Fin m) ops2" "ops_ok M (Fin m) ops3"
    using draw_heading_ok [OF assms, of M max_width "tg_heading s" y] draw_rows_ok [OF assms, of M max_width "tg_rows s" y1]
      Cons.IH [of y2] by (simp_all add: h r n)
  then show ?case by (simp add: h r n)
qed simp

lemma scaled_range:
  assumes "1 / 2 ^ 60 \<le> factor" "factor \<le> 2 ^ 60" "1 \<le> lo" "lo + 1 \<le> hi" "hi \<le> 1000"
  shows "\<exists>s. scaled (Fin a) factor lo hi = Fin s \<and> lo - 1 / 10 \<le> s \<and> s \<le> hi + 1 / 10"
proof -
  from round_f64_near [OF assms(1,2)] obtain k where k: "round_f64 factor = Fin k" by blast
  have "1 / 2 ^ 60 \<le> lo" "lo \<le> 2 ^ 60" "1 / 2 ^ 60 \<le> hi" "hi \<le> 2 ^ 60" using assms by simp_all
  with round_f64_near obtain l h where l: "round_f64 lo = Fin l" "\<bar>l - lo\<bar> \<le> lo / 2 ^ 53"
    and h: "round_f64 hi = Fin h" "\<bar>h - hi\<bar> \<le> hi / 2 ^ 53" by blast
  have "lo / 2 ^ 53 \<le> 1 / 10" "hi / 2 ^ 53 \<le> 1 / 10" using assms by simp_all
  with l(2) h(2) have b: "lo - 1 / 10 \<le> l" "l \<le> lo + 1 / 10" "hi - 1 / 10 \<le> h" "h \<le> hi + 1 / 10" by linarith+
  with assms(4) have "l \<le> h" by linarith
  moreover have "f64_mul (Fin a) (Fin k) \<noteq> NaN" by (simp add: f64_mul_def round_f64_not_nan)
  ultimately obtain s where "f64_clamp (f64_mul (Fin a) (Fin k)) (Fin l) (Fin h) = Fin s" "l \<le> s" "s \<le> h"
    using f64_clamp_range by blast
  with b show ?thesis by (auto simp: scaled_def k l(1) h(1))
qed

lemma page_type_ok:
  assumes "is_positive_finite (ep_width_mm paper)" "is_positive_finite (ep_height_mm paper)"
  shows "\<exists>m. layout_ok (page_type_of paper) m"
proof -
  from assms obtain w h where "ep_width_mm paper = Fin w" "ep_height_mm paper = Fin h"
    by (cases "ep_width_mm paper"; cases "ep_height_mm paper") (auto simp: is_positive_finite_def)
  then obtain a where a: "f64_min (ep_width_mm paper) (ep_height_mm paper) = Fin a" by (cases "h < w") (auto simp: f64_min_def)
  from scaled_range [of "85 / 1000" "12 / 10" 18 a] obtain m where m: "scaled (Fin a) (85 / 1000) (12 / 10) 18 = Fin m" "1 \<le> m" "m \<le> 19"
    by auto
  from scaled_range [of "114 / 1000" 12 24 a] obtain l where l: "scaled (Fin a) (114 / 1000) 12 24 = Fin l" "11 \<le> l" "l \<le> 25"
    by auto
  from m l show ?thesis by (auto simp: layout_ok_def page_type_of_def Let_def a)
qed

lemma page_floor_ok:
  assumes "layout_ok layout m"
  shows "\<exists>b. page_floor layout content = Fin b \<and> m \<le> b"
  using assms f64_add_grows [of m 14] f64_add_grows [of m 8] by (auto simp: page_floor_def layout_ok_def)

lemma drawing_ok [simp]:
  "ops_ok M margin outline_ops" "ops_ok M margin [DrawLine ps c]" "ops_ok M margin [closed_line M qs]"
  "ops_ok M margin [SetFillColor col, filled_rect M x0 y0 x1 y1]"
  by (simp_all add: ops_ok_def outline_ops_def op_inside_def closed_line_def filled_rect_def)

lemma header_ok:
  assumes "layout_ok layout m" "m \<le> b"
  shows "ops_ok M (Fin m) (fst (header_ops M layout content (Fin b) max_width y))"
proof -
  note d = draw_wrapped_pair [OF _ margin_not_less [OF assms(1)] assms(2)]
  let ?margin = "pt_margin layout"
  obtain ops1 y1 where 1: "(if tc_title content = [] then ([], y)
      else draw_wrapped M HelveticaBold (pt_title layout) ?margin (Fin b) max_width (tc_title content) (Fin 0) y) = (ops1, y1)"
    by (rule prod.exhaust)
  obtain ops2 y2 where 2: "(if \<not> pt_show_kicker layout \<or> tc_kicker content = [] then ([], y1)
      else draw_wrapped M Helvetica (pt_kicker layout) ?margin (Fin b) max_width (tc_kicker content) (round_f32 (4 / 10))
             (f64_sub y1 (f64_mul (pt_mm (pt_kicker layout)) (round_f64 (155 / 100))))) = (ops2, y2)"
    by (rule prod.exhaust)
  obtain ops3 y3 where 3: "(if tc_title content = [] \<and> tc_kicker content = [] then ([], y2)
      else (let rule = f64_sub y2 (round_f64 (34 / 10)) in
            (outline_ops @ [DrawLine [point_mm M ?margin rule, point_mm M (f64_add ?margin max_width) rule] False],
             f64_sub rule (round_f64 (52 / 10))))) = (ops3, y3)"
    by (rule prod.exhaust)
  obtain ops4 y4 where 4: "(if \<not> pt_show_subtitle layout \<or> tc_subtitle content = [] then ([], y3)
      else (case draw_wrapped M Helvetica (pt_subtitle layout) ?margin (Fin b) max_width (tc_subtitle content)
                   (round_f32 (28 / 100)) y3 of (ops, y') \<Rightarrow> (ops, f64_sub y' (Fin (13 / 2))))) = (ops4, y4)"
    by (rule prod.exhaust)
  have "ops_ok M (Fin m) ops1" using 1 d by (auto split: if_splits)
  moreover have "ops_ok M (Fin m) ops2" using 2 d by (auto split: if_splits)
  moreover have "ops_ok M (Fin m) ops3" using 3 by (auto simp: Let_def split: if_splits)
  moreover have "ops_ok M (Fin m) ops4" using 4 d by (auto split: if_splits prod.splits)
  ultimately show ?thesis unfolding header_ops_def Let_def 1 [unfolded Let_def] 2 3 [unfolded Let_def] 4 prod.case
    by (simp add: 1 2 3 [unfolded Let_def] 4)
qed

lemma scale_ok:
  assumes "layout_ok layout m"
  shows "ops_ok M (Fin m) (scale_ops M layout max_width)"
proof -
  have "pt_margin layout = Fin m" using assms by (simp add: layout_ok_def)
  with draw_wrapped_ok [OF margin_not_less [OF assms], of m] show ?thesis
    by (simp add: scale_ops_def Let_def del: append_Cons)
qed

lemma footer_ok:
  assumes "layout_ok layout m"
  shows "ops_ok M (Fin m) (footer_ops M layout content width max_width)"
proof -
  have m: "pt_margin layout = Fin m" "1 \<le> m" "m \<le> 19" using assms by (simp_all add: layout_ok_def)
  from f64_add_grows [of m 28] m obtain c where c: "f64_add (Fin m) (Fin 28) = Fin c" "m \<le> c" by auto
  have "\<not> f64_less (f64_max x (Fin c)) (Fin m)" for x by (rule above [OF f64_max_ge c(2)])
  with m c draw_wrapped_ok [of _ m m] show ?thesis by (auto simp: footer_ops_def Let_def)
qed


definition example_pdf :: pdf_lib where
  "example_pdf = \<lparr>pd_mm_to_pt = (\<lambda>x. x), pd_save = (\<lambda>_ _ _ _. PDF_MAGIC)\<rparr>"


section \<open>Where an image is\<close>

text \<open>The rectangle computed exactly.\<close>

definition exact_fit :: "rat \<Rightarrow> rat \<Rightarrow> rat \<Rightarrow> rat \<Rightarrow> rat \<times> rat" where
  "exact_fit iw ih pw ph = (let s = min (pw / iw) (ph / ih) in (iw * s, ih * s))"

lemma near_min:
  assumes "\<bar>y - a\<bar> \<le> a / 2 ^ 53" "\<bar>z - b\<bar> \<le> b / 2 ^ 53" "0 < a" "0 < (b::rat)"
  shows "\<bar>(if z < y then z else y) - min a b\<bar> \<le> min a b / 2 ^ 53"
proof -
  have "y - a \<le> a / 2 ^ 53" "a - y \<le> a / 2 ^ 53" "z - b \<le> b / 2 ^ 53" "b - z \<le> b / 2 ^ 53"
    using assms(1,2) unfolding abs_le_iff by linarith+
  then show ?thesis unfolding abs_le_iff min_def using assms(3,4) by (cases "z < y"; cases "a \<le> b") simp_all
qed

lemma near_mul:
  assumes s: "\<bar>s - m\<bar> \<le> m / 2 ^ 53" and k: "1 \<le> k" "k \<le> 2 ^ 32" and m: "1 / 2 ^ 40 \<le> m" "m \<le> 2 ^ 20"
  shows "\<exists>y. f64_mul (Fin k) (Fin s) = Fin y \<and> \<bar>y - k * m\<bar> \<le> k * m / 2 ^ 51"
proof -
  have m0: "0 < m" using m(1) by (rule less_le_trans [rotated]) simp
  have "k * \<bar>s - m\<bar> \<le> k * (m / 2 ^ 53)" using s k by (intro mult_left_mono) simp_all
  moreover have "k * \<bar>s - m\<bar> = \<bar>k * s - k * m\<bar>"
    using k(1) by (metis abs_mult abs_of_nonneg order_trans right_diff_distrib zero_le_one)
  ultimately have ks: "\<bar>k * s - k * m\<bar> \<le> k * m / 2 ^ 53" by simp
  have "1 * m \<le> k * m" "k * m \<le> 2 ^ 32 * 2 ^ 20" using k m m0 by (intro mult_right_mono mult_mono; simp)+
  then have km: "m \<le> k * m" "k * m \<le> 2 ^ 52" by simp_all
  have "k * m / 2 ^ 53 \<le> k * m / 2" using km m0 by simp
  with ks have lo: "k * m / 2 \<le> k * s" and hi: "k * s \<le> 2 * (k * m)" by linarith+
  have "1 / 2 ^ 60 \<le> m / 2" using m(1) by simp
  also have "\<dots> \<le> k * m / 2" using km(1) by (intro divide_right_mono) simp_all
  finally have l: "1 / 2 ^ 60 \<le> k * s" using lo by (rule order_trans)
  have "2 * (k * m) \<le> 2 * 2 ^ 52" using km(2) by (intro mult_left_mono) simp_all
  with hi have "k * s \<le> 2 ^ 60" by simp
  from round_f64_near [OF l this] obtain y where y: "round_f64 (k * s) = Fin y" "\<bar>y - k * s\<bar> \<le> k * s / 2 ^ 53" by blast
  have "k * s / 2 ^ 53 \<le> 2 * (k * m) / 2 ^ 53" using hi by (intro divide_right_mono) simp_all
  with y(2) ks have "\<bar>y - k * m\<bar> \<le> 2 * (k * m) / 2 ^ 53 + k * m / 2 ^ 53" by linarith
  also have "\<dots> \<le> k * m / 2 ^ 51" using km m0 by simp
  finally have "\<bar>y - k * m\<bar> \<le> k * m / 2 ^ 51" .
  with y(1) show ?thesis by (simp add: f64_mul_def)
qed



end
