(* ===== verification/Test_Print.thy ===== *)
theory Test_Print
  imports Worker Io_Monad Page_Layout
begin

text \<open>
  \<open>crates/runtime/src/test_print.rs\<close> and the entry \<open>test_page_to_pdf\<close> of \<open>document.rs\<close>: the page
  with the printer, the trays, the paper and the computer that is printed on request. The
  environment of the process is the record \<open>device_env\<close>; its field \<open>dv_pdf\<close> is the PDF crate.
\<close>

section \<open>Page content\<close>

record device_info =
  di_hostname :: string
  di_username :: string
  di_os :: string
  di_local_ip :: "string option"
  di_printed_at :: string

record device_env =
  dv_vars :: env_vars
  dv_os :: string
  dv_arch :: string
  dv_lan_ip :: "nat \<Rightarrow> string option"
  dv_pdf :: pdf_lib

datatype test_print_error =
    TpPrinterNotConfigured
  | TpPaperNotConfigured
  | TpDocument document_error
  | TpPrint print_error

fun test_print_error_msg :: "test_print_error \<Rightarrow> string" where
  "test_print_error_msg TpPrinterNotConfigured = ''printer not configured''"
| "test_print_error_msg TpPaperNotConfigured = ''paper not configured''"
| "test_print_error_msg (TpDocument e) = ''document generation failed: '' @ document_error_msg e"
| "test_print_error_msg (TpPrint e) = ''print failed: '' @ print_error_msg e"

definition row :: "string \<Rightarrow> string \<Rightarrow> test_page_row" where
  "row label value = \<lparr>tr_label = label, tr_value = value\<rparr>"

section \<open>The computer\<close>

definition current_hostname :: "device_env \<Rightarrow> os_env \<Rightarrow> world \<Rightarrow> string \<times> world" where
  "current_hostname D E w =
     (case opt_filter (\<lambda>name. trim name \<noteq> []) (dv_vars D ''COMPUTERNAME'') of
        Some name \<Rightarrow> (name, w)
      | None \<Rightarrow>
          (case command_output E [''hostname''] w of (r, w1) \<Rightarrow>
             ((case Option.bind (to_option r) (\<lambda>(_, out, _).
                      opt_filter (\<lambda>name. name \<noteq> []) (map_option trim (from_utf8 out))) of
                 Some name \<Rightarrow> name
               | None \<Rightarrow> unwrap_or (dv_vars D ''HOSTNAME'') ''unknown''), w1)))"

fun find_var :: "env_vars \<Rightarrow> string list \<Rightarrow> string option" where
  "find_var V [] = None"
| "find_var V (k # ks) =
     (case opt_filter (\<lambda>v. v \<noteq> []) (map_option trim (V k)) of
        Some v \<Rightarrow> Some v
      | None \<Rightarrow> find_var V ks)"

definition current_username :: "device_env \<Rightarrow> string" where
  "current_username D = unwrap_or (find_var (dv_vars D) [''USER'', ''USERNAME'', ''LOGNAME'']) ''unknown''"

definition current_os_label :: "device_env \<Rightarrow> string" where
  "current_os_label D =
     (let os = (if dv_os D = ''macos'' then ''macOS''
                else if dv_os D = ''windows'' then ''Windows''
                else if dv_os D = ''linux'' then ''Linux'' else dv_os D)
      in os @ '' '' @ dv_arch D)"

text \<open>\<open>str::get(..n)\<close>: nothing when the text is shorter or the cut would split a character.\<close>

definition str_get_to :: "nat \<Rightarrow> string \<Rightarrow> string option" where
  "str_get_to n s =
     (if n = length s \<or> (n < length s \<and> \<not> continuation (s ! n)) then Some (take n s) else None)"

definition current_printed_at :: "os_env \<Rightarrow> world \<Rightarrow> string \<times> world" where
  "current_printed_at E w =
     (let (stamp, w1) = now E w in
      (replace_char (CHR ''T'') (CHR '' '') (unwrap_or (str_get_to 16 stamp) stamp) @ '' UTC'', w1))"

definition device_info_current :: "device_env \<Rightarrow> os_env \<Rightarrow> world \<Rightarrow> device_info \<times> world" where
  "device_info_current D E w =
     (let (hostname, w1) = current_hostname D E w;
          local_ip = dv_lan_ip D (w_tick w1);
          (printed_at, w2) = current_printed_at E (tick w1)
      in (\<lparr>di_hostname = hostname, di_username = current_username D, di_os = current_os_label D,
           di_local_ip = local_ip, di_printed_at = printed_at\<rparr>, w2))"

section \<open>Building the page\<close>

definition printer_status_line :: "printer_info option \<Rightarrow> string" where
  "printer_status_line printer =
     (case map_option pi_availability printer of
        Some PaAvailable \<Rightarrow> ''Ready''
      | Some PaUnavailable \<Rightarrow> ''Offline''
      | Some PaUnknown \<Rightarrow> ''Not reported''
      | None \<Rightarrow> ''Not reported'')"

definition printer_kind_label :: "printer_info \<Rightarrow> string option" where
  "printer_kind_label printer =
     (if pi_is_virtual printer = Some True then Some ''Virtual''
      else if pi_is_network printer = Some True then Some ''Network''
      else if pi_is_local printer = Some True then Some ''Local''
      else None)"

definition option_list :: "'a option \<Rightarrow> 'a list" where
  "option_list x = (case x of None \<Rightarrow> [] | Some y \<Rightarrow> [y])"

definition printer_detail_line :: "printer_info option \<Rightarrow> string option" where
  "printer_detail_line printer =
     Option.bind printer (\<lambda>p.
       let parts = option_list (printer_kind_label p)
                   @ option_list (opt_filter (\<lambda>v. v \<noteq> []) (pi_port p))
                   @ option_list (map_option (\<lambda>dpi. show_nat (unat dpi) @ '' dpi'') (pi_dpi p))
       in if parts = [] then None else Some (join_with ''  /  '' parts))"

definition tray_label :: "printer_tray_info \<Rightarrow> string" where
  "tray_label tray =
     (let name = replace_char (CHR ''_'') (CHR '' '') (tr_name tray) in
      if name = tr_id tray then name else name @ ''  '' @ tr_id tray)"

definition join_or_none :: "string list \<Rightarrow> string" where
  "join_or_none values = (if values = [] then ''None'' else join_with '', '' values)"

definition empty_as_dash :: "string \<Rightarrow> string" where
  "empty_as_dash value = (if trim value = [] then ''-'' else value)"

definition tp_format_paper_dimension :: "f64 \<Rightarrow> string" where
  "tp_format_paper_dimension value =
     (if f64_less (f64_abs (f64_fract value)) f64_EPSILON then format_fixed 0 value
      else trim_end_matches (CHR ''.'') (trim_end_matches (CHR ''0'') (format_fixed 2 value)))"

definition tp_paper_info_from_effective :: "effective_paper \<Rightarrow> paper_info" where
  "tp_paper_info_from_effective paper =
     \<lparr>pa_id = ''custom_'' @ tp_format_paper_dimension (ep_width_mm paper) @ ''x''
        @ tp_format_paper_dimension (ep_height_mm paper) @ ''mm'',
      pa_name = paper_name (ep_width_mm paper) (ep_height_mm paper),
      pa_width_mm = ep_width_mm paper, pa_height_mm = ep_height_mm paper\<rparr>"

definition tray_rows :: "printer_tray_info list \<Rightarrow> test_page_row list" where
  "tray_rows trays =
     (if trays = [] then [row [] ''Not reported'']
      else map (\<lambda>tray. row [] (tray_label tray)) (take 8 trays)
           @ (if length trays > 8 then [row [] (''+'' @ show_nat (length trays - 8) @ '' more'')] else []))"

definition paper_rows :: "effective_paper \<Rightarrow> test_page_row list" where
  "paper_rows paper =
     (let paper_label = paper_name (ep_width_mm paper) (ep_height_mm paper) in
      if ends_with paper_label ''mm'' then [row [] paper_label]
      else [row [] paper_label,
            row [] (tp_format_paper_dimension (ep_width_mm paper) @ '' x ''
                    @ tp_format_paper_dimension (ep_height_mm paper) @ '' mm'')])"

definition build_test_page ::
  "agent_config \<Rightarrow> string \<Rightarrow> effective_paper \<Rightarrow> device_info \<Rightarrow> printer_info option \<Rightarrow>
   printer_tray_info list \<Rightarrow> test_page_content" where
  "build_test_page config printer_name paper device printer trays =
     (let port = show_nat (unat (sc_port (cf_service config)));
          connect = (case di_local_ip device of Some ip \<Rightarrow> ip @ '':'' @ port | None \<Rightarrow> ''port '' @ port);
          printer_rows =
            [row ''Name'' printer_name, row ''Status'' (printer_status_line printer)]
            @ map (row ''Via'') (option_list (printer_detail_line printer))
            @ (if is_some_and pi_is_default printer then [row ''Default'' ''Yes''] else [])
      in \<lparr>tc_title = ''Yinshu'', tc_kicker = ''Test page'',
          tc_subtitle = ''This paper reached this printer.'',
          tc_sections =
            [\<lparr>tg_heading = ''Printer'', tg_rows = printer_rows\<rparr>,
             \<lparr>tg_heading = ''Trays'', tg_rows = tray_rows trays\<rparr>,
             \<lparr>tg_heading = ''Paper'', tg_rows = paper_rows paper\<rparr>,
             \<lparr>tg_heading = ''Computer'',
              tg_rows = [row ''Host'' (empty_as_dash (di_hostname device)),
                         row ''User'' (empty_as_dash (di_username device)),
                         row ''OS'' (empty_as_dash (di_os device)),
                         row ''Web'' connect,
                         row ''Sites'' (join_or_none (se_allowed_origins (cf_security config)))]\<rparr>],
          tc_footer = di_printed_at device\<rparr>)"

section \<open>Printing the page\<close>

definition test_page_to_pdf ::
  "device_env \<Rightarrow> os_env \<Rightarrow> effective_paper \<Rightarrow> test_page_content \<Rightarrow> string \<Rightarrow> (document_error, unit) io" where
  "test_page_to_pdf D E paper content output_path w =
     (if effective_paper_validate paper \<noteq> Ok () then (Err DeInvalidImageDimensions, w)
      else if \<not> is_positive_finite (ep_width_mm paper) \<or> \<not> is_positive_finite (ep_height_mm paper)
      then (Err DeInvalidImageDimensions, w)
      else io_map_err DeIo (fs_write E w output_path
             (pd_save (dv_pdf D) ''test-page'' [] (as_f32 (ep_width_mm paper), as_f32 (ep_height_mm paper))
                (test_page_ops (dv_pdf D) paper content))))"

definition test_page_temp_path :: "os_env \<Rightarrow> world \<Rightarrow> string \<times> world" where
  "test_page_temp_path E w =
     (let (u, w1) = new_uuid E w in (path_join (os_temp_dir E) (''yinshu-test-page-'' @ u @ ''.pdf''), w1))"

definition print_test_page_inner ::
  "worker_env \<Rightarrow> device_env \<Rightarrow> agent_config \<Rightarrow> string \<Rightarrow> effective_paper \<Rightarrow> printer_info option \<Rightarrow> string \<Rightarrow>
   (test_print_error, unit) io" where
  "print_test_page_inner X D config printer_name paper printer path w =
     (let trays = (case be_list_trays (we_backend X) (w_tick w) printer_name of Inl _ \<Rightarrow> [] | Inr ts \<Rightarrow> ts);
          (device, w1) = device_info_current D (we_os X) (tick w);
          content = build_test_page config printer_name paper device printer trays
      in io_then (io_map_err TpDocument (test_page_to_pdf D (we_os X) paper content path w1)) (\<lambda>_ w2.
           (case be_print_pdf (we_backend X) (w_tick w2) path
                   \<lparr>po_printer_name = printer_name, po_paper = tp_paper_info_from_effective paper, po_copies = 1\<rparr> of
              Inl e \<Rightarrow> (Err (TpPrint e), tick w2)
            | Inr _ \<Rightarrow> (Ok (), tick w2))))"

definition test_history_event ::
  "string \<Rightarrow> string \<Rightarrow> string \<Rightarrow> string option \<Rightarrow> string \<Rightarrow> new_task_history_event" where
  "test_history_event job_id printer_name paper error occurred_at =
     \<lparr>ne_job_id = job_id, ne_request_id = None, ne_batch_id = None, ne_source = SrcTest,
      ne_status = (case error of Some _ \<Rightarrow> HsFailed | None \<Rightarrow> HsSubmitted),
      ne_message = (case error of Some m \<Rightarrow> Some m | None \<Rightarrow> Some ''submitted to system print queue''),
      ne_printer_name = Some printer_name, ne_paper_name = Some paper, ne_copies = Some 1,
      ne_occurred_at = occurred_at\<rparr>"

definition record_test_print_history ::
  "worker_env \<Rightarrow> string \<Rightarrow> string \<Rightarrow> string \<Rightarrow> string option \<Rightarrow> sys \<Rightarrow> sys" where
  "record_test_print_history X job_id printer_name paper error s =
     (case s of (w, st) \<Rightarrow>
        (case as_task_history st of
           None \<Rightarrow> (w, st)
         | Some db \<Rightarrow>
             (let (occurred_at, w1) = now (we_os X) w in
              (w1, st\<lparr>as_task_history :=
                     Some (snd (record_event (we_sql X (w_tick w1)) db
                                  (test_history_event job_id printer_name paper error occurred_at)))\<rparr>))))"

definition print_test_page_with_config ::
  "worker_env \<Rightarrow> device_env \<Rightarrow> agent_config \<Rightarrow> sys \<Rightarrow> (test_print_error, unit) result \<times> sys" where
  "print_test_page_with_config X D config s =
     (case s of (w, st) \<Rightarrow>
        (case pc_default_printer (cf_printing config) of
           None \<Rightarrow> (Err TpPrinterNotConfigured, s)
         | Some printer_name \<Rightarrow>
        (case pc_default_paper (cf_printing config) of
           None \<Rightarrow> (Err TpPaperNotConfigured, s)
         | Some paper \<Rightarrow>
             (let printer = Option.bind (to_option (be_list_printers (we_backend X) (w_tick w)))
                              (find (\<lambda>item. pi_name item = printer_name));
                  (path, w1) = test_page_temp_path (we_os X) (tick w);
                  paper_label = paper_name (ep_width_mm paper) (ep_height_mm paper);
                  (job_id, w2) = new_uuid (we_os X) w1;
                  (result, w3) = print_test_page_inner X D config printer_name paper printer path w2;
                  w4 = snd (fs_remove (we_os X) w3 path)
              in (result,
                  if result = Err (TpPrint PrinterOffline) then (w4, st)
                  else record_test_print_history X job_id printer_name paper_label
                         (case result of Inl e \<Rightarrow> Some (test_print_error_msg e) | Inr _ \<Rightarrow> None) (w4, st))))))"

definition print_test_page :: "worker_env \<Rightarrow> device_env \<Rightarrow> sys \<Rightarrow> (test_print_error, unit) result \<times> sys" where
  "print_test_page X D s = print_test_page_with_config X D (as_config (snd s)) s"

section \<open>What a test print changes\<close>

lemma print_test_page_config [simp]:
  "as_config (snd (snd (print_test_page_with_config X D config s))) = as_config (snd s)"
  "as_config_path (snd (snd (print_test_page_with_config X D config s))) = as_config_path (snd s)"
  "as_queue (snd (snd (print_test_page_with_config X D config s))) = as_queue (snd s)"
  by (cases s; simp add: print_test_page_with_config_def record_test_print_history_def Let_def
      split: option.splits prod.splits)+

lemma tp_paper_info_same: "tp_paper_info_from_effective = paper_info_from_effective"
  by (rule ext)
    (simp add: tp_paper_info_from_effective_def paper_info_from_effective_def
      tp_format_paper_dimension_def format_paper_dimension_def)

end
