(* ===== verification/Resource_Policy.thy ===== *)
theory Resource_Policy
  imports Html Rust_F64
begin

text \<open>
  \<open>crates/runtime/src/html/resource_policy.rs\<close>: which addresses the rendering of an HTML job may
  connect to. The DNS resolver is a parameter; \<open>ipnet\<close> is the library record, and the two lists
  of blocked networks are those of the source.
\<close>

section \<open>Addresses\<close>

definition BLOCKED_IPV4_NETS :: "string list" where
  "BLOCKED_IPV4_NETS =
     [''0.0.0.0/8'', ''10.0.0.0/8'', ''100.64.0.0/10'', ''127.0.0.0/8'', ''169.254.0.0/16'',
      ''172.16.0.0/12'', ''192.0.0.0/24'', ''192.0.2.0/24'', ''192.88.99.0/24'', ''192.168.0.0/16'',
      ''198.18.0.0/15'', ''198.51.100.0/24'', ''203.0.113.0/24'', ''224.0.0.0/4'', ''240.0.0.0/4'']"

definition BLOCKED_IPV6_NETS :: "string list" where
  "BLOCKED_IPV6_NETS = [''100::/64'', ''2001:db8::/32'', ''fc00::/7'', ''fec0::/10'']"

definition matches_ip_net :: "ext_lib \<Rightarrow> ip_addr \<Rightarrow> string list \<Rightarrow> bool" where
  "matches_ip_net L address networks =
     list_ex (\<lambda>network. is_some_and (\<lambda>net. net_contains net address) (x_ipnet_parse L network))
       networks"

text \<open>The predicates of \<open>std::net::Ipv6Addr\<close>.\<close>

definition ipv6_is_v4_mapped :: "128 word \<Rightarrow> bool" where
  "ipv6_is_v4_mapped a \<longleftrightarrow> drop_bit 32 a = 0xFFFF"

definition ipv6_is_multicast :: "128 word \<Rightarrow> bool" where
  "ipv6_is_multicast a \<longleftrightarrow> drop_bit 120 a = 0xFF"

definition ipv6_is_unicast_link_local :: "128 word \<Rightarrow> bool" where
  "ipv6_is_unicast_link_local a \<longleftrightarrow> drop_bit 118 a = 0x3FA"

definition is_public_ip :: "ext_lib \<Rightarrow> ip_addr \<Rightarrow> bool" where
  "is_public_ip L address =
     (case address of
        V4 a \<Rightarrow> \<not> matches_ip_net L (V4 a) BLOCKED_IPV4_NETS
      | V6 a \<Rightarrow>
          \<not> ipv6_is_v4_mapped a \<and> a \<noteq> 1 \<and> a \<noteq> 0 \<and> \<not> ipv6_is_multicast a
          \<and> \<not> ipv6_is_unicast_link_local a \<and> \<not> matches_ip_net L (V6 a) BLOCKED_IPV6_NETS)"

section \<open>Targets\<close>

record resolved_target =
  rt_authority :: string
  rt_address :: socket_addr

type_synonym host_resolver = "nat \<Rightarrow> string \<Rightarrow> u16 \<Rightarrow> (io_error, socket_addr list) result"

definition blocked :: "url \<Rightarrow> html_render_error" where
  "blocked u = HeBlockedResource (url_as_str u)"

definition authority :: "url \<Rightarrow> string \<Rightarrow> string" where
  "authority u host =
     (let host = (if CHR '':'' \<in> set host then ''['' @ host @ '']'' else host) in
      case url_port u of Some port \<Rightarrow> host @ '':'' @ show_nat (unat port) | None \<Rightarrow> host)"

definition approved_target ::
  "ext_lib \<Rightarrow> url \<Rightarrow> string \<Rightarrow> socket_addr \<Rightarrow> bool \<Rightarrow> (html_render_error, resolved_target) result" where
  "approved_target L u auth address is_allowed_loopback =
     (if is_public_ip L (sa_ip address) \<or> (is_allowed_loopback \<and> is_loopback (sa_ip address))
      then Ok \<lparr>rt_authority = auth, rt_address = address\<rparr>
      else Err (blocked u))"

definition is_exact_loopback_host :: "string \<Rightarrow> bool" where
  "is_exact_loopback_host host =
     (case parse_ip host of
        Some (V4 a) \<Rightarrow> a = 0x7F000001
      | Some (V6 a) \<Rightarrow> a = 1
      | None \<Rightarrow> False)"

definition resolve_target ::
  "ext_lib \<Rightarrow> host_resolver \<Rightarrow> nat \<Rightarrow> url \<Rightarrow> url option \<Rightarrow>
   (html_render_error, resolved_target) result" where
  "resolve_target L R k u allowed_loopback_origin =
     (if \<not> (url_scheme u = ''http'' \<or> url_scheme u = ''https'') then Err (blocked u)
      else
     (case url_host_str u of
        None \<Rightarrow> Err (blocked u)
      | Some host \<Rightarrow>
          (let normalized_host = to_ascii_lowercase (trim_end_matches (CHR ''.'') host) in
           if normalized_host = [] \<or> normalized_host = ''localhost'' then Err (blocked u)
           else
     (case url_port_or_known_default u of
        None \<Rightarrow> Err (blocked u)
      | Some port \<Rightarrow>
          (let auth = authority u host;
               is_allowed_loopback =
                 is_some_and (\<lambda>og. origin_eq (url_origin og) (url_origin u) \<and> is_exact_loopback_host host)
                   allowed_loopback_origin in
           case parse_ip normalized_host of
             Some address \<Rightarrow>
               approved_target L u auth \<lparr>sa_ip = address, sa_port = port\<rparr> is_allowed_loopback
           | None \<Rightarrow>
               (case R k normalized_host port of
                  Inl _ \<Rightarrow> Err (blocked u)
                | Inr [] \<Rightarrow> Err (blocked u)
                | Inr (address # rest) \<Rightarrow>
                    if list_ex (\<lambda>c. \<not> is_public_ip L (sa_ip c)) (address # rest) then Err (blocked u)
                    else approved_target L u auth address False))))))"

definition resolve_public_target ::
  "ext_lib \<Rightarrow> host_resolver \<Rightarrow> nat \<Rightarrow> url \<Rightarrow> (html_render_error, resolved_target) result" where
  "resolve_public_target L R k u = resolve_target L R k u None"

section \<open>What is public\<close>

text \<open>The blocked networks as base addresses and prefix lengths.\<close>

definition private_v4 :: "(32 word \<times> nat) list" where
  "private_v4 =
     [(0, 8), (0x0A000000, 8), (0x64400000, 10), (0x7F000000, 8), (0xA9FE0000, 16), (0xAC100000, 12),
      (0xC0000000, 24), (0xC0000200, 24), (0xC0586300, 24), (0xC0A80000, 16), (0xC6120000, 15),
      (0xC6336400, 24), (0xCB007100, 24), (0xE0000000, 4), (0xF0000000, 4)]"

definition private_v6 :: "(128 word \<times> nat) list" where
  "private_v6 =
     [(0x100 * 2 ^ 112, 64), (0x20010DB8 * 2 ^ 96, 32), (0xFC00 * 2 ^ 112, 7), (0xFEC0 * 2 ^ 112, 10)]"

definition public_ip :: "ip_addr \<Rightarrow> bool" where
  "public_ip a =
     (case a of
        V4 x \<Rightarrow> list_all (\<lambda>(b, n). drop_bit (32 - n) x \<noteq> drop_bit (32 - n) b) private_v4
      | V6 x \<Rightarrow>
          drop_bit 32 x \<noteq> 0xFFFF \<and> x \<noteq> 1 \<and> x \<noteq> 0 \<and> drop_bit 120 x \<noteq> 0xFF \<and> drop_bit 118 x \<noteq> 0x3FA
          \<and> list_all (\<lambda>(b, n). drop_bit (128 - n) x \<noteq> drop_bit (128 - n) b) private_v6)"

lemma blocked_v4_text:
  "map cidr_text BLOCKED_IPV4_NETS = map (\<lambda>(b, n). Some (V4 b, n)) private_v4"
  by (simp add: BLOCKED_IPV4_NETS_def private_v4_def cidr_text_def split_once_def parse_ip_eval)

lemma blocked_v6_text:
  "map cidr_text BLOCKED_IPV6_NETS = map (\<lambda>(b, n). Some (V6 b, n)) private_v6"
  by (simp add: BLOCKED_IPV6_NETS_def private_v6_def cidr_text_def split_once_def parse_ip_eval)

lemma matches_documented:
  assumes "ipnet_documented L" and "map cidr_text nets = map Some bases"
  shows "matches_ip_net L a nets \<longleftrightarrow> list_ex (\<lambda>(b, n). cidr_contains b n a) bases"
  using assms(2)
proof (induction nets arbitrary: bases)
  case Nil
  then show ?case by (simp add: matches_ip_net_def)
next
  case (Cons s nets)
  then obtain b n rest where c: "cidr_text s = Some (b, n)" "bases = (b, n) # rest"
      "map cidr_text nets = map Some rest"
    by (cases bases) auto
  from ipnet_documentedD [OF assms(1) c(1)]
  have "is_some_and (\<lambda>net. net_contains net a) (x_ipnet_parse L s) \<longleftrightarrow> cidr_contains b n a"
    by (auto simp: is_some_and_iff)
  with Cons.IH [OF c(3)] c(2) show ?case by (simp add: matches_ip_net_def)
qed

lemma is_public_ip_iff:
  assumes "ipnet_documented L"
  shows "is_public_ip L a \<longleftrightarrow> public_ip a"
proof (cases a)
  case (V4 x)
  have "map cidr_text BLOCKED_IPV4_NETS = map Some (map (\<lambda>(b, n). (V4 b, n)) private_v4)"
    by (simp add: blocked_v4_text comp_def split_def)
  from matches_documented [OF assms this, of a] V4 show ?thesis
    by (auto simp: is_public_ip_def public_ip_def list_ex_iff list_all_iff cidr_contains_def)
next
  case (V6 x)
  have "map cidr_text BLOCKED_IPV6_NETS = map Some (map (\<lambda>(b, n). (V6 b, n)) private_v6)"
    by (simp add: blocked_v6_text comp_def split_def)
  from matches_documented [OF assms this, of a] V6 show ?thesis
    by (auto simp: is_public_ip_def public_ip_def list_ex_iff list_all_iff cidr_contains_def
        ipv6_is_v4_mapped_def ipv6_is_multicast_def ipv6_is_unicast_link_local_def)
qed

text \<open>The only way to a loopback address: the page's own origin, an exact loopback origin.\<close>

definition own_loopback :: "url \<Rightarrow> url option \<Rightarrow> ip_addr \<Rightarrow> bool" where
  "own_loopback u allowed a \<longleftrightarrow>
     is_loopback a \<and>
     (\<exists>og host. allowed = Some og \<and> origin_eq (url_origin og) (url_origin u)
        \<and> url_host_str u = Some host \<and> is_exact_loopback_host host)"

lemma resolve_target_cases:
  assumes "resolve_target L R k u allowed = Inr t"
  shows "url_scheme u \<in> {''http'', ''https''}
    \<and> (is_public_ip L (sa_ip (rt_address t)) \<or> own_loopback u allowed (sa_ip (rt_address t)))"
  using assms
  by (auto simp: resolve_target_def Let_def approved_target_def own_loopback_def is_some_and_iff
      split: if_splits option.splits sum.splits list.splits)

lemma resolve_target_pinned:
  assumes "resolve_target L R k u allowed = Inr t"
  shows "\<exists>host port. url_host_str u = Some host \<and>
    (let h = to_ascii_lowercase (trim_end_matches (CHR ''.'') host) in
     url_port_or_known_default u = Some port \<and>
     (case parse_ip h of
        Some ip \<Rightarrow> rt_address t = \<lparr>sa_ip = ip, sa_port = port\<rparr>
      | None \<Rightarrow> \<exists>rest. R k h port = Inr (rt_address t # rest)
                  \<and> list_all (\<lambda>c. is_public_ip L (sa_ip c)) (rt_address t # rest)))"
  using assms
  by (auto simp: resolve_target_def Let_def approved_target_def list_ex_iff list_all_iff
      split: if_splits option.splits sum.splits list.splits)

text \<open>
  C8. No server-side request forgery: a target the policy approves is an http or https URL whose
  address is public, that is outside every loopback, private, link-local, shared, reserved,
  documentation and multicast network, or it is a loopback address of the one approved local
  origin. When the host is a name, the address is the first of one DNS answer all of whose
  addresses are public, and it is that address which is connected.
\<close>

theorem resolve_target_no_ssrf:
  assumes "ipnet_documented L" and "resolve_target L R k u allowed = Inr t"
  shows "url_scheme u \<in> {''http'', ''https''}
    \<and> (public_ip (sa_ip (rt_address t)) \<or> own_loopback u allowed (sa_ip (rt_address t)))
    \<and> (\<exists>host port. url_host_str u = Some host \<and> url_port_or_known_default u = Some port \<and>
         (case parse_ip (to_ascii_lowercase (trim_end_matches (CHR ''.'') host)) of
            Some ip \<Rightarrow> rt_address t = \<lparr>sa_ip = ip, sa_port = port\<rparr>
          | None \<Rightarrow> \<exists>rest. R k (to_ascii_lowercase (trim_end_matches (CHR ''.'') host)) port
                        = Inr (rt_address t # rest)
                      \<and> list_all (\<lambda>c. public_ip (sa_ip c)) (rt_address t # rest)))"
proof -
  have eq: "is_public_ip L = public_ip" by (rule ext) (rule is_public_ip_iff [OF assms(1)])
  show ?thesis
    using resolve_target_cases [OF assms(2)] resolve_target_pinned [OF assms(2)]
    unfolding Let_def eq by blast
qed

definition site_url :: "string \<Rightarrow> url" where
  "site_url host =
     \<lparr>url_as_str = ''http://'' @ host @ ''/'', url_scheme = ''http'', url_host_str = Some host,
      url_port = None, url_port_or_known_default = Some 80, url_path = ''/'', url_query = None,
      url_origin = TupleOrigin ''http'' host 80, url_origin_ascii = ''http://'' @ host\<rparr>"

definition cidr_lib :: ext_lib where
  "cidr_lib = \<lparr>x_url_parse = (\<lambda>_. None), x_b64_decode = (\<lambda>_. None), x_b64_encode = (\<lambda>_. []),
     x_ipnet_parse = cidr_net\<rparr>"

lemma cidr_lib_documented: "ipnet_documented cidr_lib"
  using cidr_net_documented [of cidr_lib] by (simp add: cidr_lib_def)

theorem resolve_target_no_ssrf_witness:
  "public_ip (V4 0x5DB8D822) \<or> own_loopback (site_url ''a.b'') None (V4 0x5DB8D822)"
proof -
  let ?R = "\<lambda>_ _ port. Inr [\<lparr>sa_ip = V4 0x5DB8D822, sa_port = port\<rparr>]"
  have p: "is_public_ip cidr_lib (V4 0x5DB8D822)"
    by (simp add: is_public_ip_iff [OF cidr_lib_documented] public_ip_def private_v4_def)
  have "resolve_target cidr_lib ?R 0 (site_url ''a.b'') None =
      Inr \<lparr>rt_authority = ''a.b'', rt_address = \<lparr>sa_ip = V4 0x5DB8D822, sa_port = 80\<rparr>\<rparr>"
    using p
    by (simp add: resolve_target_def site_url_def approved_target_def authority_def
        trim_end_matches_def to_ascii_lowercase_def ascii_lower_def parse_ip_eval)
  from resolve_target_no_ssrf [OF cidr_lib_documented this] show ?thesis by simp
qed

text \<open>
  An IPv6 literal is never recognised: the \<open>url\<close> crate answers the host in brackets, which is
  not the text of an address, so the policy asks the DNS resolver for it and neither the
  direct IPv6 check nor the loopback exception for \<open>::1\<close> is ever reached.
\<close>

theorem ipv6_literal_goes_to_dns:
  assumes "url_host_bracketed L'" and "x_url_parse L' s = Some u" and "url_host_str u = Some host"
    and "CHR '':'' \<in> set host"
  shows "parse_ip host = None \<and> \<not> is_exact_loopback_host host"
proof -
  from assms have "starts_with host ''[''" unfolding url_host_bracketed_def by blast
  then obtain r where h: "host = CHR ''['' # r" by (auto simp: starts_with_iff)
  have "parse_ip host = None" unfolding h by (simp add: parse_ip_eval)
  then show ?thesis by (simp add: is_exact_loopback_host_def)
qed

theorem ipv6_literal_goes_to_dns_witness:
  "parse_ip ''[::1]'' = None \<and> \<not> is_exact_loopback_host ''[::1]''"
proof -
  let ?L = "cidr_lib\<lparr>x_url_parse := (\<lambda>s. if s = ''http://[::1]/'' then Some (site_url ''[::1]'') else None)\<rparr>"
  have "url_host_bracketed ?L"
    by (auto simp: url_host_bracketed_def site_url_def starts_with_def ends_with_def split: if_splits)
  then show ?thesis
    by (rule ipv6_literal_goes_to_dns [where s = "''http://[::1]/''" and u = "site_url ''[::1]''"])
      (simp_all add: site_url_def)
qed

end
