(* ===== verification/Proxy.thy ===== *)
theory Proxy
  imports Resource_Policy
begin

text \<open>
  \<open>crates/runtime/src/html/proxy.rs\<close>: the filtering proxy the browser of a rendering goes through. A
  request is what the proxy reads of it; a handler answers a response, the addresses it
  connected to and the tracker of rejected resources after it. Connecting and the exchange
  with the upstream server are parameters.
\<close>

section \<open>Requests, responses and the tracker\<close>

record proxy_request =
  pr_is_connect :: bool
  pr_uri_text :: string
  pr_has_scheme :: bool
  pr_uri_authority :: "string option"
  pr_path :: string
  pr_query :: "string option"
  pr_path_and_query :: "string option"
  pr_host :: "string option"
  pr_referer :: "string option"
  pr_origin :: "string option"

datatype proxy_response =
    InlinePage string
  | NoContent
  | TunnelInline
  | TunnelTo socket_addr
  | Upstream string
  | StatusForbidden
  | StatusBadGateway

record rejected_tracker =
  tk_rejected :: "string option"
  tk_page_url :: "url option"

record inline_route =
  ir_authority :: string
  ir_body :: string

record proxy_state =
  px_allowed_loopback_origin :: "url option"
  px_inline :: "inline_route option"
  px_tracker :: rejected_tracker

text \<open>The environment: the library, the resolver, the connector, the upstream exchange, which
  gets the request line in origin form and the Host header that is sent (and fails when they
  make no valid request), and the text of the error of parsing a URL.\<close>

record proxy_env =
  pe_lib :: ext_lib
  pe_resolver :: host_resolver
  pe_connect :: "nat \<Rightarrow> socket_addr \<Rightarrow> (io_error, unit) result"
  pe_exchange :: "nat \<Rightarrow> string \<Rightarrow> string \<Rightarrow> (html_render_error, string) result"
  pe_url_error :: "string \<Rightarrow> string"

definition tracker_new :: rejected_tracker where
  "tracker_new = \<lparr>tk_rejected = None, tk_page_url = None\<rparr>"

definition set_page_url :: "rejected_tracker \<Rightarrow> url \<Rightarrow> rejected_tracker" where
  "set_page_url t u = t\<lparr>tk_page_url := Some u\<rparr>"

definition belongs_to_page :: "ext_lib \<Rightarrow> rejected_tracker \<Rightarrow> proxy_request \<Rightarrow> bool" where
  "belongs_to_page L t r =
     (case tk_page_url t of
        None \<Rightarrow> False
      | Some page \<Rightarrow>
          list_ex (\<lambda>header.
            is_some_and (\<lambda>u. origin_eq (url_origin u) (url_origin page))
              (Option.bind header (x_url_parse L))) [pr_referer r, pr_origin r])"

definition record_rejected :: "rejected_tracker \<Rightarrow> string \<Rightarrow> bool \<Rightarrow> rejected_tracker" where
  "record_rejected t resource belongs =
     (if \<not> belongs then t else t\<lparr>tk_rejected := opt_or (tk_rejected t) (Some resource)\<rparr>)"

definition tracker_clear :: "rejected_tracker \<Rightarrow> rejected_tracker" where
  "tracker_clear t = t\<lparr>tk_rejected := None\<rparr>"

definition record_rejected_resource ::
  "rejected_tracker \<Rightarrow> html_render_error \<Rightarrow> bool \<Rightarrow> rejected_tracker" where
  "record_rejected_resource t e belongs =
     (case e of HeBlockedResource resource \<Rightarrow> record_rejected t resource belongs | _ \<Rightarrow> t)"

section \<open>Starting\<close>

definition proxy_start :: "string \<Rightarrow> string option \<Rightarrow> url option \<Rightarrow> proxy_state" where
  "proxy_start uuid inline_html allowed_loopback_origin =
     \<lparr>px_allowed_loopback_origin = allowed_loopback_origin,
      px_inline = map_option (\<lambda>body. \<lparr>ir_authority = uuid @ ''.yinshu.invalid'', ir_body = body\<rparr>)
                    inline_html,
      px_tracker = tracker_new\<rparr>"

text \<open>\<open>target_url\<close> panics on an inline source without an inline route: \<open>None\<close>.\<close>

definition target_url :: "ext_lib \<Rightarrow> proxy_state \<Rightarrow> html_source \<Rightarrow> (url \<times> proxy_state) option" where
  "target_url L p source =
     map_option (\<lambda>u. (u, p\<lparr>px_tracker := set_page_url (px_tracker p) u\<rparr>))
       (case source of
          SourceUrl u \<Rightarrow> Some u
        | SourceInline _ \<Rightarrow>
            Option.bind (px_inline p) (\<lambda>r. x_url_parse L (''http://'' @ ir_authority r @ ''/'')))"

section \<open>Requests\<close>

definition invalid_request :: "string \<Rightarrow> html_render_error" where
  "invalid_request reason = HeInvalidProxyRequest reason"

definition request_authority :: "proxy_request \<Rightarrow> string option" where
  "request_authority r = opt_or (pr_uri_authority r) (pr_host r)"

definition is_inline_path :: "proxy_state \<Rightarrow> proxy_request \<Rightarrow> string \<Rightarrow> bool" where
  "is_inline_path p r path =
     (case px_inline p of
        None \<Rightarrow> False
      | Some route \<Rightarrow>
          is_some_and (\<lambda>a. a = ir_authority route) (request_authority r)
          \<and> pr_path r = path \<and> pr_query r = None)"

definition is_inline_request :: "proxy_state \<Rightarrow> proxy_request \<Rightarrow> bool" where
  "is_inline_request p r = is_inline_path p r ''/''"

definition is_inline_favicon_request :: "proxy_state \<Rightarrow> proxy_request \<Rightarrow> bool" where
  "is_inline_favicon_request p r = is_inline_path p r ''/favicon.ico''"

definition is_inline_connect_authority :: "proxy_state \<Rightarrow> string \<Rightarrow> bool" where
  "is_inline_connect_authority p auth =
     (case px_inline p of
        None \<Rightarrow> False
      | Some route \<Rightarrow> auth = ir_authority route \<or> auth = ir_authority route @ '':80'')"

definition proxy_request_url :: "ext_lib \<Rightarrow> proxy_request \<Rightarrow> (html_render_error, url) result" where
  "proxy_request_url L r =
     (if pr_has_scheme r then
        ok_or (invalid_request ''proxy request URL is invalid'') (x_url_parse L (pr_uri_text r))
      else
        and_then
          (ok_or (invalid_request ''origin-form proxy request is missing Host'') (request_authority r))
          (\<lambda>auth.
             ok_or (invalid_request ''origin-form proxy request URL is invalid'')
               (x_url_parse L (''http://'' @ auth @ unwrap_or (pr_path_and_query r) ''/''))))"

text \<open>Inside the tunnel of the inline page only that page is served.\<close>

definition inline_tunnel_response :: "inline_route \<Rightarrow> proxy_request \<Rightarrow> proxy_response" where
  "inline_tunnel_response route r =
     (if is_some_and (\<lambda>h. h = ir_authority route) (pr_host r) \<and> pr_path r = ''/'' \<and> pr_query r = None
      then InlinePage (ir_body route) else StatusBadGateway)"

type_synonym proxy_outcome = "(html_render_error, proxy_response) result \<times> socket_addr list"

definition handle_connect :: "proxy_env \<Rightarrow> proxy_state \<Rightarrow> nat \<Rightarrow> proxy_request \<Rightarrow> proxy_outcome" where
  "handle_connect V p k r =
     (case pr_uri_authority r of
        None \<Rightarrow> (Err (invalid_request ''CONNECT target must be an authority''), [])
      | Some auth \<Rightarrow>
          if is_inline_connect_authority p auth then (Ok TunnelInline, [])
          else
     (case x_url_parse (pe_lib V) (''https://'' @ auth @ ''/'') of
        None \<Rightarrow>
          (Err (HeInvalidProxyRequest (pe_url_error V (''https://'' @ auth @ ''/''))), [])
      | Some u \<Rightarrow>
     (case resolve_target (pe_lib V) (pe_resolver V) k u (px_allowed_loopback_origin p) of
        Inl e \<Rightarrow> (Err e, [])
      | Inr target \<Rightarrow>
          (case pe_connect V k (rt_address target) of
             Inl e \<Rightarrow> (Err (HeIo e), [rt_address target])
           | Inr _ \<Rightarrow> (Ok (TunnelTo (rt_address target)), [rt_address target])))))"

definition origin_form :: "url \<Rightarrow> string" where
  "origin_form u =
     (case url_query u of Some q \<Rightarrow> url_path u @ ''?'' @ q | None \<Rightarrow> url_path u)"

definition handle_http :: "proxy_env \<Rightarrow> proxy_state \<Rightarrow> nat \<Rightarrow> proxy_request \<Rightarrow> proxy_outcome" where
  "handle_http V p k r =
     (case proxy_request_url (pe_lib V) r of
        Inl e \<Rightarrow> (Err e, [])
      | Inr u \<Rightarrow>
          if url_scheme u \<noteq> ''http'' then (Err (invalid_request ''HTTPS resources must use CONNECT''), [])
          else
     (case resolve_target (pe_lib V) (pe_resolver V) k u (px_allowed_loopback_origin p) of
        Inl e \<Rightarrow> (Err e, [])
      | Inr target \<Rightarrow>
     (case pe_connect V k (rt_address target) of
        Inl e \<Rightarrow> (Err (HeIo e), [rt_address target])
      | Inr _ \<Rightarrow>
          (case pe_exchange V k (origin_form u) (unwrap_or (pr_host r) (rt_authority target)) of
             Inl e \<Rightarrow> (Err e, [rt_address target])
           | Inr body \<Rightarrow> (Ok (Upstream body), [rt_address target])))))"

definition error_response :: "html_render_error \<Rightarrow> proxy_response" where
  "error_response e =
     (case e of HeBlockedResource _ \<Rightarrow> StatusForbidden | _ \<Rightarrow> StatusBadGateway)"

definition handle ::
  "proxy_env \<Rightarrow> proxy_state \<Rightarrow> nat \<Rightarrow> proxy_request \<Rightarrow>
   proxy_response \<times> socket_addr list \<times> proxy_state" where
  "handle V p k r =
     (let belongs = belongs_to_page (pe_lib V) (px_tracker p) r;
          (response, conns) =
            (if pr_is_connect r then handle_connect V p k r
             else if is_inline_request p r then
               (case px_inline p of
                  Some route \<Rightarrow> (Ok (InlinePage (ir_body route)), [])
                | None \<Rightarrow> (Err (invalid_request ''route checked''), []))
             else if is_inline_favicon_request p r then (Ok NoContent, [])
             else handle_http V p k r)
      in case response of
           Inr resp \<Rightarrow> (resp, conns, p)
         | Inl e \<Rightarrow>
             (error_response e, conns,
              p\<lparr>px_tracker := record_rejected_resource (px_tracker p) e belongs\<rparr>))"

text \<open>The requests of one rendering, in the order they are handled.\<close>

fun handle_all ::
  "proxy_env \<Rightarrow> proxy_state \<Rightarrow> nat \<Rightarrow> proxy_request list \<Rightarrow> socket_addr list \<times> proxy_state" where
  "handle_all V p k [] = ([], p)"
| "handle_all V p k (r # rs) =
     (case handle V p k r of (_, conns, p') \<Rightarrow>
        case handle_all V p' (Suc k) rs of (further, p'') \<Rightarrow> (conns @ further, p''))"

section \<open>Where the proxy connects\<close>

definition approved_address :: "url option \<Rightarrow> socket_addr \<Rightarrow> bool" where
  "approved_address allowed a \<longleftrightarrow>
     public_ip (sa_ip a) \<or> (\<exists>u. own_loopback u allowed (sa_ip a))"

lemma resolve_target_approved:
  "ipnet_documented L \<Longrightarrow> resolve_target L R k u allowed = Inr t \<Longrightarrow>
     approved_address allowed (rt_address t)"
  using resolve_target_cases [of L R k u allowed t] is_public_ip_iff [of L]
  by (auto simp: approved_address_def)

lemma handle_connect_approved:
  "ipnet_documented (pe_lib V) \<Longrightarrow>
     list_all (approved_address (px_allowed_loopback_origin p)) (snd (handle_connect V p k r))"
  by (auto simp: handle_connect_def resolve_target_approved split: option.splits sum.splits)

lemma handle_http_approved:
  "ipnet_documented (pe_lib V) \<Longrightarrow>
     list_all (approved_address (px_allowed_loopback_origin p)) (snd (handle_http V p k r))"
  by (auto simp: handle_http_def resolve_target_approved split: option.splits sum.splits)

lemma handle_approved:
  assumes "ipnet_documented (pe_lib V)" and "handle V p k r = (resp, conns, p')"
  shows "list_all (approved_address (px_allowed_loopback_origin p)) conns"
    and "px_allowed_loopback_origin p' = px_allowed_loopback_origin p"
  using assms(2) handle_connect_approved [OF assms(1), of p k r]
    handle_http_approved [OF assms(1), of p k r]
  by (auto simp: handle_def Let_def split: if_splits option.splits sum.splits prod.splits)

lemma handle_all_approved:
  "ipnet_documented (pe_lib V) \<Longrightarrow>
     list_all (approved_address (px_allowed_loopback_origin p)) (fst (handle_all V p k rs))"
proof (induction rs arbitrary: p k)
  case (Cons r rs)
  obtain resp c p' where h: "handle V p k r = (resp, c, p')" by (metis prod_cases3)
  obtain further p'' where m: "handle_all V p' (Suc k) rs = (further, p'')" by fastforce
  from handle_approved [OF Cons.prems h] Cons.IH [OF Cons.prems, of p' "Suc k"] h m
  show ?case by simp
qed simp

text \<open>
  Whatever requests the page makes through it, and however they are written, the proxy
  connects only to public addresses and to the loopback address of the one approved local
  origin.
\<close>

theorem proxy_connects_only_approved:
  assumes "ipnet_documented (pe_lib V)"
  shows "list_all (approved_address allowed)
    (fst (handle_all V (proxy_start uuid inline_html allowed) k rs))"
  using handle_all_approved [OF assms, of "proxy_start uuid inline_html allowed" k rs]
  by (simp add: proxy_start_def)

definition quiet_env :: proxy_env where
  "quiet_env = \<lparr>pe_lib = cidr_lib, pe_resolver = (\<lambda>_ _ _. Inr []), pe_connect = (\<lambda>_ _. Ok ()),
     pe_exchange = (\<lambda>_ _ _. Ok []), pe_url_error = (\<lambda>_. [])\<rparr>"

definition local_request :: proxy_request where
  "local_request =
     \<lparr>pr_is_connect = False, pr_uri_text = ''http://localhost/'', pr_has_scheme = True,
      pr_uri_authority = Some ''localhost'', pr_path = ''/'', pr_query = None,
      pr_path_and_query = Some ''/'', pr_host = None, pr_referer = None, pr_origin = None\<rparr>"

definition localhost_env :: proxy_env where
  "localhost_env = quiet_env\<lparr>pe_lib := cidr_lib\<lparr>x_url_parse := (\<lambda>_. Some (site_url ''localhost''))\<rparr>\<rparr>"

theorem proxy_connects_only_approved_witness:
  "list_all (approved_address None)
     (fst (handle_all localhost_env (proxy_start ''u'' None None) 0 [local_request, local_request]))"
proof (rule proxy_connects_only_approved)
  show "ipnet_documented (pe_lib localhost_env)"
    using cidr_lib_documented by (simp add: localhost_env_def ipnet_documented_def)
qed

text \<open>
  A refused resource is answered with 403 and reported: when the policy blocks the target of a
  request, the proxy answers \<open>Forbidden\<close> without connecting anywhere, and when the request came
  from the rendered page the first such resource, and only the first, is kept for the error
  of the rendering; a request of another origin does not change the report.
\<close>

theorem blocked_resource_is_forbidden:
  assumes "proxy_request_url (pe_lib V) r = Inr u" and "url_scheme u = ''http''"
    and "resolve_target (pe_lib V) (pe_resolver V) k u (px_allowed_loopback_origin p) = Inl (blocked u)"
    and "\<not> pr_is_connect r" and "px_inline p = None"
  shows "handle V p k r =
    (StatusForbidden, [],
     p\<lparr>px_tracker :=
        (if belongs_to_page (pe_lib V) (px_tracker p) r
         then (px_tracker p)\<lparr>tk_rejected := Some (unwrap_or (tk_rejected (px_tracker p)) (url_as_str u))\<rparr>
         else px_tracker p)\<rparr>)"
  using assms
  by (cases "tk_rejected (px_tracker p)")
    (simp_all add: handle_def handle_http_def is_inline_request_def is_inline_favicon_request_def
      is_inline_path_def error_response_def blocked_def record_rejected_resource_def
      record_rejected_def)

theorem blocked_resource_is_forbidden_witness:
  "fst (handle localhost_env (proxy_start ''u'' None None) 0 local_request) = StatusForbidden"
proof -
  have "proxy_request_url (pe_lib localhost_env) local_request = Inr (site_url ''localhost'')"
    by (simp add: proxy_request_url_def local_request_def localhost_env_def)
  moreover have "url_scheme (site_url ''localhost'') = ''http''" by (simp add: site_url_def)
  moreover have "resolve_target (pe_lib localhost_env) (pe_resolver localhost_env) 0
      (site_url ''localhost'') (px_allowed_loopback_origin (proxy_start ''u'' None None)) =
      Inl (blocked (site_url ''localhost''))"
    by (simp add: resolve_target_def site_url_def trim_end_matches_def to_ascii_lowercase_def
        ascii_lower_def Let_def)
  ultimately show ?thesis
    by (subst blocked_resource_is_forbidden) (simp_all add: local_request_def proxy_start_def)
qed

end
