(* ===== verification/Browser.thy ===== *)
theory Browser
  imports Proxy Config Rust_Text
begin

text \<open>
  \<open>crates/runtime/src/html/browser.rs\<close>: the search for an installed browser, its launch, the
  deadline that every step of a rendering respects, the browser driver and the HTML renderer
  built from the driver and the filtering proxy. Times are nanoseconds; the environment says how
  much time passes before each reading of the clock, so the clock never runs backwards and a
  sleep lasts at least as long as asked. \<open>headless_chrome\<close> and the operating system are fields of
  \<open>browser_env\<close>. A computation that does not return is \<open>None\<close>.
\<close>

section \<open>Browsers\<close>

datatype browser_kind = Edge | Chrome | Chromium

fun browser_label :: "browser_kind \<Rightarrow> string" where
  "browser_label Edge = ''edge''"
| "browser_label Chrome = ''chrome''"
| "browser_label Chromium = ''chromium''"

record browser_executable =
  bx_kind :: browser_kind
  bx_path :: string
  bx_label :: string

datatype target_os = OsWindows | OsMacOs | OsLinux

record browser_probe =
  bp_is_file :: "string \<Rightarrow> bool"
  bp_find_in_path :: "string \<Rightarrow> string option"
  bp_has_version :: "string \<Rightarrow> bool"

definition windows_path :: "string \<Rightarrow> string \<Rightarrow> string" where
  "windows_path folder rest = folder @ [CHR 0x5C] @ rest"

definition bs_join :: "string list \<Rightarrow> string" where
  "bs_join parts = join_with [CHR 0x5C] parts"

definition flatten_some :: "'a option list \<Rightarrow> 'a list" where
  "flatten_some xs = concat (map (\<lambda>x. case x of None \<Rightarrow> [] | Some y \<Rightarrow> [y]) xs)"

definition windows_candidates :: "env_vars \<Rightarrow> (browser_kind \<times> string) list" where
  "windows_candidates V =
     (let program_files_x86 = unwrap_or (V ''PROGRAMFILES(X86)'') (bs_join [''C:'', ''Program Files (x86)'']);
          program_files = unwrap_or (V ''PROGRAMFILES'') (bs_join [''C:'', ''Program Files'']);
          local_app_data = V ''LOCALAPPDATA''
      in map (\<lambda>folder. (Edge, windows_path folder (bs_join [''Microsoft'', ''Edge'', ''Application'', ''msedge.exe''])))
           [program_files_x86, program_files]
         @ map (\<lambda>folder. (Chrome, windows_path folder (bs_join [''Google'', ''Chrome'', ''Application'', ''chrome.exe''])))
             (flatten_some [Some program_files, local_app_data])
         @ map (\<lambda>folder. (Chromium, windows_path folder (bs_join [''Chromium'', ''Application'', ''chrome.exe''])))
             (flatten_some [Some program_files, local_app_data]))"

definition macos_candidates :: "env_vars \<Rightarrow> (browser_kind \<times> string) list" where
  "macos_candidates V =
     (let home_applications = map_option (\<lambda>home. path_join home ''Applications'') (V ''HOME'');
          roots = flatten_some [Some ''/Applications'', home_applications]
      in map (\<lambda>folder. (Chrome, path_join folder ''Google Chrome.app/Contents/MacOS/Google Chrome'')) roots
         @ map (\<lambda>folder. (Chromium, path_join folder ''Chromium.app/Contents/MacOS/Chromium'')) roots)"

definition linux_candidates :: "browser_probe \<Rightarrow> (browser_kind \<times> string) list" where
  "linux_candidates probe =
     List.map_filter (\<lambda>(kind, command). map_option (\<lambda>path. (kind, path)) (bp_find_in_path probe command))
       [(Chrome, ''google-chrome-stable''), (Chrome, ''google-chrome''),
        (Chromium, ''chromium''), (Chromium, ''chromium-browser'')]"

record browser_locator =
  bl_os :: target_os
  bl_vars :: env_vars
  bl_probe :: browser_probe

definition candidates :: "browser_locator \<Rightarrow> (browser_kind \<times> string) list" where
  "candidates l =
     (case bl_os l of
        OsWindows \<Rightarrow> windows_candidates (bl_vars l)
      | OsMacOs \<Rightarrow> macos_candidates (bl_vars l)
      | OsLinux \<Rightarrow> linux_candidates (bl_probe l))"

definition candidate_available :: "browser_locator \<Rightarrow> string \<Rightarrow> bool" where
  "candidate_available l path =
     (case bl_os l of
        OsWindows \<Rightarrow> bp_is_file (bl_probe l) path
      | OsMacOs \<Rightarrow> bp_is_file (bl_probe l) path \<and> bp_has_version (bl_probe l) path
      | OsLinux \<Rightarrow> bp_has_version (bl_probe l) path)"

definition available :: "browser_locator \<Rightarrow> (string list, browser_executable list) result" where
  "available l =
     (let found = map (\<lambda>(kind, path). \<lparr>bx_kind = kind, bx_path = path, bx_label = browser_label kind\<rparr>)
                    (filter (\<lambda>(_, path). candidate_available l path) (candidates l))
      in if found = [] then Err (map snd (candidates l)) else Ok found)"

definition find_browser :: "browser_locator \<Rightarrow> (html_render_error, browser_executable) result" where
  "find_browser l = and_then (map_err HeRendererUnavailable (available l)) (\<lambda>xs. Ok (hd xs))"

section \<open>Environment and state\<close>

definition ms :: "nat \<Rightarrow> nat" where "ms n = n * 1000000"

definition VERSION_CHECK_TIMEOUT :: nat where "VERSION_CHECK_TIMEOUT = ms 2000"
definition RENDER_TIMEOUT_MS :: nat where "RENDER_TIMEOUT_MS = 60000"
definition MAX_CDP_OPERATION_TIMEOUT :: nat where "MAX_CDP_OPERATION_TIMEOUT = ms 10000"
definition WAIT_POLL_INTERVAL :: nat where "WAIT_POLL_INTERVAL = ms 10"
definition FORCE_LOOPBACK_THROUGH_PROXY :: string where
  "FORCE_LOOPBACK_THROUGH_PROXY = ''--proxy-bypass-list=<-loopback>''"

record launch_options =
  lp_path :: string
  lp_user_data_dir :: string
  lp_proxy_server :: "string option"
  lp_args :: "string list"
  lp_ignore_certificate_errors :: bool
  lp_headless :: bool
  lp_sandbox :: bool
  lp_idle_browser_timeout :: nat

record print_to_pdf_options =
  pp_print_background :: bool
  pp_paper_width :: f64
  pp_paper_height :: f64
  pp_margins :: "f64 list"

datatype launch_event = LeSpawnError string | LeBrowser | LeError string | LeTimeout | LeDisconnected

record gate_wake =
  wk_elapsed :: nat
  wk_timed_out :: bool
  wk_in_progress :: bool

datatype child_poll = ChildExited bool | ChildRunning | ChildError

record browser_env =
  bv_step :: "nat \<Rightarrow> nat"
  bv_cancel :: "nat \<Rightarrow> bool"
  bv_os :: os_env
  bv_proxy :: proxy_env
  bv_bind :: "(io_error, string) result"
  bv_tempdir :: "nat \<Rightarrow> (io_error, string) result"
  bv_gate_busy :: "nat \<Rightarrow> bool"
  bv_gate_wake :: "nat \<Rightarrow> gate_wake"
  bv_launch :: "nat \<Rightarrow> launch_options \<Rightarrow> launch_event"
  bv_new_tab :: "nat \<Rightarrow> (string, unit) result"
  bv_navigate :: "nat \<Rightarrow> string \<Rightarrow> (string, unit) result"
  bv_navigated :: "nat \<Rightarrow> (string, unit) result"
  bv_print :: "nat \<Rightarrow> print_to_pdf_options \<Rightarrow> (string, bytes) result"
  bv_early_requests :: "proxy_request list"
  bv_page_requests :: "proxy_request list"
  bv_outer_timeout :: bool
  bv_worker_panic :: "string option"

text \<open>The state of a rendering; \<open>br_launched\<close> lists the browsers that were launched.\<close>

record browser_run =
  br_now :: nat
  br_calls :: nat
  br_cancelled :: bool
  br_world :: world
  br_proxy :: proxy_state
  br_launched :: "launch_options list"

definition instant_now :: "browser_env \<Rightarrow> browser_run \<Rightarrow> nat \<times> browser_run" where
  "instant_now V s =
     (let t = br_now s + bv_step V (br_calls s) in (t, s\<lparr>br_now := t, br_calls := Suc (br_calls s)\<rparr>))"

definition thread_sleep :: "browser_env \<Rightarrow> nat \<Rightarrow> browser_run \<Rightarrow> browser_run" where
  "thread_sleep V d s =
     s\<lparr>br_now := br_now s + d + bv_step V (br_calls s), br_calls := Suc (br_calls s)\<rparr>"

text \<open>\<open>Instant::checked_add\<close>: seconds are a signed 64-bit number.\<close>

definition instant_checked_add :: "nat \<Rightarrow> nat \<Rightarrow> nat option" where
  "instant_checked_add t d = (if (t + d) div 1000000000 < 2 ^ 63 then Some (t + d) else None)"

text \<open>Sequencing with the early return of the question-mark operator.\<close>

definition run_then ::
  "(('e, 'a) result \<times> browser_run) option \<Rightarrow> ('a \<Rightarrow> browser_run \<Rightarrow> (('e, 'b) result \<times> browser_run) option) \<Rightarrow>
   (('e, 'b) result \<times> browser_run) option" where
  "run_then m f = (case m of None \<Rightarrow> None | Some (Inl e, s) \<Rightarrow> Some (Inl e, s) | Some (Inr x, s) \<Rightarrow> f x s)"

section \<open>Version probe\<close>

text \<open>The loop of \<open>SystemBrowserProbe::has_version\<close> around \<open>try_wait\<close>.\<close>

function has_version_loop :: "(nat \<Rightarrow> child_poll) \<Rightarrow> browser_env \<Rightarrow> nat \<Rightarrow> browser_run \<Rightarrow> bool \<times> browser_run" where
  "has_version_loop poll V started s =
     (case poll (br_calls s) of
        ChildExited success \<Rightarrow> (success, s)
      | ChildError \<Rightarrow> (False, s)
      | ChildRunning \<Rightarrow>
          (case instant_now V s of (t, s1) \<Rightarrow>
             if t - started < VERSION_CHECK_TIMEOUT
             then has_version_loop poll V started (thread_sleep V (ms 20) s1)
             else (False, s1)))"
  by pat_completeness auto
termination
  by (relation "measure (\<lambda>(poll, V, started, s). started + VERSION_CHECK_TIMEOUT - br_now s)")
    (auto simp: instant_now_def thread_sleep_def ms_def VERSION_CHECK_TIMEOUT_def Let_def)

declare has_version_loop.simps [simp del]

definition system_find_in_path :: "env_vars \<Rightarrow> (string \<Rightarrow> bool) \<Rightarrow> string \<Rightarrow> string option" where
  "system_find_in_path V is_file command =
     Option.bind (V ''PATH'') (\<lambda>path.
       find is_file (map (\<lambda>d. path_join d command) (split_on (\<lambda>c. c = CHR '':'') path)))"

section \<open>Deadline\<close>

record render_control =
  rc_deadline :: nat
  rc_timeout_ms :: u64
  rc_cdp_operation_timeout :: nat

definition control_cancel :: "browser_run \<Rightarrow> browser_run" where
  "control_cancel s = s\<lparr>br_cancelled := True\<rparr>"

definition timeout_error :: "render_control \<Rightarrow> html_render_error" where
  "timeout_error c = HeTimeout (rc_timeout_ms c)"

definition check_active ::
  "browser_env \<Rightarrow> render_control \<Rightarrow> browser_run \<Rightarrow> (html_render_error, unit) result \<times> browser_run" where
  "check_active V c s =
     (if br_cancelled s \<or> bv_cancel V (br_calls s) then (Err (timeout_error c), control_cancel s)
      else
        (case instant_now V s of (t, s1) \<Rightarrow>
           if rc_deadline c \<le> t then (Err (timeout_error c), control_cancel s1) else (Ok (), s1)))"

definition remaining ::
  "browser_env \<Rightarrow> render_control \<Rightarrow> browser_run \<Rightarrow> (html_render_error, nat) result \<times> browser_run" where
  "remaining V c s =
     (case check_active V c s of
        (Inl e, s1) \<Rightarrow> (Err e, s1)
      | (Inr _, s1) \<Rightarrow>
          (case instant_now V s1 of (t, s2) \<Rightarrow>
             if rc_deadline c - t = 0 then (Err (timeout_error c), control_cancel s2)
             else (Ok (rc_deadline c - t), s2)))"

definition before_cdp_operations ::
  "browser_env \<Rightarrow> render_control \<Rightarrow> nat \<Rightarrow> browser_run \<Rightarrow> (html_render_error, nat) result \<times> browser_run" where
  "before_cdp_operations V c request_count s =
     (case remaining V c s of
        (Inl e, s1) \<Rightarrow> (Err e, s1)
      | (Inr r, s1) \<Rightarrow>
          if r < rc_cdp_operation_timeout c * request_count then (Err (timeout_error c), control_cancel s1)
          else (Ok (rc_cdp_operation_timeout c), s1))"

partial_function (option) wait_loop ::
  "browser_env \<Rightarrow> render_control \<Rightarrow> nat \<Rightarrow> browser_run \<Rightarrow> ((html_render_error, unit) result \<times> browser_run) option" where
  "wait_loop V c wait_deadline s =
     (case check_active V c s of
        (Inl e, s1) \<Rightarrow> Some (Err e, s1)
      | (Inr _, s1) \<Rightarrow>
          (case instant_now V s1 of (t, s2) \<Rightarrow>
             if wait_deadline \<le> t then Some (Ok (), s2)
             else
               (case remaining V c s2 of
                  (Inl e, s3) \<Rightarrow> Some (Err e, s3)
                | (Inr r, s3) \<Rightarrow>
                    wait_loop V c wait_deadline
                      (thread_sleep V (min (min r (wait_deadline - t)) WAIT_POLL_INTERVAL) s3))))"

definition control_wait ::
  "browser_env \<Rightarrow> render_control \<Rightarrow> nat \<Rightarrow> browser_run \<Rightarrow> ((html_render_error, unit) result \<times> browser_run) option" where
  "control_wait V c duration s =
     (case instant_now V s of (t, s1) \<Rightarrow>
        wait_loop V c (unwrap_or (instant_checked_add t duration) (rc_deadline c)) s1)"

section \<open>Launching\<close>

datatype launch_attempt_error = LaFailed string | LaTimedOut u64 | LaAbort html_render_error

text \<open>The gate that lets one launch run at a time: waiting for it ends when it is free or at the
  deadline. A wait on the condition variable lasts a nanosecond at least.\<close>

function acquire_loop ::
  "browser_env \<Rightarrow> nat \<Rightarrow> u64 \<Rightarrow> bool \<Rightarrow> browser_run \<Rightarrow> (launch_attempt_error, unit) result \<times> browser_run" where
  "acquire_loop V deadline timeout_ms in_progress s =
     (if \<not> in_progress then (Ok (), s)
      else
        (case instant_now V s of (t, s1) \<Rightarrow>
           if deadline - t = 0 then (Err (LaTimedOut timeout_ms), s1)
           else
             (let wake = bv_gate_wake V (br_calls s1);
                  s2 = thread_sleep V (Suc (wk_elapsed wake)) s1
              in if wk_timed_out wake \<and> wk_in_progress wake then (Err (LaTimedOut timeout_ms), s2)
                 else acquire_loop V deadline timeout_ms (wk_in_progress wake) s2)))"
  by pat_completeness auto
termination
  by (relation "measure (\<lambda>(V, deadline, timeout_ms, in_progress, s). deadline - br_now s)")
    (auto simp: instant_now_def thread_sleep_def Let_def)

declare acquire_loop.simps [simp del]

definition launch_guard_acquire ::
  "browser_env \<Rightarrow> nat \<Rightarrow> u64 \<Rightarrow> browser_run \<Rightarrow> (launch_attempt_error, unit) result \<times> browser_run" where
  "launch_guard_acquire V deadline timeout_ms s =
     acquire_loop V deadline timeout_ms (bv_gate_busy V (br_calls s)) s"

definition launch_with_timeout ::
  "browser_env \<Rightarrow> nat \<Rightarrow> u64 \<Rightarrow> launch_options \<Rightarrow> browser_run \<Rightarrow>
   (launch_attempt_error, unit) result \<times> browser_run" where
  "launch_with_timeout V timeout timeout_ms options s =
     (case instant_now V s of (t, s1) \<Rightarrow>
        let deadline = unwrap_or (instant_checked_add t timeout) t in
        (case launch_guard_acquire V deadline timeout_ms s1 of
           (Inl e, s2) \<Rightarrow> (Err e, s2)
         | (Inr _, s2) \<Rightarrow>
             (case instant_now V s2 of (t2, s3) \<Rightarrow>
                if deadline - t2 = 0 then (Err (LaTimedOut timeout_ms), s3)
                else
                  (let s4 = s3\<lparr>br_calls := Suc (br_calls s3), br_launched := br_launched s3 @ [options]\<rparr>
                   in case bv_launch V (br_calls s3) options of
                        LeSpawnError e \<Rightarrow> (Err (LaFailed e), s3\<lparr>br_calls := Suc (br_calls s3)\<rparr>)
                      | LeBrowser \<Rightarrow> (Ok (), s4)
                      | LeError e \<Rightarrow> (Err (LaFailed e), s4)
                      | LeTimeout \<Rightarrow> (Err (LaTimedOut timeout_ms), s4)
                      | LeDisconnected \<Rightarrow>
                          (Err (LaFailed ''browser launch worker stopped unexpectedly''), s4)))))"

fun launch_first_available ::
  "(browser_executable \<Rightarrow> browser_run \<Rightarrow> (launch_attempt_error, unit) result \<times> browser_run) \<Rightarrow>
   string list \<Rightarrow> browser_executable list \<Rightarrow> browser_run \<Rightarrow>
   (html_render_error, browser_executable) result \<times> browser_run" where
  "launch_first_available launch failures [] s = (Err (HeRendererUnavailable failures), s)"
| "launch_first_available launch failures (executable # rest) s =
     (case launch executable s of
        (Inr _, s1) \<Rightarrow> (Ok executable, s1)
      | (Inl (LaFailed error), s1) \<Rightarrow>
          launch_first_available launch (failures @ [bx_path executable @ '': '' @ error]) rest s1
      | (Inl (LaTimedOut timeout_ms), s1) \<Rightarrow> (Err (HeTimeout timeout_ms), s1)
      | (Inl (LaAbort error), s1) \<Rightarrow> (Err error, s1))"

definition browser_options :: "string \<Rightarrow> string option \<Rightarrow> nat \<Rightarrow> browser_executable \<Rightarrow> launch_options" where
  "browser_options profile proxy_server timeout executable =
     \<lparr>lp_path = bx_path executable, lp_user_data_dir = profile, lp_proxy_server = proxy_server,
      lp_args = [FORCE_LOOPBACK_THROUGH_PROXY], lp_ignore_certificate_errors = False, lp_headless = True,
      lp_sandbox = True, lp_idle_browser_timeout = min timeout MAX_CDP_OPERATION_TIMEOUT\<rparr>"

definition launch_headless_browser ::
  "browser_env \<Rightarrow> browser_locator \<Rightarrow> string \<Rightarrow> string option \<Rightarrow>
   (browser_run \<Rightarrow> (html_render_error, nat \<times> u64) result \<times> browser_run) \<Rightarrow> browser_run \<Rightarrow>
   (html_render_error, browser_executable) result \<times> browser_run" where
  "launch_headless_browser V l profile proxy_server attempt_timeout s =
     (case available l of
        Inl searched \<Rightarrow> (Err (HeRendererUnavailable searched), s)
      | Inr cs \<Rightarrow>
          launch_first_available (\<lambda>executable s1.
            (case attempt_timeout s1 of
               (Inl e, s2) \<Rightarrow> (Err (LaAbort e), s2)
             | (Inr (timeout, timeout_ms), s2) \<Rightarrow>
                 launch_with_timeout V timeout timeout_ms
                   (browser_options profile proxy_server timeout executable) s2)) [] cs s)"

definition make_tempdir :: "browser_env \<Rightarrow> browser_run \<Rightarrow> (html_render_error, string) result \<times> browser_run" where
  "make_tempdir V s = (map_err HeIo (bv_tempdir V (br_calls s)), s\<lparr>br_calls := Suc (br_calls s)\<rparr>)"

definition check_browser_launch ::
  "browser_env \<Rightarrow> browser_locator \<Rightarrow> browser_run \<Rightarrow>
   (html_render_error, browser_executable) result \<times> browser_run" where
  "check_browser_launch V l s =
     (case make_tempdir V s of
        (Inl e, s1) \<Rightarrow> (Err e, s1)
      | (Inr profile, s1) \<Rightarrow>
          (case instant_now V s1 of (t, s2) \<Rightarrow>
             let deadline = t + ms RENDER_TIMEOUT_MS in
             launch_headless_browser V l profile None (\<lambda>s3.
               (case instant_now V s3 of (t3, s4) \<Rightarrow>
                  if deadline - t3 = 0 then (Err (HeTimeout (word_of_nat RENDER_TIMEOUT_MS)), s4)
                  else (Ok (deadline - t3, word_of_nat RENDER_TIMEOUT_MS), s4))) s2))"

section \<open>Driver\<close>

definition chrome_proxy_server :: "url \<Rightarrow> string option" where
  "chrome_proxy_server proxy_url =
     Option.bind (url_host_str proxy_url) (\<lambda>host.
     Option.bind (url_port_or_known_default proxy_url) (\<lambda>port.
       Some (url_scheme proxy_url @ ''://''
             @ (if CHR '':'' \<in> set host then ''['' @ host @ '']'' else host)
             @ '':'' @ show_nat (unat port))))"

record browser_driver_request =
  dq_proxy_url :: url
  dq_target_url :: url
  dq_profile :: string
  dq_paper :: effective_paper
  dq_wait_ms :: u64
  dq_print_background :: bool
  dq_output_path :: string

text \<open>25.4 as a double.\<close>

definition inch_mm :: rat where
  "inch_mm = (case round_f64 (254 / 10) of Fin k \<Rightarrow> k | _ \<Rightarrow> 0)"

definition pdf_options :: "browser_driver_request \<Rightarrow> print_to_pdf_options" where
  "pdf_options rq =
     \<lparr>pp_print_background = dq_print_background rq,
      pp_paper_width = f64_div_pos (ep_width_mm (dq_paper rq)) inch_mm,
      pp_paper_height = f64_div_pos (ep_height_mm (dq_paper rq)) inch_mm,
      pp_margins = [Fin 0, Fin 0, Fin 0, Fin 0]\<rparr>"

text \<open>A call of the browser library.\<close>

definition chrome_call ::
  "(string \<Rightarrow> html_render_error) \<Rightarrow> (nat \<Rightarrow> (string, 'a) result) \<Rightarrow> browser_run \<Rightarrow>
   ((html_render_error, 'a) result \<times> browser_run) option" where
  "chrome_call err f s = Some (map_err err (f (br_calls s)), s\<lparr>br_calls := Suc (br_calls s)\<rparr>)"

text \<open>The proxy at work: the requests it handled from one point of the rendering to the next.\<close>

definition serve_requests :: "browser_env \<Rightarrow> proxy_request list \<Rightarrow> browser_run \<Rightarrow> browser_run" where
  "serve_requests V rs s =
     s\<lparr>br_proxy := snd (handle_all (bv_proxy V) (br_proxy s) (br_calls s) rs),
       br_calls := br_calls s + length rs\<rparr>"

definition clear_rejected :: "browser_run \<Rightarrow> browser_run" where
  "clear_rejected s = s\<lparr>br_proxy := (br_proxy s)\<lparr>px_tracker := tracker_clear (px_tracker (br_proxy s))\<rparr>\<rparr>"

definition write_pdf ::
  "browser_env \<Rightarrow> string \<Rightarrow> bytes \<Rightarrow> browser_run \<Rightarrow> ((html_render_error, unit) result \<times> browser_run) option" where
  "write_pdf V path pdf s =
     (case fs_write (bv_os V) (br_world s) path pdf of (r, w) \<Rightarrow>
        Some (map_err HeIo r, s\<lparr>br_world := w\<rparr>))"

definition driver_render ::
  "browser_env \<Rightarrow> browser_locator \<Rightarrow> browser_driver_request \<Rightarrow> render_control \<Rightarrow> browser_run \<Rightarrow>
   ((html_render_error, unit) result \<times> browser_run) option" where
  "driver_render V l rq c s =
     (case chrome_proxy_server (dq_proxy_url rq) of
        None \<Rightarrow> None
      | Some proxy_server \<Rightarrow>
          run_then (Some (launch_headless_browser V l (dq_profile rq) (Some proxy_server)
             (\<lambda>s0. case remaining V c s0 of
                     (Inl e, s1) \<Rightarrow> (Err e, s1)
                   | (Inr r, s1) \<Rightarrow> (Ok (r, rc_timeout_ms c), s1)) s)) (\<lambda>_ s1.
          run_then (Some (before_cdp_operations V c 1 s1)) (\<lambda>_ s2.
          run_then (Some (remaining V c s2)) (\<lambda>_ s3.
          run_then (chrome_call HeNavigation (bv_new_tab V) s3) (\<lambda>_ s4.
          run_then (Some (before_cdp_operations V c 2 (serve_requests V (bv_early_requests V) s4))) (\<lambda>_ s5.
          run_then (chrome_call HeNavigation (\<lambda>k. bv_navigate V k (url_as_str (dq_target_url rq)))
             (clear_rejected s5)) (\<lambda>_ s6.
          run_then (Some (remaining V c s6)) (\<lambda>_ s7.
          run_then (chrome_call HeNavigation (bv_navigated V) s7) (\<lambda>_ s8.
          run_then (control_wait V c (ms (unat (dq_wait_ms rq))) s8) (\<lambda>_ s9.
          run_then (Some (before_cdp_operations V c 2 s9)) (\<lambda>_ s10.
          run_then (chrome_call HePdfExport (\<lambda>k. bv_print V k (pdf_options rq)) s10) (\<lambda>pdf s11.
          run_then (Some (check_active V c (serve_requests V (bv_page_requests V) s11))) (\<lambda>_ s12.
            write_pdf V (dq_output_path rq) pdf s12)))))))))))))"

section \<open>Renderer\<close>

text \<open>\<open>FilteringProxy::start\<close>: the address it is bound to and the URL of the inline page; the URL of
  its own address always parses, the other outcome being a panic.\<close>

definition filtering_proxy_start ::
  "browser_env \<Rightarrow> string option \<Rightarrow> url option \<Rightarrow> browser_run \<Rightarrow> ((html_render_error, url) result \<times> browser_run) option" where
  "filtering_proxy_start V inline_html allowed_loopback_origin s =
     (case bv_bind V of
        Inl e \<Rightarrow> Some (Err (HeIo e), s)
      | Inr address \<Rightarrow>
          (let (uuid, w1) = new_uuid (bv_os V) (br_world s);
               p = proxy_start uuid inline_html allowed_loopback_origin;
               s1 = s\<lparr>br_world := w1, br_proxy := p\<rparr>;
               text = (case px_inline p of None \<Rightarrow> None | Some r \<Rightarrow> Some (''http://'' @ ir_authority r @ ''/''))
           in if is_some_and (\<lambda>t. x_url_parse (pe_lib (bv_proxy V)) t = None) text
              then Some (Err (HeInvalidProxyRequest (pe_url_error (bv_proxy V) (unwrap_or text []))), s1)
              else
                (case x_url_parse (pe_lib (bv_proxy V)) (''http://'' @ address) of
                   None \<Rightarrow> None
                 | Some u \<Rightarrow> Some (Ok u, s1))))"

definition proxy_target :: "browser_env \<Rightarrow> html_source \<Rightarrow> browser_run \<Rightarrow> ((html_render_error, url) result \<times> browser_run) option" where
  "proxy_target V source s =
     (case target_url (pe_lib (bv_proxy V)) (br_proxy s) source of
        None \<Rightarrow> None
      | Some (u, p) \<Rightarrow> Some (Ok u, s\<lparr>br_proxy := p\<rparr>))"

definition await_worker ::
  "browser_env \<Rightarrow> render_control \<Rightarrow> ((html_render_error, unit) result \<times> browser_run) option \<Rightarrow>
   ((html_render_error, unit) result \<times> browser_run) option" where
  "await_worker V c worker =
     (case bv_worker_panic V of
        Some error \<Rightarrow>
          (case worker of
             None \<Rightarrow> None
           | Some (_, s1) \<Rightarrow> Some (Err (HeNavigation (''browser worker stopped unexpectedly: '' @ error)), s1))
      | None \<Rightarrow>
          (case worker of
             None \<Rightarrow> None
           | Some (r, s1) \<Rightarrow>
               if bv_outer_timeout V then Some (Err (timeout_error c), control_cancel s1) else Some (r, s1)))"

definition browser_render ::
  "browser_env \<Rightarrow> browser_locator \<Rightarrow> html_render_request \<Rightarrow> browser_run \<Rightarrow>
   ((html_render_error, html_render_result) result \<times> browser_run) option" where
  "browser_render V l rq s =
     (case instant_now V s of (t, s0) \<Rightarrow>
        let deadline = unwrap_or (instant_checked_add t (ms RENDER_TIMEOUT_MS)) t;
            c = \<lparr>rc_deadline = deadline, rc_timeout_ms = word_of_nat RENDER_TIMEOUT_MS,
                 rc_cdp_operation_timeout = MAX_CDP_OPERATION_TIMEOUT\<rparr>;
            inline_html = (case rq_source rq of SourceUrl _ \<Rightarrow> None | SourceInline html \<Rightarrow> Some html)
        in run_then (filtering_proxy_start V inline_html (rq_allowed_loopback_origin rq) s0) (\<lambda>proxy_url s1.
           run_then (proxy_target V (rq_source rq) s1) (\<lambda>target s2.
           run_then (Some (make_tempdir V s2)) (\<lambda>profile s3.
           let dq = \<lparr>dq_proxy_url = proxy_url, dq_target_url = target, dq_profile = profile,
                     dq_paper = rq_paper rq, dq_wait_ms = rq_wait_ms rq, dq_print_background = True,
                     dq_output_path = rq_output_path rq\<rparr>
           in run_then (Some (before_cdp_operations V c 1 s3)) (\<lambda>_ s4.
              run_then (Some (remaining V c s4)) (\<lambda>_ s5.
              run_then (await_worker V c (driver_render V l dq c s5)) (\<lambda>_ s6.
                (case tk_rejected (px_tracker (br_proxy s6)) of
                   Some resource \<Rightarrow> Some (Err (HeBlockedResource resource), s6)
                 | None \<Rightarrow>
                     run_then (Some (check_active V c s6)) (\<lambda>_ s7.
                       Some (Ok \<lparr>rr_renderer = ''chromium'', rr_output_path = rq_output_path rq\<rparr>, s7))))))))))"

end
