(* ===== verification/Browser_Props.thy ===== *)
theory Browser_Props
  imports Browser
begin

text \<open>
  Properties of the browser driver and the HTML renderer: the wait of a rendering ends, and a
  rendering that succeeds went through the filtering proxy, wrote the printed page and had no
  resource of the page refused.
\<close>

section \<open>Time\<close>

lemma instant_now_simps [simp]:
  "fst (instant_now V s) = br_now s + bv_step V (br_calls s)"
  "br_now (snd (instant_now V s)) = br_now s + bv_step V (br_calls s)"
  by (simp_all add: instant_now_def Let_def)

lemma check_active_now: "br_now s \<le> br_now (snd (check_active V c s))"
  by (auto simp: check_active_def instant_now_def control_cancel_def Let_def)

lemma check_active_ok:
  "check_active V c s = (Inr u, s') \<Longrightarrow> br_now s' < rc_deadline c \<and> br_now s \<le> br_now s'"
  by (auto simp: check_active_def instant_now_def control_cancel_def Let_def split: if_splits)

lemma check_active_err: "check_active V c s = (Inl e, s') \<Longrightarrow> e = timeout_error c \<and> br_cancelled s'"
  by (auto simp: check_active_def instant_now_def control_cancel_def Let_def split: if_splits)

lemma remaining_ok:
  "remaining V c s = (Inr r, s') \<Longrightarrow> 0 < r \<and> r = rc_deadline c - br_now s' \<and> br_now s \<le> br_now s'"
  by (auto simp: remaining_def instant_now_def Let_def split: prod.splits sum.splits if_splits
      dest!: check_active_ok)

lemma remaining_err: "remaining V c s = (Inl e, s') \<Longrightarrow> e = timeout_error c \<and> br_cancelled s'"
  by (auto simp: remaining_def instant_now_def control_cancel_def Let_def
      split: prod.splits sum.splits if_splits dest: check_active_err)

text \<open>One turn of the loop of \<open>wait\<close> ends it or lets time pass.\<close>

lemma wait_loop_returns:
  "\<exists>r s'. wait_loop V c wd s = Some (r, s')
     \<and> (r = Inl (timeout_error c) \<and> br_cancelled s' \<or> r = Inr () \<and> wd \<le> br_now s')"
proof (induction "wd - br_now s" arbitrary: s rule: less_induct)
  case less
  obtain r1 s1 where ca: "check_active V c s = (r1, s1)" by fastforce
  show ?case
  proof (cases r1)
    case (Inl e)
    with ca show ?thesis by (subst wait_loop.simps) (auto dest: check_active_err)
  next
    case (Inr u)
    with ca check_active_ok have n1: "br_now s \<le> br_now s1" by blast
    obtain t s2 where now: "instant_now V s1 = (t, s2)" by fastforce
    then have t: "br_now s1 \<le> t" "br_now s2 = t"
      using instant_now_simps [of V s1] by auto
    show ?thesis
    proof (cases "wd \<le> t")
      case True
      with ca Inr now t show ?thesis by (subst wait_loop.simps) simp
    next
      case False
      obtain r3 s3 where rem: "remaining V c s2 = (r3, s3)" by fastforce
      show ?thesis
      proof (cases r3)
        case e: (Inl e)
        with ca Inr now False rem show ?thesis
          by (subst wait_loop.simps) (auto dest: remaining_err)
      next
        case r: (Inr r)
        let ?s4 = "thread_sleep V (min (min r (wd - t)) WAIT_POLL_INTERVAL) s3"
        from rem r remaining_ok have "0 < r" "br_now s2 \<le> br_now s3" by blast+
        with False t n1 have "wd - br_now ?s4 < wd - br_now s"
          by (auto simp: thread_sleep_def WAIT_POLL_INTERVAL_def ms_def)
        from less [OF this] ca Inr now False rem r show ?thesis
          by (subst wait_loop.simps) simp
      qed
    qed
  qed
qed

text \<open>With an idle machine and no cancellation the wait ends when it is due.\<close>

lemma wait_loop_exact:
  assumes idle: "\<And>k. bv_step V k = 0" "\<And>k. \<not> bv_cancel V k"
  shows "\<not> br_cancelled s \<Longrightarrow> wd < rc_deadline c \<Longrightarrow> br_now s \<le> wd \<Longrightarrow>
    \<exists>s'. wait_loop V c wd s = Some (Inr (), s') \<and> br_now s' = wd"
proof (induction "wd - br_now s" arbitrary: s rule: less_induct)
  case less
  let ?s1 = "s\<lparr>br_calls := Suc (br_calls s)\<rparr>"
  have now: "instant_now V x = (br_now x, x\<lparr>br_calls := Suc (br_calls x)\<rparr>)" for x
    by (simp add: instant_now_def idle)
  have ca: "check_active V c x = (Inr (), x\<lparr>br_calls := Suc (br_calls x)\<rparr>)"
    if "br_now x = br_now s" "br_cancelled x = br_cancelled s" for x
    using less.prems that idle by (simp add: check_active_def now)
  show ?case
  proof (cases "br_now s = wd")
    case True
    then show ?thesis by (subst wait_loop.simps) (simp add: ca now)
  next
    case False
    let ?r = "rc_deadline c - br_now s"
    let ?d = "min (min ?r (wd - br_now s)) WAIT_POLL_INTERVAL"
    obtain s3 where rem: "remaining V c (?s1\<lparr>br_calls := Suc (br_calls ?s1)\<rparr>) = (Inr ?r, s3)"
      and s3: "br_now s3 = br_now s" "br_cancelled s3 = br_cancelled s"
      using less.prems by (simp add: remaining_def ca now)
    have d: "0 < ?d" "?d \<le> wd - br_now s"
      using False less.prems by (auto simp: WAIT_POLL_INTERVAL_def ms_def)
    have n: "br_now (thread_sleep V ?d s3) = br_now s + ?d" "br_cancelled (thread_sleep V ?d s3) = br_cancelled s"
      using s3 idle by (simp_all add: thread_sleep_def)
    have "\<exists>s'. wait_loop V c wd (thread_sleep V ?d s3) = Some (Inr (), s') \<and> br_now s' = wd"
      using less.prems d n by (intro less.hyps) auto
    then show ?thesis
      using False less.prems rem by (subst wait_loop.simps) (simp add: ca now)
  qed
qed

text \<open>
  C25. The wait of a rendering always returns: with the timeout error of the rendering, which is
  then cancelled, or successfully, at least the asked time later (or at the deadline, when the
  asked time is not representable). On an idle machine, without cancellation and with the asked
  time within the deadline, it succeeds exactly when it is due.
\<close>

theorem wait_terminates:
  "\<exists>r s'. control_wait V c d s = Some (r, s')
     \<and> (r = Inl (timeout_error c) \<and> br_cancelled s'
        \<or> r = Inr () \<and> min (br_now s + d) (rc_deadline c) \<le> br_now s')
     \<and> ((\<forall>k. bv_step V k = 0 \<and> \<not> bv_cancel V k) \<longrightarrow> \<not> br_cancelled s \<longrightarrow>
         br_now s + d < rc_deadline c \<longrightarrow> (br_now s + d) div 1000000000 < 2 ^ 63 \<longrightarrow>
         r = Inr () \<and> br_now s' = br_now s + d)"
proof -
  obtain t s1 where now: "instant_now V s = (t, s1)" by fastforce
  then have t: "br_now s \<le> t" "br_now s1 = t" using instant_now_simps [of V s] by auto
  let ?wd = "unwrap_or (instant_checked_add t d) (rc_deadline c)"
  have wd: "min (br_now s + d) (rc_deadline c) \<le> ?wd"
    using t by (auto simp: instant_checked_add_def unwrap_or_def)
  obtain r s' where w: "wait_loop V c ?wd s1 = Some (r, s')"
    and r: "r = Inl (timeout_error c) \<and> br_cancelled s' \<or> r = Inr () \<and> ?wd \<le> br_now s'"
    using wait_loop_returns by blast
  have cw: "control_wait V c d s = Some (r, s')" using now w by (simp add: control_wait_def)
  have "r = Inr () \<and> br_now s' = br_now s + d"
    if "\<forall>k. bv_step V k = 0 \<and> \<not> bv_cancel V k" "\<not> br_cancelled s" "br_now s + d < rc_deadline c"
      "(br_now s + d) div 1000000000 < 2 ^ 63"
  proof -
    from now that have s1: "t = br_now s" "\<not> br_cancelled s1" by (auto simp: instant_now_def)
    with that have "?wd = br_now s + d" by (simp add: instant_checked_add_def unwrap_or_def)
    with wait_loop_exact [of V s1 ?wd c] that s1 t w show ?thesis by auto
  qed
  with cw r wd show ?thesis by auto
qed

section \<open>What a step leaves alone\<close>

definition quiet :: "browser_run \<Rightarrow> browser_run \<Rightarrow> bool" where
  "quiet s s' \<longleftrightarrow> br_proxy s' = br_proxy s \<and> br_world s' = br_world s \<and> br_launched s' = br_launched s"

lemma quiet_refl [simp]: "quiet s s"
  by (simp add: quiet_def)

lemma quiet_trans: "quiet s s1 \<Longrightarrow> quiet s1 s2 \<Longrightarrow> quiet s s2"
  by (simp add: quiet_def)

lemma quiet_instant_now: "instant_now V s = (t, s') \<Longrightarrow> quiet s s'"
  by (auto simp: instant_now_def Let_def quiet_def)

lemma quiet_check_active: "check_active V c s = (r, s') \<Longrightarrow> quiet s s'"
  by (auto simp: check_active_def instant_now_def Let_def quiet_def control_cancel_def split: if_splits)

lemma quiet_remaining: "remaining V c s = (r, s') \<Longrightarrow> quiet s s'"
  by (auto simp: remaining_def instant_now_def Let_def quiet_def control_cancel_def
      split: prod.splits sum.splits if_splits dest!: quiet_check_active)

lemma quiet_before_cdp: "before_cdp_operations V c n s = (r, s') \<Longrightarrow> quiet s s'"
  by (auto simp: before_cdp_operations_def quiet_def control_cancel_def
      split: prod.splits sum.splits if_splits dest!: quiet_remaining)

lemma quiet_sleep [simp]: "quiet s (thread_sleep V d s')  \<longleftrightarrow> quiet s s'"
  by (simp add: thread_sleep_def quiet_def)

lemma quiet_chrome_call: "chrome_call f g s = Some (r, s') \<Longrightarrow> quiet s s'"
  by (auto simp: chrome_call_def quiet_def)

lemma quiet_make_tempdir: "make_tempdir V s = (r, s') \<Longrightarrow> quiet s s'"
  by (auto simp: make_tempdir_def quiet_def)

lemma quiet_wait_loop: "wait_loop V c wd s = Some rs \<Longrightarrow> quiet s (snd rs)"
proof (erule wait_loop.raw_induct [where P = "\<lambda>V c wd s rs. quiet s (snd rs)", rotated])
  fix loop V c wd s rs
  assume hyp: "\<And>V c wd s rs. loop V c wd s = Some rs \<Longrightarrow> quiet s (snd rs)"
    and run: "(case check_active V c s of
        (Inl e, s1) \<Rightarrow> Some (Inl e, s1)
      | (Inr _, s1) \<Rightarrow>
          (case instant_now V s1 of (t, s2) \<Rightarrow>
             if wd \<le> t then Some (Inr (), s2)
             else
               (case remaining V c s2 of
                  (Inl e, s3) \<Rightarrow> Some (Inl e, s3)
                | (Inr r, s3) \<Rightarrow>
                    loop V c wd (thread_sleep V (min (min r (wd - t)) WAIT_POLL_INTERVAL) s3)))) = Some rs"
  obtain r1 s1 where ca: "check_active V c s = (r1, s1)" by fastforce
  obtain t s2 where now: "instant_now V s1 = (t, s2)" by fastforce
  obtain r3 s3 where rem: "remaining V c s2 = (r3, s3)" by fastforce
  note q = quiet_check_active [OF ca] quiet_instant_now [OF now] quiet_remaining [OF rem]
  from q have q13: "quiet s s1" "quiet s s2" "quiet s s3" by (blast intro: quiet_trans)+
  show "quiet s (snd rs)"
  proof (cases "\<exists>e. r1 = Inl e \<or> wd \<le> t \<or> r3 = Inl e")
    case True
    with run ca now rem have "snd rs \<in> {s1, s2, s3}"
      by (cases r1; cases r3; cases "wd \<le> t") auto
    with q13 show ?thesis by auto
  next
    case False
    then obtain u r where "r1 = Inr u" "r3 = Inr r" "\<not> wd \<le> t" by (metis sum.exhaust)
    with run ca now rem
    have "loop V c wd (thread_sleep V (min (min r (wd - t)) WAIT_POLL_INTERVAL) s3) = Some rs" by simp
    from hyp [OF this] have "quiet s3 (snd rs)" by (simp add: quiet_def thread_sleep_def)
    with q13 show ?thesis by (blast intro: quiet_trans)
  qed
qed

lemma quiet_wait: "control_wait V c d s = Some (r, s') \<Longrightarrow> quiet s s'"
  by (auto simp: control_wait_def split: prod.splits dest!: quiet_wait_loop quiet_instant_now
      intro: quiet_trans)

lemma quiet_acquire_loop: "quiet s (snd (acquire_loop V dl tm b s))"
proof (induction V dl tm b s rule: acquire_loop.induct)
  case (1 V dl tm b s)
  obtain t s1 where now: "instant_now V s = (t, s1)" by fastforce
  let ?w = "bv_gate_wake V (br_calls s1)"
  let ?s2 = "thread_sleep V (Suc (wk_elapsed ?w)) s1"
  have q: "quiet s s1" "quiet s ?s2" using quiet_instant_now [OF now] by simp_all
  show ?case
  proof (cases "b \<and> dl - t \<noteq> 0 \<and> \<not> (wk_timed_out ?w \<and> wk_in_progress ?w)")
    case True
    with 1 now have "quiet ?s2 (snd (acquire_loop V dl tm (wk_in_progress ?w) ?s2))" by auto
    with q have "quiet s (snd (acquire_loop V dl tm (wk_in_progress ?w) ?s2))" by (blast intro: quiet_trans)
    with True now show ?thesis by (subst acquire_loop.simps) (auto simp: Let_def)
  next
    case False
    with now q show ?thesis by (subst acquire_loop.simps) (auto simp: Let_def)
  qed
qed

section \<open>Sequencing\<close>

lemma run_then_ok_iff:
  "run_then m f = Some (Inr y, s') \<longleftrightarrow> (\<exists>x s1. m = Some (Inr x, s1) \<and> f x s1 = Some (Inr y, s'))"
  by (cases m; cases "fst (the m)") (auto simp: run_then_def split: prod.splits sum.splits)

section \<open>Which browsers are launched\<close>

text \<open>A browser as the driver may start it: headless, in the sandbox, checking certificates, and with
  every connection, loopback included, through the given proxy.\<close>

definition confined :: "string option \<Rightarrow> launch_options \<Rightarrow> bool" where
  "confined proxy_server op \<longleftrightarrow>
     lp_proxy_server op = proxy_server \<and> FORCE_LOOPBACK_THROUGH_PROXY \<in> set (lp_args op)
     \<and> lp_sandbox op \<and> lp_headless op \<and> \<not> lp_ignore_certificate_errors op"

definition launches :: "string option \<Rightarrow> browser_run \<Rightarrow> browser_run \<Rightarrow> bool" where
  "launches proxy_server s s' \<longleftrightarrow>
     br_proxy s' = br_proxy s \<and> br_world s' = br_world s
     \<and> (\<exists>new. br_launched s' = br_launched s @ new \<and> list_all (confined proxy_server) new)"

lemma quiet_launches: "quiet s s' \<Longrightarrow> launches ps s s'"
  by (simp add: quiet_def launches_def)

lemma launches_trans: "launches ps s s1 \<Longrightarrow> launches ps s1 s2 \<Longrightarrow> launches ps s s2"
  by (auto simp: launches_def)

lemma launch_with_timeout_launches:
  assumes "launch_with_timeout V timeout tm op s = (r, s')" and "confined ps op"
  shows "launches ps s s'"
proof -
  obtain t s1 where now: "instant_now V s = (t, s1)" by fastforce
  let ?dl = "unwrap_or (instant_checked_add t timeout) t"
  obtain ra s2 where acq: "launch_guard_acquire V ?dl tm s1 = (ra, s2)" by fastforce
  then have q2: "quiet s s2"
    using quiet_instant_now [OF now] quiet_acquire_loop [of s1 V ?dl tm "bv_gate_busy V (br_calls s1)"]
    by (auto simp: launch_guard_acquire_def intro: quiet_trans)
  obtain t2 s3 where now2: "instant_now V s2 = (t2, s3)" by fastforce
  have q3: "quiet s s3" using quiet_instant_now [OF now2] q2 by (blast intro: quiet_trans)
  from assms(1) now acq now2 have "s' = s2 \<or> s' = s3 \<or> s' = s3\<lparr>br_calls := Suc (br_calls s3)\<rparr>
      \<or> s' = s3\<lparr>br_calls := Suc (br_calls s3), br_launched := br_launched s3 @ [op]\<rparr>"
    by (auto simp: launch_with_timeout_def Let_def split: sum.splits if_splits launch_event.splits)
  with q2 q3 assms(2) show ?thesis
    by (auto simp: quiet_def launches_def)
qed

lemma launch_first_available_launches:
  assumes "\<And>x s r s'. launch x s = (r, s') \<Longrightarrow> launches ps s s'"
  shows "launch_first_available launch failures cs s = (r, s') \<Longrightarrow> launches ps s s'"
proof (induction cs arbitrary: failures s)
  case Nil
  then show ?case by (simp add: quiet_launches)
next
  case (Cons x cs)
  obtain r1 s1 where l: "launch x s = (r1, s1)" by fastforce
  note q = assms [OF l]
  show ?case
  proof (cases "\<exists>e. r1 = Inl (LaFailed e)")
    case True
    with Cons.prems l Cons.IH q show ?thesis by (auto intro: launches_trans)
  next
    case False
    with Cons.prems l q show ?thesis by (auto split: sum.splits launch_attempt_error.splits)
  qed
qed

lemma launch_headless_browser_launches:
  assumes "launch_headless_browser V l profile ps tmo s = (r, s')"
    and "\<And>s r s'. tmo s = (r, s') \<Longrightarrow> quiet s s'"
  shows "launches ps s s'"
proof (cases "available l")
  case (Inl e)
  with assms(1) show ?thesis by (simp add: launch_headless_browser_def quiet_launches)
next
  case (Inr cs)
  have step: "launches ps s s'"
    if "(case tmo s of
          (Inl e, s2) \<Rightarrow> (Inl (LaAbort e), s2)
        | (Inr (timeout, timeout_ms), s2) \<Rightarrow>
            launch_with_timeout V timeout timeout_ms (browser_options profile ps timeout x) s2) = (r, s')"
    for x s r s'
  proof -
    obtain r2 s2 where t: "tmo s = (r2, s2)" by fastforce
    have q: "launches ps s s2" by (rule quiet_launches [OF assms(2) [OF t]])
    have "confined ps (browser_options profile ps timeout x)" for timeout
      by (simp add: confined_def browser_options_def)
    with that t q show ?thesis
      by (auto split: sum.splits dest!: launch_with_timeout_launches intro: launches_trans)
  qed
  from assms(1) Inr show ?thesis
    unfolding launch_headless_browser_def
    using launch_first_available_launches [OF step, where failures = "[]"] by simp
qed

lemma check_browser_launch_world:
  "check_browser_launch V l s = (r, s') \<Longrightarrow> br_world s' = br_world s"
proof -
  assume ch: "check_browser_launch V l s = (r, s')"
  obtain rp s1 where t: "make_tempdir V s = (rp, s1)" by fastforce
  obtain t2 s2 where now: "instant_now V s1 = (t2, s2)" by fastforce
  have q: "quiet s s1" "quiet s s2"
    using quiet_make_tempdir [OF t] quiet_instant_now [OF now] by (blast intro: quiet_trans)+
  show ?thesis
  proof (cases rp)
    case (Inl e)
    with ch t q show ?thesis by (simp add: check_browser_launch_def quiet_def)
  next
    case (Inr profile)
    with ch t now have "launch_headless_browser V l profile None (\<lambda>s3.
               (case instant_now V s3 of (t3, s4) \<Rightarrow>
                  if t2 + ms RENDER_TIMEOUT_MS - t3 = 0 then (Inl (HeTimeout (word_of_nat RENDER_TIMEOUT_MS)), s4)
                  else (Inr (t2 + ms RENDER_TIMEOUT_MS - t3, word_of_nat RENDER_TIMEOUT_MS), s4))) s2 = (r, s')"
      by (simp add: check_browser_launch_def Let_def)
    then have "launches None s2 s'"
      by (rule launch_headless_browser_launches) (auto split: prod.splits if_splits dest: quiet_instant_now)
    with q show ?thesis by (simp add: launches_def quiet_def)
  qed
qed

section \<open>A rendering that succeeds\<close>

text \<open>A request of the page that the policy refused, among those the proxy handled.\<close>

fun page_blocked :: "proxy_env \<Rightarrow> proxy_state \<Rightarrow> nat \<Rightarrow> proxy_request list \<Rightarrow> bool" where
  "page_blocked V p k [] = False"
| "page_blocked V p k (r # rs) =
     (belongs_to_page (pe_lib V) (px_tracker p) r \<and> fst (handle V p k r) = StatusForbidden
      \<or> page_blocked V (snd (snd (handle V p k r))) (Suc k) rs)"

definition handle_out :: "proxy_env \<Rightarrow> proxy_state \<Rightarrow> nat \<Rightarrow> proxy_request \<Rightarrow> proxy_outcome" where
  "handle_out V p k r =
     (if pr_is_connect r then handle_connect V p k r
      else if is_inline_request p r then
        (case px_inline p of
           Some route \<Rightarrow> (Ok (InlinePage (ir_body route)), [])
         | None \<Rightarrow> (Err (invalid_request ''route checked''), []))
      else if is_inline_favicon_request p r then (Ok NoContent, [])
      else handle_http V p k r)"

lemma handle_alt:
  "handle V p k r = (case fst (handle_out V p k r) of
        Inr resp \<Rightarrow> (resp, snd (handle_out V p k r), p)
      | Inl e \<Rightarrow> (error_response e, snd (handle_out V p k r),
          p\<lparr>px_tracker := record_rejected_resource (px_tracker p) e (belongs_to_page (pe_lib V) (px_tracker p) r)\<rparr>))"
  by (simp only: handle_def Let_def handle_out_def case_prod_beta)

lemma record_rejected_keeps:
  "tk_rejected t \<noteq> None \<Longrightarrow> tk_rejected (record_rejected_resource t e b) \<noteq> None"
  by (auto simp: record_rejected_resource_def record_rejected_def opt_or_def split: html_render_error.splits)

lemma record_rejected_page_url: "tk_page_url (record_rejected_resource t e b) = tk_page_url t"
  by (simp add: record_rejected_resource_def record_rejected_def split: html_render_error.splits)

lemma handle_keeps_rejected:
  assumes "tk_rejected (px_tracker p) \<noteq> None"
  shows "tk_rejected (px_tracker (snd (snd (handle V p k r)))) \<noteq> None"
  using assms record_rejected_keeps [OF assms] by (cases "fst (handle_out V p k r)") (simp_all add: handle_alt)

lemma handle_page_url: "tk_page_url (px_tracker (snd (snd (handle V p k r)))) = tk_page_url (px_tracker p)"
  by (cases "fst (handle_out V p k r)") (simp_all add: handle_alt record_rejected_page_url)

lemma snd_handle_all_Cons:
  "snd (handle_all V p k (r # rs)) = snd (handle_all V (snd (snd (handle V p k r))) (Suc k) rs)"
  by (simp split: prod.splits)

lemma handle_all_keeps_rejected:
  "tk_rejected (px_tracker p) \<noteq> None \<Longrightarrow> tk_rejected (px_tracker (snd (handle_all V p k rs))) \<noteq> None"
proof (induction rs arbitrary: p k)
  case (Cons r rs)
  from Cons.IH [OF handle_keeps_rejected [OF Cons.prems]] show ?case
    unfolding snd_handle_all_Cons .
qed simp

lemma handle_connect_not_forbidden: "fst (handle_connect V p k r) \<noteq> Inr StatusForbidden"
  by (auto simp: handle_connect_def split: option.splits sum.splits if_splits)

lemma handle_http_not_forbidden: "fst (handle_http V p k r) \<noteq> Inr StatusForbidden"
  by (auto simp: handle_http_def split: option.splits sum.splits if_splits)

lemma forbidden_is_recorded:
  assumes "fst (handle V p k r) = StatusForbidden" and "belongs_to_page (pe_lib V) (px_tracker p) r"
  shows "tk_rejected (px_tracker (snd (snd (handle V p k r)))) \<noteq> None"
proof -
  have "fst (handle_out V p k r) \<noteq> Inr StatusForbidden"
    using handle_connect_not_forbidden [of V p k r] handle_http_not_forbidden [of V p k r]
    by (simp add: handle_out_def split: option.splits)
  with assms obtain e where e: "fst (handle_out V p k r) = Inl e" "error_response e = StatusForbidden"
    by (cases "fst (handle_out V p k r)") (simp_all add: handle_alt)
  then obtain res where "e = HeBlockedResource res"
    by (cases e) (simp_all add: error_response_def)
  with e assms(2) show ?thesis
    by (simp add: handle_alt record_rejected_resource_def record_rejected_def opt_or_def split: option.splits)
qed

lemma page_blocked_rejected:
  "page_blocked V p k rs \<Longrightarrow> tk_rejected (px_tracker (snd (handle_all V p k rs))) \<noteq> None"
proof (induction rs arbitrary: p k)
  case (Cons r rs)
  show ?case
  proof (cases "belongs_to_page (pe_lib V) (px_tracker p) r \<and> fst (handle V p k r) = StatusForbidden")
    case True
    then have "tk_rejected (px_tracker (snd (snd (handle V p k r)))) \<noteq> None"
      using forbidden_is_recorded by blast
    from handle_all_keeps_rejected [OF this] show ?thesis unfolding snd_handle_all_Cons .
  next
    case False
    with Cons.prems have "page_blocked V (snd (snd (handle V p k r))) (Suc k) rs" by auto
    from Cons.IH [OF this] show ?thesis unfolding snd_handle_all_Cons .
  qed
qed simp

lemma quiet_fields:
  assumes "quiet s s'"
  shows "br_proxy s' = br_proxy s" "br_world s' = br_world s" "br_launched s' = br_launched s"
  using assms by (simp_all add: quiet_def)

lemma handle_all_page_url: "tk_page_url (px_tracker (snd (handle_all V p k rs))) = tk_page_url (px_tracker p)"
proof (induction rs arbitrary: p k)
  case (Cons r rs)
  have "tk_page_url (px_tracker (snd (handle_all V (snd (snd (handle V p k r))) (Suc k) rs))) =
      tk_page_url (px_tracker (snd (snd (handle V p k r))))" by (rule Cons.IH)
  then show ?case unfolding snd_handle_all_Cons handle_page_url .
qed simp

lemma write_pdf_ok:
  "write_pdf V path pdf s = Some (Inr u, s') \<Longrightarrow>
     w_files (br_world s') path = Some pdf \<and> br_proxy s' = br_proxy s \<and> br_launched s' = br_launched s"
  by (auto simp: write_pdf_def split: prod.splits dest!: fs_write_ok)

lemma chrome_call_ok:
  "chrome_call f g s = Some (Inr x, s') \<Longrightarrow> g (br_calls s) = Inr x"
  by (auto simp: chrome_call_def)

lemma driver_render_ok:
  assumes "driver_render V l rq c s = Some (Inr u, s')"
  shows "\<exists>ps pdf k p k'. chrome_proxy_server (dq_proxy_url rq) = Some ps
    \<and> (\<exists>new. br_launched s' = br_launched s @ new \<and> list_all (confined (Some ps)) new)
    \<and> bv_print V k (pdf_options rq) = Inr pdf \<and> w_files (br_world s') (dq_output_path rq) = Some pdf
    \<and> tk_rejected (px_tracker p) = None \<and> tk_page_url (px_tracker p) = tk_page_url (px_tracker (br_proxy s))
    \<and> br_proxy s' = snd (handle_all (bv_proxy V) p k' (bv_page_requests V))"
proof -
  let ?tmo = "\<lambda>s0. case remaining V c s0 of (Inl e, s1) \<Rightarrow> (Inl e, s1)
                   | (Inr r, s1) \<Rightarrow> (Inr (r, rc_timeout_ms c), s1)"
  from assms obtain ps b s1 x2 s2 x3 s3 x4 s4 x5 s5 x6 s6 x7 s7 x8 s8 x9 s9 x10 s10 pdf s11 x12 s12 where
    ps: "chrome_proxy_server (dq_proxy_url rq) = Some ps"
    and l1: "launch_headless_browser V l (dq_profile rq) (Some ps) ?tmo s = (Inr b, s1)"
    and q: "before_cdp_operations V c 1 s1 = (Inr x2, s2)" "remaining V c s2 = (Inr x3, s3)"
      "chrome_call HeNavigation (bv_new_tab V) s3 = Some (Inr x4, s4)"
    and q5: "before_cdp_operations V c 2 (serve_requests V (bv_early_requests V) s4) = (Inr x5, s5)"
    and q6: "chrome_call HeNavigation (\<lambda>k. bv_navigate V k (url_as_str (dq_target_url rq))) (clear_rejected s5) =
        Some (Inr x6, s6)"
    and q11: "remaining V c s6 = (Inr x7, s7)" "chrome_call HeNavigation (bv_navigated V) s7 = Some (Inr x8, s8)"
      "control_wait V c (ms (unat (dq_wait_ms rq))) s8 = Some (Inr x9, s9)"
      "before_cdp_operations V c 2 s9 = (Inr x10, s10)"
      "chrome_call HePdfExport (\<lambda>k. bv_print V k (pdf_options rq)) s10 = Some (Inr pdf, s11)"
    and q12: "check_active V c (serve_requests V (bv_page_requests V) s11) = (Inr x12, s12)"
    and wr: "write_pdf V (dq_output_path rq) pdf s12 = Some (Inr u, s')"
    by (auto simp: driver_render_def run_then_ok_iff split: option.splits)
  have "quiet s0 s0'" if "?tmo s0 = (r, s0')" for s0 r s0'
    using that quiet_remaining [of V c s0] by (auto split: prod.splits sum.splits)
  from launch_headless_browser_launches [OF l1 this]
  have L: "launches (Some ps) s s1" .
  have Q4: "quiet s1 s4" 
    using quiet_before_cdp [OF q(1)] quiet_remaining [OF q(2)] quiet_chrome_call [OF q(3)] by (simp add: quiet_def)
  have Q5: "quiet (serve_requests V (bv_early_requests V) s4) s5" by (rule quiet_before_cdp [OF q5])
  have Q6: "quiet (clear_rejected s5) s6" by (rule quiet_chrome_call [OF q6])
  have Q11: "quiet s6 s11"
    using quiet_remaining [OF q11(1)] quiet_chrome_call [OF q11(2)] quiet_wait [OF q11(3)]
      quiet_before_cdp [OF q11(4)] quiet_chrome_call [OF q11(5)] by (simp add: quiet_def)
  have Q12: "quiet (serve_requests V (bv_page_requests V) s11) s12" by (rule quiet_check_active [OF q12])
  define p where "p = br_proxy s11"
  have p: "p = (br_proxy s5)\<lparr>px_tracker := tracker_clear (px_tracker (br_proxy s5))\<rparr>"
    using quiet_fields(1) [OF Q11] quiet_fields(1) [OF Q6] by (simp add: p_def clear_rejected_def)
  have url: "tk_page_url (px_tracker (br_proxy s5)) = tk_page_url (px_tracker (br_proxy s))"
    using quiet_fields(1) [OF Q5] quiet_fields(1) [OF Q4] L
    by (simp add: serve_requests_def handle_all_page_url launches_def)
  have "br_launched s' = br_launched s1"
    using write_pdf_ok [OF wr] quiet_fields(3) [OF Q4] quiet_fields(3) [OF Q5] quiet_fields(3) [OF Q6]
      quiet_fields(3) [OF Q11] quiet_fields(3) [OF Q12]
    by (simp add: serve_requests_def clear_rejected_def)
  moreover have "br_proxy s' = snd (handle_all (bv_proxy V) p (br_calls s11) (bv_page_requests V))"
    using write_pdf_ok [OF wr] quiet_fields(1) [OF Q12] by (simp add: serve_requests_def p_def)
  moreover have "bv_print V (br_calls s10) (pdf_options rq) = Inr pdf" by (rule chrome_call_ok [OF q11(5)])
  ultimately show ?thesis
    using ps L p url write_pdf_ok [OF wr]
    by (intro exI [of _ ps] exI [of _ pdf] exI [of _ "br_calls s10"] exI [of _ p] exI [of _ "br_calls s11"])
      (auto simp: launches_def tracker_clear_def)
qed

lemma await_worker_ok: "await_worker V c m = Some (Inr u, s) \<Longrightarrow> m = Some (Inr u, s)"
  by (auto simp: await_worker_def split: option.splits prod.splits if_splits)


section \<open>A rendering on an idle machine\<close>

definition example_page :: url where
  "example_page =
     \<lparr>url_as_str = ''http://127.0.0.1:9'', url_scheme = ''http'', url_host_str = Some ''127.0.0.1'',
      url_port = Some 9, url_port_or_known_default = Some 9, url_path = ''/'', url_query = None,
      url_origin = OpaqueOrigin, url_origin_ascii = []\<rparr>"

definition idle_browser :: browser_env where
  "idle_browser =
     \<lparr>bv_step = (\<lambda>_. 0), bv_cancel = (\<lambda>_. False), bv_os = example_env,
      bv_proxy = quiet_env\<lparr>pe_lib := (pe_lib quiet_env)\<lparr>x_url_parse := (\<lambda>_. Some example_page)\<rparr>\<rparr>,
      bv_bind = Ok ''127.0.0.1:9'', bv_tempdir = (\<lambda>_. Ok ''/tmp/p''), bv_gate_busy = (\<lambda>_. False),
      bv_gate_wake = (\<lambda>_. \<lparr>wk_elapsed = 0, wk_timed_out = False, wk_in_progress = False\<rparr>),
      bv_launch = (\<lambda>_ _. LeBrowser), bv_new_tab = (\<lambda>_. Ok ()), bv_navigate = (\<lambda>_ _. Ok ()),
      bv_navigated = (\<lambda>_. Ok ()), bv_print = (\<lambda>_ _. Ok [0x25, 0x50, 0x44, 0x46]), bv_early_requests = [], bv_page_requests = [],
      bv_outer_timeout = False, bv_worker_panic = None\<rparr>"

definition example_locator :: browser_locator where
  "example_locator = \<lparr>bl_os = OsLinux, bl_vars = (\<lambda>_. None),
     bl_probe = \<lparr>bp_is_file = (\<lambda>_. True), bp_find_in_path = (\<lambda>c. Some (''/usr/bin/'' @ c)),
                 bp_has_version = (\<lambda>_. True)\<rparr>\<rparr>"

definition idle_run :: browser_run where
  "idle_run = \<lparr>br_now = 0, br_calls = 0, br_cancelled = False, br_world = example_world,
     br_proxy = proxy_start [] None None, br_launched = []\<rparr>"

definition example_render :: html_render_request where
  "example_render = \<lparr>rq_source = SourceUrl example_page, rq_allowed_loopback_origin = None,
     rq_paper = \<lparr>ep_width_mm = Fin 210, ep_height_mm = Fin 297\<rparr>, rq_wait_ms = 0, rq_output_path = ''/tmp/o.pdf''\<rparr>"

lemma idle_now [simp]: "instant_now idle_browser x = (br_now x, x\<lparr>br_calls := Suc (br_calls x)\<rparr>)"
  by (simp add: instant_now_def idle_browser_def)

lemma idle_check [simp]:
  "\<not> br_cancelled x \<Longrightarrow> br_now x < rc_deadline c \<Longrightarrow>
     check_active idle_browser c x = (Inr (), x\<lparr>br_calls := Suc (br_calls x)\<rparr>)"
  by (simp add: check_active_def) (simp add: idle_browser_def)

lemma idle_remaining [simp]:
  "\<not> br_cancelled x \<Longrightarrow> br_now x < rc_deadline c \<Longrightarrow>
     remaining idle_browser c x = (Inr (rc_deadline c - br_now x), x\<lparr>br_calls := Suc (Suc (br_calls x))\<rparr>)"
  by (simp add: remaining_def)

lemma idle_wait [simp]:
  "\<not> br_cancelled x \<Longrightarrow> br_now x < rc_deadline c \<Longrightarrow> br_now x = wd \<Longrightarrow>
     wait_loop idle_browser c wd x = Some (Inr (), x\<lparr>br_calls := Suc (Suc (br_calls x))\<rparr>)"
  by (subst wait_loop.simps) simp

theorem wait_terminates_witness:
  "\<exists>s'. control_wait idle_browser \<lparr>rc_deadline = ms 60000, rc_timeout_ms = 60000, rc_cdp_operation_timeout = ms 10000\<rparr>
      (ms 30) idle_run = Some (Inr (), s') \<and> br_now s' = ms 30"
proof -
  obtain r s' where *: "control_wait idle_browser
      \<lparr>rc_deadline = ms 60000, rc_timeout_ms = 60000, rc_cdp_operation_timeout = ms 10000\<rparr> (ms 30) idle_run = Some (r, s')"
    and **: "(\<forall>k. bv_step idle_browser k = 0 \<and> \<not> bv_cancel idle_browser k) \<longrightarrow> \<not> br_cancelled idle_run \<longrightarrow>
       br_now idle_run + ms 30 < ms 60000 \<longrightarrow> (br_now idle_run + ms 30) div 1000000000 < 2 ^ 63 \<longrightarrow>
       r = Inr () \<and> br_now s' = br_now idle_run + ms 30"
    using wait_terminates [of idle_browser "\<lparr>rc_deadline = ms 60000, rc_timeout_ms = 60000,
        rc_cdp_operation_timeout = ms 10000\<rparr>" "ms 30" idle_run] by auto
  from ** have "r = Inr () \<and> br_now s' = ms 30"
    by (simp add: idle_browser_def idle_run_def ms_def)
  with * show ?thesis by simp
qed

lemma idle_cdp [simp]:
  "\<not> br_cancelled x \<Longrightarrow> br_now x < rc_deadline c \<Longrightarrow> rc_cdp_operation_timeout c * n \<le> rc_deadline c - br_now x \<Longrightarrow>
     before_cdp_operations idle_browser c n x =
       (Inr (rc_cdp_operation_timeout c), x\<lparr>br_calls := Suc (Suc (br_calls x))\<rparr>)"
  by (simp add: before_cdp_operations_def)

lemma idle_launch [simp]:
  "0 < timeout \<Longrightarrow> instant_checked_add (br_now x) timeout = Some (br_now x + timeout) \<Longrightarrow>
     launch_with_timeout idle_browser timeout tm op x =
       (Inr (), x\<lparr>br_calls := Suc (Suc (Suc (br_calls x))), br_launched := br_launched x @ [op]\<rparr>)"
proof -
  have "bv_gate_busy idle_browser k = False" "bv_launch idle_browser k op = LeBrowser" for k
    by (simp_all add: idle_browser_def)
  moreover assume "0 < timeout" "instant_checked_add (br_now x) timeout = Some (br_now x + timeout)"
  ultimately show ?thesis
    by (simp add: launch_with_timeout_def launch_guard_acquire_def acquire_loop.simps run_then_def unwrap_or_def Let_def)
qed

lemma idle_driver:
  assumes s: "\<not> br_cancelled s" "br_now s = 0" and c: "rc_deadline c = ms 60000" "rc_cdp_operation_timeout c = ms 10000"
    and rq: "dq_proxy_url rq = example_page" "dq_wait_ms rq = 0"
  shows "\<exists>s'. driver_render idle_browser example_locator rq c s = Some (Inr (), s')
    \<and> br_now s' = 0 \<and> \<not> br_cancelled s' \<and> tk_rejected (px_tracker (br_proxy s')) = None"
proof -
  have e: "bv_new_tab idle_browser k = Inr ()" "bv_navigate idle_browser k t = Inr ()"
    "bv_navigated idle_browser k = Inr ()" "bv_print idle_browser k po = Inr [0x25, 0x50, 0x44, 0x46]"
    "bv_early_requests idle_browser = []" "bv_page_requests idle_browser = []" "bv_os idle_browser = example_env" for k t po
    by (simp_all add: idle_browser_def)
  have a: "available example_locator = Inr (map (\<lambda>(k, p). \<lparr>bx_kind = k, bx_path = p, bx_label = browser_label k\<rparr>)
      [(Chrome, ''/usr/bin/google-chrome-stable''), (Chrome, ''/usr/bin/google-chrome''),
       (Chromium, ''/usr/bin/chromium''), (Chromium, ''/usr/bin/chromium-browser'')])"
    by (simp add: available_def candidates_def linux_candidates_def example_locator_def candidate_available_def
        List.map_filter_simps Let_def)
  have p: "chrome_proxy_server example_page = Some ''http://127.0.0.1:9''"
    by code_simp
  have i: "instant_checked_add 0 (ms 60000) = Some (ms 60000)" "instant_checked_add 0 0 = Some 0"
    by (simp_all add: instant_checked_add_def ms_def)
  have w: "fs_write example_env x q b = (Inr (), tick (x\<lparr>w_files := (w_files x)(q \<mapsto> b)\<rparr>))" for x q b
    by (simp add: fs_write_def example_env_def)
  have m: "0 < ms 60000" "ms 10000 * 2 \<le> ms 60000" "ms 10000 \<le> ms 60000" "ms 0 = 0" by (simp_all add: ms_def)
  show ?thesis
    using s c rq
    by (simp add: driver_render_def p launch_headless_browser_def a e i m w run_then_def chrome_call_def serve_requests_def
        clear_rejected_def control_wait_def write_pdf_def tracker_clear_def unwrap_or_def)
qed


end
