(* ===== verification/Rust_Addr.thy ===== *)
theory Rust_Addr
  imports Rust_Net Rust_Text
begin

text \<open>
  The \<open>Display\<close> of \<open>IpAddr\<close> and \<open>SocketAddr\<close> in \<open>std::net\<close>: dotted decimals for IPv4; lower-case
  hexadecimal groups for IPv6 with the first longest run of at least two zero groups compressed, and
  brackets around it before a port.
\<close>

definition show_ipv4 :: "32 word \<Rightarrow> string" where
  "show_ipv4 a = join_with ''.'' (map (\<lambda>k. show_nat (unat (ucast (drop_bit k a) :: u8))) [24, 16, 8, 0])"

fun show_hex :: "nat \<Rightarrow> string" where
  "show_hex n = (if n < 16 then [hex_digit n] else show_hex (n div 16) @ [hex_digit (n mod 16)])"

declare show_hex.simps [simp del]

definition ipv6_segments :: "128 word \<Rightarrow> nat list" where
  "ipv6_segments a = map (\<lambda>k. unat (ucast (drop_bit k a) :: u16)) [112, 96, 80, 64, 48, 32, 16, 0]"

text \<open>Start and length of the first longest run of zeros.\<close>

fun zero_run :: "nat \<Rightarrow> nat \<times> nat \<Rightarrow> nat \<times> nat \<Rightarrow> nat list \<Rightarrow> nat \<times> nat" where
  "zero_run i longest current [] = longest"
| "zero_run i longest current (x # xs) =
     (if x = 0 then
        (let current' = (if snd current = 0 then i else fst current, snd current + 1)
         in zero_run (i + 1) (if snd current' > snd longest then current' else longest) current' xs)
      else zero_run (i + 1) longest (0, 0) xs)"

definition show_ipv6 :: "128 word \<Rightarrow> string" where
  "show_ipv6 a =
     (let segs = ipv6_segments a;
          (start, len) = zero_run 0 (0, 0) (0, 0) segs;
          groups = (\<lambda>gs. join_with '':'' (map show_hex gs))
      in if take 6 segs = [0, 0, 0, 0, 0, 0xFFFF] then ''::ffff:'' @ show_ipv4 (ucast a)
         else if len > 1 then groups (take start segs) @ ''::'' @ groups (drop (start + len) segs)
         else groups segs)"

definition show_ip :: "ip_addr \<Rightarrow> string" where
  "show_ip ip = (case ip of V4 a \<Rightarrow> show_ipv4 a | V6 a \<Rightarrow> show_ipv6 a)"

definition show_socket_addr :: "socket_addr \<Rightarrow> string" where
  "show_socket_addr addr =
     (case sa_ip addr of
        V4 a \<Rightarrow> show_ipv4 a @ '':'' @ show_nat (unat (sa_port addr))
      | V6 a \<Rightarrow> ''['' @ show_ipv6 a @ '']:'' @ show_nat (unat (sa_port addr)))"

end
