(* ===== verification/Doctor.thy ===== *)
theory Doctor
  imports Browser_Props Worker Command Rust_Addr
begin

text \<open>
  \<open>crates/runtime/src/doctor.rs\<close>: the checks of the local environment and their report. What they
  ask of the operating system beyond files is the record \<open>doctor_env\<close>: the metadata of a directory
  (whether it is one, whether it is read-only), whether a port can be bound, the environment
  variables and the browser.
\<close>

record doctor_env =
  de_serde :: config_serde
  de_metadata :: "nat \<Rightarrow> string \<Rightarrow> (io_error, bool \<times> bool) result"
  de_bind :: "nat \<Rightarrow> u16 \<Rightarrow> (io_error, unit) result"
  de_vars :: env_vars
  de_browser :: browser_env
  de_locator :: browser_locator

definition check :: "string \<Rightarrow> doctor_status \<Rightarrow> string \<Rightarrow> string option \<Rightarrow> doctor_check" where
  "check code status message suggestion =
     \<lparr>dc_code = code, dc_status = status, dc_message = message, dc_suggestion = suggestion\<rparr>"

definition config_check :: "doctor_env \<Rightarrow> os_env \<Rightarrow> string option \<Rightarrow> world \<Rightarrow> doctor_check \<times> world" where
  "config_check D E path w =
     (case path of
        Some p \<Rightarrow>
          (case config_load (de_serde D) E w p of
             (Inr _, w1) \<Rightarrow>
               (check ''config.valid'' DsPass ''Configuration is readable and valid.'' None, w1)
           | (Inl e, w1) \<Rightarrow>
               (check ''config.valid'' DsFail (''Configuration is invalid: '' @ io_msg e)
                  (Some ''Fix the configuration file and run doctor again.''), w1))
      | None \<Rightarrow>
          (check ''config.valid'' DsWarn ''No persistent configuration path is configured.'' None, w))"

definition directory_check :: "doctor_env \<Rightarrow> string option \<Rightarrow> world \<Rightarrow> doctor_check \<times> world" where
  "directory_check D path w =
     (case Option.bind path path_parent of
        None \<Rightarrow> (check ''data.directory'' DsWarn ''Data directory is unknown.'' None, w)
      | Some directory \<Rightarrow>
          (case de_metadata D (w_tick w) directory of
             Inr (is_dir, readonly) \<Rightarrow>
               if is_dir \<and> \<not> readonly
               then check ''data.directory'' DsPass ''Data directory is accessible.'' None
               else check ''data.directory'' DsFail ''Data directory is not writable.''
                      (Some ''Grant the YinShu process write permission.'')
           | Inl e \<Rightarrow>
               check ''data.directory'' DsFail (''Data directory is inaccessible: '' @ io_msg e)
                 (Some ''Create the directory and grant the YinShu process access.''),
           tick w))"

definition agent_check :: "socket_addr \<Rightarrow> doctor_check" where
  "agent_check addr =
     (if sa_port addr = 0
      then check ''agent.ipc'' DsWarn ''The Agent is not running or local IPC is unavailable.''
             (Some ''Start the YinShu Agent when online-only commands are needed.'')
      else check ''agent.ipc'' DsPass (''The Agent is reachable at '' @ show_socket_addr addr @ ''.'') None)"

definition port_check :: "doctor_env \<Rightarrow> agent_config \<Rightarrow> socket_addr \<Rightarrow> world \<Rightarrow> doctor_check \<times> world" where
  "port_check D config addr w =
     (let port = sc_port (cf_service config); text = show_nat (unat port) in
      if sa_port addr = port
      then (check ''service.port'' DsPass (''Service port '' @ text @ '' is active.'') None, w)
      else
        (case de_bind D (w_tick w) port of
           Inr _ \<Rightarrow> check ''service.port'' DsPass (''Service port '' @ text @ '' is available.'') None
         | Inl _ \<Rightarrow>
             check ''service.port'' DsWarn
               (''Service port '' @ text @ '' is occupied while this Agent is offline.'')
               (Some ''Check which process owns the configured port.''), tick w))"

definition printer_check :: "worker_env \<Rightarrow> world \<Rightarrow> doctor_check \<times> world" where
  "printer_check X w =
     (case be_list_printers (we_backend X) (w_tick w) of
        Inr printers \<Rightarrow>
          if printers = []
          then check ''printing.printers'' DsWarn ''No printers were found.''
                 (Some ''Install a printer and verify the platform print service.'')
          else check ''printing.printers'' DsPass (show_nat (length printers) @ '' printer(s) found.'') None
      | Inl e \<Rightarrow>
          check ''printing.printers'' DsFail (''Printer enumeration failed: '' @ print_error_msg e)
            (Some ''Verify the platform printing service and permissions.''), tick w)"

definition browser_check ::
  "(string list \<Rightarrow> string) \<Rightarrow> (html_render_error, browser_executable) result \<Rightarrow> doctor_check" where
  "browser_check dbg r =
     (case r of
        Inr browser \<Rightarrow>
          check ''browser.available'' DsPass (''Executable found at '' @ bx_path browser @ ''.'') None
      | Inl e \<Rightarrow>
          check ''browser.available'' DsWarn (html_error_msg dbg e)
            (Some ''Install Chrome or Chromium for HTML printing.''))"

record office_candidate_status =
  oc_name :: string
  oc_available :: bool

text \<open>On macOS and Linux LibreOffice is the only candidate for every format.\<close>

definition office_candidate_statuses :: "worker_env \<Rightarrow> world \<Rightarrow> office_format \<Rightarrow> office_candidate_status list" where
  "office_candidate_statuses X w format =
     [\<lparr>oc_name = ''LibreOffice'',
       oc_available = (find_libreoffice (lo_target (we_office X)) (we_os X) w (lo_path (we_office X)) \<noteq> None)\<rparr>]"

definition office_check :: "string \<Rightarrow> office_candidate_status list \<Rightarrow> doctor_check" where
  "office_check code cs =
     (let chain = join_with '' -> '' (map (\<lambda>c.
            oc_name c @ '' ('' @ (if oc_available c then ''detected'' else ''not detected'') @ '')'') cs)
      in case find oc_available cs of
           Some selected \<Rightarrow>
             check code DsPass
               (''Selected '' @ oc_name selected @ ''. Candidates: '' @ chain
                @ ''. Runtime activation is verified when an Office print job runs.'') None
         | None \<Rightarrow>
             check code DsWarn (''No Office converter was detected. Candidates: '' @ chain @ ''.'')
               (Some ''Install a supported Office converter for this document format.''))"

definition office_checks :: "worker_env \<Rightarrow> world \<Rightarrow> doctor_check list" where
  "office_checks X w =
     map (\<lambda>(code, format). office_check code (office_candidate_statuses X w format))
       [(''office.docx'', OfDocx), (''office.xlsx'', OfXlsx), (''office.pptx'', OfPptx)]"

definition systemd_check :: "doctor_env \<Rightarrow> string option \<Rightarrow> doctor_check" where
  "systemd_check D path =
     (if de_vars D ''INVOCATION_ID'' \<noteq> None \<and> path \<noteq> None
      then check ''headless.systemd'' DsPass
             ''Headless Agent is running under systemd with persistent paths.'' None
      else check ''headless.systemd'' DsWarn ''systemd invocation metadata was not detected.''
             (Some ''Run the packaged yinshu system service for production use.''))"

definition browser_run_start :: "world \<Rightarrow> browser_run" where
  "browser_run_start w =
     \<lparr>br_now = 0, br_calls = w_tick w, br_cancelled = False, br_world = w,
      br_proxy = proxy_start [] None None, br_launched = []\<rparr>"

definition run_doctor ::
  "doctor_env \<Rightarrow> worker_env \<Rightarrow> socket_addr \<Rightarrow> product_kind \<Rightarrow> agent_state \<Rightarrow> world \<Rightarrow> doctor_report \<times> world" where
  "run_doctor D X listen_addr product st w =
     (let (c1, w1) = config_check D (we_os X) (as_config_path st) w;
          (c2, w2) = directory_check D (as_config_path st) w1;
          c3 = agent_check listen_addr;
          (c4, w3) = port_check D (as_config st) listen_addr w2;
          (c5, w4) = printer_check X w3;
          (r, run) = check_browser_launch (de_browser D) (de_locator D) (browser_run_start w4);
          c6 = browser_check (we_debug_list X) r;
          checks = [c1, c2, c3, c4, c5, c6] @ office_checks X (br_world run)
            @ (if product = Headless then [systemd_check D (as_config_path st)] else [])
      in (doctor_report_new checks, br_world run))"

section \<open>The doctor only looks\<close>

lemma config_load_files: "w_files (snd (config_load S E w p)) = w_files w"
proof -
  obtain ex w1 where e: "fs_exists E w p = (ex, w1)" by fastforce
  then have f: "w_files w1 = w_files w" using w_files_fs_exists [of E w p] by simp
  obtain r w2 where r: "fs_read E w1 p = (r, w2)" by fastforce
  then have "w_files w2 = w_files w1" using w_files_fs_read [of E w1 p] by simp
  with e f r show ?thesis
    by (auto simp: config_load_def fs_read_to_string_def ok_or_def split: sum.splits option.splits)
qed

lemma config_check_files: "w_files (snd (config_check D E path w)) = w_files w"
proof (cases path)
  case (Some p)
  obtain r w1 where "config_load (de_serde D) E w p = (r, w1)" by fastforce
  moreover from this have "w_files w1 = w_files w" using config_load_files [of "de_serde D" E w p] by simp
  ultimately show ?thesis using Some by (cases r) (simp_all add: config_check_def)
qed (simp add: config_check_def)

lemma directory_check_files: "w_files (snd (directory_check D path w)) = w_files w"
  by (cases "Option.bind path path_parent") (simp_all add: directory_check_def)

lemma port_check_files: "w_files (snd (port_check D config addr w)) = w_files w"
  by (simp add: port_check_def Let_def)

lemma printer_check_files: "w_files (snd (printer_check X w)) = w_files w"
  by (simp add: printer_check_def)

lemma run_doctor_files: "w_files (snd (run_doctor D X addr product st w)) = w_files w"
proof -
  obtain c1 w1 where c: "config_check D (we_os X) (as_config_path st) w = (c1, w1)" by fastforce
  then have "w_files w1 = w_files w"
    using config_check_files [of D "we_os X" "as_config_path st" w] by simp
  moreover obtain c2 w2 where d: "directory_check D (as_config_path st) w1 = (c2, w2)" by fastforce
  then have "w_files w2 = w_files w1" using directory_check_files [of D "as_config_path st" w1] by simp
  moreover obtain c4 w3 where p: "port_check D (as_config st) addr w2 = (c4, w3)" by fastforce
  then have "w_files w3 = w_files w2" using port_check_files [of D "as_config st" addr w2] by simp
  moreover obtain c5 w4 where pr: "printer_check X w3 = (c5, w4)" by fastforce
  then have "w_files w4 = w_files w3" using printer_check_files [of X w3] by simp
  moreover obtain r run where b: "check_browser_launch (de_browser D) (de_locator D) (browser_run_start w4) = (r, run)"
    by fastforce
  from check_browser_launch_world [OF this] have "br_world run = w4" by (simp add: browser_run_start_def)
  ultimately show ?thesis by (simp add: run_doctor_def c d p pr b)
qed

end
