(* ===== verification/Ipc.thy ===== *)
theory Ipc
  imports Command
begin

text \<open>
  The local command channel between the command line client and a running agent:
  \<open>crates/cli/src/client.rs\<close> and \<open>crates/runtime/src/ipc/unix.rs\<close>. A stream is the bytes that can
  still be read from it, the bytes written to it, and a count of the calls made; a schedule
  \<open>stream_faults\<close> says which call fails, and after how many bytes. serde is the parameter
  \<open>ipc_codec\<close>.
\<close>

section \<open>Streams\<close>

record stream =
  sk_in :: bytes
  sk_out :: bytes
  sk_calls :: nat

type_synonym stream_faults = "nat \<Rightarrow> (io_error \<times> nat) option"

definition stream_write :: "stream_faults \<Rightarrow> bytes \<Rightarrow> stream \<Rightarrow> (io_error, unit) result \<times> stream" where
  "stream_write F b s =
     (case F (sk_calls s) of
        Some (e, n) \<Rightarrow> (Err e, s\<lparr>sk_out := sk_out s @ take n b, sk_calls := Suc (sk_calls s)\<rparr>)
      | None \<Rightarrow> (Ok (), s\<lparr>sk_out := sk_out s @ b, sk_calls := Suc (sk_calls s)\<rparr>))"

definition stream_read_exact :: "stream_faults \<Rightarrow> nat \<Rightarrow> string \<Rightarrow> stream \<Rightarrow> (io_error, bytes) result \<times> stream" where
  "stream_read_exact F n eof s =
     (case F (sk_calls s) of
        Some (e, k) \<Rightarrow> (Err e, s\<lparr>sk_in := drop k (sk_in s), sk_calls := Suc (sk_calls s)\<rparr>)
      | None \<Rightarrow>
          if length (sk_in s) < n
          then (Err \<lparr>io_kind = IoOther, io_msg = eof\<rparr>, s\<lparr>sk_in := [], sk_calls := Suc (sk_calls s)\<rparr>)
          else (Ok (take n (sk_in s)), s\<lparr>sk_in := drop n (sk_in s), sk_calls := Suc (sk_calls s)\<rparr>))"

text \<open>Big-endian 32-bit integers.\<close>

definition be_bytes :: "u32 \<Rightarrow> bytes" where
  "be_bytes n = map (\<lambda>k. word_of_nat (unat n div 256 ^ k)) [3, 2, 1, 0]"

definition from_be :: "bytes \<Rightarrow> u32" where
  "from_be bs = word_of_nat (foldl (\<lambda>a b. a * 256 + unat b) 0 bs)"

section \<open>Frames\<close>

definition IPC_PROTOCOL_VERSION :: u16 where "IPC_PROTOCOL_VERSION = 1"
definition MAX_IPC_FRAME_BYTES :: nat where "MAX_IPC_FRAME_BYTES = 8 * 1024 * 1024"

definition write_frame :: "stream_faults \<Rightarrow> bytes \<Rightarrow> stream \<Rightarrow> (command_error, unit) result \<times> stream" where
  "write_frame F payload s =
     (if length payload > MAX_IPC_FRAME_BYTES
      then (Err (command_error_new CkInvalidInput ''IPC frame is too large''), s)
      else
        (case stream_write F (be_bytes (word_of_nat (length payload))) s of
           (Inl e, s1) \<Rightarrow> (Err (command_error_new CkRuntime (io_msg e)), s1)
         | (Inr _, s1) \<Rightarrow>
             (case stream_write F payload s1 of
                (Inl e, s2) \<Rightarrow> (Err (command_error_new CkRuntime (io_msg e)), s2)
              | (Inr _, s2) \<Rightarrow> (Ok (), s2))))"

definition read_frame :: "stream_faults \<Rightarrow> stream \<Rightarrow> (command_error, bytes) result \<times> stream" where
  "read_frame F s =
     (case stream_read_exact F 4 ''unexpected end of file'' s of
        (Inl e, s1) \<Rightarrow> (Err (command_error_new CkRuntime (io_msg e)), s1)
      | (Inr header, s1) \<Rightarrow>
          (let len = unat (from_be header) in
           if len > MAX_IPC_FRAME_BYTES
           then (Err (command_error_new CkInvalidInput ''IPC frame is too large''), s1)
           else
             (case stream_read_exact F len ''early eof'' s1 of
                (Inl e, s2) \<Rightarrow> (Err (command_error_new CkRuntime (io_msg e)), s2)
              | (Inr payload, s2) \<Rightarrow> (Ok payload, s2))))"

section \<open>Requests and responses\<close>

record command_request =
  cq_protocol_version :: u16
  cq_request_id :: string
  cq_command :: command

record command_response =
  cp_protocol_version :: u16
  cp_request_id :: string
  cp_result :: "(command_error, command_result) result"

record ipc_codec =
  ic_request_to_vec :: "command_request \<Rightarrow> (string, bytes) result"
  ic_request_from_slice :: "bytes \<Rightarrow> (string, command_request) result"
  ic_response_to_vec :: "command_response \<Rightarrow> (string, bytes) result"
  ic_response_from_slice :: "bytes \<Rightarrow> (string, command_response) result"

section \<open>The agent's side\<close>

definition socket_path :: "string \<Rightarrow> string" where
  "socket_path runtime_dir = path_join runtime_dir ''agent.sock''"

definition handle_connection ::
  "ipc_codec \<Rightarrow> stream_faults \<Rightarrow> 's executor \<Rightarrow> stream \<Rightarrow> 's \<Rightarrow> (command_error, unit) result \<times> stream \<times> 's" where
  "handle_connection C F executor str s =
     (case read_frame F str of
        (Inl e, str1) \<Rightarrow> (Err e, str1, s)
      | (Inr payload, str1) \<Rightarrow>
          (case ic_request_from_slice C payload of
             Inl e \<Rightarrow> (Err (command_error_new CkInvalidInput e), str1, s)
           | Inr request \<Rightarrow>
               (let (result, s1) =
                  (if cq_protocol_version request = IPC_PROTOCOL_VERSION
                   then executor (cq_command request) s
                   else (Err (command_error_new CkInvalidInput ''unsupported IPC protocol version''), s));
                  response = \<lparr>cp_protocol_version = IPC_PROTOCOL_VERSION,
                              cp_request_id = cq_request_id request, cp_result = result\<rparr>
                in case ic_response_to_vec C response of
                     Inl e \<Rightarrow> (Err (command_error_new CkRuntime e), str1, s1)
                   | Inr out \<Rightarrow> (case write_frame F out str1 of (r, str2) \<Rightarrow> (r, str2, s1)))))"

text \<open>The socket file: binding replaces a file left by an earlier run, and the end of the accept loop
  removes it. The listener and its permissions are calls of the environment that create the file.\<close>

definition bind_socket :: "os_env \<Rightarrow> string \<Rightarrow> (io_error, unit) io" where
  "bind_socket E path w =
     (case fs_exists E w path of (ex, w1) \<Rightarrow>
        io_then (if ex then fs_remove E w1 path else (Ok (), w1)) (\<lambda>_ w2.
        io_then (if w_files w2 path \<noteq> None
                 then (Err \<lparr>io_kind = IoOther, io_msg = ''Address already in use (os error 98)''\<rparr>, tick w2)
                 else (case os_fail E (w_tick w2) of
                         Some e \<Rightarrow> (Err e, tick w2)
                       | None \<Rightarrow> (Ok (), tick (w2\<lparr>w_files := (w_files w2)(path \<mapsto> [])\<rparr>)))) (\<lambda>_ w3.
          (case os_fail E (w_tick w3) of Some e \<Rightarrow> Err e | None \<Rightarrow> Ok (), tick w3))))"

definition remove_socket :: "os_env \<Rightarrow> string \<Rightarrow> (io_error, unit) io" where
  "remove_socket E path w =
     (case fs_remove E w path of
        (Inr u, w1) \<Rightarrow> (Ok u, w1)
      | (Inl e, w1) \<Rightarrow> (if io_kind e = NotFound then Ok () else Err e, w1))"

text \<open>The accept loop until it is cancelled: each event is a connection or the failure of \<open>accept\<close>.
  The connections are handled in tasks of their own; here each runs to its end before the next,
  one of the orders in which the tasks can take the locks of the state.\<close>

datatype accept_event = Accepted stream_faults stream | AcceptError io_error

fun serve_listener_until ::
  "ipc_codec \<Rightarrow> 's executor \<Rightarrow> accept_event list \<Rightarrow> 's \<Rightarrow> (io_error, unit) result \<times> 's" where
  "serve_listener_until C executor [] s = (Ok (), s)"
| "serve_listener_until C executor (AcceptError e # _) s = (Err e, s)"
| "serve_listener_until C executor (Accepted F str # evs) s =
     (case handle_connection C F executor str s of (_, _, s1) \<Rightarrow> serve_listener_until C executor evs s1)"

section \<open>The client's side\<close>

text \<open>The peer of a client is a function from the bytes it was sent to the bytes it answers with;
  \<open>cl_timeout\<close> says that the ten seconds ran out before the answer was read.\<close>

type_synonym 's peer = "bytes \<Rightarrow> 's \<Rightarrow> bytes \<times> 's"

record client_env =
  cl_connect :: "io_error option"
  cl_faults :: stream_faults
  cl_timeout :: bool
  cl_uuid :: string

definition exchange :: "ipc_codec \<Rightarrow> client_env \<Rightarrow> 's peer \<Rightarrow> 's executor" where
  "exchange C V peer command s =
     (let request = \<lparr>cq_protocol_version = IPC_PROTOCOL_VERSION, cq_request_id = cl_uuid V,
                     cq_command = command\<rparr>
      in case ic_request_to_vec C request of
           Inl e \<Rightarrow> (Err (command_error_new CkRuntime e), s)
         | Inr payload \<Rightarrow>
             (case write_frame (cl_faults V) payload \<lparr>sk_in = [], sk_out = [], sk_calls = 0\<rparr> of (r, str) \<Rightarrow>
             (case peer (sk_out str) s of (reply, s1) \<Rightarrow>
             (case r of
                Inl e \<Rightarrow> (Err e, s1)
              | Inr _ \<Rightarrow>
                  if cl_timeout V
                  then (Err (command_error_new CkRuntime ''IPC request timed out''), s1)
                  else
                    (case fst (read_frame (cl_faults V) (str\<lparr>sk_in := reply\<rparr>)) of
                       Inl e \<Rightarrow> (Err e, s1)
                     | Inr response_payload \<Rightarrow>
                         (case ic_response_from_slice C response_payload of
                            Inl e \<Rightarrow> (Err (command_error_new CkRuntime e), s1)
                          | Inr response \<Rightarrow>
                              if cp_protocol_version response \<noteq> IPC_PROTOCOL_VERSION
                                 \<or> cp_request_id response \<noteq> cq_request_id request
                              then (Err (command_error_new CkRuntime ''invalid IPC response envelope''), s1)
                              else (cp_result response, s1)))))))"

definition local_client_execute :: "ipc_codec \<Rightarrow> client_env \<Rightarrow> 's peer \<Rightarrow> 's executor" where
  "local_client_execute C V peer command s =
     (case cl_connect V of
        Some e \<Rightarrow>
          (Err (if io_kind e = NotFound then command_error_new CkNotRunning ''agent is not running''
                else if io_kind e = PermissionDenied then command_error_new CkPermissionDenied (io_msg e)
                else command_error_new CkRuntime (io_msg e)), s)
      | None \<Rightarrow> exchange C V peer command s)"

text \<open>The agent as the peer of the client.\<close>

definition agent_peer :: "ipc_codec \<Rightarrow> stream_faults \<Rightarrow> 's executor \<Rightarrow> 's peer" where
  "agent_peer C F executor sent s =
     (case handle_connection C F executor \<lparr>sk_in = sent, sk_out = [], sk_calls = 0\<rparr> s of
        (_, str, s1) \<Rightarrow> (sk_out str, s1))"

section \<open>Frames survive the channel\<close>

lemma be_arith:
  assumes "n < (4294967296::nat)"
  shows "((n div 16777216 mod 256 * 256 + n div 65536 mod 256) * 256 + n div 256 mod 256) * 256 + n mod 256 = n"
proof -
  have "n div 256 div 256 = n div 65536" "n div 65536 div 256 = n div 16777216"
    by (simp_all add: div_mult2_eq [symmetric])
  moreover from assms have "n div 16777216 < 256" by simp
  ultimately have "n div 16777216 mod 256 * 256 + n div 65536 mod 256 = n div 65536"
    "n div 65536 * 256 + n div 256 mod 256 = n div 256"
    using div_mult_mod_eq [of "n div 65536" 256] div_mult_mod_eq [of "n div 256" 256] by simp_all
  then show ?thesis using div_mult_mod_eq [of n 256] by simp
qed

lemma unat_u8: "unat (word_of_nat m :: u8) = m mod 256"
  by (simp add: unsigned_of_nat take_bit_eq_mod)

lemma from_be_bytes [simp]: "from_be (be_bytes n) = n"
proof -
  define m where "m = unat n"
  have "m < 4294967296" using unsigned_less [of n, where ?'a = nat] by (simp add: m_def)
  moreover from this have "m div 16777216 mod 256 = m div 16777216" by simp
  ultimately have "foldl (\<lambda>a b. a * 256 + unat b) 0 (be_bytes n) = m"
    using be_arith [of m] by (simp add: be_bytes_def unat_u8 flip: m_def)
  then have "from_be (be_bytes n) = word_of_nat m" by (simp only: from_be_def)
  then show ?thesis by (simp add: m_def)
qed

lemma length_be_bytes [simp]: "length (be_bytes n) = 4"
  by (simp add: be_bytes_def)

lemma max_frame_unat: "n \<le> MAX_IPC_FRAME_BYTES \<Longrightarrow> unat (word_of_nat n :: u32) = n"
  by (simp add: MAX_IPC_FRAME_BYTES_def unsigned_of_nat take_bit_eq_mod)

definition frame :: "bytes \<Rightarrow> bytes" where
  "frame payload = be_bytes (word_of_nat (length payload)) @ payload"

text \<open>Whatever fails, what \<open>write_frame\<close> sent is a beginning of the frame, all of it on success.\<close>

lemma write_frame_sent:
  assumes "write_frame F payload s = (r, s')"
  shows "\<exists>k. sk_out s' = sk_out s @ take k (frame payload)
      \<and> (is_ok r \<longrightarrow> sk_out s' = sk_out s @ frame payload \<and> length payload \<le> MAX_IPC_FRAME_BYTES)"
proof -
  let ?h = "be_bytes (word_of_nat (length payload))"
  consider "length payload > MAX_IPC_FRAME_BYTES"
    | e n where "length payload \<le> MAX_IPC_FRAME_BYTES" "F (sk_calls s) = Some (e, n)"
    | e n where "length payload \<le> MAX_IPC_FRAME_BYTES" "F (sk_calls s) = None"
        "F (Suc (sk_calls s)) = Some (e, n)"
    | "length payload \<le> MAX_IPC_FRAME_BYTES" "F (sk_calls s) = None" "F (Suc (sk_calls s)) = None"
    by (metis linorder_not_less option.exhaust surj_pair)
  then show ?thesis
  proof cases
    case 1
    with assms show ?thesis by (auto simp: write_frame_def intro: exI [of _ 0])
  next
    case 2
    with assms show ?thesis
      by (auto simp: write_frame_def stream_write_def frame_def min_def intro!: exI [of _ "min n 4"])
  next
    case 3
    with assms show ?thesis
      by (auto simp: write_frame_def stream_write_def frame_def intro!: exI [of _ "4 + n"])
  next
    case 4
    with assms show ?thesis
      by (auto simp: write_frame_def stream_write_def frame_def intro!: exI [of _ "4 + length payload"])
  qed
qed

text \<open>A frame that was cut off is never read as another one.\<close>

lemma read_frame_of_prefix:
  assumes "fst (read_frame F s) = Inr p" and "sk_in s = take k (frame payload)"
    and "length payload \<le> MAX_IPC_FRAME_BYTES"
  shows "p = payload"
proof -
  from assms(1) have c: "F (sk_calls s) = None" "4 \<le> length (sk_in s)"
    by (auto simp: read_frame_def stream_read_exact_def split: option.splits if_splits)
  with assms(2) have k: "4 \<le> k" by auto
  then have "take 4 (sk_in s) = be_bytes (word_of_nat (length payload))"
    and rest: "drop 4 (sk_in s) = take (k - 4) payload"
    using assms(2) by (simp_all add: frame_def min_def)
  with assms(1,3) c have "length payload \<le> length (drop 4 (sk_in s)) \<and> p = take (length payload) (drop 4 (sk_in s))"
    by (auto simp: read_frame_def stream_read_exact_def max_frame_unat Let_def split: option.splits if_splits)
  with rest show ?thesis by (auto simp: min_def split: if_splits)
qed

lemma read_frame_whole:
  assumes "sk_in s = frame payload @ rest" and "length payload \<le> MAX_IPC_FRAME_BYTES"
    and "F (sk_calls s) = None" "F (Suc (sk_calls s)) = None"
  shows "read_frame F s = (Inr payload, s\<lparr>sk_in := rest, sk_calls := Suc (Suc (sk_calls s))\<rparr>)"
  using assms by (simp add: read_frame_def stream_read_exact_def frame_def max_frame_unat)

text \<open>
  C31. The channel is faithful for frames of at most 8 MiB and refuses the others: a larger payload
  is rejected before a byte is sent, a header that announces a larger one is rejected before a
  byte of the payload is read, and a payload within the bound that was written is what is read
  from the stream, with the bytes behind it left in place.
\<close>

theorem ipc_frame_roundtrip:
  "(length payload > MAX_IPC_FRAME_BYTES \<longrightarrow>
      write_frame F payload s = (Inl (command_error_new CkInvalidInput ''IPC frame is too large''), s))
   \<and> (unat (from_be header) > MAX_IPC_FRAME_BYTES \<longrightarrow> length header = 4 \<longrightarrow> G 0 = None \<longrightarrow>
      read_frame G \<lparr>sk_in = header @ rest, sk_out = [], sk_calls = 0\<rparr> =
        (Inl (command_error_new CkInvalidInput ''IPC frame is too large''),
         \<lparr>sk_in = rest, sk_out = [], sk_calls = 1\<rparr>))
   \<and> (fst (write_frame F payload s) = Inr () \<longrightarrow> (\<forall>n. G n = None) \<longrightarrow> sk_out s = [] \<longrightarrow>
      read_frame G \<lparr>sk_in = sk_out (snd (write_frame F payload s)) @ rest, sk_out = [], sk_calls = 0\<rparr> =
        (Inr payload, \<lparr>sk_in = rest, sk_out = [], sk_calls = 2\<rparr>))"
proof (intro conjI impI)
  assume "length payload > MAX_IPC_FRAME_BYTES"
  then show "write_frame F payload s = (Inl (command_error_new CkInvalidInput ''IPC frame is too large''), s)"
    by (simp add: write_frame_def)
next
  assume "unat (from_be header) > MAX_IPC_FRAME_BYTES" "length header = 4" "G 0 = None"
  then show "read_frame G \<lparr>sk_in = header @ rest, sk_out = [], sk_calls = 0\<rparr> =
        (Inl (command_error_new CkInvalidInput ''IPC frame is too large''),
         \<lparr>sk_in = rest, sk_out = [], sk_calls = 1\<rparr>)"
    by (simp add: read_frame_def stream_read_exact_def)
next
  assume "fst (write_frame F payload s) = Inr ()" and g: "\<forall>n. G n = None" and o: "sk_out s = []"
  then have "sk_out (snd (write_frame F payload s)) = frame payload" "length payload \<le> MAX_IPC_FRAME_BYTES"
    using write_frame_sent [OF surjective_pairing, of F payload s] by auto
  then show "read_frame G \<lparr>sk_in = sk_out (snd (write_frame F payload s)) @ rest, sk_out = [], sk_calls = 0\<rparr> =
        (Inr payload, \<lparr>sk_in = rest, sk_out = [], sk_calls = 2\<rparr>)"
    using g read_frame_whole [of "\<lparr>sk_in = frame payload @ rest, sk_out = [], sk_calls = 0\<rparr>" payload rest G]
    by simp
qed

theorem ipc_frame_roundtrip_witness:
  "read_frame (\<lambda>_. None)
     \<lparr>sk_in = sk_out (snd (write_frame (\<lambda>_. None) [1, 2] \<lparr>sk_in = [], sk_out = [], sk_calls = 0\<rparr>)) @ [9],
      sk_out = [], sk_calls = 0\<rparr> =
     (Inr [1, 2], \<lparr>sk_in = [9], sk_out = [], sk_calls = 2\<rparr>)"
proof -
  have "fst (write_frame (\<lambda>_. None) [1, 2] \<lparr>sk_in = [], sk_out = [], sk_calls = 0\<rparr>) = Inr ()"
    by (simp add: write_frame_def stream_write_def MAX_IPC_FRAME_BYTES_def)
  then show ?thesis
    using ipc_frame_roundtrip [of "[1, 2]" "\<lambda>_. None" "\<lparr>sk_in = [], sk_out = [], sk_calls = 0\<rparr>" "[]" "\<lambda>_. None" "[9]"]
    by simp
qed

section \<open>A command over the channel\<close>

text \<open>Documented behaviour of serde: it reads back what it wrote.\<close>

definition codec_documented :: "ipc_codec \<Rightarrow> bool" where
  "codec_documented C \<longleftrightarrow>
     (\<forall>q b. ic_request_to_vec C q = Inr b \<longrightarrow> ic_request_from_slice C b = Inr q)
     \<and> (\<forall>p b. ic_response_to_vec C p = Inr b \<longrightarrow> ic_response_from_slice C b = Inr p)"

definition never_not_running :: "'s executor \<Rightarrow> bool" where
  "never_not_running executor \<longleftrightarrow> (\<forall>c s e s'. executor c s = (Inl e, s') \<longrightarrow> ce_kind e \<noteq> CkNotRunning)"

lemma read_frame_out [simp]: "sk_out (snd (read_frame F s)) = sk_out s"
  by (auto simp: read_frame_def stream_read_exact_def Let_def split: option.splits)

lemma write_frame_err_kind: "write_frame F p s = (Inl e, s') \<Longrightarrow> ce_kind e \<in> {CkInvalidInput, CkRuntime}"
  by (auto simp: write_frame_def split: if_splits prod.splits sum.splits)

lemma read_frame_err_kind: "fst (read_frame F s) = Inl e \<Longrightarrow> ce_kind e \<in> {CkInvalidInput, CkRuntime}"
  by (auto simp: read_frame_def Let_def split: if_splits prod.splits sum.splits)

lemma read_frame_empty: "sk_in s = [] \<Longrightarrow> \<exists>e. fst (read_frame F s) = Inl e"
  by (auto simp: read_frame_def stream_read_exact_def split: option.splits)

text \<open>What the agent answers: nothing, or a beginning of the frame of one response.\<close>

definition agent_answer :: "'s executor \<Rightarrow> command_request \<Rightarrow> 's \<Rightarrow> (command_error, command_result) result \<times> 's" where
  "agent_answer executor q s =
     (if cq_protocol_version q = IPC_PROTOCOL_VERSION then executor (cq_command q) s
      else (Err (command_error_new CkInvalidInput ''unsupported IPC protocol version''), s))"

definition agent_response :: "'s executor \<Rightarrow> command_request \<Rightarrow> 's \<Rightarrow> command_response" where
  "agent_response executor q s =
     \<lparr>cp_protocol_version = IPC_PROTOCOL_VERSION, cp_request_id = cq_request_id q,
      cp_result = fst (agent_answer executor q s)\<rparr>"

lemma handle_connection_request:
  assumes "read_frame F str = (Inr payload, str1)" and "ic_request_from_slice C payload = Inr q"
  shows "handle_connection C F executor str s =
     (case ic_response_to_vec C (agent_response executor q s) of
        Inl e \<Rightarrow> (Inl (command_error_new CkRuntime e), str1, snd (agent_answer executor q s))
      | Inr out \<Rightarrow> (fst (write_frame F out str1), snd (write_frame F out str1), snd (agent_answer executor q s)))"
  using assms
  by (simp add: handle_connection_def agent_response_def agent_answer_def Let_def split: prod.splits sum.splits)

lemma agent_peer_reply:
  assumes "agent_peer C F executor sent s = (reply, s1)"
  shows "reply = [] \<or> (\<exists>q out k. ic_response_to_vec C (agent_response executor q s) = Inr out
      \<and> length out \<le> MAX_IPC_FRAME_BYTES \<and> reply = take k (frame out))"
proof (cases "reply = []")
  case False
  let ?str = "\<lparr>sk_in = sent, sk_out = [], sk_calls = 0\<rparr>"
  obtain r str1 where rd: "read_frame F ?str = (r, str1)" by fastforce
  then have o: "sk_out str1 = []" using read_frame_out [of F ?str] by simp
  show ?thesis
  proof (cases r)
    case (Inl e)
    with assms rd o False show ?thesis by (auto simp: agent_peer_def handle_connection_def)
  next
    case (Inr payload)
    show ?thesis
    proof (cases "ic_request_from_slice C payload")
      case Inl': (Inl e)
      with Inr assms rd o False show ?thesis by (auto simp: agent_peer_def handle_connection_def)
    next
      case q: (Inr q)
      note h = handle_connection_request [OF rd [unfolded Inr] q, of executor s]
      show ?thesis
      proof (cases "ic_response_to_vec C (agent_response executor q s)")
        case Inl'': (Inl e)
        with h assms o False show ?thesis by (auto simp: agent_peer_def)
      next
        case out: (Inr out)
        with h assms have reply: "reply = sk_out (snd (write_frame F out str1))" by (simp add: agent_peer_def)
        obtain k where k: "reply = take k (frame out)"
          using write_frame_sent [of F out str1, OF surjective_pairing] o reply by auto
        have "length out \<le> MAX_IPC_FRAME_BYTES"
          using reply o False by (auto simp: write_frame_def split: if_splits)
        with out k show ?thesis by blast
      qed
    qed
  qed
qed simp

text \<open>The client answers that no agent is running only when it could not connect.\<close>

lemma client_not_running:
  assumes doc: "codec_documented C" and nnr: "never_not_running executor"
    and ex: "local_client_execute C V (agent_peer C F executor) c s = (Inl e, s')"
    and kind: "ce_kind e = CkNotRunning"
  shows "\<exists>e. cl_connect V = Some e \<and> io_kind e = NotFound"
proof (cases "cl_connect V")
  case None
  define q where "q = \<lparr>cq_protocol_version = IPC_PROTOCOL_VERSION, cq_request_id = cl_uuid V, cq_command = c\<rparr>"
  from None ex have x: "exchange C V (agent_peer C F executor) c s = (Inl e, s')"
    by (simp add: local_client_execute_def)
  show ?thesis
  proof (cases "ic_request_to_vec C q")
    case (Inl m)
    with x kind show ?thesis by (auto simp: exchange_def q_def)
  next
    case (Inr payload)
    obtain r str where w: "write_frame (cl_faults V) payload \<lparr>sk_in = [], sk_out = [], sk_calls = 0\<rparr> = (r, str)"
      by fastforce
    obtain reply s1 where p: "agent_peer C F executor (sk_out str) s = (reply, s1)" by fastforce
    note ex1 = x [unfolded exchange_def Let_def, folded q_def, unfolded Inr sum.case w prod.case p]
    have "r \<noteq> Inl e" using write_frame_err_kind w kind by fastforce
    with ex1 kind obtain b resp where
      rd: "fst (read_frame (cl_faults V) (str\<lparr>sk_in := reply\<rparr>)) = Inr b"
      and resp: "ic_response_from_slice C b = Inr resp" "cp_result resp = Inl e"
      using read_frame_err_kind [of "cl_faults V" "str\<lparr>sk_in := reply\<rparr>"]
      by (auto split: sum.splits if_splits)
    have "reply \<noteq> []"
      using rd read_frame_empty [of "str\<lparr>sk_in := reply\<rparr>" "cl_faults V"] by auto
    with agent_peer_reply [OF p] obtain q' out k where
      out: "ic_response_to_vec C (agent_response executor q' s) = Inr out"
      and len: "length out \<le> MAX_IPC_FRAME_BYTES" and reply: "reply = take k (frame out)" by blast
    from read_frame_of_prefix [OF rd _ len] reply have "b = out" by simp
    with out resp doc have "resp = agent_response executor q' s" by (simp add: codec_documented_def)
    with resp have "fst (agent_answer executor q' s) = Inl e" by (simp add: agent_response_def)
    with kind nnr have False
      by (auto simp: agent_answer_def never_not_running_def split: if_splits)
        (metis surjective_pairing)
    then show ?thesis ..
  qed
next
  case (Some m)
  with ex kind show ?thesis by (auto simp: local_client_execute_def split: if_splits)
qed

lemma client_not_running_untouched:
  assumes "codec_documented C" "never_not_running executor"
    and "local_client_execute C V (agent_peer C F executor) c s = (Inl e, s')" "ce_kind e = CkNotRunning"
  shows "s' = s"
  using client_not_running [OF assms] assms(3) by (auto simp: local_client_execute_def)

lemma client_not_running_iff:
  assumes "codec_documented C" "never_not_running executor"
    and "local_client_execute C V (agent_peer C F executor) c s = (Inl e, s')"
  shows "ce_kind e = CkNotRunning \<longleftrightarrow> is_some_and (\<lambda>e. io_kind e = NotFound) (cl_connect V)"
  using client_not_running [OF assms] assms(3)
  by (auto simp: local_client_execute_def is_some_and_def split: option.splits)

lemma client_online_executor:
  assumes "codec_documented C" "never_not_running executor"
  shows "online_executor (local_client_execute C V (agent_peer C F executor))"
  using client_not_running_untouched [OF assms] by unfold_locales blast

text \<open>Without faults the client returns what the agent computed.\<close>

lemma client_executes:
  assumes doc: "codec_documented C"
    and ok: "cl_connect V = None" "\<And>n. cl_faults V n = None" "\<not> cl_timeout V" "\<And>n. F n = None"
    and q: "ic_request_to_vec C \<lparr>cq_protocol_version = IPC_PROTOCOL_VERSION, cq_request_id = cl_uuid V,
              cq_command = c\<rparr> = Inr b" "length b \<le> MAX_IPC_FRAME_BYTES"
    and p: "ic_response_to_vec C \<lparr>cp_protocol_version = IPC_PROTOCOL_VERSION, cp_request_id = cl_uuid V,
              cp_result = fst (executor c s)\<rparr> = Inr rb" "length rb \<le> MAX_IPC_FRAME_BYTES"
  shows "local_client_execute C V (agent_peer C F executor) c s = executor c s"
proof -
  define rq where "rq = \<lparr>cq_protocol_version = IPC_PROTOCOL_VERSION, cq_request_id = cl_uuid V, cq_command = c\<rparr>"
  have ans: "agent_answer executor rq s = executor c s" by (simp add: agent_answer_def rq_def)
  have resp: "agent_response executor rq s = \<lparr>cp_protocol_version = IPC_PROTOCOL_VERSION,
      cp_request_id = cl_uuid V, cp_result = fst (executor c s)\<rparr>"
    by (simp add: agent_response_def ans) (simp add: rq_def)
  have wr: "write_frame G x \<lparr>sk_in = i, sk_out = [], sk_calls = n\<rparr> =
      (Inr (), \<lparr>sk_in = i, sk_out = frame x, sk_calls = Suc (Suc n)\<rparr>)"
    if "\<And>n. G n = None" "length x \<le> MAX_IPC_FRAME_BYTES" for G x i n
    using that by (simp add: write_frame_def stream_write_def frame_def)
  have rd: "read_frame G \<lparr>sk_in = frame x, sk_out = u, sk_calls = n\<rparr> =
      (Inr x, \<lparr>sk_in = [], sk_out = u, sk_calls = Suc (Suc n)\<rparr>)"
    if "\<And>n. G n = None" "length x \<le> MAX_IPC_FRAME_BYTES" for G x u n
    using that read_frame_whole [of "\<lparr>sk_in = frame x, sk_out = u, sk_calls = n\<rparr>" x "[]" G] by simp
  from doc q have "ic_request_from_slice C b = Inr rq" by (simp add: codec_documented_def rq_def)
  from handle_connection_request [OF rd [OF ok(4) q(2)] this, where executor = executor and s = s] p
  have "agent_peer C F executor (frame b) s = (frame rb, snd (executor c s))"
    by (simp add: agent_peer_def resp ans wr [OF ok(4) p(2)])
  moreover from doc p have "ic_response_from_slice C rb = Inr \<lparr>cp_protocol_version = IPC_PROTOCOL_VERSION,
      cp_request_id = cl_uuid V, cp_result = fst (executor c s)\<rparr>" by (simp add: codec_documented_def)
  ultimately show ?thesis
    using ok q by (simp add: local_client_execute_def exchange_def wr [OF ok(2) q(2)] rd [OF ok(2) p(2)])
qed

end
