(* ===== verification/Command_Executor.thy ===== *)
theory Command_Executor
  imports Diagnostics Test_Print Doctor Ipc
begin

text \<open>
  \<open>crates/runtime/src/command_executor.rs\<close>: the commands as a running agent executes them, on the
  world and the agent state. The library of the file format, serde, the archive writer and the
  environment of the test page and the doctor are fields of \<open>exec_env\<close>; the text of a database error
  is the parameter \<open>ee_sql_msg\<close>.
\<close>

record exec_env =
  ee_worker :: worker_env
  ee_serde :: config_serde
  ee_transfer :: transfer_lib
  ee_device :: device_env
  ee_doctor :: doctor_env
  ee_zip :: zip_writer
  ee_listing :: dir_listing
  ee_platform :: unix_platform
  ee_vars :: env_vars
  ee_listen_addr :: socket_addr
  ee_sql_msg :: "sql_error \<Rightarrow> string"

definition msg_file_changed :: string where
  "msg_file_changed = [CHR 0xE9, CHR 0x85, CHR 0x8D, CHR 0xE7, CHR 0xBD, CHR 0xAE, CHR
     0xE6, CHR 0x96, CHR 0x87, CHR 0xE4, CHR 0xBB, CHR 0xB6, CHR 0xE5, CHR 0xB7, CHR
     0xB2, CHR 0xE5, CHR 0x8F, CHR 0x98, CHR 0xE5, CHR 0x8C, CHR 0x96, CHR 0xEF, CHR
     0xBC, CHR 0x8C, CHR 0xE8, CHR 0xAF, CHR 0xB7, CHR 0xE9, CHR 0x87, CHR 0x8D, CHR
     0xE6, CHR 0x96, CHR 0xB0, CHR 0xE9, CHR 0xA2, CHR 0x84, CHR 0xE8, CHR 0xA7, CHR
     0x88, CHR 0xE5, CHR 0x90, CHR 0x8E, CHR 0xE5, CHR 0xAF, CHR 0xBC, CHR 0xE5, CHR
     0x85, CHR 0xA5]"

definition runtime_error :: "string \<Rightarrow> command_error" where
  "runtime_error message = command_error_new CkRuntime message"

fun save_error_msg :: "save_error \<Rightarrow> string" where
  "save_error_msg (SaveInvalidOrigin e) = protocol_error_msg e"
| "save_error_msg (SaveInvalidIp e) = ip_entry_error_msg e"
| "save_error_msg (SaveIo e) = io_msg e"

text \<open>Reading a task history that may be absent: an absent one is empty.\<close>

definition history_query ::
  "exec_env \<Rightarrow> (sql_faults \<Rightarrow> task_db \<Rightarrow> (sql_error, 'a list) result) \<Rightarrow> sys \<Rightarrow>
   (command_error, 'a list) result \<times> sys" where
  "history_query Q f s =
     (case s of (w, st) \<Rightarrow>
        (case as_task_history st of
           None \<Rightarrow> (Ok [], s)
         | Some db \<Rightarrow>
             (map_err (\<lambda>e. runtime_error (ee_sql_msg Q e)) (f (we_sql (ee_worker Q) (w_tick w)) db), (tick w, st))))"

definition execute_save_config :: "exec_env \<Rightarrow> agent_config \<Rightarrow> sys \<Rightarrow> (command_error, command_result) result \<times> sys" where
  "execute_save_config Q config s =
     (case s of (w, st) \<Rightarrow>
        (case save_config (we_lib (ee_worker Q)) (ee_serde Q) (we_os (ee_worker Q)) w st config of
           (Inl e, w1, st1) \<Rightarrow> (Err (runtime_error (save_error_msg e)), (w1, st1))
         | (Inr c, w1, st1) \<Rightarrow> (Ok (RsConfig c), (w1, st1))))"

definition execute_clear_history :: "exec_env \<Rightarrow> sys \<Rightarrow> (command_error, command_result) result \<times> sys" where
  "execute_clear_history Q s =
     (case s of (w, st) \<Rightarrow>
        (let st1 = st\<lparr>as_logs := log_clear (as_logs st)\<rparr> in
         case as_task_history st1 of
           None \<Rightarrow> (Ok RsEmpty, (w, st1))
         | Some db \<Rightarrow>
             (case history_clear (we_sql (ee_worker Q) (w_tick w)) db of
                (Inl e, db') \<Rightarrow>
                  (Err (runtime_error (ee_sql_msg Q e)), (tick w, st1\<lparr>as_task_history := Some db'\<rparr>))
              | (Inr _, db') \<Rightarrow> (Ok RsEmpty, (tick w, st1\<lparr>as_task_history := Some db'\<rparr>)))))"

definition transfer_io :: "(config_transfer_error, 'a) result \<times> world \<Rightarrow> (command_error, 'a) result \<times> world" where
  "transfer_io m = io_map_err (\<lambda>e. runtime_error (config_transfer_error_msg e)) m"

definition execute_export ::
  "exec_env \<Rightarrow> string \<Rightarrow> string \<Rightarrow> export_options \<Rightarrow> sys \<Rightarrow> (command_error, command_result) result \<times> sys" where
  "execute_export Q path password options s =
     (case s of (w, st) \<Rightarrow>
        let payload = build_transfer_payload (as_config st) options;
            (r, w') = io_then (transfer_io (encrypt_payload (we_lib (ee_worker Q)) (ee_transfer Q) payload password w))
              (\<lambda>encrypted w1.
                 transfer_io (write_encrypted_file (ee_transfer Q) (we_os (ee_worker Q)) path encrypted w1))
        in (map_sum (\<lambda>e. e) (\<lambda>_. RsEmpty) r, (w', st)))"

definition transfer_pure :: "(config_transfer_error, 'a) result \<Rightarrow> (command_error, 'a) result" where
  "transfer_pure r = map_err (\<lambda>e. runtime_error (config_transfer_error_msg e)) r"

definition execute_preview ::
  "exec_env \<Rightarrow> string \<Rightarrow> string \<Rightarrow> sys \<Rightarrow> (command_error, command_result) result \<times> sys" where
  "execute_preview Q path password s =
     (case s of (w, st) \<Rightarrow>
        (case transfer_io (read_encrypted_file_with_hash (ee_transfer Q) (we_os (ee_worker Q)) path w) of
           (Inl e, w1) \<Rightarrow> (Err e, (w1, st))
         | (Inr (encrypted, file_hash), w1) \<Rightarrow>
             (and_then (transfer_pure (decrypt_payload (we_lib (ee_worker Q)) (ee_transfer Q) encrypted password)) (\<lambda>payload.
              and_then (transfer_pure (preview_payload (we_lib (ee_worker Q)) (as_config st) payload)) (\<lambda>preview.
                Ok (RsImportPreview (preview\<lparr>ip_file_hash := file_hash\<rparr>)))), (w1, st))))"

definition execute_import ::
  "exec_env \<Rightarrow> string \<Rightarrow> string \<Rightarrow> string \<Rightarrow> sys \<Rightarrow> (command_error, command_result) result \<times> sys" where
  "execute_import Q path password expected_file_hash s =
     (case s of (w, st) \<Rightarrow>
        (case transfer_io (read_encrypted_file_with_hash (ee_transfer Q) (we_os (ee_worker Q)) path w) of
           (Inl e, w1) \<Rightarrow> (Err e, (w1, st))
         | (Inr (encrypted, file_hash), w1) \<Rightarrow>
             if file_hash \<noteq> expected_file_hash
             then (Err (command_error_new CkConflict msg_file_changed), (w1, st))
             else
               (case and_then (transfer_pure (decrypt_payload (we_lib (ee_worker Q)) (ee_transfer Q) encrypted password))
                       (\<lambda>payload. transfer_pure (merge_payload (we_lib (ee_worker Q)) (as_config st) payload)) of
                  Inl e \<Rightarrow> (Err e, (w1, st))
                | Inr merged \<Rightarrow> execute_save_config Q merged (w1, st))))"

definition execute_validate :: "exec_env \<Rightarrow> string option \<Rightarrow> sys \<Rightarrow> (command_error, command_result) result \<times> sys" where
  "execute_validate Q path s =
     (case s of (w, st) \<Rightarrow>
        (case opt_or path (as_config_path st) of
           None \<Rightarrow> (Err (command_error_new CkInvalidInput ''config path is required''), s)
         | Some p \<Rightarrow>
             (case config_load (ee_serde Q) (we_os (ee_worker Q)) w p of
                (Inl e, w1) \<Rightarrow> (Err (runtime_error (io_msg e)), (w1, st))
              | (Inr _, w1) \<Rightarrow> (Ok RsEmpty, (w1, st)))))"

definition runtime_execute :: "exec_env \<Rightarrow> sys executor" where
  "runtime_execute Q command s =
     (case s of (w, st) \<Rightarrow>
        (case command of
           GetConfig \<Rightarrow> (Ok (RsConfig (as_config st)), s)
         | SaveConfig config \<Rightarrow> execute_save_config Q config s
         | ListPrinters \<Rightarrow>
             (map_sum (\<lambda>e. runtime_error (print_error_msg e)) RsPrinters
                (be_list_printers (we_backend (ee_worker Q)) (w_tick w)), (tick w, st))
         | ListPapers printer_name \<Rightarrow>
             (map_sum (\<lambda>e. runtime_error (print_error_msg e)) RsPapers
                (be_list_papers (we_backend (ee_worker Q)) (w_tick w) printer_name), (tick w, st))
         | GetLogs \<Rightarrow> (Ok (RsLogs (log_recent (as_logs st))), s)
         | GetTaskHistory \<Rightarrow>
             (case history_query Q (\<lambda>f db. recent_jobs f db 500) s of (r, s1) \<Rightarrow> (map_sum (\<lambda>e. e) RsTaskHistory r, s1))
         | GetTaskHistoryEvents job_id \<Rightarrow>
             (case history_query Q (\<lambda>f db. events_for_job f db job_id) s of (r, s1) \<Rightarrow>
                (map_sum (\<lambda>e. e) RsTaskHistoryEvents r, s1))
         | ClearTaskHistory \<Rightarrow> execute_clear_history Q s
         | ExportConfig path password options \<Rightarrow> execute_export Q path password options s
         | PreviewConfigImport path password \<Rightarrow> execute_preview Q path password s
         | ImportConfig path password expected_file_hash \<Rightarrow> execute_import Q path password expected_file_hash s
         | TestPrint config \<Rightarrow>
             (case print_test_page_with_config (ee_worker Q) (ee_device Q) config s of
                (Inl e, s1) \<Rightarrow> (Err (runtime_error (test_print_error_msg e)), s1)
              | (Inr _, s1) \<Rightarrow> (Ok RsEmpty, s1))
         | ValidateConfig path \<Rightarrow> execute_validate Q path s
         | Doctor product \<Rightarrow>
             (case run_doctor (ee_doctor Q) (ee_worker Q) (ee_listen_addr Q) product st w of (report, w1) \<Rightarrow>
                (Ok (RsDoctor report), (w1, st)))
         | ExportDiagnostics path doctor_json \<Rightarrow>
             (case write_diagnostics_bundle (ee_zip Q) (ee_listing Q) (ee_platform Q) (ee_vars Q)
                     (we_os (ee_worker Q)) path doctor_json w of
                (Inl e, w1) \<Rightarrow> (Err e, (w1, st))
              | (Inr (path, _), w1) \<Rightarrow> (Ok (RsDiagnostics path), (w1, st)))
         | Status \<Rightarrow>
             (Ok (RsStatus \<lparr>ag_running = True, ag_listen_addr = Some (ee_listen_addr Q)\<rparr>), s)))"

end
