(* ===== verification/Command_Props.thy ===== *)
theory Command_Props
  imports Command_Executor Worker_Props
begin

text \<open>
  Properties of the commands end to end: which commands change the configuration, that an import
  applies the file that was previewed, and that a command that goes through the service and the local
  channel is executed at most once.
\<close>

section \<open>Error kinds\<close>

definition errs :: "command_error_kind set \<Rightarrow> (command_error, 'a) result \<times> 's \<Rightarrow> bool" where
  "errs K m \<longleftrightarrow> (\<forall>e. fst m = Inl e \<longrightarrow> ce_kind e \<in> K)"

lemma errs_simps [simp]:
  "errs K (Inr x, s)" "errs K (Inl e, s) \<longleftrightarrow> ce_kind e \<in> K"
  by (simp_all add: errs_def)

lemma errs_mono: "errs K m \<Longrightarrow> K \<subseteq> K' \<Longrightarrow> errs K' m"
  by (auto simp: errs_def)

lemma errs_then: "errs K m \<Longrightarrow> (\<And>x w. errs K (f x w)) \<Longrightarrow> errs K (io_then m f)"
  by (cases m; cases "fst m") (auto simp: errs_def)

lemma errs_runtime_io: "CkRuntime \<in> K \<Longrightarrow> errs K (io_map_err runtime_io m)"
  by (cases m; cases "fst m") (auto simp: errs_def runtime_io_def)

lemma errs_transfer_io: "CkRuntime \<in> K \<Longrightarrow> errs K (transfer_io m)"
  by (cases m; cases "fst m") (auto simp: errs_def transfer_io_def runtime_error_def)

lemma errs_zip_start: "errs {CkRuntime} (zip_start_file Z E out ar n w)"
  by (auto simp: zip_start_file_def intro!: errs_then errs_runtime_io split: option.split)

lemma errs_zip_write: "errs {CkRuntime} (zip_write_all Z E out ar b w)"
  by (auto simp: zip_write_all_def Let_def intro!: errs_then errs_runtime_io)

lemma errs_zip_string: "errs {CkRuntime} (write_zip_string Z E out ar n c w)"
  by (auto simp: write_zip_string_def intro!: errs_then errs_zip_start errs_zip_write)

lemma errs_zip_files: "errs {CkRuntime} (write_zip_files Z E out ps ar w)"
  by (induction ps arbitrary: ar w)
    (auto intro!: errs_then errs_runtime_io errs_zip_start errs_zip_write split: option.split)

lemma errs_archive: "errs {CkRuntime} (write_archive Z E out d fs doc w)"
  by (auto simp: write_archive_def intro!: errs_then errs_runtime_io errs_zip_string errs_zip_files
      split: option.split sum.split)

lemma map_err_runtime_io: "map_err runtime_io r = Inl e \<Longrightarrow> ce_kind e = CkRuntime"
  by (cases r) (auto simp: runtime_io_def)

lemma errs_bundle: "errs {CkRuntime} (write_diagnostics_bundle Z ls P V E target doctor w)"
  unfolding write_diagnostics_bundle_def
  by (auto intro!: errs_then errs_runtime_io errs_archive split: option.split sum.split
      dest: map_err_runtime_io)

lemma errs_save: "errs {CkRuntime} (execute_save_config Q c s)"
  by (auto simp: execute_save_config_def runtime_error_def split: prod.split sum.split)

lemma errs_history: "errs {CkRuntime} (history_query Q f s)"
  by (auto simp: history_query_def runtime_error_def errs_def map_err_def split: prod.split sum.splits option.split)

lemma errs_clear: "errs {CkRuntime} (execute_clear_history Q s)"
  by (auto simp: execute_clear_history_def runtime_error_def Let_def split: prod.split sum.split option.split)

lemma errs_map_sum: "errs K (r, s) \<Longrightarrow> errs K (map_sum (\<lambda>e. e) g r, s')"
  by (cases r) simp_all

lemma errs_export: "errs {CkRuntime} (execute_export Q p pw opts s)"
proof -
  obtain w st where s: "s = (w, st)" by (rule prod.exhaust)
  let ?m = "io_then (transfer_io (encrypt_payload (we_lib (ee_worker Q)) (ee_transfer Q)
      (build_transfer_payload (as_config st) opts) pw w))
      (\<lambda>encrypted w1. transfer_io (write_encrypted_file (ee_transfer Q) (we_os (ee_worker Q)) p encrypted w1))"
  have "errs {CkRuntime} ?m" by (auto intro!: errs_then errs_transfer_io)
  moreover obtain r w' where "?m = (r, w')" by fastforce
  ultimately show ?thesis by (simp add: s execute_export_def Let_def errs_map_sum [where s = w'])
qed

lemma transfer_pure_kind: "transfer_pure r = Inl e \<Longrightarrow> ce_kind e = CkRuntime"
  by (cases r) (auto simp: transfer_pure_def runtime_error_def)

lemma errs_read: "errs {CkRuntime} (transfer_io (read_encrypted_file_with_hash T E p w))"
  by (simp add: errs_transfer_io)

lemma errs_preview: "errs {CkRuntime} (execute_preview Q p pw s)"
proof -
  obtain w st where s: "s = (w, st)" by (rule prod.exhaust)
  obtain r w1 where r: "transfer_io (read_encrypted_file_with_hash (ee_transfer Q) (we_os (ee_worker Q)) p w) = (r, w1)"
    by fastforce
  with errs_read [of "ee_transfer Q" "we_os (ee_worker Q)" p w] show ?thesis
    by (auto simp: s execute_preview_def errs_def and_then_def split: sum.splits dest: transfer_pure_kind)
qed

lemma errs_import: "errs {CkRuntime, CkConflict} (execute_import Q p pw h s)"
proof -
  obtain w st where s: "s = (w, st)" by (rule prod.exhaust)
  obtain r w1 where r: "transfer_io (read_encrypted_file_with_hash (ee_transfer Q) (we_os (ee_worker Q)) p w) = (r, w1)"
    by fastforce
  show ?thesis
  proof (cases r)
    case (Inl e)
    with r errs_read [of "ee_transfer Q" "we_os (ee_worker Q)" p w] show ?thesis
      by (simp add: s execute_import_def)
  next
    case (Inr eh)
    moreover obtain enc fh where "eh = (enc, fh)" by (rule prod.exhaust)
    ultimately show ?thesis
      using r errs_mono [OF errs_save, of "{CkRuntime, CkConflict}" Q _ "(w1, st)"]
      by (auto simp: s execute_import_def and_then_def split: sum.split dest: transfer_pure_kind)
  qed
qed

lemma errs_validate: "errs {CkRuntime, CkInvalidInput} (execute_validate Q p s)"
  by (auto simp: execute_validate_def runtime_error_def split: prod.split sum.split option.split)

lemma errs_runtime_execute: "errs {CkRuntime, CkConflict, CkInvalidInput} (runtime_execute Q c s)"
proof -
  obtain w st where s: "s = (w, st)" by (rule prod.exhaust)
  note wide = errs_mono [OF errs_save, of "{CkRuntime, CkConflict, CkInvalidInput}"]
    errs_mono [OF errs_clear, of "{CkRuntime, CkConflict, CkInvalidInput}"]
    errs_mono [OF errs_export, of "{CkRuntime, CkConflict, CkInvalidInput}"]
    errs_mono [OF errs_preview, of "{CkRuntime, CkConflict, CkInvalidInput}"]
    errs_mono [OF errs_import, of "{CkRuntime, CkConflict, CkInvalidInput}"]
    errs_mono [OF errs_validate, of "{CkRuntime, CkConflict, CkInvalidInput}"]
  show ?thesis
  proof (cases c)
    case (ListPapers n)
    then show ?thesis
      by (cases "be_list_papers (we_backend (ee_worker Q)) (w_tick w) n")
        (simp_all add: s runtime_execute_def runtime_error_def)
  next
    case ListPrinters
    then show ?thesis
      by (cases "be_list_printers (we_backend (ee_worker Q)) (w_tick w)")
        (simp_all add: s runtime_execute_def runtime_error_def)
  next
    case GetTaskHistory
    with errs_history [of Q "\<lambda>f db. recent_jobs f db 500" s] show ?thesis
      by (cases "history_query Q (\<lambda>f db. recent_jobs f db 500) s"; cases "fst (history_query Q (\<lambda>f db. recent_jobs f db 500) s)")
        (simp_all add: s runtime_execute_def)
  next
    case (GetTaskHistoryEvents j)
    with errs_history [of Q "\<lambda>f db. events_for_job f db j" s] show ?thesis
      by (cases "history_query Q (\<lambda>f db. events_for_job f db j) s"; cases "fst (history_query Q (\<lambda>f db. events_for_job f db j) s)")
        (simp_all add: s runtime_execute_def)
  next
    case (TestPrint config)
    then show ?thesis
      by (cases "print_test_page_with_config (ee_worker Q) (ee_device Q) config s";
          cases "fst (print_test_page_with_config (ee_worker Q) (ee_device Q) config s)")
        (simp_all add: s runtime_execute_def runtime_error_def)
  next
    case (ExportDiagnostics p d)
    let ?b = "write_diagnostics_bundle (ee_zip Q) (ee_listing Q) (ee_platform Q) (ee_vars Q) (we_os (ee_worker Q)) p d w"
    from ExportDiagnostics errs_bundle [of "ee_zip Q" "ee_listing Q" "ee_platform Q" "ee_vars Q" "we_os (ee_worker Q)" p d w]
    show ?thesis
      by (cases ?b; cases "fst ?b") (auto simp: s runtime_execute_def)
  next
    case (Doctor product)
    then show ?thesis by (simp add: s runtime_execute_def split: prod.split)
  qed (simp_all add: s runtime_execute_def wide)
qed

lemma runtime_never_not_running: "never_not_running (runtime_execute Q)"
  unfolding never_not_running_def
proof (intro allI impI)
  fix c s e s'
  assume "runtime_execute Q c s = (Inl e, s')"
  with errs_runtime_execute [of Q c s] show "ce_kind e \<noteq> CkNotRunning" by auto
qed

text \<open>The agent's own executor satisfies the contract of an online executor.\<close>

interpretation rt: online_executor "runtime_execute Q" for Q
proof
  fix c s e s'
  assume "runtime_execute Q c s = (Inl e, s')" "ce_kind e = CkNotRunning"
  with errs_runtime_execute [of Q c s] show "s' = s" by simp
qed

section \<open>A command is executed at most once\<close>

text \<open>What the agent does with the bytes of a client: nothing, or the command of the request.\<close>

lemma agent_peer_state:
  assumes "ic_request_from_slice C b = Inr rq" and "length b \<le> MAX_IPC_FRAME_BYTES"
  shows "snd (agent_peer C F executor (take k (frame b)) s) \<in> {s, snd (agent_answer executor rq s)}"
proof -
  let ?str = "\<lparr>sk_in = take k (frame b), sk_out = [], sk_calls = 0\<rparr>"
  obtain r str1 where rd: "read_frame F ?str = (r, str1)" by fastforce
  show ?thesis
  proof (cases r)
    case (Inl e)
    with rd show ?thesis by (simp add: agent_peer_def handle_connection_def)
  next
    case (Inr p)
    with rd have "fst (read_frame F ?str) = Inr p" by simp
    from read_frame_of_prefix [OF this, of k b] assms(2) have "p = b" by simp
    with Inr rd assms(1) handle_connection_request [of F ?str b str1 C rq executor s] show ?thesis
      by (cases "ic_response_to_vec C (agent_response executor rq s)") (simp_all add: agent_peer_def)
  qed
qed

lemma client_state:
  assumes doc: "codec_documented C"
  shows "snd (local_client_execute C V (agent_peer C F executor) c s) \<in> {s, snd (executor c s)}"
proof (cases "cl_connect V")
  case (Some e)
  then show ?thesis by (simp add: local_client_execute_def)
next
  case None
  define rq where "rq = \<lparr>cq_protocol_version = IPC_PROTOCOL_VERSION, cq_request_id = cl_uuid V, cq_command = c\<rparr>"
  show ?thesis
  proof (cases "ic_request_to_vec C rq")
    case (Inl m)
    with None show ?thesis by (simp add: local_client_execute_def exchange_def rq_def)
  next
    case (Inr b)
    obtain r str where w: "write_frame (cl_faults V) b \<lparr>sk_in = [], sk_out = [], sk_calls = 0\<rparr> = (r, str)"
      by fastforce
    obtain reply s1 where p: "agent_peer C F executor (sk_out str) s = (reply, s1)" by fastforce
    have "snd (local_client_execute C V (agent_peer C F executor) c s) = s1"
      using None by (simp add: local_client_execute_def exchange_def Inr [unfolded rq_def] w p split: sum.split)
    moreover have "s1 \<in> {s, snd (executor c s)}"
    proof (cases "length b \<le> MAX_IPC_FRAME_BYTES")
      case True
      obtain k where "sk_out str = take k (frame b)" using write_frame_sent [OF w] by auto
      with agent_peer_state [of C b rq F executor k s] p doc Inr True show ?thesis
        by (auto simp: codec_documented_def agent_answer_def rq_def)
    next
      case False
      with w have "sk_out str = []" by (auto simp: write_frame_def)
      moreover have "\<exists>e. fst (read_frame F \<lparr>sk_in = [], sk_out = [], sk_calls = 0\<rparr>) = Inl e"
        by (rule read_frame_empty) simp
      ultimately show ?thesis
        using p by (auto simp: agent_peer_def handle_connection_def split: prod.splits)
    qed
    ultimately show ?thesis by simp
  qed
qed

text \<open>Which executor a service with a client in front of an agent uses.\<close>

lemma service_choice:
  fixes executor F V C
  defines "online \<equiv> local_client_execute C V (agent_peer C F executor)"
  assumes doc: "codec_documented C" and nnr: "never_not_running executor"
  shows "command_service_execute (command_service_new (Some online) offline) c s =
      (case policy c of
         OfflineAllowed \<Rightarrow> offline c s
       | OnlineOnly \<Rightarrow> online c s
       | OnlinePreferred \<Rightarrow>
           if is_some_and (\<lambda>e. io_kind e = NotFound) (cl_connect V) then offline c s else online c s)"
proof -
  have ex: "online_executor online"
    unfolding online_def by (rule client_online_executor [OF doc nnr])
  have kind: "ce_kind e = CkNotRunning \<longleftrightarrow> is_some_and (\<lambda>e. io_kind e = NotFound) (cl_connect V)"
    if "online c s = (Inl e, s')" for e s'
    using client_not_running_iff [OF doc nnr] that by (simp add: online_def)
  have absent: "\<exists>e. online c s = (Inl e, s)" if "is_some_and (\<lambda>e. io_kind e = NotFound) (cl_connect V)"
    using that by (auto simp: online_def local_client_execute_def is_some_and_def split: option.splits)
  show ?thesis
  proof (cases "policy c")
    case OnlinePreferred
    obtain r s' where o: "online c s = (r, s')" by (rule prod.exhaust)
    with online_executor.offline_only_when_not_running [OF ex OnlinePreferred, of offline s] kind absent OnlinePreferred
    show ?thesis by (cases r) auto
  qed (simp_all add: command_service_execute_def command_service_new_def)
qed

text \<open>
  C22. A command given to the service of the command line client is carried out at most once. The
  local fallback runs exactly for the commands that never need the agent and, for those that
  prefer it, when connecting found no socket: it never follows an execution by the agent,
  whatever fails in between. And the agent itself executed the command once or not at all.
\<close>

theorem command_runs_at_most_once:
  fixes Q F V C
  defines "online \<equiv> local_client_execute C V (agent_peer C F (runtime_execute Q))"
  assumes doc: "codec_documented C"
  shows "command_service_execute (command_service_new (Some online) offline) c s =
      (case policy c of
         OfflineAllowed \<Rightarrow> offline c s
       | OnlineOnly \<Rightarrow> online c s
       | OnlinePreferred \<Rightarrow>
           if is_some_and (\<lambda>e. io_kind e = NotFound) (cl_connect V) then offline c s else online c s)
    \<and> snd (online c s) \<in> {s, snd (runtime_execute Q c s)}"
  unfolding online_def
  using service_choice [OF doc runtime_never_not_running] client_state [OF doc, where executor = "runtime_execute Q"]
  by blast

section \<open>Which commands change the configuration\<close>

lemma save_config_state:
  assumes "save_config L S E w st c = (r, w', st')"
  shows "config_normal (as_config st) \<longrightarrow> config_normal (as_config st')"
    and "as_config st' \<noteq> as_config st \<Longrightarrow> \<exists>c'. r = Inr c' \<and> as_config st' = c'"
proof -
  show "config_normal (as_config st) \<longrightarrow> config_normal (as_config st')"
  proof (cases r)
    case (Inl e)
    with assms save_config_err show ?thesis by blast
  next
    case (Inr c')
    with save_config_ok [of L S E w st c c' w' st'] assms show ?thesis by simp
  qed
  show "as_config st' \<noteq> as_config st \<Longrightarrow> \<exists>c'. r = Inr c' \<and> as_config st' = c'"
  proof (cases r)
    case (Inl e)
    with assms save_config_err [of L S E w st c e w' st'] show "as_config st' \<noteq> as_config st \<Longrightarrow> ?thesis" by simp
  next
    case (Inr c')
    with save_config_ok(3) [of L S E w st c c' w' st'] assms show ?thesis by simp
  qed
qed

definition config_kept :: "(command_error, command_result) result \<times> sys \<Rightarrow> sys \<Rightarrow> bool" where
  "config_kept m s \<longleftrightarrow> as_config (snd (snd m)) = as_config (snd s)"

definition config_saved :: "(command_error, command_result) result \<times> sys \<Rightarrow> sys \<Rightarrow> bool" where
  "config_saved m s \<longleftrightarrow>
     config_kept m s
     \<or> config_normal (as_config (snd (snd m))) \<and> fst m = Inr (RsConfig (as_config (snd (snd m))))"

lemma execute_save_saved: "config_saved (execute_save_config Q c s) s"
proof -
  obtain w st where s: "s = (w, st)" by (rule prod.exhaust)
  obtain r x where rx: "save_config (we_lib (ee_worker Q)) (ee_serde Q) (we_os (ee_worker Q)) w st c = (r, x)"
    by (rule prod.exhaust)
  obtain w' st' where x: "x = (w', st')" by (rule prod.exhaust)
  show ?thesis
  proof (cases r)
    case (Inl e)
    with save_config_err [OF rx [unfolded Inl x]] rx x show ?thesis
      by (simp add: s execute_save_config_def config_saved_def config_kept_def)
  next
    case (Inr c')
    with save_config_ok(2,3) [OF rx [unfolded Inr x]] rx x show ?thesis
      by (simp add: s execute_save_config_def config_saved_def)
  qed
qed

lemma config_kept_prod: "snd (snd m) = snd s \<Longrightarrow> config_kept m s"
  by (simp add: config_kept_def)

lemma execute_import_saved: "config_saved (execute_import Q p pw h s) s"
proof -
  obtain w st where s: "s = (w, st)" by (rule prod.exhaust)
  obtain r w1 where r: "transfer_io (read_encrypted_file_with_hash (ee_transfer Q) (we_os (ee_worker Q)) p w) = (r, w1)"
    by (rule prod.exhaust)
  show ?thesis
  proof (cases r)
    case (Inl e)
    with r show ?thesis by (simp add: s execute_import_def config_saved_def config_kept_def)
  next
    case (Inr eh)
    moreover obtain enc fh where "eh = (enc, fh)" by (rule prod.exhaust)
    ultimately show ?thesis
      using r execute_save_saved [of Q _ "(w1, st)"]
      by (auto simp: s execute_import_def config_saved_def config_kept_def split: sum.split)
  qed
qed

lemma history_query_state: "history_query Q f (w, st) = (r, w1, st1) \<Longrightarrow> st1 = st"
  by (auto simp: history_query_def split: option.splits)

lemma runtime_execute_config:
  "config_saved (runtime_execute Q c s) s
   \<and> (config_kept (runtime_execute Q c s) s \<or> (\<exists>x. c = SaveConfig x) \<or> (\<exists>p pw h. c = ImportConfig p pw h))"
proof -
  obtain w st where s: "s = (w, st)" by (rule prod.exhaust)
  show ?thesis
  proof (cases c)
    case (SaveConfig x)
    then show ?thesis using execute_save_saved [of Q x s] by (simp add: s runtime_execute_def)
  next
    case (ImportConfig p pw h)
    then show ?thesis using execute_import_saved [of Q p pw h s] by (simp add: s runtime_execute_def)
  next
    case (TestPrint config)
    let ?t = "print_test_page_with_config (ee_worker Q) (ee_device Q) config (w, st)"
    obtain r s1 where t: "?t = (r, s1)" by (rule prod.exhaust)
    then have "as_config (snd s1) = as_config st"
      using print_test_page_config(1) [of "ee_worker Q" "ee_device Q" config "(w, st)"] by simp
    with TestPrint t show ?thesis
      by (cases r) (simp_all add: s runtime_execute_def config_saved_def config_kept_def)
  next
    case (ExportDiagnostics p d)
    let ?b = "write_diagnostics_bundle (ee_zip Q) (ee_listing Q) (ee_platform Q) (ee_vars Q) (we_os (ee_worker Q)) p d w"
    obtain r w1 where b: "?b = (r, w1)" by (rule prod.exhaust)
    with ExportDiagnostics show ?thesis
      by (cases r) (auto simp: s runtime_execute_def config_saved_def config_kept_def)
  next
    case ClearTaskHistory
    then show ?thesis
      by (auto simp: s runtime_execute_def execute_clear_history_def Let_def config_saved_def config_kept_def
          split: option.split prod.split sum.split)
  next
    case (PreviewConfigImport p pw)
    then show ?thesis
      by (auto simp: s runtime_execute_def execute_preview_def config_saved_def config_kept_def split: prod.split sum.split)
  next
    case (ExportConfig p pw opts)
    then show ?thesis
      by (simp add: s runtime_execute_def execute_export_def Let_def config_saved_def config_kept_def split: prod.split)
  next
    case (ValidateConfig p)
    then show ?thesis
      by (auto simp: s runtime_execute_def execute_validate_def config_saved_def config_kept_def
          split: option.split prod.split sum.split)
  next
    case GetTaskHistory
    then show ?thesis
      by (auto simp: s runtime_execute_def config_saved_def config_kept_def split: prod.split dest: history_query_state)
  next
    case (GetTaskHistoryEvents j)
    then show ?thesis
      by (auto simp: s runtime_execute_def config_saved_def config_kept_def split: prod.split dest: history_query_state)
  next
    case (Doctor product)
    then show ?thesis by (simp add: s runtime_execute_def config_saved_def config_kept_def split: prod.split)
  qed (simp_all add: s runtime_execute_def config_saved_def config_kept_def)
qed

text \<open>
  C23. A running agent's configuration stays well formed under every command: it keeps the host and
  the normalised address list, it changes only through a save or an import, and whenever it changes
  the command answers with exactly the configuration that is now in force.
\<close>

theorem commands_keep_config_normal:
  assumes "config_normal (as_config (snd s))" and "runtime_execute Q c s = (r, s')"
  shows "config_normal (as_config (snd s'))
    \<and> (as_config (snd s') = as_config (snd s)
       \<or> r = Inr (RsConfig (as_config (snd s')))
         \<and> ((\<exists>x. c = SaveConfig x) \<or> (\<exists>p pw h. c = ImportConfig p pw h)))"
  using runtime_execute_config [of Q c s] assms by (auto simp: config_saved_def config_kept_def)

section \<open>An import applies what was previewed\<close>

lemma hex_digit_inj:
  assumes "hex_digit a = hex_digit b" "a < 16" "b < 16"
  shows "a = b"
proof -
  have "byte (hex_digit n) = (if n < 10 then 48 + n else 87 + n)" if "n < 16" for n
    using that by (simp add: hex_digit_def)
  from this [of a] this [of b] assms
  have "(if a < 10 then 48 + a else 87 + a) = (if b < 10 then 48 + b else 87 + b)" by simp
  then show ?thesis by (auto split: if_splits)
qed

lemma hex_bytes_inj: "hex_bytes a = hex_bytes b \<Longrightarrow> a = b"
proof (induction a arbitrary: b)
  case Nil
  then show ?case by (cases b) (simp_all add: hex_bytes_def)
next
  case (Cons x xs)
  then obtain y ys where b: "b = y # ys" by (cases b) (simp_all add: hex_bytes_def)
  have lt: "unat z div 16 < 16" "unat z mod 16 < 16" for z :: u8
    using unsigned_less [of z, where ?'a = nat] by simp_all
  from Cons.prems b have "hex_digit (unat x div 16) = hex_digit (unat y div 16)"
    "hex_digit (unat x mod 16) = hex_digit (unat y mod 16)" and r: "hex_bytes xs = hex_bytes ys"
    by (simp_all add: hex_bytes_def)
  then have "unat x div 16 = unat y div 16" "unat x mod 16 = unat y mod 16"
    using hex_digit_inj lt by blast+
  then have "unat x = unat y" by (metis div_mult_mod_eq)
  then have "(word_of_nat (unat x) :: u8) = word_of_nat (unat y)" by (rule arg_cong)
  then have "x = y" by simp
  with Cons.IH [OF r] b show ?case by simp
qed

lemma read_with_hash_ok:
  assumes "transfer_io (read_encrypted_file_with_hash T E path w) = (Inr (file, h), w')"
  shows "\<exists>content. w_files w path = Some (as_bytes content) \<and> w_files w' = w_files w
    \<and> tx_file_from_str T content = Some file \<and> h = sha256_hex T (as_bytes content)"
proof -
  obtain r w1 where r: "fs_read E w path = (r, w1)" by (rule prod.exhaust)
  from assms r obtain b content where b: "r = Inr b" "from_utf8 b = Some content"
    "tx_file_from_str T content = Some file" "h = sha256_hex T (as_bytes content)" "w' = w1"
    by (auto simp: transfer_io_def read_encrypted_file_with_hash_def fs_read_to_string_def ok_or_def
        split: sum.splits option.splits)
  moreover from b(2) have "as_bytes content = b"
    by (auto simp: from_utf8_def Let_def split: if_splits)
  ultimately show ?thesis using fs_read_ok [OF r [unfolded b(1)]] by blast
qed

text \<open>
  C24. An import applies the file that was previewed. When a preview of a file succeeded and an import
  with the hash it reported succeeds later, whatever happened to the file and the configuration in
  between, then both decrypted the same payload, provided the two contents of the file are no SHA-256
  collision: the preview listed the fields of that payload against the configuration of its time, and
  the import put them in place of those of the configuration it found, keeping the rest.
\<close>

theorem import_applies_previewed_file:
  assumes pv: "execute_preview Q path password (w0, st0) = (Inr (RsImportPreview pv), s0)"
    and im: "execute_import Q path password (ip_file_hash pv) (w, st) = (Inr res, (w', st'))"
    and collision: "\<And>a b. w_files w0 path = Some a \<Longrightarrow> w_files w path = Some b \<Longrightarrow>
      tx_sha256 (ee_transfer Q) a = tx_sha256 (ee_transfer Q) b \<Longrightarrow> a = b"
  shows "w_files w path = w_files w0 path
    \<and> (\<exists>payload. preview_payload (we_lib (ee_worker Q)) (as_config st0) payload = Inr (pv\<lparr>ip_file_hash := []\<rparr>)
        \<and> payload_acceptable (we_lib (ee_worker Q)) payload
        \<and> as_config st' = config_normalized (overlay payload (as_config st)) \<and> res = RsConfig (as_config st'))"
proof -
  let ?L = "we_lib (ee_worker Q)" and ?T = "ee_transfer Q" and ?E = "we_os (ee_worker Q)"
  from pv obtain f0 h0 w1 payload0 pv0 where
    r0: "transfer_io (read_encrypted_file_with_hash ?T ?E path w0) = (Inr (f0, h0), w1)"
    and d0: "transfer_pure (decrypt_payload ?L ?T f0 password) = Inr payload0"
    and p0: "transfer_pure (preview_payload ?L (as_config st0) payload0) = Inr pv0"
    and h0: "pv = pv0\<lparr>ip_file_hash := h0\<rparr>"
    by (auto simp: execute_preview_def and_then_eq_Inr_iff split: prod.splits sum.splits)
  from im h0 obtain f1 w2 payload1 merged where
    r1: "transfer_io (read_encrypted_file_with_hash ?T ?E path w) = (Inr (f1, h0), w2)"
    and d1: "transfer_pure (decrypt_payload ?L ?T f1 password) = Inr payload1"
    and m1: "transfer_pure (merge_payload ?L (as_config st) payload1) = Inr merged"
    and s1: "execute_save_config Q merged (w2, st) = (Inr res, (w', st'))"
    by (auto simp: execute_import_def and_then_eq_Inr_iff split: prod.splits sum.splits if_splits)
  from read_with_hash_ok [OF r0] obtain c0 where
    c0: "w_files w0 path = Some (as_bytes c0)" "tx_file_from_str ?T c0 = Some f0" "h0 = sha256_hex ?T (as_bytes c0)" by blast
  from read_with_hash_ok [OF r1] obtain c1 where
    c1: "w_files w path = Some (as_bytes c1)" "tx_file_from_str ?T c1 = Some f1" "h0 = sha256_hex ?T (as_bytes c1)" by blast
  from c0(3) c1(3) have "tx_sha256 ?T (as_bytes c0) = tx_sha256 ?T (as_bytes c1)"
    using hex_bytes_inj by (simp add: sha256_hex_def)
  with collision c0 c1 have "as_bytes c0 = as_bytes c1" by blast
  then have eq: "c0 = c1" by (metis string_of_bytes_as_bytes)
  with c0 c1 d0 d1 have pl: "payload1 = payload0" by simp
  have "preview_payload ?L (as_config st0) payload0 = Inr pv0"
    using p0 by (cases "preview_payload ?L (as_config st0) payload0") (simp_all add: transfer_pure_def)
  moreover from this have "ip_file_hash pv0 = []"
    by (auto simp: preview_payload_def and_then_eq_Inr_iff)
  moreover from this h0 have "pv\<lparr>ip_file_hash := []\<rparr> = pv0" by simp
  moreover have mg: "payload_acceptable ?L payload0" "merged = config_normalized (overlay payload0 (as_config st))"
    using m1 pl merge_payload_iff [of ?L "as_config st" payload0 merged]
    by (cases "merge_payload ?L (as_config st) payload0"; simp add: transfer_pure_def)+
  moreover obtain c' where sv: "save_config ?L (ee_serde Q) ?E w2 st merged = (Inr c', w', st')" and "res = RsConfig c'"
    using s1 by (auto simp: execute_save_config_def split: prod.splits sum.splits)
  moreover from save_config_ok(2,3) [OF sv] mg(2) have "c' = merged" "as_config st' = merged" by simp_all
  ultimately show ?thesis using eq c0(1) c1(1) by auto
qed

section \<open>Instances\<close>

definition example_exec :: exec_env where
  "example_exec =
     \<lparr>ee_worker = example_worker, ee_serde = example_serde, ee_transfer = example_transfer,
      ee_device = \<lparr>dv_vars = example_vars, dv_os = ''linux'', dv_arch = ''x86_64'', dv_lan_ip = (\<lambda>_. None),
                   dv_pdf = example_pdf\<rparr>,
      ee_doctor = \<lparr>de_serde = example_serde, de_metadata = (\<lambda>_ _. Ok (True, False)), de_bind = (\<lambda>_ _. Ok ()),
                   de_vars = example_vars, de_browser = idle_browser, de_locator = example_locator\<rparr>,
      ee_zip = example_zip, ee_listing = example_listing, ee_platform = Linux, ee_vars = example_vars,
      ee_listen_addr = \<lparr>sa_ip = V4 0x7F000001, sa_port = 17890\<rparr>, ee_sql_msg = (\<lambda>_. ''database error'')\<rparr>"

definition example_request :: command_request where
  "example_request = \<lparr>cq_protocol_version = IPC_PROTOCOL_VERSION, cq_request_id = ''id'', cq_command = Status\<rparr>"

definition example_response :: command_response where
  "example_response = \<lparr>cp_protocol_version = IPC_PROTOCOL_VERSION, cp_request_id = ''id'',
     cp_result = Inr (RsStatus \<lparr>ag_running = True, ag_listen_addr = Some \<lparr>sa_ip = V4 0x7F000001, sa_port = 17890\<rparr>\<rparr>)\<rparr>"

text \<open>A codec for one request and one response.\<close>

definition example_codec :: ipc_codec where
  "example_codec =
     \<lparr>ic_request_to_vec = (\<lambda>q. if q = example_request then Ok [1] else Err ''unsupported''),
      ic_request_from_slice = (\<lambda>b. if b = [1] then Ok example_request else Err ''syntax''),
      ic_response_to_vec = (\<lambda>p. if p = example_response then Ok [2] else Err ''unsupported''),
      ic_response_from_slice = (\<lambda>b. if b = [2] then Ok example_response else Err ''syntax'')\<rparr>"

lemma example_codec_documented: "codec_documented example_codec"
  by (simp add: codec_documented_def example_codec_def)

definition example_client :: "io_error option \<Rightarrow> client_env" where
  "example_client e = \<lparr>cl_connect = e, cl_faults = (\<lambda>_. None), cl_timeout = False, cl_uuid = ''id''\<rparr>"

text \<open>The status through the channel, and a command that no agent was there for.\<close>

theorem command_runs_at_most_once_witness:
  "fst (command_service_execute (command_service_new
        (Some (local_client_execute example_codec (example_client None)
           (agent_peer example_codec (\<lambda>_. None) (runtime_execute example_exec))))
        (\<lambda>_ s. (Inr RsEmpty, s))) Status (example_world, example_state)) = cp_result example_response
   \<and> fst (command_service_execute (command_service_new
        (Some (local_client_execute example_codec (example_client (Some not_found))
           (agent_peer example_codec (\<lambda>_. None) (runtime_execute example_exec))))
        (\<lambda>_ s. (Inr RsEmpty, s))) GetConfig (example_world, example_state)) = Inr RsEmpty"
proof -
  have st: "runtime_execute example_exec Status (example_world, example_state) =
      (cp_result example_response, (example_world, example_state))"
    by (simp add: runtime_execute_def example_exec_def example_response_def)
  have run: "local_client_execute example_codec (example_client None)
      (agent_peer example_codec (\<lambda>_. None) (runtime_execute example_exec)) Status (example_world, example_state) =
      runtime_execute example_exec Status (example_world, example_state)"
    by (rule client_executes [OF example_codec_documented, where b = "[1]" and rb = "[2]"])
      (simp_all add: example_client_def example_codec_def example_request_def st MAX_IPC_FRAME_BYTES_def,
       simp_all add: example_response_def)
  show ?thesis
    using command_runs_at_most_once [OF example_codec_documented, of "example_client None" "\<lambda>_. None" example_exec
        "\<lambda>_ s. (Inr RsEmpty, s)" Status "(example_world, example_state)"]
      command_runs_at_most_once [OF example_codec_documented, of "example_client (Some not_found)" "\<lambda>_. None" example_exec
        "\<lambda>_ s. (Inr RsEmpty, s)" GetConfig "(example_world, example_state)"]
    by (simp add: run st) (simp add: example_client_def is_some_and_def not_found_def)
qed

lemma example_state_config: "as_config example_state = agent_config_default" "as_config_path example_state = None"
  by (simp_all add: example_state_def with_task_history_store_def with_printing_and_config_path_def
      config_normalized_id agent_config_default_normal)

theorem commands_keep_config_normal_witness:
  "config_normal (as_config (snd (snd (runtime_execute example_exec ClearTaskHistory (example_world, example_state)))))"
  using commands_keep_config_normal [of "(example_world, example_state)" example_exec ClearTaskHistory, OF _ surjective_pairing]
  by (simp add: example_state_config agent_config_default_normal)

definition example_import_world :: world where
  "example_import_world = \<lparr>w_files = [''/c.yinshu'' \<mapsto> as_bytes ''{}''], w_dirs = {}, w_tick = 0\<rparr>"

lemma example_libs:
  "we_lib (ee_worker example_exec) = example_b64" "ee_transfer example_exec = example_transfer"
  "we_os (ee_worker example_exec) = example_env" "ee_serde example_exec = example_serde"
  by (simp_all add: example_exec_def example_worker_def example_lib_def example_b64_def)

lemma example_read:
  "transfer_io (read_encrypted_file_with_hash example_transfer example_env ''/c.yinshu'' example_import_world) =
     (Inr (example_file, sha256_hex example_transfer (as_bytes ''{}'')), tick example_import_world)"
  by (simp add: transfer_io_def read_encrypted_file_with_hash_def fs_read_to_string_def example_import_world_def
      from_utf8_def example_transfer_def fs_read_def example_env_def)

lemma example_decrypt:
  "decrypt_payload example_b64 example_transfer example_file ''secret'' = Inr (build_transfer_payload example_source export_all)"
proof (rule decrypt_encrypted [OF example_transfer_documented _ _ _ build_payload_valid])
  show "encrypt_payload_with example_b64 example_transfer (build_transfer_payload example_source export_all) ''secret''
      (replicate SALT_LEN 7) (replicate NONCE_LEN 7) = Inr example_file"
    using example_encrypt by (simp add: encrypt_payload_def Let_def example_transfer_def)
qed simp_all

lemma example_loopback_valid: "validate_allowed_ip_entry example_b64 REQUIRED_LOOPBACK_IP = Inr ()"
  by code_simp

lemma example_merge:
  "merge_payload example_b64 agent_config_default (build_transfer_payload example_source export_all) = Inr example_source"
proof -
  have "payload_acceptable example_b64 (build_transfer_payload example_source export_all)"
    by (simp add: payload_acceptable_def build_payload_fields export_all_def example_source_def agent_config_default_def
        default_allowed_ips_def example_loopback_valid)
  moreover have "config_normalized (overlay (build_transfer_payload example_source export_all) agent_config_default) = example_source"
  proof -
    have "overlay (build_transfer_payload example_source export_all) agent_config_default = example_source"
      by (simp add: overlay_def build_payload_fields export_all_def example_source_def agent_config_default_def)
    moreover have "config_normal example_source"
      using agent_config_default_normal
      by (simp add: example_source_def config_normal_def agent_config_default_def)
    ultimately show ?thesis by (simp add: config_normalized_id)
  qed
  ultimately show ?thesis by (simp add: merge_payload_iff)
qed

lemma example_save:
  "execute_save_config example_exec example_source (w, example_state) =
     (Inr (RsConfig (config_normalized example_source)), (w, example_state\<lparr>as_config := config_normalized example_source\<rparr>))"
  by (simp add: execute_save_config_def Let_def save_config_def example_libs example_source_def agent_config_default_def
      default_allowed_ips_def example_loopback_valid example_state_config)

theorem import_applies_previewed_file_witness:
  "\<exists>pv s' res. execute_preview example_exec ''/c.yinshu'' ''secret'' (example_import_world, example_state) =
       (Inr (RsImportPreview pv), (tick example_import_world, example_state))
     \<and> execute_import example_exec ''/c.yinshu'' ''secret'' (ip_file_hash pv) (example_import_world, example_state) = (Inr res, s')
     \<and> res = RsConfig (as_config (snd s'))"
proof -
  obtain pv where pv: "execute_preview example_exec ''/c.yinshu'' ''secret'' (example_import_world, example_state) =
       (Inr (RsImportPreview pv), (tick example_import_world, example_state))"
    and h: "ip_file_hash pv = sha256_hex example_transfer (as_bytes ''{}'')"
    by (simp add: execute_preview_def example_libs example_read example_decrypt transfer_pure_def preview_payload_def
        example_state_config example_merge)
  obtain w' st' res where im: "execute_import example_exec ''/c.yinshu'' ''secret'' (ip_file_hash pv)
      (example_import_world, example_state) = (Inr res, (w', st'))"
    by (simp add: execute_import_def h example_libs example_read example_decrypt transfer_pure_def
        example_state_config example_merge example_save)
  from import_applies_previewed_file [OF pv im] have "res = RsConfig (as_config st')" by auto
  with pv im show ?thesis by auto
qed

end
