(* ===== verification/System.thy ===== *)
theory System
  imports Server Worker_Props Command_Props "HOL-Library.Sublist"
begin

text \<open>
  The agent as a whole: the connections, the worker and the commands share one state and take turns. A step is one
  iteration of a connection loop, one part of the loop of the worker (\<open>run_worker_until\<close> of \<open>queue.rs\<close>), a new
  connection, one command or the shutdown. The worker takes a job in one step and processes it in a
  later one, so connections and commands act in between. The fields \<open>sy_accepted\<close> and \<open>sy_taken\<close> record the
  queued jobs and those the worker took, in order; no step reads them.
\<close>

section \<open>The loop of the worker\<close>

datatype worker_phase = WorkerLooping | WorkerProcessing queued_job | WorkerWaiting | WorkerStopped

text \<open>The head of the loop: stop when shut down, otherwise take a job or wait.\<close>

definition worker_next :: "bool \<Rightarrow> agent_state \<Rightarrow> worker_phase \<times> agent_state" where
  "worker_next cancelled st =
     (if cancelled then (WorkerStopped, st)
      else
        (case pop_next (as_queue st) of
           (Some qj, q) \<Rightarrow> (WorkerProcessing qj, st\<lparr>as_queue := q\<rparr>)
         | (None, q) \<Rightarrow> (WorkerWaiting, st\<lparr>as_queue := q\<rparr>)))"

text \<open>Waiting ends with the shutdown or by taking the stored permit.\<close>

definition worker_wake :: "bool \<Rightarrow> agent_state \<Rightarrow> worker_phase \<times> agent_state" where
  "worker_wake cancelled st =
     (if cancelled then (WorkerStopped, st)
      else if as_notified st then (WorkerLooping, st\<lparr>as_notified := False\<rparr>)
      else (WorkerWaiting, st))"

fun phase_job :: "worker_phase \<Rightarrow> queued_job list" where
  "phase_job (WorkerProcessing qj) = [qj]"
| "phase_job _ = []"

section \<open>The status channel\<close>

text \<open>\<open>subscribe_status_events\<close> and the receiving end of the broadcast channel of tokio: a receiver gets what is sent after
  it subscribed, in order; when it is more than the capacity behind it is told how many entries it has lost and
  goes on with the oldest one that is kept. \<open>rx_start\<close>, \<open>rx_skipped\<close> and \<open>rx_seen\<close> record where it began, how many entries
  it lost and which it got; nothing reads them.\<close>

definition STATUS_EVENT_CAPACITY :: nat where "STATUS_EVENT_CAPACITY = 128"

record receiver =
  rx_start :: nat
  rx_next :: nat
  rx_skipped :: nat
  rx_seen :: "task_log_entry list"

definition subscribe_status_events :: "agent_state \<Rightarrow> receiver" where
  "subscribe_status_events st =
     (let n = length (as_status_events st) in \<lparr>rx_start = n, rx_next = n, rx_skipped = 0, rx_seen = []\<rparr>)"

definition status_recv :: "agent_state \<Rightarrow> receiver \<Rightarrow> (socket_event \<times> receiver) option" where
  "status_recv st r =
     (let events = as_status_events st; behind = length events - rx_next r in
      if behind = 0 then None
      else if STATUS_EVENT_CAPACITY < behind then
        (let lost = behind - STATUS_EVENT_CAPACITY in
         Some (StatusLagged lost, r\<lparr>rx_next := rx_next r + lost, rx_skipped := rx_skipped r + lost\<rparr>))
      else
        (let entry = events ! rx_next r in
         Some (StatusReceived entry, r\<lparr>rx_next := Suc (rx_next r), rx_seen := rx_seen r @ [entry]\<rparr>)))"

fun is_status_event :: "socket_event \<Rightarrow> bool" where
  "is_status_event (StatusReceived _) = True"
| "is_status_event (StatusLagged _) = True"
| "is_status_event StatusClosed = True"
| "is_status_event _ = False"

section \<open>The system\<close>

record system =
  sy_world :: world
  sy_agent :: agent_state
  sy_conns :: "nat \<Rightarrow> connection option"
  sy_receivers :: "nat \<Rightarrow> receiver"
  sy_worker :: worker_phase
  sy_cancelled :: bool
  sy_accepted :: "queued_job list"
  sy_taken :: "queued_job list"

definition system_init :: "agent_config \<Rightarrow> system \<Rightarrow> bool" where
  "system_init config s \<longleftrightarrow>
     (\<exists>path h. sy_agent s = (with_printing_and_config_path config path)\<lparr>as_task_history := h\<rparr>)
     \<and> sy_conns s = (\<lambda>_. None) \<and> sy_worker s = WorkerLooping \<and> \<not> sy_cancelled s
     \<and> sy_accepted s = [] \<and> sy_taken s = []"

text \<open>The jobs a step of a connection added to the queue.\<close>

definition newly_pending :: "agent_state \<Rightarrow> agent_state \<Rightarrow> queued_job list" where
  "newly_pending st st' = drop (length (q_pending (as_queue st))) (q_pending (as_queue st'))"

inductive system_step :: "worker_env \<Rightarrow> ws_codec \<Rightarrow> config_serde \<Rightarrow> system \<Rightarrow> system \<Rightarrow> bool"
  for X :: worker_env and C :: ws_codec and S :: config_serde where
  connect:
    "sy_conns s i = None \<Longrightarrow>
     ws_route (we_lib X) (sy_agent s) (Some addr) og = Upgraded og' \<Longrightarrow>
     system_step X C S s
       (s\<lparr>sy_conns := (sy_conns s)(i \<mapsto> open_connection og'),
          sy_receivers := (sy_receivers s)(i := subscribe_status_events (sy_agent s))\<rparr>)"
| socket:
    "sy_conns s i = Some c \<Longrightarrow>
     \<not> is_status_event ev \<Longrightarrow>
     socket_step (we_lib X) C (we_backend X) delivered ev (sy_world s, sy_agent s, c) = (w', st', c') \<Longrightarrow>
     system_step X C S s
       (s\<lparr>sy_world := w', sy_agent := st', sy_conns := (sy_conns s)(i \<mapsto> c'),
          sy_accepted := sy_accepted s @ newly_pending (sy_agent s) st'\<rparr>)"
| status:
    "sy_conns s i = Some c \<Longrightarrow> cn_open c \<Longrightarrow>
     status_recv (sy_agent s) (sy_receivers s i) = Some (ev, r) \<Longrightarrow>
     socket_step (we_lib X) C (we_backend X) delivered ev (sy_world s, sy_agent s, c) = (w', st', c') \<Longrightarrow>
     system_step X C S s
       (s\<lparr>sy_world := w', sy_agent := st', sy_conns := (sy_conns s)(i \<mapsto> c'),
          sy_receivers := (sy_receivers s)(i := r)\<rparr>)"
| take:
    "sy_worker s = WorkerLooping \<Longrightarrow> worker_next (sy_cancelled s) (sy_agent s) = (phase, st') \<Longrightarrow>
     system_step X C S s (s\<lparr>sy_agent := st', sy_worker := phase, sy_taken := sy_taken s @ phase_job phase\<rparr>)"
| process:
    "sy_worker s = WorkerProcessing qj \<Longrightarrow> process_job X qj (sy_world s, sy_agent s) = (w', st') \<Longrightarrow>
     system_step X C S s (s\<lparr>sy_world := w', sy_agent := st', sy_worker := WorkerLooping\<rparr>)"
| wake:
    "sy_worker s = WorkerWaiting \<Longrightarrow> worker_wake (sy_cancelled s) (sy_agent s) = (phase, st') \<Longrightarrow>
     system_step X C S s (s\<lparr>sy_agent := st', sy_worker := phase\<rparr>)"
| command:
    "ee_worker Q = X \<Longrightarrow> ee_serde Q = S \<Longrightarrow>
     runtime_execute Q cmd (sy_world s, sy_agent s) = (res, (w', st')) \<Longrightarrow>
     system_step X C S s (s\<lparr>sy_world := w', sy_agent := st'\<rparr>)"
| shutdown: "system_step X C S s (s\<lparr>sy_cancelled := True\<rparr>)"

inductive_cases system_stepE: "system_step X C S s s'"

definition system_reachable ::
  "worker_env \<Rightarrow> ws_codec \<Rightarrow> config_serde \<Rightarrow> agent_config \<Rightarrow> system \<Rightarrow> bool" where
  "system_reachable X C S config s \<longleftrightarrow>
     (\<exists>s0. system_init config s0 \<and> (system_step X C S)\<^sup>*\<^sup>* s0 s)"

section \<open>What the parts do to the shared state\<close>

lemma send_message_accepted [simp]: "cn_accepted (send_message C d m c) = cn_accepted c"
  by (simp add: send_message_def send_frame_def split: sum.splits)

lemma send_frame_accepted [simp]: "cn_accepted (send_frame d f c) = cn_accepted c"
  by (simp add: send_frame_def)

lemma socket_step_effect:
  assumes "socket_step L C B d ev (w, st, c) = (w', st', c')"
  shows "(st' = st \<and> cn_accepted c' = cn_accepted c)
    \<or> (\<exists>sub. submit L (as_queue st) sub = (Inr (), as_queue st')
         \<and> st' = st\<lparr>as_queue := as_queue st', as_notified := True\<rparr>
         \<and> cn_accepted c' = cn_accepted c \<union> queued_id ` set (submission_entries L sub))"
proof (cases "cn_open c \<and> (\<exists>text0. ev = WsText text0)")
  case True
  then obtain text0 where ev: "ev = WsText text0" and op: "cn_open c" by blast
  obtain out w1 st1 where h: "handle_client_text L C B w st text0 (cn_origin c) = (out, w1, st1)"
    by (metis prod_cases3)
  with assms ev op have st: "st' = st1"
      "cn_accepted c' = cn_accepted c \<union> set (co_accepted_job_ids out)"
    by (auto simp: socket_step_def)
  from handle_client_text_cases [OF h] show ?thesis
    using st by (auto simp: accepted_submission_def)
next
  case False
  with assms show ?thesis
    by (auto simp: socket_step_def split: if_splits socket_event.splits option.splits)
qed

lemma socket_status_effect:
  "is_status_event ev \<Longrightarrow> socket_step L C B d ev (w, st, c) = (w', st', c') \<Longrightarrow>
     w' = w \<and> st' = st \<and> cn_accepted c' = cn_accepted c"
  by (cases ev) (auto simp: socket_step_def split: if_splits option.splits)

lemma status_recv_event: "status_recv st rx = Some (ev, rx') \<Longrightarrow> is_status_event ev"
  by (auto simp: status_recv_def Let_def split: if_splits)

text \<open>What a processed job put into the channel.\<close>

definition job_stream :: "queued_job \<Rightarrow> task_log_entry list \<Rightarrow> bool" where
  "job_stream qj es \<longleftrightarrow> lifecycle (map tl_status es) \<and> (\<forall>e \<in> set es. entry_of qj e)"

lemma process_job_effect:
  assumes "process_job X qj (w, st) = (w', st')"
  shows "as_queue st' = as_queue st" "as_notified st' = as_notified st" "as_config st' = as_config st"
    "\<exists>es. as_status_events st' = as_status_events st @ es \<and> job_stream qj es"
proof -
  obtain ss where "lifecycle ss" "job_log X qj ss st st'"
    using process_job_log [of X qj "(w, st)"] assms by auto
  then obtain es where es: "job_stream qj es"
    and st: "st' = st\<lparr>as_logs := foldl log_push (as_logs st) es,
                   as_status_events := as_status_events st @ es,
                   as_task_history := as_task_history st'\<rparr>"
    unfolding job_log_def job_stream_def by blast
  show "as_queue st' = as_queue st" "as_notified st' = as_notified st" "as_config st' = as_config st"
    using arg_cong [OF st, of as_queue] arg_cong [OF st, of as_notified] arg_cong [OF st, of as_config] by simp_all
  show "\<exists>es. as_status_events st' = as_status_events st @ es \<and> job_stream qj es"
    using arg_cong [OF st, of as_status_events] es by auto
qed

lemma worker_next_effect:
  assumes "worker_next b st = (phase, st')"
  shows "b \<and> phase = WorkerStopped \<and> st' = st
    \<or> \<not> b \<and> phase = WorkerWaiting \<and> st' = st \<and> q_pending (as_queue st) = []
    \<or> \<not> b \<and> (\<exists>qj q. phase = WorkerProcessing qj \<and> st' = st\<lparr>as_queue := q\<rparr>
          \<and> q_pending (as_queue st) = qj # q_pending q \<and> q_seen_job_ids q = q_seen_job_ids (as_queue st))"
proof -
  obtain job q where pop: "pop_next (as_queue st) = (job, q)" by (rule prod.exhaust)
  show ?thesis
  proof (cases job)
    case None
    with pop have "q_pending (as_queue st) = [] \<and> q = as_queue st" by (simp add: agent_queue.take_empty)
    with assms pop None show ?thesis by (auto simp: worker_next_def split: if_splits)
  next
    case (Some qj)
    with pop agent_queue.take_next [of "as_queue st" qj q] assms show ?thesis
      by (auto simp: worker_next_def split: if_splits)
  qed
qed

lemma worker_wake_effect:
  "worker_wake b st = (phase, st') \<Longrightarrow>
     b \<and> phase = WorkerStopped \<and> st' = st
       \<or> \<not> b \<and> as_notified st \<and> phase = WorkerLooping \<and> st' = st\<lparr>as_notified := False\<rparr>
       \<or> \<not> b \<and> \<not> as_notified st \<and> phase = WorkerWaiting \<and> st' = st"
  by (auto simp: worker_wake_def split: if_splits)

lemma save_config_frame:
  "save_config L S E w st config = (res, w', st') \<Longrightarrow>
     st' = st \<or> (\<exists>c. config_normal c \<and> st' = st\<lparr>as_config := c\<rparr>)"
  using save_config_ok [of L S E w st config _ w' st'] save_config_err [of L S E w st config _ w' st']
  by (cases res) auto

text \<open>A command leaves queue, notification and status channel alone.\<close>

definition undisturbed :: "agent_state \<Rightarrow> agent_state \<Rightarrow> bool" where
  "undisturbed st st' \<longleftrightarrow>
     as_queue st' = as_queue st \<and> as_notified st' = as_notified st \<and> as_status_events st' = as_status_events st"

lemma undisturbed_refl [simp]: "undisturbed st st"
  by (simp add: undisturbed_def)

lemma undisturbed_save: "undisturbed (snd s) (snd (snd (execute_save_config Q c s)))"
proof -
  obtain w st where s: "s = (w, st)" by (rule prod.exhaust)
  obtain res w' st' where r: "save_config (we_lib (ee_worker Q)) (ee_serde Q) (we_os (ee_worker Q)) w st c = (res, w', st')"
    by (metis prod_cases3)
  from save_config_frame [OF r] show ?thesis
    by (auto simp: s execute_save_config_def r undisturbed_def split: sum.split)
qed

lemma undisturbed_test_print:
  "undisturbed (snd s) (snd (snd (print_test_page_with_config X D config s)))"
  by (cases s) (simp add: undisturbed_def print_test_page_with_config_def record_test_print_history_def Let_def
      split: option.splits prod.splits)

lemma undisturbed_import: "undisturbed (snd s) (snd (snd (execute_import Q p pw h s)))"
proof -
  obtain w st where s: "s = (w, st)" by (rule prod.exhaust)
  have save: "undisturbed st (snd (snd (execute_save_config Q c (w1, st))))" for c w1
    using undisturbed_save [of "(w1, st)" Q c] by simp
  show ?thesis by (auto simp: s execute_import_def save split: prod.split sum.split)
qed

lemma undisturbed_execute: "undisturbed (snd s) (snd (snd (runtime_execute Q c s)))"
proof -
  obtain w st where s: "s = (w, st)" by (rule prod.exhaust)
  show ?thesis
  proof (cases c)
    case (SaveConfig x)
    then show ?thesis using undisturbed_save [of s Q x] by (simp add: s runtime_execute_def)
  next
    case (ImportConfig p pw h)
    then show ?thesis using undisturbed_import [of s Q p pw h] by (simp add: s runtime_execute_def)
  next
    case (TestPrint config)
    then show ?thesis using undisturbed_test_print [of "(w, st)" "ee_worker Q" "ee_device Q" config]
      by (auto simp: s runtime_execute_def split: prod.split sum.split)
  next
    case ClearTaskHistory
    then show ?thesis
      by (auto simp: s runtime_execute_def execute_clear_history_def Let_def undisturbed_def
          split: option.split prod.split sum.split)
  qed (auto simp: s runtime_execute_def execute_preview_def execute_export_def execute_validate_def Let_def
      split: option.split prod.split sum.split dest!: history_query_state)
qed

lemma execute_config_normal:
  "config_normal (as_config (snd s)) \<Longrightarrow> config_normal (as_config (snd (snd (runtime_execute Q c s))))"
  using runtime_execute_config [of Q c s] by (auto simp: config_saved_def config_kept_def)

section \<open>The invariant\<close>

definition queue_inv :: "system \<Rightarrow> bool" where
  "queue_inv s \<longleftrightarrow>
     sy_accepted s = sy_taken s @ q_pending (as_queue (sy_agent s))
     \<and> distinct (map queued_id (sy_accepted s))
     \<and> q_seen_job_ids (as_queue (sy_agent s)) = queued_id ` set (sy_accepted s)"

definition conn_inv :: "system \<Rightarrow> bool" where
  "conn_inv s \<longleftrightarrow>
     (\<forall>i c. sy_conns s i = Some c \<longrightarrow> cn_accepted c \<subseteq> q_seen_job_ids (as_queue (sy_agent s)))
     \<and> (\<forall>i j c d. sy_conns s i = Some c \<longrightarrow> sy_conns s j = Some d \<longrightarrow> i \<noteq> j \<longrightarrow>
          cn_accepted c \<inter> cn_accepted d = {})"

definition wake_inv :: "system \<Rightarrow> bool" where
  "wake_inv s \<longleftrightarrow>
     (sy_worker s = WorkerWaiting \<longrightarrow> q_pending (as_queue (sy_agent s)) \<noteq> [] \<longrightarrow>
        as_notified (sy_agent s))
     \<and> (sy_worker s = WorkerStopped \<longrightarrow> sy_cancelled s)"

text \<open>The channel holds one complete life cycle of every job that was processed, one after the other. The last job
  that was taken may still be in work.\<close>

definition processed_jobs :: "system \<Rightarrow> queued_job list" where
  "processed_jobs s = (case sy_worker s of WorkerProcessing _ \<Rightarrow> butlast (sy_taken s) | _ \<Rightarrow> sy_taken s)"

lemma processed_jobs_simps [simp]:
  "sy_worker s = WorkerLooping \<Longrightarrow> processed_jobs s = sy_taken s"
  "sy_worker s = WorkerWaiting \<Longrightarrow> processed_jobs s = sy_taken s"
  "sy_worker s = WorkerStopped \<Longrightarrow> processed_jobs s = sy_taken s"
  "sy_worker s = WorkerProcessing qj \<Longrightarrow> processed_jobs s = butlast (sy_taken s)"
  by (simp_all add: processed_jobs_def)

lemma processed_jobs_update [simp]:
  "processed_jobs (s\<lparr>sy_world := w\<rparr>) = processed_jobs s" "processed_jobs (s\<lparr>sy_agent := st\<rparr>) = processed_jobs s"
  "processed_jobs (s\<lparr>sy_conns := cs\<rparr>) = processed_jobs s" "processed_jobs (s\<lparr>sy_accepted := a\<rparr>) = processed_jobs s"
  "processed_jobs (s\<lparr>sy_cancelled := b\<rparr>) = processed_jobs s" "processed_jobs (s\<lparr>sy_receivers := rs\<rparr>) = processed_jobs s"
  by (simp_all add: processed_jobs_def cong: worker_phase.case_cong)

definition event_inv :: "system \<Rightarrow> bool" where
  "event_inv s \<longleftrightarrow>
     (\<exists>ess. as_status_events (sy_agent s) = concat ess \<and> list_all2 job_stream (processed_jobs s) ess)
     \<and> processed_jobs s @ phase_job (sy_worker s) = sy_taken s
     \<and> config_normal (as_config (sy_agent s))"

text \<open>A receiver has got a part of what was sent since it subscribed, in order, and all of it when it never fell
  behind; nothing of the jobs of its connection was sent before.\<close>

definition receiver_inv :: "task_log_entry list \<Rightarrow> string set \<Rightarrow> receiver \<Rightarrow> bool" where
  "receiver_inv events ids r \<longleftrightarrow>
     rx_start r \<le> rx_next r \<and> rx_next r \<le> length events
     \<and> subseq (rx_seen r) (drop (rx_start r) (take (rx_next r) events))
     \<and> (rx_skipped r = 0 \<longrightarrow> rx_seen r = drop (rx_start r) (take (rx_next r) events))
     \<and> (\<forall>e \<in> set (take (rx_start r) events). tl_job_id e \<notin> Some ` ids)"

definition channel_inv :: "system \<Rightarrow> bool" where
  "channel_inv s \<longleftrightarrow>
     (\<forall>i c. sy_conns s i = Some c \<longrightarrow>
        receiver_inv (as_status_events (sy_agent s)) (cn_accepted c) (sy_receivers s i))"

definition system_inv :: "system \<Rightarrow> bool" where
  "system_inv s \<longleftrightarrow> queue_inv s \<and> conn_inv s \<and> wake_inv s \<and> event_inv s"

lemmas inv_defs = queue_inv_def conn_inv_def wake_inv_def event_inv_def

lemma system_init_inv: "system_init config s \<Longrightarrow> system_inv s"
  by (auto simp: system_init_def system_inv_def inv_defs with_printing_and_config_path_def
      queue_default_def processed_jobs_def)

text \<open>A submission keeps the invariant: its identifiers are new, so no other connection has
  them, and it leaves the permit for the worker.\<close>

lemma submit_queue_inv:
  assumes "queue_inv s" and sub: "submit L (as_queue (sy_agent s)) sub = (Inr (), as_queue st')"
  shows "newly_pending (sy_agent s) st' = submission_entries L sub"
    and "q_pending (as_queue st') = q_pending (as_queue (sy_agent s)) @ submission_entries L sub"
    and "q_seen_job_ids (as_queue st') =
      q_seen_job_ids (as_queue (sy_agent s)) \<union> queued_id ` set (submission_entries L sub)"
    and "distinct (map queued_id (sy_accepted s @ submission_entries L sub))"
proof -
  show p: "q_pending (as_queue st') = q_pending (as_queue (sy_agent s)) @ submission_entries L sub"
    by (rule agent_queue.offer_waiting [OF sub])
  then show "newly_pending (sy_agent s) st' = submission_entries L sub"
    by (simp add: newly_pending_def)
  show "q_seen_job_ids (as_queue st') =
      q_seen_job_ids (as_queue (sy_agent s)) \<union> queued_id ` set (submission_entries L sub)"
    by (rule agent_queue.offer_known [OF sub])
  show "distinct (map queued_id (sy_accepted s @ submission_entries L sub))"
  proof -
    from assms(1) have "distinct (map queued_id (sy_accepted s))"
        "q_seen_job_ids (as_queue (sy_agent s)) = queued_id ` set (sy_accepted s)"
      unfolding queue_inv_def by blast+
    with agent_queue.offer_fresh [OF sub] show ?thesis by simp
  qed
qed

text \<open>The parts of the invariant depend on these fields only.\<close>

lemma queue_inv_cong:
  "sy_accepted s' = sy_accepted s \<Longrightarrow> sy_taken s' = sy_taken s \<Longrightarrow>
     as_queue (sy_agent s') = as_queue (sy_agent s) \<Longrightarrow> queue_inv s' = queue_inv s"
  by (simp add: queue_inv_def)

lemma conn_inv_cong:
  "(\<And>i. map_option cn_accepted (sy_conns s' i) = map_option cn_accepted (sy_conns s i)) \<Longrightarrow>
     as_queue (sy_agent s') = as_queue (sy_agent s) \<Longrightarrow> conn_inv s \<Longrightarrow> conn_inv s'"
proof -
  assume same: "\<And>i. map_option cn_accepted (sy_conns s' i) = map_option cn_accepted (sy_conns s i)"
    and q: "as_queue (sy_agent s') = as_queue (sy_agent s)" and inv: "conn_inv s"
  have old: "\<exists>d. sy_conns s i = Some d \<and> cn_accepted d = cn_accepted c" if "sy_conns s' i = Some c" for i c
    using same [of i] that by (cases "sy_conns s i") auto
  show ?thesis
    using inv unfolding conn_inv_def q by (auto dest!: old) blast+
qed

lemma event_inv_cong:
  "sy_taken s' = sy_taken s \<Longrightarrow> processed_jobs s' = processed_jobs s \<Longrightarrow>
     phase_job (sy_worker s') = phase_job (sy_worker s) \<Longrightarrow>
     as_status_events (sy_agent s') = as_status_events (sy_agent s) \<Longrightarrow>
     config_normal (as_config (sy_agent s')) \<Longrightarrow> event_inv s \<Longrightarrow> event_inv s'"
  by (simp add: event_inv_def)

lemma conn_inv_fresh:
  "conn_inv s \<Longrightarrow> sy_conns s i = None \<Longrightarrow>
     conn_inv (s\<lparr>sy_conns := (sy_conns s)(i \<mapsto> open_connection og), sy_receivers := rs\<rparr>)"
  unfolding conn_inv_def by (auto simp: open_connection_def split: if_splits)

lemma conn_inv_grow:
  assumes inv: "conn_inv s" and c: "sy_conns s i = Some c"
    and fresh: "q_seen_job_ids (as_queue (sy_agent s)) \<inter> N = {}"
    and conns: "sy_conns s' = (sy_conns s)(i \<mapsto> c')" and acc: "cn_accepted c' = cn_accepted c \<union> N"
    and seen: "q_seen_job_ids (as_queue (sy_agent s')) = q_seen_job_ids (as_queue (sy_agent s)) \<union> N"
  shows "conn_inv s'"
proof -
  have sub: "cn_accepted d \<subseteq> q_seen_job_ids (as_queue (sy_agent s))" if "sy_conns s j = Some d" for j d
    using inv that unfolding conn_inv_def by blast
  have dis: "cn_accepted d \<inter> cn_accepted e = {}"
    if "sy_conns s j = Some d" "sy_conns s k = Some e" "j \<noteq> k" for j k d e
    using inv that unfolding conn_inv_def by blast
  have other: "cn_accepted d \<inter> N = {}" if "sy_conns s j = Some d" for j d
    using sub [OF that] fresh by blast
  show ?thesis
    unfolding conn_inv_def
  proof (intro conjI allI impI)
    fix j d
    assume "sy_conns s' j = Some d"
    then show "cn_accepted d \<subseteq> q_seen_job_ids (as_queue (sy_agent s'))"
      using sub [of j d] sub [OF c] acc by (cases "j = i") (auto simp: conns seen)
  next
    fix j k d e
    assume "sy_conns s' j = Some d" "sy_conns s' k = Some e" "j \<noteq> k"
    then have jk: "j \<noteq> k" and j: "j \<noteq> i \<Longrightarrow> sy_conns s j = Some d" "j = i \<Longrightarrow> d = c'"
      and k: "k \<noteq> i \<Longrightarrow> sy_conns s k = Some e" "k = i \<Longrightarrow> e = c'"
      by (simp_all add: conns)
    show "cn_accepted d \<inter> cn_accepted e = {}"
    proof (cases "j = i")
      case True
      with jk have "k \<noteq> i" by simp
      from dis [OF c k(1) [OF this]] other [OF k(1) [OF this]] \<open>k \<noteq> i\<close> j(2) [OF True] acc
      show ?thesis by blast
    next
      case False
      note dj = j(1) [OF False]
      show ?thesis
      proof (cases "k = i")
        case True
        from dis [OF dj c False] other [OF dj] k(2) [OF True] acc show ?thesis by blast
      next
        case False
        from dis [OF dj k(1) [OF False] jk] show ?thesis .
      qed
    qed
  qed
qed

lemma socket_inv:
  assumes inv: "system_inv s" and c: "sy_conns s i = Some c"
    and step: "socket_step L C B d ev (sy_world s, sy_agent s, c) = (w', st', c')"
    and s': "s' = s\<lparr>sy_world := w', sy_agent := st', sy_conns := (sy_conns s)(i \<mapsto> c'),
          sy_accepted := sy_accepted s @ newly_pending (sy_agent s) st'\<rparr>"
  shows "system_inv s'"
  using socket_step_effect [OF step]
proof (elim disjE exE conjE)
  assume e: "st' = sy_agent s" "cn_accepted c' = cn_accepted c"
  have "queue_inv s' = queue_inv s"
    by (rule queue_inv_cong) (simp_all add: s' e newly_pending_def)
  moreover have "conn_inv s'"
    by (rule conn_inv_cong [of s' s]) (use inv c e s' in \<open>auto simp: system_inv_def\<close>)
  moreover have "wake_inv s'" "event_inv s'"
    using inv e s' by (simp_all add: system_inv_def wake_inv_def event_inv_def)
  ultimately show ?thesis using inv by (simp add: system_inv_def)
next
  fix sub
  assume sub: "submit L (as_queue (sy_agent s)) sub = (Inr (), as_queue st')"
    and st: "st' = (sy_agent s)\<lparr>as_queue := as_queue st', as_notified := True\<rparr>"
    and acc: "cn_accepted c' = cn_accepted c \<union> queued_id ` set (submission_entries L sub)"
  have same: "as_notified st'" "as_status_events st' = as_status_events (sy_agent s)"
      "as_config st' = as_config (sy_agent s)"
    using arg_cong [OF st, of as_notified] arg_cong [OF st, of as_status_events]
      arg_cong [OF st, of as_config] by simp_all
  have q: "queue_inv s" and cn: "conn_inv s" using inv by (simp_all add: system_inv_def)
  note eff = submit_queue_inv [OF q sub]
  have "queue_inv s'" using q eff s' unfolding queue_inv_def by (simp add: image_Un Un_assoc)
  moreover have "conn_inv s'"
    by (rule conn_inv_grow [OF cn c]) (use agent_queue.offer_fresh [OF sub] acc eff(3) s' in auto)
  moreover have "wake_inv s'" using inv same s' by (simp add: wake_inv_def system_inv_def)
  moreover have "event_inv s'" using inv same s' by (simp add: system_inv_def event_inv_def)
  ultimately show ?thesis by (simp add: system_inv_def)
qed

text \<open>Steps that touch neither the queue nor the connections nor the channel.\<close>

lemma quiet_inv:
  assumes "system_inv s" and "sy_accepted s' = sy_accepted s" and "sy_taken s' = sy_taken s"
    and "as_queue (sy_agent s') = as_queue (sy_agent s)" and "sy_conns s' = sy_conns s"
    and "processed_jobs s' = processed_jobs s" and "phase_job (sy_worker s') = phase_job (sy_worker s)"
    and "as_status_events (sy_agent s') = as_status_events (sy_agent s)"
    and "config_normal (as_config (sy_agent s'))" and "wake_inv s'"
  shows "system_inv s'"
  using assms queue_inv_cong [of s' s] conn_inv_cong [of s' s] event_inv_cong [of s' s]
  by (simp add: system_inv_def)

lemma take_inv:
  assumes inv: "system_inv s" and step: "worker_next (sy_cancelled s) (sy_agent s) = (phase, st')"
    and loop: "sy_worker s = WorkerLooping"
    and s': "s' = s\<lparr>sy_agent := st', sy_worker := phase, sy_taken := sy_taken s @ phase_job phase\<rparr>"
  shows "system_inv s'"
  using worker_next_effect [OF step]
proof (elim disjE exE conjE)
  assume "phase = WorkerStopped" "st' = sy_agent s" "sy_cancelled s"
  with inv loop s' show ?thesis by (intro quiet_inv [OF inv]) (simp_all add: system_inv_def wake_inv_def event_inv_def)
next
  assume "phase = WorkerWaiting" "st' = sy_agent s" "q_pending (as_queue (sy_agent s)) = []"
  with inv loop s' show ?thesis by (intro quiet_inv [OF inv]) (simp_all add: system_inv_def wake_inv_def event_inv_def)
next
  fix qj q
  assume ph: "phase = WorkerProcessing qj" and st: "st' = (sy_agent s)\<lparr>as_queue := q\<rparr>"
    and p: "q_pending (as_queue (sy_agent s)) = qj # q_pending q"
    and seen: "q_seen_job_ids q = q_seen_job_ids (as_queue (sy_agent s))"
  from inv have acc: "sy_accepted s = sy_taken s @ q_pending (as_queue (sy_agent s))"
    and keep: "distinct (map queued_id (sy_accepted s))"
      "q_seen_job_ids (as_queue (sy_agent s)) = queued_id ` set (sy_accepted s)"
    unfolding system_inv_def queue_inv_def by blast+
  have "sy_accepted s' = sy_taken s' @ q_pending (as_queue (sy_agent s'))" using acc p ph s' st by simp
  then have "queue_inv s'" using keep seen s' st by (simp add: queue_inv_def)
  moreover have "conn_inv s'" "wake_inv s'"
    using inv seen s' ph st by (simp_all add: system_inv_def conn_inv_def wake_inv_def)
  moreover have "event_inv s'" using inv s' ph st loop by (simp add: system_inv_def event_inv_def)
  ultimately show ?thesis by (simp add: system_inv_def)
qed

lemma process_inv:
  assumes inv: "system_inv s" and step: "process_job X qj (sy_world s, sy_agent s) = (w', st')"
    and busy: "sy_worker s = WorkerProcessing qj"
    and s': "s' = s\<lparr>sy_world := w', sy_agent := st', sy_worker := WorkerLooping\<rparr>"
  shows "system_inv s'"
proof -
  note eff = process_job_effect [OF step]
  from eff(4) obtain es where es: "as_status_events st' = as_status_events (sy_agent s) @ es" "job_stream qj es"
    by blast
  from inv obtain ess where ess: "as_status_events (sy_agent s) = concat ess" "list_all2 job_stream (processed_jobs s) ess"
    and t: "processed_jobs s @ phase_job (sy_worker s) = sy_taken s"
    unfolding system_inv_def event_inv_def by blast
  have "processed_jobs s' = processed_jobs s @ [qj]" using t [symmetric] s' busy by (simp del: processed_jobs_simps(4))
  moreover have "list_all2 job_stream (processed_jobs s @ [qj]) (ess @ [es])"
    using ess(2) es(2) by (simp add: list_all2_appendI)
  moreover have "as_status_events (sy_agent s') = concat (ess @ [es])" using es(1) ess(1) s' by simp
  ultimately have "\<exists>ess. as_status_events (sy_agent s') = concat ess \<and> list_all2 job_stream (processed_jobs s') ess"
    by metis
  then have "event_inv s'" using inv eff(3) s' by (simp add: system_inv_def event_inv_def)
  moreover have "queue_inv s' = queue_inv s" by (rule queue_inv_cong) (simp_all add: s' eff)
  moreover have "conn_inv s'" "wake_inv s'"
    using inv eff s' by (simp_all add: system_inv_def conn_inv_def wake_inv_def)
  ultimately show ?thesis using inv by (simp add: system_inv_def)
qed

lemma wake_inv_step:
  assumes inv: "system_inv s" and step: "worker_wake (sy_cancelled s) (sy_agent s) = (phase, st')"
    and wait: "sy_worker s = WorkerWaiting"
    and s': "s' = s\<lparr>sy_agent := st', sy_worker := phase\<rparr>"
  shows "system_inv s'"
  by (rule quiet_inv [OF inv])
    (use inv wait s' worker_wake_effect [OF step] in
      \<open>auto simp: system_inv_def wake_inv_def event_inv_def\<close>)

lemma command_inv:
  assumes inv: "system_inv s" and step: "runtime_execute Q cmd (sy_world s, sy_agent s) = (res, (w', st'))"
    and s': "s' = s\<lparr>sy_world := w', sy_agent := st'\<rparr>"
  shows "system_inv s'"
proof -
  have "undisturbed (sy_agent s) st'" using undisturbed_execute [of "(sy_world s, sy_agent s)" Q cmd] step by simp
  moreover have "config_normal (as_config st')"
    using execute_config_normal [of "(sy_world s, sy_agent s)" Q cmd] step inv
    by (simp add: system_inv_def event_inv_def)
  ultimately show ?thesis
    by (intro quiet_inv [OF inv])
      (use inv s' in \<open>simp_all add: undisturbed_def system_inv_def wake_inv_def\<close>)
qed

lemma status_inv:
  assumes inv: "system_inv s" and c: "sy_conns s i = Some c"
    and rcv: "status_recv (sy_agent s) rx = Some (ev, r)"
    and step: "socket_step L C B d ev (sy_world s, sy_agent s, c) = (w', st', c')"
    and s': "s' = s\<lparr>sy_world := w', sy_agent := st', sy_conns := (sy_conns s)(i \<mapsto> c'), sy_receivers := rs\<rparr>"
  shows "system_inv s'"
proof -
  note e = socket_status_effect [OF status_recv_event [OF rcv] step]
  have "conn_inv s'"
    by (rule conn_inv_cong [of s' s]) (use inv c e s' in \<open>auto simp: system_inv_def\<close>)
  moreover have "queue_inv s'" "wake_inv s'" "event_inv s'"
    using inv e s' queue_inv_cong [of s' s] by (simp_all add: system_inv_def wake_inv_def event_inv_def)
  ultimately show ?thesis by (simp add: system_inv_def)
qed

lemma connect_inv:
  assumes inv: "system_inv s" and none: "sy_conns s i = None"
    and s': "s' = s\<lparr>sy_conns := (sy_conns s)(i \<mapsto> open_connection og), sy_receivers := rs\<rparr>"
  shows "system_inv s'"
  using inv conn_inv_fresh [of s i rs og] none s' queue_inv_cong [of s' s] event_inv_cong [of s' s]
  by (simp add: system_inv_def wake_inv_def event_inv_def)

lemma system_step_inv:
  assumes "system_inv s" and "system_step X C S s s'"
  shows "system_inv s'"
  using assms(2,1)
proof induction
  case (connect s i addr og og')
  show ?case by (rule connect_inv [OF connect.prems connect.hyps(1) refl])
next
  case (socket s i c ev d w' st' c')
  show ?case by (rule socket_inv [OF socket.prems socket.hyps(1,3) refl])
next
  case (status s i c ev r d w' st' c')
  show ?case by (rule status_inv [OF status.prems status.hyps(1,3,4) refl])
next
  case (take s phase st')
  show ?case by (rule take_inv [OF take.prems take.hyps(2,1) refl])
next
  case (process s qj w' st')
  show ?case by (rule process_inv [OF process.prems process.hyps(2,1) refl])
next
  case (wake s phase st')
  show ?case by (rule wake_inv_step [OF wake.prems wake.hyps(2,1) refl])
next
  case (command Q cmd s res w' st')
  show ?case by (rule command_inv [OF command.prems command.hyps(3) refl])
next
  case (shutdown s)
  show ?case
    by (rule quiet_inv [OF shutdown.prems])
      (use shutdown.prems in \<open>simp_all add: system_inv_def wake_inv_def event_inv_def\<close>)
qed

section \<open>The status stream of a job\<close>

lemma job_stream_filter:
  "job_stream qj es \<Longrightarrow> [e\<leftarrow>es. tl_job_id e = Some j] = (if j = queued_id qj then es else [])"
  by (auto simp: job_stream_def entry_of_def queued_id_def filter_id_conv filter_empty_conv)

lemma job_streams_filter:
  "list_all2 job_stream js ess \<Longrightarrow> distinct (map queued_id js) \<Longrightarrow>
     (j \<notin> queued_id ` set js \<longrightarrow> [e\<leftarrow>concat ess. tl_job_id e = Some j] = [])
     \<and> (j \<in> queued_id ` set js \<longrightarrow> lifecycle (map tl_status [e\<leftarrow>concat ess. tl_job_id e = Some j]))"
proof (induction rule: list_all2_induct)
  case (Cons qj js es ess)
  then have "lifecycle (map tl_status es)" by (simp add: job_stream_def)
  with Cons show ?case by (auto simp: job_stream_filter [OF Cons.hyps(1)])
qed simp

lemma status_stream:
  assumes "system_inv s"
  shows "j \<in> queued_id ` set (processed_jobs s) \<Longrightarrow>
      lifecycle (map tl_status [e\<leftarrow>as_status_events (sy_agent s). tl_job_id e = Some j])"
    and "j \<notin> queued_id ` set (processed_jobs s) \<Longrightarrow> [e\<leftarrow>as_status_events (sy_agent s). tl_job_id e = Some j] = []"
proof -
  from assms obtain ess where ess: "as_status_events (sy_agent s) = concat ess"
      "list_all2 job_stream (processed_jobs s) ess"
    and t: "processed_jobs s @ phase_job (sy_worker s) = sy_taken s"
    unfolding system_inv_def event_inv_def by blast
  have "distinct (map queued_id (processed_jobs s))"
    using assms t unfolding system_inv_def queue_inv_def by (metis distinct_append map_append)
  from job_streams_filter [OF ess(2) this, of j] ess(1)
  show "j \<in> queued_id ` set (processed_jobs s) \<Longrightarrow>
      lifecycle (map tl_status [e\<leftarrow>as_status_events (sy_agent s). tl_job_id e = Some j])"
    and "j \<notin> queued_id ` set (processed_jobs s) \<Longrightarrow> [e\<leftarrow>as_status_events (sy_agent s). tl_job_id e = Some j] = []"
    by simp_all
qed

lemma processed_seen:
  assumes "system_inv s"
  shows "queued_id ` set (processed_jobs s) \<subseteq> q_seen_job_ids (as_queue (sy_agent s))"
proof -
  from assms have "processed_jobs s @ phase_job (sy_worker s) = sy_taken s"
    "q_seen_job_ids (as_queue (sy_agent s)) = queued_id ` set (sy_accepted s)"
    "sy_accepted s = sy_taken s @ q_pending (as_queue (sy_agent s))"
    unfolding system_inv_def event_inv_def queue_inv_def by blast+
  then show ?thesis by (metis UnCI image_mono set_append subsetI)
qed

section \<open>What a connection is told\<close>

lemma receiver_inv_more:
  "receiver_inv events ids r \<Longrightarrow> receiver_inv (events @ es) ids r"
  by (simp add: receiver_inv_def)

lemma receiver_inv_ids:
  "receiver_inv events ids r \<Longrightarrow> \<forall>e \<in> set events. tl_job_id e \<notin> Some ` ids' \<Longrightarrow> receiver_inv events (ids \<union> ids') r"
  unfolding receiver_inv_def by (auto dest: in_set_takeD)

lemma receiver_inv_subscribe: "receiver_inv (as_status_events st) {} (subscribe_status_events st)"
  by (simp add: receiver_inv_def subscribe_status_events_def Let_def)

lemma receiver_inv_recv:
  assumes inv: "receiver_inv (as_status_events st) ids r" and rcv: "status_recv st r = Some (ev, r')"
  shows "receiver_inv (as_status_events st) ids r'"
proof -
  let ?es = "as_status_events st"
  from inv have le: "rx_start r \<le> rx_next r" "rx_next r \<le> length ?es"
    and seen: "subseq (rx_seen r) (drop (rx_start r) (take (rx_next r) ?es))"
    by (simp_all add: receiver_inv_def)
  show ?thesis
  proof (cases "STATUS_EVENT_CAPACITY < length ?es - rx_next r")
    case True
    let ?k = "length ?es - rx_next r - STATUS_EVENT_CAPACITY"
    from True rcv have r': "r' = r\<lparr>rx_next := rx_next r + ?k, rx_skipped := rx_skipped r + ?k\<rparr>"
      by (auto simp: status_recv_def Let_def split: if_splits)
    have "drop (rx_start r) (take (rx_next r + ?k) ?es) =
        drop (rx_start r) (take (rx_next r) ?es) @ take ?k (drop (rx_next r) ?es)"
      using le by (simp add: take_add)
    with seen have "subseq (rx_seen r) (drop (rx_start r) (take (rx_next r + ?k) ?es))"
      by (simp only: subseq_rev_drop_many)
    moreover have "rx_start r \<le> length ?es - STATUS_EVENT_CAPACITY" using le True by linarith
    ultimately show ?thesis using inv True r' by (simp add: receiver_inv_def)
  next
    case False
    let ?e = "?es ! rx_next r"
    from False rcv have lt: "rx_next r < length ?es"
      and r': "r' = r\<lparr>rx_next := Suc (rx_next r), rx_seen := rx_seen r @ [?e]\<rparr>"
      by (auto simp: status_recv_def Let_def split: if_splits)
    have d: "drop (rx_start r) (take (Suc (rx_next r)) ?es) = drop (rx_start r) (take (rx_next r) ?es) @ [?e]"
      using le lt by (simp add: take_Suc_conv_app_nth)
    from seen have "subseq (rx_seen r @ [?e]) (drop (rx_start r) (take (rx_next r) ?es) @ [?e])"
      by (rule list_emb_append_mono) simp
    with inv lt r' d show ?thesis by (simp add: receiver_inv_def)
  qed
qed

lemma channel_inv_grow:
  assumes "channel_inv s" and "sy_conns s' = sy_conns s" and "sy_receivers s' = sy_receivers s"
    and "as_status_events (sy_agent s') = as_status_events (sy_agent s) @ es"
  shows "channel_inv s'"
  using assms receiver_inv_more unfolding channel_inv_def by metis

lemma channel_inv_update:
  assumes inv: "channel_inv s" and "sy_conns s' = (sy_conns s)(i \<mapsto> c)" and "\<And>k. k \<noteq> i \<Longrightarrow> sy_receivers s' k = sy_receivers s k"
    and "as_status_events (sy_agent s') = as_status_events (sy_agent s)"
    and "receiver_inv (as_status_events (sy_agent s)) (cn_accepted c) (sy_receivers s' i)"
  shows "channel_inv s'"
  using assms unfolding channel_inv_def by (auto split: if_splits)

text \<open>A submitted job is new, so nothing of it is in the channel yet.\<close>

lemma socket_channel_inv:
  assumes inv: "system_inv s" and ch: "channel_inv s" and c: "sy_conns s i = Some c"
    and step: "socket_step L C B d ev (sy_world s, sy_agent s, c) = (w', st', c')"
    and s': "s' = s\<lparr>sy_world := w', sy_agent := st', sy_conns := (sy_conns s)(i \<mapsto> c'), sy_accepted := a\<rparr>"
  shows "channel_inv s'"
proof -
  let ?es = "as_status_events (sy_agent s)"
  from ch c have r: "receiver_inv ?es (cn_accepted c) (sy_receivers s i)" unfolding channel_inv_def by blast
  have "as_status_events st' = ?es \<and> receiver_inv ?es (cn_accepted c') (sy_receivers s i)"
    using socket_step_effect [OF step]
  proof (elim disjE exE conjE)
    assume "st' = sy_agent s" "cn_accepted c' = cn_accepted c"
    with r show ?thesis by simp
  next
    fix sub
    assume sub: "submit L (as_queue (sy_agent s)) sub = (Inr (), as_queue st')"
      and st: "st' = (sy_agent s)\<lparr>as_queue := as_queue st', as_notified := True\<rparr>"
      and acc: "cn_accepted c' = cn_accepted c \<union> queued_id ` set (submission_entries L sub)"
    have "tl_job_id e \<notin> Some ` queued_id ` set (submission_entries L sub)" if e: "e \<in> set ?es" for e
    proof
      assume "tl_job_id e \<in> Some ` queued_id ` set (submission_entries L sub)"
      then obtain j where j: "tl_job_id e = Some j" "j \<in> queued_id ` set (submission_entries L sub)" by blast
      from agent_queue.offer_fresh [OF sub] j(2) have "j \<notin> q_seen_job_ids (as_queue (sy_agent s))" by blast
      then have "j \<notin> queued_id ` set (processed_jobs s)" using processed_seen [OF inv] by blast
      from status_stream(2) [OF inv this] e j(1) show False by (auto simp: filter_empty_conv)
    qed
    with r acc have "receiver_inv ?es (cn_accepted c') (sy_receivers s i)" by (simp add: receiver_inv_ids)
    with arg_cong [OF st, of as_status_events] show ?thesis by simp
  qed
  with s' show ?thesis by (intro channel_inv_update [OF ch, of s' i c']) simp_all
qed

lemma channel_step_inv:
  assumes "system_inv s" and "channel_inv s" and "system_step X C S s s'"
  shows "channel_inv s'"
  using assms(3,1,2)
proof induction
  case (connect s i addr og og')
  then show ?case
    by (intro channel_inv_update [OF connect.prems(2), of _ i "open_connection og'"])
      (simp_all add: receiver_inv_subscribe open_connection_def)
next
  case (socket s i c ev d w' st' c')
  show ?case by (rule socket_channel_inv [OF socket.prems socket.hyps(1,3) refl])
next
  case (status s i c ev r d w' st' c')
  note e = socket_status_effect [OF status_recv_event [OF status.hyps(3)] status.hyps(4)]
  from status.prems(2) status.hyps(1)
  have "receiver_inv (as_status_events (sy_agent s)) (cn_accepted c) (sy_receivers s i)" unfolding channel_inv_def by blast
  with receiver_inv_recv [OF this status.hyps(3)] e show ?case
    by (intro channel_inv_update [OF status.prems(2), of _ i c']) simp_all
next
  case (take s phase st')
  from worker_next_effect [OF take.hyps(2)] show ?case
    by (intro channel_inv_grow [OF take.prems(2), of _ "[]"]) auto
next
  case (process s qj w' st')
  from process_job_effect(4) [OF process.hyps(2)] show ?case
    by (elim exE conjE) (rule channel_inv_grow [OF process.prems(2)], simp_all)
next
  case (wake s phase st')
  from worker_wake_effect [OF wake.hyps(2)] show ?case
    by (intro channel_inv_grow [OF wake.prems(2), of _ "[]"]) auto
next
  case (command Q cmd s res w' st')
  have "undisturbed (sy_agent s) st'"
    using undisturbed_execute [of "(sy_world s, sy_agent s)" Q cmd] command.hyps(3) by simp
  then show ?case by (intro channel_inv_grow [OF command.prems(2), of _ "[]"]) (simp_all add: undisturbed_def)
next
  case (shutdown s)
  then show ?case by (intro channel_inv_grow [OF shutdown.prems(2), of _ "[]"]) simp_all
qed

interpretation agent: step_invariant "system_init config" "system_step X C S" "\<lambda>s. system_inv s \<and> channel_inv s"
  for config X C S
  by unfold_locales
    (simp add: system_init_inv, simp add: channel_inv_def system_init_def, blast intro: system_step_inv channel_step_inv)

lemma system_reachable_inv:
  assumes "system_reachable X C S config s"
  shows "system_inv s" and "channel_inv s"
  using assms unfolding system_reachable_def by (blast dest: agent.reach_I)+

text \<open>What a connection got of one of its jobs.\<close>

lemma seen_of_job:
  assumes "receiver_inv events ids r" and "j \<in> ids"
  shows "subseq [e\<leftarrow>rx_seen r. tl_job_id e = Some j] [e\<leftarrow>events. tl_job_id e = Some j]"
    and "rx_skipped r = 0 \<Longrightarrow> rx_next r = length events \<Longrightarrow>
      [e\<leftarrow>rx_seen r. tl_job_id e = Some j] = [e\<leftarrow>events. tl_job_id e = Some j]"
proof -
  let ?f = "filter (\<lambda>e. tl_job_id e = Some j)"
  have "?f (take (rx_start r) events) = []" using assms by (auto simp: receiver_inv_def filter_empty_conv)
  then have eq: "?f events = ?f (drop (rx_start r) events)" by (metis append.left_neutral append_take_drop_id filter_append)
  have "subseq (rx_seen r) (drop (rx_start r) events)"
  proof -
    have "drop (rx_start r) events = drop (rx_start r) (take (rx_next r) events) @ drop (rx_next r) events"
      using assms(1) by (metis append_take_drop_id diff_is_0_eq drop_0 drop_append length_take min.absorb2 receiver_inv_def)
    moreover have "subseq (rx_seen r) (drop (rx_start r) (take (rx_next r) events))"
      using assms(1) by (simp add: receiver_inv_def)
    ultimately show ?thesis by (simp only: subseq_rev_drop_many)
  qed
  then show "subseq (?f (rx_seen r)) (?f events)" unfolding eq by (rule subseq_filter)
  show "rx_skipped r = 0 \<Longrightarrow> rx_next r = length events \<Longrightarrow> ?f (rx_seen r) = ?f events"
    using assms(1) by (simp add: receiver_inv_def eq)
qed

text \<open>An open connection that is not too far behind can receive the rest by itself.\<close>

lemma catch_up:
  assumes enc: "\<And>m. \<exists>x. print_server C m = Inr x"
  shows "sy_conns s i = Some c \<Longrightarrow> cn_open c \<Longrightarrow> rx_next (sy_receivers s i) \<le> length (as_status_events (sy_agent s)) \<Longrightarrow>
    length (as_status_events (sy_agent s)) - rx_next (sy_receivers s i) \<le> STATUS_EVENT_CAPACITY \<Longrightarrow>
    \<exists>s' c'. (system_step X C S)\<^sup>*\<^sup>* s s' \<and> sy_conns s' i = Some c' \<and> cn_accepted c' = cn_accepted c
      \<and> sy_agent s' = sy_agent s \<and> processed_jobs s' = processed_jobs s
      \<and> rx_skipped (sy_receivers s' i) = rx_skipped (sy_receivers s i)
      \<and> rx_next (sy_receivers s' i) = length (as_status_events (sy_agent s))"
proof (induction "length (as_status_events (sy_agent s)) - rx_next (sy_receivers s i)" arbitrary: s c)
  case 0
  then show ?case by (intro exI [of _ s] exI [of _ c]) simp
next
  case (Suc n)
  let ?r = "sy_receivers s i"
  let ?e = "as_status_events (sy_agent s) ! rx_next ?r"
  let ?r' = "?r\<lparr>rx_next := Suc (rx_next ?r), rx_seen := rx_seen ?r @ [?e]\<rparr>"
  have rcv: "status_recv (sy_agent s) ?r = Some (StatusReceived ?e, ?r')"
    using Suc.hyps(2) Suc.prems(4) by (simp add: status_recv_def Let_def)
  obtain w' st' c' where st: "socket_step (we_lib X) C (we_backend X) True (StatusReceived ?e) (sy_world s, sy_agent s, c) = (w', st', c')"
    by (metis prod_cases3)
  have op: "cn_open c'"
  proof (cases "status_message_for_connection ?e (cn_accepted c)")
    case None
    with st Suc.prems(2) show ?thesis by (auto simp: socket_step_def)
  next
    case (Some m)
    obtain x where "print_server C m = Inr x" using enc by blast
    with st Suc.prems(2) Some show ?thesis by (auto simp: socket_step_def send_message_def send_frame_def)
  qed
  note e = socket_status_effect [OF status_recv_event [OF rcv] st]
  let ?s1 = "s\<lparr>sy_world := w', sy_agent := st', sy_conns := (sy_conns s)(i \<mapsto> c'), sy_receivers := (sy_receivers s)(i := ?r')\<rparr>"
  have step: "system_step X C S s ?s1" by (rule system_step.status [OF Suc.prems(1,2) rcv st])
  have "\<exists>s' c''. (system_step X C S)\<^sup>*\<^sup>* ?s1 s' \<and> sy_conns s' i = Some c'' \<and> cn_accepted c'' = cn_accepted c'
      \<and> sy_agent s' = sy_agent ?s1 \<and> processed_jobs s' = processed_jobs ?s1
      \<and> rx_skipped (sy_receivers s' i) = rx_skipped (sy_receivers ?s1 i)
      \<and> rx_next (sy_receivers s' i) = length (as_status_events (sy_agent ?s1))"
    by (rule Suc.hyps(1)) (use Suc.hyps(2) Suc.prems op e in auto)
  with step e show ?case by (auto intro: converse_rtranclp_into_rtranclp)
qed

section \<open>The worker left to itself\<close>

text \<open>One turn of the worker task, which is deterministic.\<close>

definition worker_turn :: "worker_env \<Rightarrow> system \<Rightarrow> system" where
  "worker_turn X s =
     (case sy_worker s of
        WorkerLooping \<Rightarrow>
          (case worker_next (sy_cancelled s) (sy_agent s) of (phase, st') \<Rightarrow>
             s\<lparr>sy_agent := st', sy_worker := phase, sy_taken := sy_taken s @ phase_job phase\<rparr>)
      | WorkerProcessing qj \<Rightarrow>
          (case process_job X qj (sy_world s, sy_agent s) of (w', st') \<Rightarrow>
             s\<lparr>sy_world := w', sy_agent := st', sy_worker := WorkerLooping\<rparr>)
      | WorkerWaiting \<Rightarrow>
          (case worker_wake (sy_cancelled s) (sy_agent s) of (phase, st') \<Rightarrow>
             s\<lparr>sy_agent := st', sy_worker := phase\<rparr>)
      | WorkerStopped \<Rightarrow> s)"

abbreviation waiting_jobs :: "system \<Rightarrow> queued_job list" where
  "waiting_jobs s \<equiv> q_pending (as_queue (sy_agent s))"

lemma worker_turn_step: "sy_worker s \<noteq> WorkerStopped \<Longrightarrow> system_step X C S s (worker_turn X s)"
  by (cases "sy_worker s")
    (auto simp: worker_turn_def intro!: system_step.take system_step.process system_step.wake split: prod.splits)

lemma worker_turn_frame:
  "sy_cancelled (worker_turn X s) = sy_cancelled s \<and> sy_conns (worker_turn X s) = sy_conns s
     \<and> sy_receivers (worker_turn X s) = sy_receivers s
     \<and> sy_accepted (worker_turn X s) = sy_accepted s"
  by (simp add: worker_turn_def split: worker_phase.splits prod.splits)

lemma worker_turns_frame:
  "sy_cancelled ((worker_turn X ^^ n) s) = sy_cancelled s \<and> sy_conns ((worker_turn X ^^ n) s) = sy_conns s
     \<and> sy_receivers ((worker_turn X ^^ n) s) = sy_receivers s
     \<and> sy_accepted ((worker_turn X ^^ n) s) = sy_accepted s"
  by (induction n) (simp_all add: worker_turn_frame)

lemma worker_turn_inv: "system_inv s \<Longrightarrow> system_inv (worker_turn X s)"
  by (cases "sy_worker s = WorkerStopped")
    (simp add: worker_turn_def, rule system_step_inv [OF _ worker_turn_step])

lemma worker_turns_inv: "system_inv s \<Longrightarrow> system_inv ((worker_turn X ^^ n) s)"
  by (induction n) (simp_all add: worker_turn_inv)

text \<open>The turns the worker still has to make: two for a job, one for the job in work or for waking up.\<close>

definition turns_left :: "system \<Rightarrow> nat" where
  "turns_left s =
     2 * length (waiting_jobs s)
     + (case sy_worker s of
          WorkerProcessing _ \<Rightarrow> 1 | WorkerWaiting \<Rightarrow> of_bool (waiting_jobs s \<noteq> []) | _ \<Rightarrow> 0)"

lemma turns_left_decreases:
  assumes inv: "system_inv s" and nc: "\<not> sy_cancelled s" and left: "0 < turns_left s"
  shows "turns_left (worker_turn X s) < turns_left s"
proof (cases "sy_worker s")
  case WorkerLooping
  obtain phase st' where n: "worker_next (sy_cancelled s) (sy_agent s) = (phase, st')" by (rule prod.exhaust)
  from worker_next_effect [OF n] nc left WorkerLooping n show ?thesis
    by (auto simp: turns_left_def worker_turn_def)
next
  case (WorkerProcessing qj)
  obtain w' st' where p: "process_job X qj (sy_world s, sy_agent s) = (w', st')" by (rule prod.exhaust)
  from process_job_effect(1) [OF p] WorkerProcessing p show ?thesis by (simp add: turns_left_def worker_turn_def)
next
  case WorkerWaiting
  with left have "waiting_jobs s \<noteq> []" by (auto simp: turns_left_def)
  with inv WorkerWaiting have "as_notified (sy_agent s)" by (simp add: system_inv_def wake_inv_def)
  with WorkerWaiting nc \<open>waiting_jobs s \<noteq> []\<close> show ?thesis
    by (simp add: turns_left_def worker_turn_def worker_wake_def)
next
  case WorkerStopped
  with inv nc show ?thesis by (simp add: system_inv_def wake_inv_def)
qed

lemma worker_finishes:
  "system_inv s \<Longrightarrow> \<not> sy_cancelled s \<Longrightarrow> \<exists>n \<le> turns_left s. turns_left ((worker_turn X ^^ n) s) = 0"
proof (induction "turns_left s" arbitrary: s rule: less_induct)
  case less
  show ?case
  proof (cases "turns_left s = 0")
    case True
    then show ?thesis by (intro exI [of _ 0]) simp
  next
    case False
    then have dec: "turns_left (worker_turn X s) < turns_left s" using turns_left_decreases less.prems by simp
    from less.hyps [OF dec worker_turn_inv [OF less.prems(1)]] less.prems(2) worker_turn_frame [of X s]
    obtain n where "n \<le> turns_left (worker_turn X s)" "turns_left ((worker_turn X ^^ n) (worker_turn X s)) = 0"
      by auto
    with dec show ?thesis by (intro exI [of _ "Suc n"]) (simp add: funpow_Suc_right del: funpow.simps)
  qed
qed

lemma turns_left_bound: "turns_left s \<le> Suc (2 * length (waiting_jobs s))"
  by (simp add: turns_left_def split: worker_phase.split)

lemma no_turns_left:
  "system_inv s \<Longrightarrow> turns_left s = 0 \<Longrightarrow> waiting_jobs s = [] \<and> processed_jobs s = sy_accepted s"
  by (auto simp: turns_left_def system_inv_def queue_inv_def processed_jobs_def split: worker_phase.splits)

section \<open>Shutdown\<close>

text \<open>Once cancelled, the worker finishes the job in work and stops.\<close>

lemma worker_stops:
  assumes inv: "system_inv s" and c: "sy_cancelled s"
  shows "sy_worker ((worker_turn X ^^ 2) s) = WorkerStopped \<and> sy_taken ((worker_turn X ^^ 2) s) = sy_taken s
    \<and> processed_jobs ((worker_turn X ^^ 2) s) = sy_taken s
    \<and> waiting_jobs ((worker_turn X ^^ 2) s) = waiting_jobs s"
proof (cases "sy_worker s")
  case (WorkerProcessing qj)
  obtain w' st' where p: "process_job X qj (sy_world s, sy_agent s) = (w', st')" by (rule prod.exhaust)
  with WorkerProcessing process_job_effect(1) [OF p] c show ?thesis
    by (simp add: numeral_2_eq_2 worker_turn_def worker_next_def)
qed (use c in \<open>simp_all add: numeral_2_eq_2 worker_turn_def worker_next_def worker_wake_def\<close>)

end
