(* ===== verification/Proxy_Service.thy ===== *)
theory Proxy_Service
  imports Proxy
begin

text \<open>
  The filtering proxy at work, \<open>FilteringProxy\<close> of \<open>crates/runtime/src/html/proxy.rs\<close>: its accept loop, the tasks of
  the connections, which handle their requests at the same time, the renderer that clears the tracker before
  it navigates, and the shutdown. A request is handled in two steps. It reads the page it belongs to when it
  arrives; connecting, answering and recording a refused resource happen later, in whatever order the tasks get on.
\<close>

section \<open>One request in two steps\<close>

text \<open>What a handler does after it has looked at the page.\<close>

definition respond :: "proxy_env \<Rightarrow> proxy_state \<Rightarrow> nat \<Rightarrow> proxy_request \<Rightarrow> proxy_outcome" where
  "respond V p k r =
     (if pr_is_connect r then handle_connect V p k r
      else if is_inline_request p r then
        (case px_inline p of
           Some route \<Rightarrow> (Ok (InlinePage (ir_body route)), [])
         | None \<Rightarrow> (Err (invalid_request ''route checked''), []))
      else if is_inline_favicon_request p r then (Ok NoContent, [])
      else handle_http V p k r)"

definition finish_request ::
  "proxy_env \<Rightarrow> proxy_state \<Rightarrow> nat \<Rightarrow> proxy_request \<Rightarrow> bool \<Rightarrow> proxy_response \<times> socket_addr list \<times> proxy_state" where
  "finish_request V p k r belongs =
     (case respond V p k r of
        (Inr resp, conns) \<Rightarrow> (resp, conns, p)
      | (Inl e, conns) \<Rightarrow>
          (error_response e, conns, p\<lparr>px_tracker := record_rejected_resource (px_tracker p) e belongs\<rparr>))"

lemma handle_in_two_steps:
  "handle V p k r = finish_request V p k r (belongs_to_page (pe_lib V) (px_tracker p) r)"
  by (simp add: handle_def finish_request_def respond_def Let_def split: prod.splits)

text \<open>The resource that a request reports, if it reports one.\<close>

definition reported :: "proxy_env \<Rightarrow> proxy_state \<Rightarrow> nat \<Rightarrow> proxy_request \<Rightarrow> bool \<Rightarrow> string list" where
  "reported V p k r belongs =
     (case fst (respond V p k r) of
        Inl (HeBlockedResource resource) \<Rightarrow> if belongs then [resource] else []
      | _ \<Rightarrow> [])"

section \<open>The service\<close>

text \<open>\<open>ps_contacted\<close> lists the addresses the proxy connected to and \<open>ps_reports\<close> the resources reported since the tracker
  was cleared, in order; no step reads them.\<close>

record proxy_service =
  ps_proxy :: proxy_state
  ps_listening :: bool
  ps_connections :: "nat set"
  ps_requests :: "nat \<Rightarrow> (proxy_request \<times> bool) option"
  ps_calls :: nat
  ps_contacted :: "socket_addr list"
  ps_reports :: "string list"

definition service_init :: "string \<Rightarrow> string option \<Rightarrow> url option \<Rightarrow> proxy_service \<Rightarrow> bool" where
  "service_init uuid inline_html allowed s \<longleftrightarrow>
     ps_proxy s = proxy_start uuid inline_html allowed \<and> ps_listening s \<and> ps_connections s = {}
     \<and> ps_requests s = (\<lambda>_. None) \<and> ps_contacted s = [] \<and> ps_reports s = []"

inductive service_step :: "proxy_env \<Rightarrow> proxy_service \<Rightarrow> proxy_service \<Rightarrow> bool" for V :: proxy_env where
  accept:
    "ps_listening s \<Longrightarrow> i \<notin> ps_connections s \<Longrightarrow>
     service_step V s (s\<lparr>ps_connections := insert i (ps_connections s)\<rparr>)"
| arrive:
    "i \<in> ps_connections s \<Longrightarrow> ps_requests s i = None \<Longrightarrow>
     service_step V s (s\<lparr>ps_requests := (ps_requests s)(i \<mapsto> (r, belongs_to_page (pe_lib V) (px_tracker (ps_proxy s)) r))\<rparr>)"
| finish:
    "ps_requests s i = Some (r, belongs) \<Longrightarrow>
     finish_request V (ps_proxy s) (ps_calls s) r belongs = (resp, conns, p') \<Longrightarrow>
     service_step V s
       (s\<lparr>ps_proxy := p', ps_requests := (ps_requests s)(i := None), ps_calls := Suc (ps_calls s),
          ps_contacted := ps_contacted s @ conns,
          ps_reports := ps_reports s @ reported V (ps_proxy s) (ps_calls s) r belongs\<rparr>)"
| hang_up:
    "service_step V s (s\<lparr>ps_connections := ps_connections s - {i}, ps_requests := (ps_requests s)(i := None)\<rparr>)"
| page:
    "target_url (pe_lib V) (ps_proxy s) source = Some (u, p') \<Longrightarrow> service_step V s (s\<lparr>ps_proxy := p'\<rparr>)"
| clear:
    "service_step V s
       (s\<lparr>ps_proxy := (ps_proxy s)\<lparr>px_tracker := tracker_clear (px_tracker (ps_proxy s))\<rparr>, ps_reports := []\<rparr>)"
| stop: "service_step V s (s\<lparr>ps_listening := False\<rparr>)"

definition service_reachable ::
  "proxy_env \<Rightarrow> string \<Rightarrow> string option \<Rightarrow> url option \<Rightarrow> proxy_service \<Rightarrow> bool" where
  "service_reachable V uuid inline_html allowed s \<longleftrightarrow>
     (\<exists>s0. service_init uuid inline_html allowed s0 \<and> (service_step V)\<^sup>*\<^sup>* s0 s)"

section \<open>The invariant\<close>

definition first_report :: "string list \<Rightarrow> string option" where
  "first_report rs = (case rs of [] \<Rightarrow> None | r # _ \<Rightarrow> Some r)"

lemma first_report_simps [simp]:
  "first_report [] = None" "first_report (xs @ [x]) = opt_or (first_report xs) (Some x)"
  by (simp_all add: first_report_def split: list.splits)

definition service_inv :: "string \<Rightarrow> string option \<Rightarrow> url option \<Rightarrow> proxy_service \<Rightarrow> bool" where
  "service_inv uuid inline_html allowed s \<longleftrightarrow>
     list_all (approved_address allowed) (ps_contacted s)
     \<and> px_allowed_loopback_origin (ps_proxy s) = allowed
     \<and> px_inline (ps_proxy s) = px_inline (proxy_start uuid inline_html allowed)
     \<and> tk_rejected (px_tracker (ps_proxy s)) = first_report (ps_reports s)
     \<and> (\<forall>i. ps_requests s i \<noteq> None \<longrightarrow> i \<in> ps_connections s)"

lemma respond_approved:
  "ipnet_documented (pe_lib V) \<Longrightarrow> list_all (approved_address (px_allowed_loopback_origin p)) (snd (respond V p k r))"
  using handle_connect_approved [of V p k r] handle_http_approved [of V p k r]
  by (simp add: respond_def split: option.split)

lemma finish_request_effect:
  assumes "ipnet_documented (pe_lib V)" and "finish_request V p k r belongs = (resp, conns, p')"
  shows "list_all (approved_address (px_allowed_loopback_origin p)) conns"
    and "px_allowed_loopback_origin p' = px_allowed_loopback_origin p" and "px_inline p' = px_inline p"
    and "tk_rejected (px_tracker p) = first_report rs \<Longrightarrow>
      tk_rejected (px_tracker p') = first_report (rs @ reported V p k r belongs)"
proof -
  obtain m c where m: "respond V p k r = (m, c)" by (rule prod.exhaust)
  note eff = assms(2) [unfolded finish_request_def m prod.case]
  from eff respond_approved [OF assms(1), of p k r] m
  show "list_all (approved_address (px_allowed_loopback_origin p)) conns"
    by (auto split: sum.splits)
  from eff show "px_allowed_loopback_origin p' = px_allowed_loopback_origin p" "px_inline p' = px_inline p"
    by (auto split: sum.splits)
  show "tk_rejected (px_tracker p') = first_report (rs @ reported V p k r belongs)"
    if "tk_rejected (px_tracker p) = first_report rs"
    using eff that
    by (auto simp: reported_def m record_rejected_resource_def record_rejected_def
        split: sum.splits html_render_error.splits)
qed

lemma service_step_inv:
  assumes doc: "ipnet_documented (pe_lib V)" and inv: "service_inv uuid inline_html allowed s"
    and step: "service_step V s s'"
  shows "service_inv uuid inline_html allowed s'"
  using step inv
proof induction
  case (finish s i r belongs resp conns p')
  then have "px_allowed_loopback_origin (ps_proxy s) = allowed" by (simp add: service_inv_def)
  with finish finish_request_effect [OF doc finish.hyps(2)] show ?case by (simp add: service_inv_def)
qed (auto simp: service_inv_def target_url_def set_page_url_def tracker_clear_def split: if_splits)

interpretation service: step_invariant "service_init uuid inline_html allowed" "service_step V"
  "\<lambda>s. ipnet_documented (pe_lib V) \<longrightarrow> service_inv uuid inline_html allowed s" for uuid inline_html allowed V
  by unfold_locales (simp add: service_init_def service_inv_def proxy_start_def tracker_new_def, blast intro: service_step_inv)


text \<open>A page on \<open>localhost\<close> that is not approved asks for itself.\<close>

definition page_request :: proxy_request where
  "page_request = local_request\<lparr>pr_referer := Some ''http://localhost/''\<rparr>"

definition example_page :: url where
  "example_page = site_url ''localhost''"

definition example_proxy :: "string option \<Rightarrow> proxy_state" where
  "example_proxy rejected =
     (proxy_start ''u'' None None)\<lparr>px_tracker := \<lparr>tk_rejected = rejected, tk_page_url = Some example_page\<rparr>\<rparr>"

definition example_service :: proxy_service where
  "example_service =
     \<lparr>ps_proxy = example_proxy (Some (url_as_str example_page)), ps_listening = True, ps_connections = {0},
      ps_requests = (\<lambda>_. None), ps_calls = 1, ps_contacted = [], ps_reports = [url_as_str example_page]\<rparr>"

lemma localhost_env_documented: "ipnet_documented (pe_lib localhost_env)"
  using cidr_lib_documented by (simp add: localhost_env_def ipnet_documented_def)

lemma page_request_blocked: "respond localhost_env (example_proxy x) k page_request = (Inl (blocked example_page), [])"
proof -
  have "resolve_target (pe_lib localhost_env) (pe_resolver localhost_env) k example_page None = Inl (blocked example_page)"
    by (simp add: resolve_target_def example_page_def site_url_def trim_end_matches_def to_ascii_lowercase_def
        ascii_lower_def Let_def)
  then show ?thesis
    by (simp add: respond_def handle_http_def page_request_def local_request_def is_inline_request_def
        is_inline_favicon_request_def is_inline_path_def example_proxy_def proxy_start_def proxy_request_url_def
        localhost_env_def example_page_def site_url_def)
qed

lemma page_request_belongs: "belongs_to_page (pe_lib localhost_env) (px_tracker (example_proxy x)) page_request"
  by (simp add: belongs_to_page_def example_proxy_def page_request_def localhost_env_def example_page_def
      site_url_def)

lemma example_service_reachable: "service_reachable localhost_env ''u'' None None example_service"
proof -
  define s0 where "s0 = example_service\<lparr>ps_proxy := proxy_start ''u'' None None, ps_connections := {}, ps_calls := 0, ps_reports := []\<rparr>"
  define s1 where "s1 = s0\<lparr>ps_proxy := example_proxy None\<rparr>"
  define s2 where "s2 = s1\<lparr>ps_connections := {0}\<rparr>"
  define s3 where "s3 = s2\<lparr>ps_requests := [0 \<mapsto> (page_request, True)]\<rparr>"
  note defs = s0_def s1_def s2_def s3_def example_service_def
  have "target_url (pe_lib localhost_env) (ps_proxy s0) (SourceUrl example_page) = Some (example_page, example_proxy None)"
    by (simp add: defs target_url_def set_page_url_def example_proxy_def proxy_start_def tracker_new_def)
  from service_step.page [OF this] have "service_step localhost_env s0 s1" by (simp add: s1_def)
  moreover have "service_step localhost_env s1 s2"
    using service_step.accept [of s1 0 localhost_env] by (simp add: defs)
  moreover have "service_step localhost_env s2 s3"
    using service_step.arrive [of 0 s2 localhost_env page_request] page_request_belongs [of None] by (simp add: defs)
  moreover have "service_step localhost_env s3 example_service"
  proof -
    have "finish_request localhost_env (ps_proxy s3) (ps_calls s3) page_request True =
        (StatusForbidden, [], example_proxy (Some (url_as_str example_page)))"
      by (simp add: defs finish_request_def page_request_blocked blocked_def error_response_def
          record_rejected_resource_def record_rejected_def, simp add: example_proxy_def)
    from service_step.finish [OF _ this, of 0] show ?thesis
      by (simp add: defs reported_def page_request_blocked blocked_def)
  qed
  ultimately have "(service_step localhost_env)\<^sup>*\<^sup>* s0 example_service"
    by (meson converse_rtranclp_into_rtranclp rtranclp.rtrancl_refl)
  then show ?thesis
    unfolding service_reachable_def by (intro exI [of _ s0]) (simp add: defs service_init_def)
qed


end
