(* ===== verification/Launch_Gate.thy ===== *)
theory Launch_Gate
  imports Browser_Props
begin

text \<open>
  The gate of \<open>crates/runtime/src/html/browser.rs\<close> that lets one browser launch run at a time: a flag under a mutex
  and a condition variable, shared by the callers of \<open>launch_with_timeout\<close> and by the threads that carry the
  launches out. A step is one section that holds the mutex, one event of the condition variable (notification,
  time-out or a spurious wake-up) or one action of a caller between them. The guard is held by a caller until it
  hands it to the thread of the launch, which drops it when the launch is over, also when the caller has given up.
\<close>

section \<open>Callers and their steps\<close>

datatype gate_caller =
    GcIdle
  | GcLocking nat
  | GcWaiting nat
  | GcWoken nat bool
  | GcHolding nat
  | GcLaunching bool
  | GcDone
  | GcTimedOut

text \<open>The condition of the loop of \<open>acquire\<close>, with the mutex held: the next phase of the caller.\<close>

definition gate_enter :: "bool \<Rightarrow> nat \<Rightarrow> nat \<Rightarrow> gate_caller" where
  "gate_enter in_progress instant deadline =
     (if \<not> in_progress then GcHolding deadline
      else if deadline - instant = 0 then GcTimedOut
      else GcWaiting deadline)"

text \<open>After the wait, with the mutex held again.\<close>

definition gate_reenter :: "bool \<Rightarrow> bool \<Rightarrow> nat \<Rightarrow> nat \<Rightarrow> gate_caller" where
  "gate_reenter timed_out in_progress instant deadline =
     (if timed_out \<and> in_progress then GcTimedOut else gate_enter in_progress instant deadline)"

fun holds_guard :: "gate_caller \<Rightarrow> bool" where
  "holds_guard (GcHolding _) = True"
| "holds_guard (GcLaunching _) = True"
| "holds_guard _ = False"

fun is_waiting :: "gate_caller \<Rightarrow> bool" where
  "is_waiting (GcWaiting _) = True"
| "is_waiting _ = False"

fun is_woken :: "gate_caller \<Rightarrow> bool" where
  "is_woken (GcWoken _ _) = True"
| "is_woken _ = False"

record launch_gate =
  lg_in_progress :: bool
  lg_callers :: "nat \<Rightarrow> gate_caller"
  lg_now :: nat

text \<open>The caller enters a phase; the flag is set when it got the guard.\<close>

definition enter_phase :: "launch_gate \<Rightarrow> nat \<Rightarrow> gate_caller \<Rightarrow> launch_gate" where
  "enter_phase g i c =
     g\<lparr>lg_in_progress := lg_in_progress g \<or> holds_guard c, lg_callers := (lg_callers g)(i := c)\<rparr>"

text \<open>The guard of caller \<open>i\<close> is dropped: the flag is cleared and one waiting caller, if there is one, is woken.\<close>

inductive guard_dropped :: "nat \<Rightarrow> gate_caller \<Rightarrow> launch_gate \<Rightarrow> launch_gate \<Rightarrow> bool" where
  notified:
    "j \<noteq> i \<Longrightarrow> lg_callers g j = GcWaiting d \<Longrightarrow>
     guard_dropped i c g (g\<lparr>lg_in_progress := False, lg_callers := (lg_callers g)(i := c, j := GcWoken d False)\<rparr>)"
| nobody:
    "(\<And>j. j \<noteq> i \<Longrightarrow> \<not> is_waiting (lg_callers g j)) \<Longrightarrow>
     guard_dropped i c g (g\<lparr>lg_in_progress := False, lg_callers := (lg_callers g)(i := c)\<rparr>)"

inductive gate_step :: "launch_gate \<Rightarrow> launch_gate \<Rightarrow> bool" where
  tick: "gate_step g (g\<lparr>lg_now := lg_now g + n\<rparr>)"
| call: "lg_callers g i = GcIdle \<Longrightarrow> gate_step g (enter_phase g i (GcLocking (lg_now g + timeout)))"
| lock:
    "lg_callers g i = GcLocking d \<Longrightarrow>
     gate_step g (enter_phase g i (gate_enter (lg_in_progress g) (lg_now g) d))"
| spurious: "lg_callers g i = GcWaiting d \<Longrightarrow> gate_step g (enter_phase g i (GcWoken d False))"
| expire: "lg_callers g i = GcWaiting d \<Longrightarrow> d \<le> lg_now g \<Longrightarrow> gate_step g (enter_phase g i (GcWoken d True))"
| relock:
    "lg_callers g i = GcWoken d timed_out \<Longrightarrow>
     gate_step g (enter_phase g i (gate_reenter timed_out (lg_in_progress g) (lg_now g) d))"
| late:
    "lg_callers g i = GcHolding d \<Longrightarrow> d \<le> lg_now g \<Longrightarrow> guard_dropped i GcTimedOut g g' \<Longrightarrow> gate_step g g'"
| spawn: "lg_callers g i = GcHolding d \<Longrightarrow> lg_now g < d \<Longrightarrow> gate_step g (enter_phase g i (GcLaunching True))"
| spawn_failed:
    "lg_callers g i = GcHolding d \<Longrightarrow> lg_now g < d \<Longrightarrow> guard_dropped i GcDone g g' \<Longrightarrow> gate_step g g'"
| give_up: "lg_callers g i = GcLaunching True \<Longrightarrow> gate_step g (enter_phase g i (GcLaunching False))"
| launched: "lg_callers g i = GcLaunching True \<Longrightarrow> guard_dropped i GcDone g g' \<Longrightarrow> gate_step g g'"
| launched_late: "lg_callers g i = GcLaunching False \<Longrightarrow> guard_dropped i GcTimedOut g g' \<Longrightarrow> gate_step g g'"

inductive_cases guard_droppedE: "guard_dropped i c g g'"

definition gate_init :: "launch_gate \<Rightarrow> bool" where
  "gate_init g \<longleftrightarrow> \<not> lg_in_progress g \<and> lg_callers g = (\<lambda>_. GcIdle)"

definition gate_reachable :: "launch_gate \<Rightarrow> bool" where
  "gate_reachable g \<longleftrightarrow> (\<exists>g0. gate_init g0 \<and> gate_step\<^sup>*\<^sup>* g0 g)"

section \<open>The loop of a single caller\<close>

text \<open>\<open>acquire\<close> as the browser driver runs it is the same loop: every turn of it is an entry and, after a wait, a
  re-entry with what the gate answered.\<close>

lemma acquire_loop_enter:
  "acquire_loop V d t b s =
     (if \<not> b then (Ok (), s)
      else
        case instant_now V s of (instant, s1) \<Rightarrow>
          (case gate_enter b instant d of
             GcTimedOut \<Rightarrow> (Err (LaTimedOut t), s1)
           | _ \<Rightarrow>
               (let wake = bv_gate_wake V (br_calls s1); s2 = thread_sleep V (Suc (wk_elapsed wake)) s1
                in case gate_reenter (wk_timed_out wake) (wk_in_progress wake) (br_now s2) d of
                     GcHolding _ \<Rightarrow> (Ok (), s2)
                   | _ \<Rightarrow>
                       if wk_timed_out wake then (Err (LaTimedOut t), s2)
                       else acquire_loop V d t (wk_in_progress wake) s2)))"
proof (cases b)
  case True
  show ?thesis
    by (subst acquire_loop.simps)
      (use True in \<open>auto simp: gate_enter_def gate_reenter_def Let_def acquire_loop.simps [of V d t False]
        split: prod.splits\<close>)
qed (simp add: acquire_loop.simps)

section \<open>The invariant\<close>

definition gate_inv :: "launch_gate \<Rightarrow> bool" where
  "gate_inv g \<longleftrightarrow>
     (lg_in_progress g \<longleftrightarrow> (\<exists>i. holds_guard (lg_callers g i)))
     \<and> (\<forall>i j. holds_guard (lg_callers g i) \<longrightarrow> holds_guard (lg_callers g j) \<longrightarrow> i = j)
     \<and> (\<not> lg_in_progress g \<longrightarrow> (\<exists>i. is_waiting (lg_callers g i)) \<longrightarrow> (\<exists>i. is_woken (lg_callers g i)))"

lemma enter_holds:
  "holds_guard (gate_enter b instant d) \<longleftrightarrow> \<not> b" "is_waiting (gate_enter b instant d) \<Longrightarrow> b"
  "holds_guard (gate_reenter t b instant d) \<longleftrightarrow> \<not> b" "is_waiting (gate_reenter t b instant d) \<Longrightarrow> b"
  by (auto simp: gate_enter_def gate_reenter_def split: if_splits)

text \<open>A caller without the guard moves on: it takes the guard only when nobody has it, and it starts to wait only
  when somebody has it. A caller that was woken leaves that phase with the guard or finds the gate taken.\<close>

lemma enter_phase_inv:
  assumes inv: "gate_inv g"
    and old: "\<not> holds_guard (lg_callers g i)"
    and take: "holds_guard c \<Longrightarrow> \<not> lg_in_progress g"
    and wait: "is_waiting c \<Longrightarrow> lg_in_progress g"
    and woken: "is_woken (lg_callers g i) \<Longrightarrow> \<not> is_woken c \<Longrightarrow> lg_in_progress g \<or> holds_guard c"
  shows "gate_inv (enter_phase g i c)"
  using assms unfolding gate_inv_def enter_phase_def
  by (auto split: if_splits) metis+

lemma keep_guard_inv:
  assumes "gate_inv g" and "holds_guard (lg_callers g i)" and "holds_guard c"
  shows "gate_inv (enter_phase g i c)"
  using assms unfolding gate_inv_def enter_phase_def by (auto split: if_splits)

lemma drop_guard_inv:
  assumes inv: "gate_inv g" and old: "holds_guard (lg_callers g i)"
    and new: "\<not> holds_guard c" "\<not> is_waiting c" and drop: "guard_dropped i c g g'"
  shows "gate_inv g'"
proof -
  from inv old have only: "holds_guard (lg_callers g j) \<Longrightarrow> j = i" for j unfolding gate_inv_def by blast
  from drop show ?thesis
    by (rule guard_droppedE) (use only new in \<open>auto simp: gate_inv_def split: if_splits\<close>)
qed

lemma gate_init_inv: "gate_init g \<Longrightarrow> gate_inv g"
  by (simp add: gate_init_def gate_inv_def)

lemma gate_step_inv:
  assumes "gate_inv g" and "gate_step g g'"
  shows "gate_inv g'"
  using assms(2,1)
proof induction
  case (tick g n)
  then show ?case by (simp add: gate_inv_def)
next
  case (lock g i d)
  then show ?case by (intro enter_phase_inv) (auto simp: enter_holds(1,3) dest: enter_holds(2,4))
next
  case (relock g i d timed_out)
  then show ?case by (intro enter_phase_inv) (auto simp: enter_holds(1,3) dest: enter_holds(2,4))
qed (auto intro: enter_phase_inv keep_guard_inv elim: drop_guard_inv [rotated -1])

interpretation gate: step_invariant gate_init gate_step gate_inv
  by unfold_locales (fact gate_init_inv, fact gate_step_inv)

lemma gate_reachable_inv: "gate_reachable g \<Longrightarrow> gate_inv g"
  unfolding gate_reachable_def using gate.reach_I by blast

section \<open>Properties\<close>


text \<open>A launch under way and a caller that waits for it; the time of the second one is up.\<close>

definition example_gate :: launch_gate where
  "example_gate = \<lparr>lg_in_progress = True, lg_callers = (\<lambda>_. GcIdle)(0 := GcHolding 7, 1 := GcWaiting 5), lg_now = 6\<rparr>"

lemma example_gate_reachable: "gate_reachable example_gate"
proof -
  define g0 where "g0 = \<lparr>lg_in_progress = False, lg_callers = \<lambda>_. GcIdle, lg_now = 0\<rparr>"
  define g1 where "g1 = enter_phase g0 0 (GcLocking 7)"
  define g2 where "g2 = enter_phase g1 0 (GcHolding 7)"
  define g3 where "g3 = enter_phase g2 1 (GcLocking 5)"
  define g4 where "g4 = enter_phase g3 1 (GcWaiting 5)"
  note defs = g0_def g1_def g2_def g3_def g4_def enter_phase_def gate_enter_def
  have "gate_step g0 g1" using gate_step.call [of g0 0 7] by (simp add: defs)
  moreover have "gate_step g1 g2" using gate_step.lock [of g1 0 7] by (simp add: defs)
  moreover have "gate_step g2 g3" using gate_step.call [of g2 1 5] by (simp add: defs)
  moreover have "gate_step g3 g4" using gate_step.lock [of g3 1 5] by (simp add: defs)
  moreover have "gate_step g4 example_gate"
    using gate_step.tick [of g4 6] by (simp add: defs example_gate_def fun_upd_twist)
  ultimately have "gate_step\<^sup>*\<^sup>* g0 example_gate"
    by (meson converse_rtranclp_into_rtranclp rtranclp.rtrancl_refl)
  then show ?thesis unfolding gate_reachable_def by (intro exI [of _ g0]) (simp add: g0_def gate_init_def)
qed


text \<open>
  C28. No caller waits for nothing: while the gate is free and a caller is waiting, a woken caller is on its way to
  the gate, and its next section takes the guard; and a caller whose time is up can always go on, and then has the
  guard or the time-out error, never another wait.
\<close>

theorem launch_gate_not_stuck:
  assumes "gate_reachable g" and "lg_callers g i = GcWaiting d"
  shows "(\<not> lg_in_progress g \<longrightarrow>
      (\<exists>j g'. is_woken (lg_callers g j) \<and> gate_step g g' \<and> holds_guard (lg_callers g' j)))
    \<and> (d \<le> lg_now g \<longrightarrow>
      (\<exists>g1 g2. gate_step g g1 \<and> gate_step g1 g2
         \<and> lg_callers g2 i = (if lg_in_progress g then GcTimedOut else GcHolding d)))"
proof (intro conjI impI)
  assume free: "\<not> lg_in_progress g"
  with gate_reachable_inv [OF assms(1)] assms(2) obtain j where "is_woken (lg_callers g j)"
    unfolding gate_inv_def by (metis is_waiting.simps(1))
  then obtain d' t where j: "lg_callers g j = GcWoken d' t" by (cases "lg_callers g j") auto
  from gate_step.relock [OF j] free
  show "\<exists>j g'. is_woken (lg_callers g j) \<and> gate_step g g' \<and> holds_guard (lg_callers g' j)"
    by (intro exI [of _ j] exI conjI) (auto simp: j enter_phase_def enter_holds)
next
  assume late: "d \<le> lg_now g"
  let ?g1 = "enter_phase g i (GcWoken d True)"
  have "gate_step g ?g1" by (rule gate_step.expire [OF assms(2) late])
  moreover have "gate_step ?g1 (enter_phase ?g1 i (gate_reenter True (lg_in_progress ?g1) (lg_now ?g1) d))"
    (is "gate_step _ ?g2") by (rule gate_step.relock) (simp add: enter_phase_def)
  moreover have "lg_callers ?g2 i = (if lg_in_progress g then GcTimedOut else GcHolding d)"
    by (simp add: enter_phase_def gate_reenter_def gate_enter_def)
  ultimately show "\<exists>g1 g2. gate_step g g1 \<and> gate_step g1 g2
      \<and> lg_callers g2 i = (if lg_in_progress g then GcTimedOut else GcHolding d)"
    by blast
qed

theorem launch_gate_not_stuck_witness:
  "\<exists>g1 g2. gate_step example_gate g1 \<and> gate_step g1 g2 \<and> lg_callers g2 1 = GcTimedOut"
  using launch_gate_not_stuck [OF example_gate_reachable, of 1 5] by (simp add: example_gate_def)

end
