(* ===== verification/Cups.thy ===== *)
theory Cups
  imports Io_Monad Paper
begin

text \<open>
  \<open>crates/runtime/src/printing/cups.rs\<close>: the print backend of macOS and Linux. It runs \<open>lpstat\<close>,
  \<open>lpoptions\<close>, \<open>lp\<close> and \<open>cancel\<close> and reads their output; the programs are \<open>os_run\<close> of the
  environment and may answer anything.
\<close>

section \<open>Reading \<open>lpoptions -p\<close>\<close>

datatype cups_printer_availability = CupsAvailable | CupsUnavailable

definition attribute_value :: "string \<Rightarrow> string \<Rightarrow> string option" where
  "attribute_value output key =
     (let parts = split_str (key @ ''='') output in
      if length parts < 2 then None
      else
        let rest = parts ! 1 in
        case strip_prefix rest [CHR 0x27] of
          Some quoted \<Rightarrow> Some (hd (split_on (\<lambda>c. c = CHR 0x27) quoted))
        | None \<Rightarrow>
            (let end0 = unwrap_or (opt_or (find_str '' printer-'' rest) (find_str [newline] rest))
                         (length rest)
             in Some (trim (take end0 rest))))"

definition reasons_block_submission :: "string \<Rightarrow> bool" where
  "reasons_block_submission reasons =
     list_ex (\<lambda>reason. reason \<in> {''offline'', ''offline-report'', ''paused''})
       (map trim (split_on (\<lambda>c. c = CHR '','') reasons))"

definition parse_cups_printer_availability :: "string \<Rightarrow> cups_printer_availability" where
  "parse_cups_printer_availability output =
     (let accepting_jobs = attribute_value output ''printer-is-accepting-jobs'';
          state = attribute_value output ''printer-state'';
          reasons = unwrap_or (attribute_value output ''printer-state-reasons'') []
      in if accepting_jobs = Some ''false'' \<or> state = Some ''5'' \<or> reasons_block_submission reasons
         then CupsUnavailable else CupsAvailable)"

definition printer_availability_from_lpoptions :: "string \<Rightarrow> printer_availability" where
  "printer_availability_from_lpoptions output =
     (let accepting_jobs = attribute_value output ''printer-is-accepting-jobs'';
          state = attribute_value output ''printer-state'';
          reasons = unwrap_or (attribute_value output ''printer-state-reasons'') []
      in if accepting_jobs = None \<and> state = None \<and> reasons = [] then PaUnknown
         else (case parse_cups_printer_availability output of
                 CupsAvailable \<Rightarrow> PaAvailable
               | CupsUnavailable \<Rightarrow> PaUnavailable))"

section \<open>Reading \<open>lp\<close> and \<open>lpstat\<close>\<close>

definition parse_lp_job_id :: "string \<Rightarrow> string option" where
  "parse_lp_job_id output =
     (case split_once_str ''request id is '' output of
        None \<Rightarrow> None
      | Some (_, request) \<Rightarrow>
          (case split_whitespace request of
             [] \<Rightarrow> None
           | part # _ \<Rightarrow> Some (trim_end_matches (CHR ''.'') part)))"

definition completed_jobs_contains_job :: "string \<Rightarrow> string \<Rightarrow> bool" where
  "completed_jobs_contains_job output job_id =
     list_ex (\<lambda>line. case split_whitespace line of
                       [] \<Rightarrow> False
                     | token # _ \<Rightarrow> trim_end_matches (CHR ''.'') token = job_id) (str_lines output)"

definition classify_port :: "string \<Rightarrow> bool option \<times> bool option \<times> bool option" where
  "classify_port port =
     (let lower = to_ascii_lowercase port;
          is_virtual = (starts_with lower ''file:'' \<or> contains_str lower ''pdf'' \<or> contains_str lower ''fax'');
          is_network = list_ex (starts_with lower)
            [''ipp:'', ''ipps:'', ''http:'', ''https:'', ''socket:'', ''lpd:'', ''smb:'', ''dnssd:''];
          is_local = list_ex (starts_with lower) [''usb:'', ''serial:'', ''parallel:'']
      in if is_virtual then (Some False, Some False, Some True)
         else if is_network then (Some False, Some True, Some False)
         else if is_local then (Some True, Some False, Some False)
         else (None, None, None))"

definition parse_lpstat_destinations ::
  "string \<Rightarrow> string option \<Rightarrow> (string \<rightharpoonup> string) \<Rightarrow> printer_info list" where
  "parse_lpstat_destinations output default_printer ports =
     List.map_filter (\<lambda>line.
       let name = trim line in
       if name = [] then None
       else
         (let printer = printer_info_new name (default_printer = Some name) in
          case ports name of
            None \<Rightarrow> Some printer
          | Some port \<Rightarrow>
              (case classify_port port of (is_local, is_network, is_virtual) \<Rightarrow>
                 Some (printer\<lparr>pi_port := Some port, pi_is_local := is_local,
                               pi_is_network := is_network, pi_is_virtual := is_virtual\<rparr>))))
       (str_lines output)"

text \<open>Collecting into a \<open>HashMap\<close>: the last line for a name wins.\<close>

definition parse_lpstat_devices :: "string \<Rightarrow> (string \<rightharpoonup> string)" where
  "parse_lpstat_devices output =
     map_of (rev (List.map_filter (\<lambda>line.
       (case split_once_str '': '' line of
          None \<Rightarrow> None
        | Some (pre, port) \<Rightarrow>
            (let name = trim (unwrap_or (strip_prefix pre ''device for '') pre) in
             if name = [] \<or> trim port = [] then None else Some (name, trim port))))
       (str_lines output)))"

text \<open>The second separator is the full-width colon U+FF1A.\<close>

fun first_some :: "('a \<Rightarrow> 'b option) \<Rightarrow> 'a list \<Rightarrow> 'b option" where
  "first_some f [] = None"
| "first_some f (x # xs) = (case f x of Some y \<Rightarrow> Some y | None \<Rightarrow> first_some f xs)"

definition parse_default_destination :: "string \<Rightarrow> string option" where
  "parse_default_destination output =
     first_some (\<lambda>line.
       (case opt_or (rsplit_once (CHR '':'') line)
               (rsplit_once_str [CHR 0xEF, CHR 0xBC, CHR 0x9A] line) of
          None \<Rightarrow> None
        | Some (_, destination) \<Rightarrow>
            (let destination = trim destination in
             if destination = [] then None else Some destination))) (str_lines output)"

section \<open>Reading \<open>lpoptions -l\<close>\<close>

record option_choice =
  oc_id :: string
  oc_name :: string

definition option_starts_with :: "string \<Rightarrow> string list \<Rightarrow> bool" where
  "option_starts_with line ps = list_ex (starts_with (to_ascii_lowercase line)) ps"

definition parse_option_choice :: "string \<Rightarrow> option_choice option" where
  "parse_option_choice choice =
     (if choice = [] then None
      else (case unwrap_or (split_once (CHR ''/'') choice) (choice, choice) of (ident, name) \<Rightarrow>
              Some \<lparr>oc_id = ident, oc_name = replace_char (CHR ''_'') (CHR '' '') name\<rparr>))"

definition line_choices :: "(string \<Rightarrow> 'a option) \<Rightarrow> string \<Rightarrow> 'a list" where
  "line_choices f line =
     (case split_once (CHR '':'') line of
        None \<Rightarrow> []
      | Some (_, choices) \<Rightarrow>
          List.map_filter (\<lambda>choice. f (trim_start_matches (CHR ''*'') choice)) (split_whitespace choices))"

definition parse_option_choices :: "string \<Rightarrow> option_choice list" where
  "parse_option_choices line = line_choices parse_option_choice line"

definition max_of :: "nat list \<Rightarrow> nat option" where
  "max_of xs = (if xs = [] then None else Some (foldl max 0 xs))"

definition parse_dpi_choice :: "string \<Rightarrow> nat option" where
  "parse_dpi_choice choice =
     (let lower = to_ascii_lowercase choice;
          dpi_index = unwrap_or (find_str ''dpi'' lower) (length lower)
      in max_of (List.map_filter (parse_unsigned 32)
                  (split_on (\<lambda>c. \<not> ascii_digit c) (take dpi_index lower))))"

definition parse_lpoptions_dpi :: "string \<Rightarrow> u32 option" where
  "parse_lpoptions_dpi output =
     map_option of_nat
       (max_of (List.map_filter (\<lambda>choice. parse_dpi_choice (oc_id choice))
          (concat (map parse_option_choices
             (filter (\<lambda>line. option_starts_with line [''resolution/'', ''printerresolution/''])
                (str_lines output))))))"

definition parse_lpoptions_trays :: "string \<Rightarrow> printer_tray_info list" where
  "parse_lpoptions_trays output =
     map (\<lambda>choice. \<lparr>tr_id = oc_id choice, tr_name = oc_name choice\<rparr>)
       (concat (map parse_option_choices
          (filter (\<lambda>line. option_starts_with line [''inputslot/'', ''mediasource/'']) (str_lines output))))"

definition parse_lpoptions_media_types :: "string \<Rightarrow> printer_media_type_info list" where
  "parse_lpoptions_media_types output =
     map (\<lambda>choice. \<lparr>mt_id = oc_id choice, mt_name = oc_name choice\<rparr>)
       (concat (map parse_option_choices
          (filter (\<lambda>line. option_starts_with line [''mediatype/'', ''mediaclass/'']) (str_lines output))))"

section \<open>Paper sizes\<close>

text \<open>A character is a lead byte with its continuation bytes, and one underscore replaces it.\<close>

definition normalized_media_token :: "string \<Rightarrow> string" where
  "normalized_media_token choice =
     map (\<lambda>c. if ascii_alphanumeric c then ascii_lower c else CHR ''_'')
       (filter (\<lambda>c. \<not> continuation c) choice)"

definition media_token_has_part :: "string \<Rightarrow> string \<Rightarrow> bool" where
  "media_token_has_part token part = (part \<in> set (split_on (\<lambda>c. c = CHR ''_'') token))"

definition known_paper_size :: "string \<Rightarrow> (string \<times> f64 \<times> f64) option" where
  "known_paper_size choice =
     (let token = normalized_media_token choice;
          has = media_token_has_part token;
          size = (\<lambda>name w h. Some (name, round_f64 w, round_f64 h))
      in if has ''a3'' \<or> has ''a3jis'' then size ''A3'' 297 420
         else if has ''a4'' \<or> has ''a4jis'' then size ''A4'' 210 297
         else if has ''a5'' \<or> has ''a5jis'' then size ''A5'' 148 210
         else if has ''a6'' \<or> has ''a6jis'' then size ''A6'' 105 148
         else if has ''b4jis'' then size ''B4'' 257 364
         else if has ''b5jis'' then size ''B5'' 182 257
         else if has ''b6jis'' then size ''B6'' 128 182
         else if has ''letter'' then size ''Letter'' (2159 / 10) (2794 / 10)
         else if has ''legal'' then size ''Legal'' (2159 / 10) (3556 / 10)
         else if has ''tabloid'' then size ''Tabloid'' (2794 / 10) (4318 / 10)
         else if has ''ledger'' then size ''Ledger'' (4318 / 10) (2794 / 10)
         else if has ''executive'' then size ''Executive'' (18415 / 100) (2667 / 10)
         else None)"

definition round_mm :: "f64 \<Rightarrow> f64" where
  "round_mm value = f64_div_pos (f64_round (f64_mul_pos value 100)) 100"

definition strip_unit_suffix :: "string \<Rightarrow> string \<times> string option" where
  "strip_unit_suffix sz =
     (let lower_size = to_ascii_lowercase sz in
      if ends_with lower_size ''mm'' then (take (length sz - 2) sz, Some ''mm'')
      else if ends_with lower_size ''in'' then (take (length sz - 2) sz, Some ''in'')
      else (sz, None))"

definition number_char :: "char \<Rightarrow> bool" where
  "number_char c \<longleftrightarrow> ascii_digit c \<or> c = CHR ''.''"

definition trailing_number :: "string \<Rightarrow> f64 option" where
  "trailing_number value = parse_f64_decimal (rev (takeWhile number_char (rev value)))"

definition leading_number :: "string \<Rightarrow> f64 option" where
  "leading_number value = parse_f64_decimal (takeWhile number_char value)"

text \<open>The constant 25.4 is a double too.\<close>

definition mm_per_inch :: rat where
  "mm_per_inch = (case round_f64 (254 / 10) of Fin k \<Rightarrow> k | _ \<Rightarrow> 0)"

definition parse_dimension_pair :: "string \<Rightarrow> (f64 \<times> f64) option" where
  "parse_dimension_pair sz =
     (case strip_unit_suffix (replace_str ''mmx'' ''x'' sz) of (size_without_unit, unit) \<Rightarrow>
        case rsplit_once (CHR ''x'') size_without_unit of
          None \<Rightarrow> None
        | Some (a, b) \<Rightarrow>
            (case (trailing_number a, leading_number b) of
               (Some width, Some height) \<Rightarrow>
                 (let use_inches = (unit = Some ''in''
                        \<or> (unit = None \<and> f64_le width (Fin 20) \<and> f64_le height (Fin 20)))
                  in if use_inches
                     then Some (round_mm (f64_mul_pos width mm_per_inch),
                                round_mm (f64_mul_pos height mm_per_inch))
                     else Some (round_mm width, round_mm height))
             | _ \<Rightarrow> None))"

definition parse_paper_choice :: "string \<Rightarrow> paper_info option" where
  "parse_paper_choice choice =
     (case known_paper_size choice of
        Some (name, width_mm, height_mm) \<Rightarrow>
          Some \<lparr>pa_id = choice, pa_name = name, pa_width_mm = width_mm, pa_height_mm = height_mm\<rparr>
      | None \<Rightarrow>
          (let sz = unwrap_or (opt_or (strip_prefix choice ''Custom.'') (strip_prefix choice ''custom_''))
                        choice
           in map_option (\<lambda>(width_mm, height_mm).
                \<lparr>pa_id = choice, pa_name = paper_name width_mm height_mm,
                 pa_width_mm = width_mm, pa_height_mm = height_mm\<rparr>) (parse_dimension_pair sz)))"

definition parse_paper_line :: "string \<Rightarrow> paper_info list" where
  "parse_paper_line line = line_choices parse_paper_choice line"

definition parse_lpoptions_papers :: "string \<Rightarrow> paper_info list" where
  "parse_lpoptions_papers output =
     concat (map parse_paper_line
       (filter (\<lambda>line. option_starts_with line [''pagesize/'', ''media/'']) (str_lines output)))"

section \<open>Running the programs\<close>

definition command_error :: "string \<Rightarrow> string \<Rightarrow> print_error" where
  "command_error command message = CommandFailed command message"

definition run_command :: "os_env \<Rightarrow> string \<Rightarrow> string list \<Rightarrow> (print_error, string) io" where
  "run_command E command args w =
     (case command_output E (command # args) w of
        (Inl e, w') \<Rightarrow> (Err (command_error command (io_msg e)), w')
      | (Inr (success, out, err), w') \<Rightarrow>
          (if success then Ok (from_utf8_lossy out)
           else Err (command_error command (trim (from_utf8_lossy err))), w'))"

definition read_lpoptions_attributes :: "os_env \<Rightarrow> string \<Rightarrow> (print_error, string) io" where
  "read_lpoptions_attributes E printer_name = run_command E ''lpoptions'' [''-p'', printer_name]"

definition read_lpoptions :: "os_env \<Rightarrow> string \<Rightarrow> (print_error, string) io" where
  "read_lpoptions E printer_name w =
     (case command_output E [''lpoptions'', ''-p'', printer_name, ''-l''] w of
        (Inl e, w') \<Rightarrow> (Err (command_error ''lpoptions'' (io_msg e)), w')
      | (Inr (success, out, err), w') \<Rightarrow>
          (if success then Ok (from_utf8_lossy out) else Err (PrinterNotFound printer_name), w'))"

definition current_default_printer :: "os_env \<Rightarrow> world \<Rightarrow> string option \<times> world" where
  "current_default_printer E w =
     (case run_command E ''lpstat'' [''-d''] w of
        (r, w') \<Rightarrow> (Option.bind (to_option r) parse_default_destination, w'))"

definition current_printer_ports :: "os_env \<Rightarrow> world \<Rightarrow> (string \<rightharpoonup> string) \<times> world" where
  "current_printer_ports E w =
     (case run_command E ''lpstat'' [''-v''] w of
        (r, w') \<Rightarrow> (unwrap_or (map_option parse_lpstat_devices (to_option r)) (\<lambda>_. None), w'))"

text \<open>The loop over the printers that fills in resolution and availability.\<close>

fun refresh_printers :: "os_env \<Rightarrow> printer_info list \<Rightarrow> world \<Rightarrow> printer_info list \<times> world" where
  "refresh_printers E [] w = ([], w)"
| "refresh_printers E (printer # printers) w =
     (let (options, w1) = read_lpoptions E (pi_name printer) w;
          printer1 = (case options of
                        Inr output \<Rightarrow> printer\<lparr>pi_dpi := parse_lpoptions_dpi output\<rparr>
                      | Inl _ \<Rightarrow> printer);
          (attributes, w2) = read_lpoptions_attributes E (pi_name printer) w1;
          printer2 = (case attributes of
                        Inr output \<Rightarrow>
                          printer1\<lparr>pi_availability := printer_availability_from_lpoptions output\<rparr>
                      | Inl _ \<Rightarrow> printer1);
          (rest, w3) = refresh_printers E printers w2
      in (printer2 # rest, w3))"

definition cups_list_printers :: "os_env \<Rightarrow> (print_error, printer_info list) io" where
  "cups_list_printers E w =
     io_then (run_command E ''lpstat'' [''-e''] w) (\<lambda>printers_output w1.
       let (default_printer, w2) = current_default_printer E w1;
           (ports, w3) = current_printer_ports E w2;
           (printers, w4) =
             refresh_printers E (parse_lpstat_destinations printers_output default_printer ports) w3
       in (Ok printers, w4))"

definition ensure_printer_exists :: "os_env \<Rightarrow> string \<Rightarrow> (print_error, unit) io" where
  "ensure_printer_exists E printer_name w =
     io_then (cups_list_printers E w) (\<lambda>printers w1.
       (if list_ex (\<lambda>printer. pi_name printer = printer_name) printers then Ok ()
        else Err (PrinterNotFound printer_name), w1))"

definition cups_list_papers :: "os_env \<Rightarrow> string \<Rightarrow> (print_error, paper_info list) io" where
  "cups_list_papers E printer_name w =
     io_then (ensure_printer_exists E printer_name w) (\<lambda>_ w1.
     io_then (read_lpoptions E printer_name w1) (\<lambda>output w2.
       let papers = parse_lpoptions_papers output in
       (Ok (if papers = [] then common_label_papers else papers), w2)))"

definition cups_list_trays :: "os_env \<Rightarrow> string \<Rightarrow> (print_error, printer_tray_info list) io" where
  "cups_list_trays E printer_name w =
     io_then (ensure_printer_exists E printer_name w) (\<lambda>_ w1.
     io_then (read_lpoptions E printer_name w1) (\<lambda>output w2. (Ok (parse_lpoptions_trays output), w2)))"

definition cups_list_media_types :: "os_env \<Rightarrow> string \<Rightarrow> (print_error, printer_media_type_info list) io" where
  "cups_list_media_types E printer_name w =
     io_then (ensure_printer_exists E printer_name w) (\<lambda>_ w1.
     io_then (read_lpoptions E printer_name w1) (\<lambda>output w2.
       (Ok (parse_lpoptions_media_types output), w2)))"

definition resolve_print_paper :: "os_env \<Rightarrow> print_opts \<Rightarrow> (print_error, paper_info) io" where
  "resolve_print_paper E options w =
     io_then (cups_list_papers E (po_printer_name options) w) (\<lambda>papers w1.
       (Ok (resolve_paper_for_print papers (po_paper options)), w1))"

definition current_printer_availability ::
  "os_env \<Rightarrow> string \<Rightarrow> world \<Rightarrow> cups_printer_availability \<times> world" where
  "current_printer_availability E printer_name w =
     (case read_lpoptions_attributes E printer_name w of
        (Inr output, w') \<Rightarrow> (parse_cups_printer_availability output, w')
      | (Inl _, w') \<Rightarrow> (CupsAvailable, w'))"

definition reject_unavailable_printer :: "os_env \<Rightarrow> string \<Rightarrow> (print_error, unit) io" where
  "reject_unavailable_printer E printer_name w =
     (case current_printer_availability E printer_name w of
        (CupsAvailable, w') \<Rightarrow> (Ok (), w')
      | (CupsUnavailable, w') \<Rightarrow> (Err PrinterOffline, w'))"

definition cancel_cups_job :: "os_env \<Rightarrow> string \<Rightarrow> (print_error, unit) io" where
  "cancel_cups_job E job_id w =
     io_then (run_command E ''cancel'' [job_id] w) (\<lambda>_ w1. (Ok (), w1))"

definition finalize_cups_submission ::
  "cups_printer_availability \<Rightarrow> print_submission \<Rightarrow> (string \<Rightarrow> (print_error, unit) io) \<Rightarrow>
   (print_error, print_submission) io" where
  "finalize_cups_submission availability submission cancel w =
     (if availability = CupsAvailable then (Ok submission, w)
      else
        (case ps_system_job_id submission of
           None \<Rightarrow> (Ok submission, w)
         | Some job_id \<Rightarrow>
             (case cancel job_id w of
                (Inr _, w') \<Rightarrow> (Err PrinterOffline, w')
              | (Inl _, w') \<Rightarrow> (Ok submission, w'))))"

section \<open>Printing\<close>

datatype cups_platform = Macos | Linux

fun backend_name :: "cups_platform \<Rightarrow> string" where
  "backend_name Macos = ''macos-cups''"
| "backend_name Linux = ''linux-cups''"

fun raw_backend_name :: "cups_platform \<Rightarrow> string" where
  "raw_backend_name Macos = ''macos-cups-raw''"
| "raw_backend_name Linux = ''linux-cups-raw''"

text \<open>What both methods do with the outcome of \<open>lp\<close>.\<close>

definition finish_lp ::
  "os_env \<Rightarrow> string \<Rightarrow> string \<Rightarrow> (io_error, bool \<times> bytes \<times> bytes) result \<times> world \<Rightarrow>
   (print_error, print_submission) result \<times> world" where
  "finish_lp E name printer_name output =
     (case output of
        (Inl e, w1) \<Rightarrow> (Err (command_error ''lp'' (io_msg e)), w1)
      | (Inr (success, out, err), w1) \<Rightarrow>
          if success then
            (let system_job_id = parse_lp_job_id (from_utf8_lossy out);
                 (availability, w2) = current_printer_availability E printer_name w1;
                 (submitted_at, w3) = now E w2
             in finalize_cups_submission availability
                  \<lparr>ps_submitted_at = submitted_at, ps_backend = name,
                   ps_system_job_id = system_job_id,
                   ps_tracking_supported = (system_job_id \<noteq> None)\<rparr> (cancel_cups_job E) w3)
          else (Err (command_error ''lp'' (trim (from_utf8_lossy err))), w1))"

definition lp_pdf_command :: "print_opts \<Rightarrow> paper_info \<Rightarrow> string \<Rightarrow> string list" where
  "lp_pdf_command options paper path =
     [''lp'', ''-d'', po_printer_name options, ''-n'', show_nat (max (unat (po_copies options)) 1),
      ''-o'', ''media='' @ cups_media_option paper, path]"

definition cups_print_pdf ::
  "os_env \<Rightarrow> cups_platform \<Rightarrow> string \<Rightarrow> print_opts \<Rightarrow> (print_error, print_submission) io" where
  "cups_print_pdf E platform path options w =
     io_then (ensure_printer_exists E (po_printer_name options) w) (\<lambda>_ w1.
     io_then (reject_unavailable_printer E (po_printer_name options) w1) (\<lambda>_ w2.
     io_then (resolve_print_paper E options w2) (\<lambda>paper w3.
       finish_lp E (backend_name platform) (po_printer_name options)
         (command_output E (lp_pdf_command options paper path) w3))))"

definition temp_raw_path :: "os_env \<Rightarrow> world \<Rightarrow> string \<times> world" where
  "temp_raw_path E w =
     (case new_uuid E w of (u, w') \<Rightarrow>
        (path_join (os_temp_dir E) (''yinshu-raw-'' @ u @ ''.bin''), w'))"

text \<open>\<open>File::flush\<close> of an unbuffered file does nothing.\<close>

definition write_raw_temp_file :: "os_env \<Rightarrow> string \<Rightarrow> bytes \<Rightarrow> (print_error, unit) io" where
  "write_raw_temp_file E path data w =
     io_map_err (\<lambda>e. command_error ''raw-temp-file'' (io_msg e))
       (io_then (fs_write E w path []) (\<lambda>_ w1. fs_append E w1 path data))"

text \<open>Writing the data to a temporary file, handing that to \<open>lp\<close> and removing it.\<close>

definition submit_raw_file ::
  "os_env \<Rightarrow> cups_platform \<Rightarrow> bytes \<Rightarrow> string \<Rightarrow> (print_error, print_submission) io" where
  "submit_raw_file E platform data printer_name w2 =
     (let (path, w3) = temp_raw_path E w2 in
     io_then (write_raw_temp_file E path data w3) (\<lambda>_ w4.
       let (output, w5) = command_output E [''lp'', ''-d'', printer_name, ''-o'', ''raw'', path] w4;
           (_, w6) = fs_remove E w5 path
       in finish_lp E (raw_backend_name platform) printer_name (output, w6)))"

definition cups_print_raw ::
  "os_env \<Rightarrow> cups_platform \<Rightarrow> bytes \<Rightarrow> raw_print_options \<Rightarrow> (print_error, print_submission) io" where
  "cups_print_raw E platform data options w =
     io_then (ensure_printer_exists E (ro_printer_name options) w) (\<lambda>_ w1.
     io_then (reject_unavailable_printer E (ro_printer_name options) w1) (\<lambda>_ w2.
       submit_raw_file E platform data (ro_printer_name options) w2))"

definition track_cups_submission :: "os_env \<Rightarrow> print_submission \<Rightarrow> world \<Rightarrow> print_tracking_outcome \<times> world" where
  "track_cups_submission E submission w =
     (case ps_system_job_id submission of
        None \<Rightarrow> (TrackUnknown ''CUPS did not expose a print job id'', w)
      | Some job_id \<Rightarrow>
          (case command_output E [''lpstat'', ''-W'', ''completed'', ''-o''] w of
             (Inl e, w') \<Rightarrow> (TrackUnknown (io_msg e), w')
           | (Inr (success, out, err), w') \<Rightarrow>
               (if success then
                  (if completed_jobs_contains_job (from_utf8_lossy out) job_id
                   then TrackCompleted ''CUPS reports the print job as completed''
                   else TrackUnknown ''CUPS job status was no longer available'')
                else TrackUnknown (trim (from_utf8_lossy err)), w')))"

text \<open>The methods of \<open>CupsPrintBackend\<close>; \<open>W k\<close> is the world in which the k-th call is made.\<close>

definition cups_backend :: "os_env \<Rightarrow> cups_platform \<Rightarrow> (nat \<Rightarrow> world) \<Rightarrow> print_backend" where
  "cups_backend E platform W =
     \<lparr>be_list_printers = (\<lambda>k. fst (cups_list_printers E (W k))),
      be_list_papers = (\<lambda>k printer. fst (cups_list_papers E printer (W k))),
      be_list_trays = (\<lambda>k printer. fst (cups_list_trays E printer (W k))),
      be_list_media_types = (\<lambda>k printer. fst (cups_list_media_types E printer (W k))),
      be_print_pdf = (\<lambda>k path options. fst (cups_print_pdf E platform path options (W k))),
      be_print_raw = (\<lambda>k data options. fst (cups_print_raw E platform data options (W k))),
      be_track_submission = (\<lambda>k submission options. fst (track_cups_submission E submission (W k))),
      be_track_raw_submission = (\<lambda>k submission options. fst (track_cups_submission E submission (W k)))\<rparr>"

end
