(* ===== verification/Cups_Props.thy ===== *)
theory Cups_Props
  imports Cups
begin

text \<open>
  What the CUPS backend guarantees: the media option it writes is read back as the same paper,
  the job number that \<open>lp\<close> prints is the one it tracks, a submission is reported only after \<open>lp\<close>
  took the job with the requested settings, and what happens to the file of a raw job.
\<close>

section \<open>Custom sizes\<close>

definition label_chars :: "nat \<Rightarrow> nat \<Rightarrow> string" where
  "label_chars w h = show_nat w @ ''x'' @ show_nat h"

lemma show_nat_all: "c \<in> set (show_nat n) \<Longrightarrow> ascii_digit c"
  using show_nat_digits [of n] by (auto simp: list_all_iff)

lemma not_ascii_digit [simp]:
  "\<not> ascii_digit (CHR ''x'')" "\<not> ascii_digit (CHR ''m'')" "\<not> ascii_digit (CHR ''.'')"
  "\<not> ascii_digit (CHR ''_'')"
  by (simp_all add: ascii_digit_def)

lemma ascii_digit_class [simp]:
  "ascii_digit c \<Longrightarrow> \<not> continuation c" "ascii_digit c \<Longrightarrow> ascii_alphanumeric c"
  "ascii_digit c \<Longrightarrow> ascii_lower c = c"
  by (auto simp: ascii_digit_def continuation_def ascii_alphanumeric_def ascii_lower_def)

lemma split_on_first: "\<forall>c \<in> set a. \<not> P c \<Longrightarrow> P x \<Longrightarrow> split_on P (a @ x # b) = a # split_on P b"
  by (induction a) (auto split: list.splits)

lemma split_once_none: "c \<notin> set s \<Longrightarrow> split_once c s = None"
  by (simp add: split_once_None_iff)

lemma split_once_str_parts: "split_once_str p s = Some (a, b) \<Longrightarrow> s = a @ p @ b"
proof (induction p s arbitrary: a rule: split_once_str.induct)
  case (2 p c s)
  then show ?case
    by (cases "starts_with (c # s) p") (auto simp: starts_with_def, metis append_take_drop_id)
qed (simp split: if_splits)

lemma custom_text:
  "custom_media_option (Fin (of_nat w)) (Fin (of_nat h)) = ''Custom.'' @ label_chars w h @ ''mm''"
  by (simp add: custom_media_option_def format_mm_nat label_chars_def)

lemma normalized_append:
  "normalized_media_token (a @ b) = normalized_media_token a @ normalized_media_token b"
  by (simp add: normalized_media_token_def)

lemma normalized_digits: "normalized_media_token (show_nat n) = show_nat n"
proof -
  have "filter (\<lambda>c. \<not> continuation c) (show_nat n) = show_nat n"
    by (rule filter_True) (auto dest: show_nat_all)
  then show ?thesis
    unfolding normalized_media_token_def by (auto intro!: map_idI dest: show_nat_all)
qed

lemma custom_token:
  "normalized_media_token (''Custom.'' @ label_chars w h @ ''mm'') = ''custom_'' @ label_chars w h @ ''mm''"
proof -
  have "normalized_media_token ''Custom.'' = ''custom_''" "normalized_media_token ''x'' = ''x''"
      "normalized_media_token ''mm'' = ''mm''" by code_simp+
  then show ?thesis
    by (simp only: label_chars_def normalized_append normalized_digits append_assoc)
qed

lemma label_chars_no_underscore: "\<forall>c \<in> set (label_chars w h @ ''mm''). c \<noteq> CHR ''_''"
  by (auto simp: label_chars_def dest!: show_nat_all)

lemma custom_parts:
  "split_on (\<lambda>c. c = CHR ''_'') (''custom_'' @ label_chars w h @ ''mm'') = [''custom'', label_chars w h @ ''mm'']"
  using split_on_first [of "''custom''" "\<lambda>c. c = CHR ''_''" "CHR ''_''" "label_chars w h @ ''mm''"]
    split_on_none [OF label_chars_no_underscore, of w h] by simp

lemma custom_no_part:
  assumes "p \<noteq> ''custom''" and "p \<noteq> []" and "\<not> ascii_digit (hd p)"
  shows "\<not> media_token_has_part (''custom_'' @ label_chars w h @ ''mm'') p"
proof -
  have "ascii_digit (hd (label_chars w h @ ''mm''))"
    by (metis append_Nil append_assoc hd_append2 label_chars_def list.set_sel(1) show_nat_all show_nat_nonempty)
  with assms show ?thesis unfolding media_token_has_part_def custom_parts by auto
qed

lemma custom_unknown: "known_paper_size (''Custom.'' @ label_chars w h @ ''mm'') = None"
  by (simp add: known_paper_size_def custom_token custom_no_part ascii_digit_def Let_def del: append.simps)

lemma no_mmx: "split_once_str ''mmx'' (label_chars w h @ ''mm'') = None"
proof (rule ccontr)
  assume "split_once_str ''mmx'' (label_chars w h @ ''mm'') \<noteq> None"
  then obtain a b where "label_chars w h @ ''mm'' = a @ ''mmx'' @ b"
    using split_once_str_parts by fastforce
  moreover have "CHR ''m'' \<notin> set (label_chars w h)" by (auto simp: label_chars_def dest!: show_nat_all)
  ultimately show False
    by (auto simp: append_eq_append_conv2 append_eq_Cons_conv Cons_eq_append_conv)
qed

lemma custom_suffix: "strip_unit_suffix (label_chars w h @ ''mm'') = (label_chars w h, Some ''mm'')"
  by (simp add: strip_unit_suffix_def to_ascii_lowercase_def ends_with_def starts_with_def ascii_lower_def)

lemma rsplit_label: "rsplit_once (CHR ''x'') (label_chars w h) = Some (show_nat w, show_nat h)"
proof -
  have "split_once (CHR ''x'') (rev (label_chars w h)) = Some (rev (show_nat h), rev (show_nat w))"
    unfolding split_once_Some_iff by (auto simp: label_chars_def dest!: show_nat_all)
  then show ?thesis by (simp add: rsplit_once_def)
qed

lemma number_show_nat:
  assumes "n < 2 ^ 53"
  shows "parse_f64_decimal (show_nat n) = Some (Fin (of_nat n))"
proof -
  have "CHR ''.'' \<notin> set (show_nat n)" by (auto dest!: show_nat_all)
  then show ?thesis
    using show_nat_digits [of n] show_nat_nonempty [of n] round_f64_nat [OF assms]
    by (simp add: parse_f64_decimal_def split_once_none)
qed

lemma takeWhile_digits: "takeWhile number_char (show_nat n) = show_nat n"
    "takeWhile number_char (rev (show_nat n)) = rev (show_nat n)"
  by (simp_all add: takeWhile_eq_all_conv number_char_def show_nat_all)

lemma round_mm_nat:
  assumes "n * 100 < 2 ^ 53"
  shows "round_mm (Fin (of_nat n)) = Fin (of_nat n)"
proof -
  have "round_f64 (of_nat n * 100) = Fin (of_nat (n * 100))"
    using round_f64_nat [OF assms] by simp
  moreover have "floor (of_nat (n * 100) + 1 / 2 :: rat) = int (n * 100)" by linarith
  moreover have "round_f64 (of_nat n) = Fin (of_nat n)" using assms by (intro round_f64_nat) linarith
  ultimately show ?thesis by (simp add: round_mm_def)
qed

lemma custom_dimensions:
  assumes "w * 100 < 2 ^ 53" and "h * 100 < 2 ^ 53"
  shows "parse_dimension_pair (label_chars w h @ ''mm'') = Some (Fin (of_nat w), Fin (of_nat h))"
proof -
  have "replace_str ''mmx'' ''x'' (label_chars w h @ ''mm'') = label_chars w h @ ''mm''"
    by (simp add: replace_str_def split_str.simps no_mmx)
  moreover have "w < 2 ^ 53" "h < 2 ^ 53" using assms by linarith+
  ultimately show ?thesis
    using assms
    by (simp add: parse_dimension_pair_def custom_suffix rsplit_label trailing_number_def leading_number_def
        takeWhile_digits number_show_nat round_mm_nat)
qed

text \<open>
  A paper of whole millimetres survives its CUPS name: the media option that \<open>lp\<close> is given for
  it, read back as one of the choices of \<open>lpoptions -l\<close>, is a paper of exactly that size under
  that name.
\<close>

theorem custom_media_roundtrip:
  assumes "w * 100 < 2 ^ 53" and "h * 100 < 2 ^ 53"
  shows "parse_paper_choice (custom_media_option (Fin (of_nat w)) (Fin (of_nat h))) =
    Some \<lparr>pa_id = custom_media_option (Fin (of_nat w)) (Fin (of_nat h)),
          pa_name = paper_name (Fin (of_nat w)) (Fin (of_nat h)),
          pa_width_mm = Fin (of_nat w), pa_height_mm = Fin (of_nat h)\<rparr>"
proof -
  have "strip_prefix (''Custom.'' @ label_chars w h @ ''mm'') ''Custom.'' = Some (label_chars w h @ ''mm'')"
    by (simp only: strip_prefix_iff)
  then show ?thesis
    unfolding parse_paper_choice_def custom_text custom_unknown
    by (simp add: custom_dimensions [OF assms] del: append.simps)
qed

theorem custom_media_roundtrip_witness:
  "pa_width_mm (the (parse_paper_choice (custom_media_option (Fin (of_nat 60)) (Fin (of_nat 40))))) = Fin (of_nat 60)"
  using custom_media_roundtrip [of 60 40] by simp

section \<open>Job numbers\<close>

text \<open>A job number as CUPS prints it: printer name, hyphen and digits, a word of visible characters
  that does not end in a full stop.\<close>

definition job_word :: "string \<Rightarrow> bool" where
  "job_word j \<longleftrightarrow> j \<noteq> [] \<and> list_all (\<lambda>c. 33 \<le> byte c \<and> byte c \<le> 126) j \<and> last j \<noteq> CHR ''.''"

lemma ws_len_visible: "33 \<le> byte c \<Longrightarrow> byte c \<le> 126 \<Longrightarrow> ws_len (c # s) = 0"
proof -
  assume c: "33 \<le> byte c" "byte c \<le> 126"
  have heads: "list_all (\<lambda>w. w \<noteq> [] \<and> \<not> (33 \<le> byte (hd w) \<and> byte (hd w) \<le> 126)) white_spaces"
    by code_simp
  have "\<not> starts_with (c # s) w" if "w \<in> set white_spaces" for w
    using heads that c by (cases w) (auto simp: list_all_iff starts_with_iff)
  then have "find (starts_with (c # s)) white_spaces = None" by (simp add: find_None_iff)
  then show ?thesis by (simp add: ws_len_def)
qed

lemma ws_len_space: "ws_len (CHR '' '' # s) = 1"
  by (simp add: ws_len_def white_spaces_def starts_with_def)

lemma ws_pieces_word:
  "list_all (\<lambda>c. 33 \<le> byte c \<and> byte c \<le> 126) a \<Longrightarrow>
     ws_pieces acc (a @ CHR '' '' # b) = (rev acc @ a) # ws_pieces [] b"
proof (induction a arbitrary: acc)
  case Nil
  then show ?case by (subst ws_pieces.simps) (simp add: ws_len_space)
next
  case (Cons c a)
  then show ?case by (subst ws_pieces.simps) (simp add: ws_len_visible)
qed

lemma split_whitespace_word:
  "job_word j \<Longrightarrow> split_whitespace (j @ CHR '' '' # b) = j # split_whitespace b"
  by (simp add: split_whitespace_def job_word_def ws_pieces_word)

lemma trim_job_word: "job_word j \<Longrightarrow> trim_end_matches (CHR ''.'') j = j"
  by (cases j rule: rev_cases) (auto simp: job_word_def trim_end_matches_def)

lemma split_once_str_here: "p \<noteq> [] \<Longrightarrow> split_once_str p (p @ s) = Some ([], s)"
  by (cases p) (simp_all add: starts_with_def)

lemma str_lines_cons:
  assumes "newline \<notin> set l"
  shows "str_lines (l @ newline # s) = strip_cr l # str_lines s"
proof -
  have "split_on (\<lambda>c. c = newline) (l @ newline # s) = l # split_on (\<lambda>c. c = newline) s"
    using assms by (intro split_on_first) auto
  then show ?thesis by (simp add: str_lines_def Let_def)
qed

lemma str_lines_Nil [simp]: "str_lines [] = []"
  by (simp add: str_lines_def)

lemma strip_cr_space: "\<exists>r'. strip_cr (j @ CHR '' '' # r) = j @ CHR '' '' # r'"
  by (cases r rule: rev_cases) (auto simp: strip_cr_def butlast_append)

definition lp_message :: "string \<Rightarrow> string \<Rightarrow> string" where
  "lp_message j r = ''request id is '' @ j @ '' '' @ r"

definition lpstat_table :: "(string \<times> string) list \<Rightarrow> string" where
  "lpstat_table rows = concat (map (\<lambda>(j, r). j @ '' '' @ r @ [newline]) rows)"

lemma completed_table:
  assumes "list_all (\<lambda>(j, r). job_word j \<and> newline \<notin> set r) rows"
  shows "completed_jobs_contains_job (lpstat_table rows) j \<longleftrightarrow> j \<in> fst ` set rows"
  using assms
proof (induction rows)
  case Nil
  then show ?case by (simp add: completed_jobs_contains_job_def lpstat_table_def)
next
  case (Cons row rows)
  obtain i r where row: "row = (i, r)" by fastforce
  with Cons.prems have i: "job_word i" and r: "newline \<notin> set r" by auto
  have "newline \<notin> set i" using i by (auto simp: job_word_def list_all_iff newline_def)
  then have "newline \<notin> set (i @ CHR '' '' # r)" using r by (simp add: newline_def)
  moreover have "lpstat_table (row # rows) = (i @ CHR '' '' # r) @ newline # lpstat_table rows"
    by (simp add: lpstat_table_def row)
  ultimately have lines: "str_lines (lpstat_table (row # rows)) =
      strip_cr (i @ CHR '' '' # r) # str_lines (lpstat_table rows)"
    using str_lines_cons [of "i @ CHR '' '' # r" "lpstat_table rows"] by simp
  obtain r' where "strip_cr (i @ CHR '' '' # r) = i @ CHR '' '' # r'" using strip_cr_space by blast
  then have "completed_jobs_contains_job (lpstat_table (row # rows)) j \<longleftrightarrow>
      i = j \<or> completed_jobs_contains_job (lpstat_table rows) j"
    unfolding completed_jobs_contains_job_def lines
    by (simp add: split_whitespace_word [OF i] trim_job_word [OF i])
  moreover have "completed_jobs_contains_job (lpstat_table rows) j \<longleftrightarrow> j \<in> fst ` set rows"
    using Cons by simp
  ultimately show ?case using row by (simp add: eq_commute)
qed

lemma lp_message_id:
  assumes "job_word j"
  shows "parse_lp_job_id (lp_message j r) = Some j"
proof -
  have "split_once_str ''request id is '' (lp_message j r) = Some ([], j @ CHR '' '' # r)"
    using split_once_str_here [of "''request id is ''" "j @ CHR '' '' # r"] by (simp add: lp_message_def)
  then show ?thesis
    by (simp add: parse_lp_job_id_def split_whitespace_word [OF assms] trim_job_word [OF assms])
qed

text \<open>
  The job is tracked by the number it was given: the number read from the answer of \<open>lp\<close> is the
  one CUPS printed there, and it counts as completed exactly when the table of completed jobs
  has a row for it.
\<close>

theorem cups_job_identified:
  assumes "job_word j" and "list_all (\<lambda>(i, r). job_word i \<and> newline \<notin> set r) rows"
  shows "parse_lp_job_id (lp_message j r) = Some j
    \<and> (completed_jobs_contains_job (lpstat_table rows) j \<longleftrightarrow> j \<in> fst ` set rows)"
  using lp_message_id [OF assms(1)] completed_table [OF assms(2)] by blast

theorem cups_job_identified_witness:
  "parse_lp_job_id (lp_message ''HP-12'' ''(1 file(s))'') = Some ''HP-12''
    \<and> (completed_jobs_contains_job (lpstat_table [(''HP-11'', ''me 1024''), (''HP-12'', ''me'')]) ''HP-12''
        \<longleftrightarrow> ''HP-12'' \<in> fst ` set [(''HP-11'', ''me 1024''), (''HP-12'', ''me'')])"
  by (rule cups_job_identified) (simp_all add: job_word_def newline_def)

section \<open>Submissions\<close>

lemma finalize_ok:
  "finalize_cups_submission a sub cancel w = (Inr s, w') \<Longrightarrow> s = sub"
  by (auto simp: finalize_cups_submission_def split: if_splits option.splits prod.splits sum.splits)

lemma finalize_err:
  "finalize_cups_submission a sub cancel w = (Inl e, w') \<Longrightarrow>
     e = PrinterOffline \<and> (\<exists>j u. ps_system_job_id sub = Some j \<and> cancel j w = (Inr u, w'))"
  by (auto simp: finalize_cups_submission_def split: if_splits option.splits prod.splits sum.splits)

lemma finish_lp_ok:
  assumes "finish_lp E name printer (command_output E argv w) = (Inr sub, w')"
  shows "\<exists>status out err w1. os_run E (w_tick w) argv w = (Exited True status out err, w1)
    \<and> ps_backend sub = name \<and> ps_system_job_id sub = parse_lp_job_id (from_utf8_lossy out)
    \<and> ps_tracking_supported sub = (ps_system_job_id sub \<noteq> None)"
proof -
  obtain r w1 where c: "command_output E argv w = (r, w1)" by fastforce
  with assms obtain out err where r: "r = Inr (True, out, err)"
    by (auto simp: finish_lp_def split: sum.splits prod.splits if_splits)
  from assms c r have "ps_backend sub = name" "ps_system_job_id sub = parse_lp_job_id (from_utf8_lossy out)"
      "ps_tracking_supported sub = (ps_system_job_id sub \<noteq> None)"
    by (auto simp: finish_lp_def Let_def split: prod.splits dest!: finalize_ok)
  with command_output_ok [of E argv w True out err w1] c r show ?thesis by blast
qed

text \<open>
  A PDF is reported as submitted only when \<open>lp\<close> exited with success for exactly this printer,
  number of copies (at least one), media and file; the reported job number is the one in its
  answer, and tracking is announced exactly when there is one.
\<close>

lemma pdf_submission_is_real:
  assumes "cups_print_pdf E platform path options w = (Inr sub, w')"
  shows "\<exists>paper k w1 status out err w2.
      os_run E k (lp_pdf_command options paper path) w1 = (Exited True status out err, w2)
      \<and> ps_backend sub = backend_name platform
      \<and> ps_system_job_id sub = parse_lp_job_id (from_utf8_lossy out)
      \<and> ps_tracking_supported sub = (ps_system_job_id sub \<noteq> None)"
proof -
  from assms obtain paper w3 where
    "finish_lp E (backend_name platform) (po_printer_name options)
       (command_output E (lp_pdf_command options paper path) w3) = (Inr sub, w')"
    by (auto simp: cups_print_pdf_def io_then_ok_iff)
  from finish_lp_ok [OF this] show ?thesis by blast
qed

text \<open>A world and an environment in which one printer takes every job.\<close>

definition one_printer :: "nat \<Rightarrow> string list \<Rightarrow> world \<Rightarrow> process_outcome \<times> world" where
  "one_printer k argv w =
     (Exited True ''0'' (as_bytes (if argv = [''lpstat'', ''-e''] then ''P'' else [])) [], w)"

definition cups_env :: os_env where
  "cups_env =
     \<lparr>os_fail = (\<lambda>_. None), os_left = (\<lambda>_. None), os_now = (\<lambda>_. ''t''), os_millis = (\<lambda>_. 0),
      os_uuid = (\<lambda>_. ''u''), os_temp_dir = ''/tmp'', os_is_executable = (\<lambda>_ _. True),
      os_run = one_printer\<rparr>"

definition cups_world :: world where
  "cups_world = \<lparr>w_files = (\<lambda>_. None), w_dirs = {}, w_tick = 0\<rparr>"

definition label_options :: print_opts where
  "label_options =
     \<lparr>po_printer_name = ''P'', po_paper = mk_paper ''label'' 60 40, po_copies = 2\<rparr>"

lemma one_printer_output:
  "command_output cups_env argv w =
     (Inr (True, as_bytes (if argv = [''lpstat'', ''-e''] then ''P'' else []), []), tick w)"
  by (simp add: command_output_def cups_env_def one_printer_def)

lemma from_utf8_lossy_P: "from_utf8_lossy (as_bytes ''P'') = ''P''" "from_utf8_lossy (as_bytes []) = []"
  by (simp_all add: from_utf8_lossy_ascii)

lemma one_printer_run:
  "run_command cups_env c args w = (Inr (if c # args = [''lpstat'', ''-e''] then ''P'' else []), tick w)"
  by (simp add: run_command_def one_printer_output from_utf8_lossy_P)

lemma one_printer_listed: "\<exists>w'. ensure_printer_exists cups_env ''P'' w = (Inr (), w')"
proof -
  have lines: "str_lines ''P'' = [''P'']" by (simp add: str_lines_def newline_def)
  have trim: "trim ''P'' = ''P''"
    by (simp add: trim_def trim_start.simps trim_end.simps ws_len_def ws_len_end_def white_spaces_def
        starts_with_def ends_with_def)
  show ?thesis
    by (simp add: ensure_printer_exists_def cups_list_printers_def one_printer_run
        current_default_printer_def current_printer_ports_def parse_lpstat_destinations_def lines
        List.map_filter_def trim printer_info_new_def parse_lpstat_devices_def Let_def
        read_lpoptions_def one_printer_output read_lpoptions_attributes_def from_utf8_lossy_P)
qed

lemma no_attributes: "attribute_value [] key = None"
  by (simp add: attribute_value_def split_str.simps starts_with_def)

lemma no_attributes_available: "parse_cups_printer_availability [] = CupsAvailable"
proof -
  have "trim [] = []" by (simp add: trim_def trim_start.simps trim_end.simps)
  then show ?thesis
    by (simp add: parse_cups_printer_availability_def no_attributes reasons_block_submission_def)
qed

lemma one_printer_takes: "\<exists>sub w'. cups_print_pdf cups_env Linux path label_options w = (Inr sub, w')"
proof -
  have name: "po_printer_name label_options = ''P''" by (simp add: label_options_def)
  have avail: "current_printer_availability cups_env ''P'' w = (CupsAvailable, tick w)" for w
    by (simp add: current_printer_availability_def read_lpoptions_attributes_def one_printer_run
        no_attributes_available)
  then have rej: "reject_unavailable_printer cups_env ''P'' w = (Inr (), tick w)" for w
    by (simp add: reject_unavailable_printer_def)
  have paper: "\<exists>p w'. resolve_print_paper cups_env label_options w = (Inr p, w')" for w
    using one_printer_listed [of w]
    by (auto simp: resolve_print_paper_def cups_list_papers_def name read_lpoptions_def
        one_printer_output Let_def)
  have "\<exists>sub w'. finish_lp cups_env n ''P'' (command_output cups_env (lp_pdf_command label_options p path) w)
      = (Inr sub, w')" for n p w
    by (simp add: one_printer_output finish_lp_def avail now_def finalize_cups_submission_def Let_def)
  note finish = this
  obtain w1 where "ensure_printer_exists cups_env ''P'' w = (Inr (), w1)" using one_printer_listed by blast
  moreover obtain p w3 where "resolve_print_paper cups_env label_options (tick w1) = (Inr p, w3)"
    using paper by blast
  ultimately show ?thesis using finish by (simp add: cups_print_pdf_def name rej)
qed

lemma pdf_submission_example:
  "\<exists>paper k w1 status out err w2.
      os_run cups_env k (lp_pdf_command label_options paper ''/tmp/a.pdf'') w1
        = (Exited True status out err, w2)"
proof -
  obtain sub w' where "cups_print_pdf cups_env Linux ''/tmp/a.pdf'' label_options cups_world = (Inr sub, w')"
    using one_printer_takes by blast
  from pdf_submission_is_real [OF this] show ?thesis by blast
qed

text \<open>
  When the printer turns out to be offline after \<open>lp\<close> took the job, the job is withdrawn: the
  error \<open>PrinterOffline\<close> is returned then only if \<open>cancel\<close> succeeded for this very job number, so
  the job is not printed later behind the caller's back.
\<close>

theorem offline_after_submission_is_cancelled:
  assumes "finish_lp E name printer (Inr (True, out, err), w) = (Inl e, w')"
  shows "e = PrinterOffline
    \<and> (\<exists>j w1 s. parse_lp_job_id (from_utf8_lossy out) = Some j
        \<and> run_command E ''cancel'' [j] w1 = (Inr s, w'))"
proof -
  obtain a w2 where "current_printer_availability E printer w = (a, w2)" by fastforce
  with assms obtain sub where
    f: "finalize_cups_submission a sub (cancel_cups_job E) (snd (now E w2)) = (Inl e, w')"
    and j: "ps_system_job_id sub = parse_lp_job_id (from_utf8_lossy out)"
    by (auto simp: finish_lp_def Let_def split: prod.splits)
  from finalize_err [OF f] j show ?thesis
    by (auto simp: cancel_cups_job_def io_then_ok_iff)
qed

text \<open>An environment in which the printer goes offline once \<open>lp\<close> ran.\<close>

definition offline_env :: os_env where
  "offline_env = cups_env\<lparr>os_run := (\<lambda>k argv w.
     (Exited True ''0'' (as_bytes (if argv = [''lpoptions'', ''-p'', ''P''] then ''printer-state=5'' else [])) [],
      w))\<rparr>"

lemma offline_output:
  "command_output offline_env argv w =
     (Inr (True, as_bytes (if argv = [''lpoptions'', ''-p'', ''P''] then ''printer-state=5'' else []), []), tick w)"
  by (simp add: command_output_def offline_env_def)

lemma offline_run:
  "run_command offline_env c args w =
     (Inr (if c # args = [''lpoptions'', ''-p'', ''P''] then ''printer-state=5'' else []), tick w)"
  by (simp add: run_command_def offline_output from_utf8_lossy_ascii)

theorem offline_after_submission_is_cancelled_witness:
  "\<exists>w1 s w'. run_command offline_env ''cancel'' [''P-1''] w1 = (Inr s, w')"
proof -
  let ?out = "as_bytes (lp_message ''P-1'' ''x'')"
  have "job_word ''P-1''" by (simp add: job_word_def)
  from lp_message_id [OF this]
  have j: "parse_lp_job_id (from_utf8_lossy ?out) = Some ''P-1''"
    by (simp add: from_utf8_lossy_ascii lp_message_def)
  have "parse_cups_printer_availability ''printer-state=5'' = CupsUnavailable" by code_simp
  then have "\<exists>w'. finish_lp offline_env ''n'' ''P'' (Inr (True, ?out, []), cups_world) = (Inl PrinterOffline, w')"
    by (simp add: finish_lp_def j current_printer_availability_def read_lpoptions_attributes_def
        offline_run now_def finalize_cups_submission_def cancel_cups_job_def Let_def)
  then obtain w' where "finish_lp offline_env ''n'' ''P'' (Inr (True, ?out, []), cups_world) = (Inl PrinterOffline, w')"
    by blast
  from offline_after_submission_is_cancelled [OF this] j show ?thesis by auto
qed

section \<open>The file of a raw job\<close>

text \<open>Programs that leave the files alone.\<close>

definition keeps_files :: "os_env \<Rightarrow> bool" where
  "keeps_files E \<longleftrightarrow> (\<forall>k argv w. w_files (snd (os_run E k argv w)) = w_files w)"

lemma command_output_files: "keeps_files E \<Longrightarrow> w_files (snd (command_output E argv w)) = w_files w"
  by (simp add: keeps_files_def command_output_def split: prod.splits) (metis snd_conv)

lemma run_command_files: "keeps_files E \<Longrightarrow> w_files (snd (run_command E c args w)) = w_files w"
  using command_output_files [of E "c # args" w]
  by (auto simp: run_command_def split: prod.splits sum.splits)

lemma read_lpoptions_files: "keeps_files E \<Longrightarrow> w_files (snd (read_lpoptions E p w)) = w_files w"
  using command_output_files [of E "[''lpoptions'', ''-p'', p, ''-l'']" w]
  by (auto simp: read_lpoptions_def split: prod.splits sum.splits)

lemma refresh_printers_files: "keeps_files E \<Longrightarrow> w_files (snd (refresh_printers E ps w)) = w_files w"
proof (induction ps arbitrary: w)
  case (Cons p ps)
  obtain r1 w1 where 1: "read_lpoptions E (pi_name p) w = (r1, w1)" by fastforce
  obtain r2 w2 where 2: "read_lpoptions_attributes E (pi_name p) w1 = (r2, w2)" by fastforce
  have "w_files w2 = w_files w"
    using read_lpoptions_files [OF Cons.prems, of "pi_name p" w] 1 2
      run_command_files [OF Cons.prems, of "''lpoptions''" "[''-p'', pi_name p]" w1]
    by (simp add: read_lpoptions_attributes_def)
  with Cons 1 2 show ?case by (simp add: Let_def split: prod.splits) (metis snd_conv)
qed simp

lemma list_printers_files: "keeps_files E \<Longrightarrow> w_files (snd (cups_list_printers E w)) = w_files w"
  unfolding cups_list_printers_def
  by (rule io_then_world [where P = "\<lambda>v. w_files v = w_files w"])
    (auto simp: run_command_files refresh_printers_files current_default_printer_def current_printer_ports_def Let_def
      split: prod.splits dest!: arg_cong [where f = snd] arg_cong [where f = w_files])

lemma ensure_printer_files: "keeps_files E \<Longrightarrow> w_files (snd (ensure_printer_exists E p w)) = w_files w"
  unfolding ensure_printer_exists_def
  by (rule io_then_world [where P = "\<lambda>v. w_files v = w_files w"]) (auto simp: list_printers_files)

lemma availability_files:
  "keeps_files E \<Longrightarrow> w_files (snd (current_printer_availability E p w)) = w_files w"
  using run_command_files [of E "''lpoptions''" "[''-p'', p]" w]
  by (auto simp: current_printer_availability_def read_lpoptions_attributes_def
      split: prod.splits sum.splits)

lemma reject_files: "keeps_files E \<Longrightarrow> w_files (snd (reject_unavailable_printer E p w)) = w_files w"
  using availability_files [of E p w]
  by (auto simp: reject_unavailable_printer_def split: prod.splits cups_printer_availability.splits)

lemma cancel_files: "keeps_files E \<Longrightarrow> w_files (snd (cancel_cups_job E j w)) = w_files w"
  unfolding cancel_cups_job_def
  by (rule io_then_world [where P = "\<lambda>v. w_files v = w_files w"]) (auto simp: run_command_files)

lemma finalize_files:
  assumes "keeps_files E"
  shows "w_files (snd (finalize_cups_submission a sub (cancel_cups_job E) w)) = w_files w"
proof (cases "a = CupsAvailable \<or> ps_system_job_id sub = None")
  case True
  then show ?thesis by (auto simp: finalize_cups_submission_def)
next
  case False
  then obtain j where j: "ps_system_job_id sub = Some j" "a \<noteq> CupsAvailable" by auto
  obtain r w' where "cancel_cups_job E j w = (r, w')" by fastforce
  with cancel_files [OF assms, of j w] j show ?thesis
    by (cases r) (simp_all add: finalize_cups_submission_def)
qed

lemma finish_lp_files: "keeps_files E \<Longrightarrow> w_files (snd (finish_lp E n p (r, w))) = w_files w"
proof -
  assume E: "keeps_files E"
  obtain a w2 where "current_printer_availability E p w = (a, w2)" by fastforce
  moreover from this have "w_files w2 = w_files w" using availability_files [OF E, of p w] by simp
  ultimately show ?thesis
    by (auto simp: finish_lp_def Let_def now_def finalize_files [OF E] split: sum.splits)
qed

lemma fs_remove_gone: "os_fail E (w_tick w) = None \<Longrightarrow> w_files (snd (fs_remove E w p)) = (w_files w)(p := None)"
  by (simp add: fs_remove_def)

lemma write_raw_ok:
  assumes "\<forall>k. os_fail E k = None"
  shows "\<exists>w'. write_raw_temp_file E p data w = (Inr (), w') \<and> w_files w' = (w_files w)(p \<mapsto> data)"
  using assms
  by (simp add: write_raw_temp_file_def fs_append_def fs_write_def)

lemma submit_raw_file_clean:
  assumes E: "keeps_files E" and ok: "\<forall>k. os_fail E k = None" and q: "w_files w q = None"
  shows "w_files (snd (submit_raw_file E platform data p w)) q = None"
proof -
  obtain path w3 where t: "temp_raw_path E w = (path, w3)" and w3: "w_files w3 = w_files w"
    by (simp add: temp_raw_path_def new_uuid_def)
  obtain w4 where f: "write_raw_temp_file E path data w3 = (Inr (), w4)"
      and w4: "w_files w4 = (w_files w3)(path \<mapsto> data)" using write_raw_ok [OF ok] by blast
  let ?argv = "[''lp'', ''-d'', p, ''-o'', ''raw'', path]"
  obtain out w5 where o: "command_output E ?argv w4 = (out, w5)" by fastforce
  then have w5: "w_files w5 = w_files w4" using command_output_files [OF E, of ?argv w4] by simp
  obtain r w6 where d: "fs_remove E w5 path = (r, w6)" by fastforce
  then have w6: "w_files w6 = (w_files w5)(path := None)" using fs_remove_gone ok by (metis snd_conv)
  have "w_files w6 q = None" using q w3 w4 w5 w6 by simp
  with t f o d show ?thesis by (simp add: submit_raw_file_def finish_lp_files [OF E])
qed

text \<open>
  A raw job leaves no file behind: when the file system does not fail and the programs leave the
  files alone, every path without a file before the call is without one afterwards, whether the
  job was taken or refused.
\<close>

theorem cups_raw_leaves_no_file:
  assumes E: "keeps_files E" and ok: "\<forall>k. os_fail E k = None" and q: "w_files w q = None"
  shows "w_files (snd (cups_print_raw E platform data options w)) q = None"
  unfolding cups_print_raw_def
  by (rule io_then_world [where P = "\<lambda>v. w_files v q = None"],
      simp add: q ensure_printer_files [OF E],
      rule io_then_world [where P = "\<lambda>v. w_files v q = None"],
      simp add: reject_files [OF E], simp add: submit_raw_file_clean [OF E ok])

theorem cups_raw_leaves_no_file_witness:
  "w_files (snd (cups_print_raw cups_env Linux [1, 2] \<lparr>ro_printer_name = ''P''\<rparr> cups_world)) ''/tmp/yinshu-raw-u.bin'' = None"
  by (rule cups_raw_leaves_no_file)
    (simp_all add: keeps_files_def cups_env_def one_printer_def cups_world_def)

text \<open>
  When writing the file of a raw job fails halfway, it is not removed: the call returns the error
  with the file system as the failed write left it.
\<close>

theorem raw_file_kept_on_write_error:
  assumes "ensure_printer_exists E (ro_printer_name options) w = (Inr (), w1)"
    and "reject_unavailable_printer E (ro_printer_name options) w1 = (Inr (), w2)"
    and "temp_raw_path E w2 = (path, w3)"
    and "write_raw_temp_file E path data w3 = (Inl e, w4)"
  shows "cups_print_raw E platform data options w = (Inl e, w4)"
  using assms by (simp add: cups_print_raw_def submit_raw_file_def)

definition full_disk_env :: os_env where
  "full_disk_env = cups_env\<lparr>os_fail := (\<lambda>k. if k = 8 then Some \<lparr>io_kind = IoOther, io_msg = ''disk full''\<rparr> else None),
     os_left := (\<lambda>_. Some [1])\<rparr>"

lemma full_disk_run: "command_output full_disk_env argv w = command_output cups_env argv w"
  by (simp add: command_output_def full_disk_env_def)

lemma full_disk_command: "run_command full_disk_env c args w = run_command cups_env c args w"
  by (simp add: run_command_def full_disk_run)

theorem raw_file_kept_on_write_error_witness:
  "w_files (snd (cups_print_raw full_disk_env Linux [1, 2] \<lparr>ro_printer_name = ''P''\<rparr> cups_world))
     ''/tmp/yinshu-raw-u.bin'' = Some [1]"
proof -
  let ?w = "\<lambda>k. cups_world\<lparr>w_tick := k\<rparr>"
  let ?e = "\<lparr>io_kind = IoOther, io_msg = ''disk full''\<rparr>"
  have lines: "str_lines ''P'' = [''P'']" by (simp add: str_lines_def newline_def)
  have trim: "trim ''P'' = ''P''"
    by (simp add: trim_def trim_start.simps trim_end.simps ws_len_def ws_len_end_def white_spaces_def
        starts_with_def ends_with_def)
  have t: "tick (?w k) = ?w (Suc k)" for k by (simp add: tick_def)
  have w0: "cups_world = ?w 0" by (simp add: cups_world_def)
  have 1: "ensure_printer_exists full_disk_env ''P'' cups_world = (Inr (), ?w 5)"
    by (subst w0) (simp add: ensure_printer_exists_def cups_list_printers_def full_disk_command one_printer_run
        current_default_printer_def current_printer_ports_def parse_lpstat_destinations_def lines
        List.map_filter_def trim printer_info_new_def parse_lpstat_devices_def Let_def
        read_lpoptions_def full_disk_run one_printer_output read_lpoptions_attributes_def
        from_utf8_lossy_P t del: world.update_convs)
  have 2: "reject_unavailable_printer full_disk_env ''P'' (?w 5) = (Inr (), ?w 6)"
    by (simp add: reject_unavailable_printer_def current_printer_availability_def
        read_lpoptions_attributes_def full_disk_command one_printer_run no_attributes_available t
        del: world.update_convs)
  have 3: "temp_raw_path full_disk_env (?w 6) = (''/tmp/yinshu-raw-u.bin'', ?w 7)"
    by (simp add: temp_raw_path_def new_uuid_def t full_disk_env_def cups_env_def path_join_def
        starts_with_def ends_with_def)
  have 4: "\<exists>w4. write_raw_temp_file full_disk_env ''/tmp/yinshu-raw-u.bin'' [1, 2] (?w 7) =
      (Inl (command_error ''raw-temp-file'' ''disk full''), w4) \<and> w_files w4 ''/tmp/yinshu-raw-u.bin'' = Some [1]"
    by (simp add: write_raw_temp_file_def fs_append_def fs_write_def full_disk_env_def tick_def)
  then obtain w4 where w4: "write_raw_temp_file full_disk_env ''/tmp/yinshu-raw-u.bin'' [1, 2] (?w 7) =
      (Inl (command_error ''raw-temp-file'' ''disk full''), w4)" "w_files w4 ''/tmp/yinshu-raw-u.bin'' = Some [1]"
    by blast
  have "cups_print_raw full_disk_env Linux [1, 2] \<lparr>ro_printer_name = ''P''\<rparr> cups_world =
      (Inl (command_error ''raw-temp-file'' ''disk full''), w4)"
    by (rule raw_file_kept_on_write_error) (use 1 2 3 w4 in simp_all)
  with w4 show ?thesis by simp
qed

end
