(* ===== verification/Windows_Print.thy ===== *)
theory Windows_Print
  imports Cups
begin

text \<open>
  \<open>crates/runtime/src/printing/windows.rs\<close>: the print backend of Windows. PowerShell lists the printers,
  SumatraPDF prints a PDF and raw data goes to the spooler. Programs are calls to the operating system. The
  spooler is the parameter \<open>spooler\<close>: what a call answers depends on the calls made so far, which the state
  keeps. JSON is the parameter \<open>wp_from_json\<close>.
\<close>

section \<open>Printers\<close>

text \<open>A JSON value as far as \<open>parse_print_quality_dpi\<close> looks at it: a number with its value as \<open>u64\<close>, a string, or
  something else.\<close>

datatype print_quality = QualityNumber "u64 option" | QualityString string | QualityOther

record power_shell_printer =
  pw_name :: string
  pw_default :: "bool option"
  pw_port_name :: "string option"
  pw_printer_type :: "string option"
  pw_device_type :: "string option"
  pw_driver_name :: "string option"
  pw_print_quality :: "print_quality option"

datatype printer_json = OnePrinter power_shell_printer | ManyPrinters "power_shell_printer list"

record windows_print_env =
  wp_os :: os_env
  wp_from_json :: "string \<Rightarrow> (string, printer_json) result"
  wp_sumatra_path :: string

definition bundled_sumatra_path :: "(io_error, string) result \<Rightarrow> string" where
  "bundled_sumatra_path current_exe =
     unwrap_or (Option.bind (to_option current_exe) (\<lambda>path.
       map_option (\<lambda>parent. path_join parent ''SumatraPDF.exe'') (path_parent path))) ''SumatraPDF.exe''"

definition parse_dpi_text :: "string \<Rightarrow> u32 option" where
  "parse_dpi_text value =
     (let lower = to_ascii_lowercase value;
          dpi_index = unwrap_or (find_str ''dpi'' lower) (length lower)
      in map_option of_nat (max_of (List.map_filter (parse_unsigned 32)
           (split_on (\<lambda>c. \<not> ascii_digit c) (take dpi_index lower)))))"

fun parse_print_quality_dpi :: "print_quality \<Rightarrow> u32 option" where
  "parse_print_quality_dpi (QualityNumber n) =
     Option.bind n (\<lambda>v. if unat v < 2 ^ 32 then Some (word_of_nat (unat v)) else None)"
| "parse_print_quality_dpi (QualityString value) = parse_dpi_text value"
| "parse_print_quality_dpi QualityOther = None"

definition classify_windows_printer ::
  "string \<Rightarrow> string option \<Rightarrow> string option \<Rightarrow> string option \<Rightarrow> string option \<Rightarrow>
   bool option \<times> bool option \<times> bool option" where
  "classify_windows_printer name printer_type device_type driver_name port =
     (let text = to_ascii_lowercase (join_with '' ''
            (List.map_filter (\<lambda>x. x) [Some name, printer_type, device_type, driver_name, port]));
          port = to_ascii_lowercase (unwrap_or port []);
          is_virtual = list_ex (contains_str text) [''pdf'', ''xps'', ''onenote'', ''fax'', ''document writer''];
          is_network = list_ex (starts_with port) [[CHR 0x5C, CHR 0x5C], ''ip_'', ''tcp'', ''http'', ''wsd'']
            \<or> contains_str text ''connection'' \<or> contains_str text ''network'';
          is_local = list_ex (starts_with port) [''usb'', ''lpt'', ''com''] \<or> contains_str text ''local''
      in if is_virtual then (Some False, Some False, Some True)
         else if is_network then (Some False, Some True, Some False)
         else if is_local then (Some True, Some False, Some False)
         else (None, None, None))"

definition windows_printer_info :: "power_shell_printer \<Rightarrow> printer_info" where
  "windows_printer_info value =
     (case classify_windows_printer (pw_name value) (pw_printer_type value) (pw_device_type value)
             (pw_driver_name value) (pw_port_name value) of (is_local, is_network, is_virtual) \<Rightarrow>
        \<lparr>pi_name = pw_name value, pi_is_default = unwrap_or (pw_default value) False,
         pi_dpi = Option.bind (pw_print_quality value) parse_print_quality_dpi, pi_port = pw_port_name value,
         pi_is_local = is_local, pi_is_network = is_network, pi_is_virtual = is_virtual,
         pi_availability = PaUnknown\<rparr>)"

definition parse_printers_json :: "(string \<Rightarrow> (string, printer_json) result) \<Rightarrow> string \<Rightarrow> (print_error, printer_info list) result" where
  "parse_printers_json from_str value =
     (if trim value = [] then Ok []
      else
        (case from_str value of
           Inl e \<Rightarrow> Err (command_error ''powershell'' (''failed to parse printer json: '' @ e))
         | Inr (OnePrinter printer) \<Rightarrow> Ok [windows_printer_info printer]
         | Inr (ManyPrinters printers) \<Rightarrow> Ok (map windows_printer_info printers)))"

definition list_printers_script :: string where
  "list_printers_script =
     ''Get-Printer | ForEach-Object { $config = Get-PrintConfiguration -PrinterName $_.Name ''
     @ ''-ErrorAction SilentlyContinue; [PSCustomObject]@'' @ ''{ Name=$_.Name; Default=$_.Default; ''
     @ ''PortName=$_.PortName; Type=$_.Type.ToString(); DeviceType=$_.DeviceType.ToString(); ''
     @ ''DriverName=$_.DriverName; PrintQuality=if ($config) { $config.PrintQuality } else { $null } } } ''
     @ ''| ConvertTo-Json''"

definition windows_list_printers :: "windows_print_env \<Rightarrow> (print_error, printer_info list) io" where
  "windows_list_printers W w =
     io_then (io_map_err (\<lambda>e. command_error ''powershell'' (io_msg e))
                (command_output (wp_os W) [''powershell'', ''-NoProfile'', ''-Command'', list_printers_script] w)) (\<lambda>(success, out, err) w1.
       (if success then parse_printers_json (wp_from_json W) (from_utf8_lossy out)
        else Err (command_error ''powershell'' (trim (from_utf8_lossy err))), w1))"

definition windows_ensure_printer_exists :: "windows_print_env \<Rightarrow> string \<Rightarrow> (print_error, unit) io" where
  "windows_ensure_printer_exists W printer_name w =
     io_then (windows_list_printers W w) (\<lambda>printers w1.
       (if list_ex (\<lambda>printer. pi_name printer = printer_name) printers then Ok ()
        else Err (PrinterNotFound printer_name), w1))"

definition windows_list_papers :: "windows_print_env \<Rightarrow> string \<Rightarrow> (print_error, paper_info list) io" where
  "windows_list_papers W printer_name w =
     io_then (windows_ensure_printer_exists W printer_name w) (\<lambda>_ w1. (Ok common_label_papers, w1))"

section \<open>Printing a PDF\<close>

definition windows_resolve_print_paper :: "windows_print_env \<Rightarrow> print_opts \<Rightarrow> (print_error, paper_info) io" where
  "windows_resolve_print_paper W options w =
     io_then (windows_list_papers W (po_printer_name options) w) (\<lambda>papers w1.
       (Ok (resolve_paper_for_print papers (po_paper options)), w1))"

definition sumatra_command :: "windows_print_env \<Rightarrow> print_opts \<Rightarrow> paper_info \<Rightarrow> string \<Rightarrow> string list" where
  "sumatra_command W options paper path =
     [wp_sumatra_path W, ''-silent'', ''-print-to'', po_printer_name options, ''-print-settings'',
      sumatra_print_settings (po_copies options) paper, path]"

definition windows_submission :: "os_env \<Rightarrow> string \<Rightarrow> world \<Rightarrow> print_submission \<times> world" where
  "windows_submission E backend w =
     (let (submitted_at, w1) = now E w in
      (\<lparr>ps_submitted_at = submitted_at, ps_backend = backend, ps_system_job_id = None, ps_tracking_supported = False\<rparr>, w1))"

definition windows_print_pdf :: "windows_print_env \<Rightarrow> string \<Rightarrow> print_opts \<Rightarrow> (print_error, print_submission) io" where
  "windows_print_pdf W path options w =
     io_then (windows_ensure_printer_exists W (po_printer_name options) w) (\<lambda>_ w1.
     io_then (windows_resolve_print_paper W options w1) (\<lambda>paper w2.
     io_then (io_map_err (\<lambda>e. command_error ''SumatraPDF.exe'' (io_msg e))
                (command_output (wp_os W) (sumatra_command W options paper path) w2)) (\<lambda>(success, out, err) w3.
       if success then (case windows_submission (wp_os W) ''windows-sumatra'' w3 of (submission, w4) \<Rightarrow> (Ok submission, w4))
       else (Err (command_error ''SumatraPDF.exe'' (trim (from_utf8_lossy err))), w3))))"

definition windows_track_submission :: "print_submission \<Rightarrow> print_opts \<Rightarrow> print_tracking_outcome" where
  "windows_track_submission submission options =
     TrackUnknown ''Windows SumatraPDF submission did not expose a system print job id''"

section \<open>Raw data and the spooler\<close>

datatype spooler_call =
    OpenPrinter string
  | StartDocPrinter string string
  | StartPagePrinter
  | WritePrinter bytes
  | EndPagePrinter
  | EndDocPrinter
  | ClosePrinter

text \<open>The calls so far, the last one included, decide whether it succeeds, how many bytes a write took and what the
  error of the thread is.\<close>

record spooler =
  sp_ok :: "spooler_call list \<Rightarrow> bool"
  sp_written :: "spooler_call list \<Rightarrow> u32"
  sp_last_error :: "spooler_call list \<Rightarrow> string"

definition submit_raw_to_windows_printer ::
  "spooler \<Rightarrow> string \<Rightarrow> bytes \<Rightarrow> spooler_call list \<Rightarrow> (print_error, unit) result \<times> spooler_call list" where
  "submit_raw_to_windows_printer S printer_name data calls =
     (let opened = calls @ [OpenPrinter printer_name] in
      if \<not> sp_ok S opened then (Err (command_error ''OpenPrinterW'' (sp_last_error S opened)), opened)
      else
     (let doc = opened @ [StartDocPrinter ''YinShu Raw Job'' ''RAW''] in
      if \<not> sp_ok S doc then
        (let closed = doc @ [ClosePrinter] in (Err (command_error ''StartDocPrinterW'' (sp_last_error S closed)), closed))
      else
     (let page = doc @ [StartPagePrinter] in
      if \<not> sp_ok S page then
        (let closed = page @ [EndDocPrinter, ClosePrinter] in
         (Err (command_error ''StartPagePrinter'' (sp_last_error S closed)), closed))
      else
        (let sent = page @ [WritePrinter (take (length data mod 2 ^ 32) data)];
             closed = sent @ [EndPagePrinter, EndDocPrinter, ClosePrinter]
         in if \<not> sp_ok S sent \<or> unat (sp_written S sent) \<noteq> length data
            then (Err (command_error ''WritePrinter'' (sp_last_error S closed)), closed)
            else (Ok (), closed)))))"

definition windows_print_raw ::
  "windows_print_env \<Rightarrow> spooler \<Rightarrow> bytes \<Rightarrow> raw_print_options \<Rightarrow> world \<times> spooler_call list \<Rightarrow>
   (print_error, print_submission) result \<times> world \<times> spooler_call list" where
  "windows_print_raw W S data options s =
     (case s of (w, calls) \<Rightarrow>
        (case windows_ensure_printer_exists W (ro_printer_name options) w of
           (Inl e, w1) \<Rightarrow> (Err e, (w1, calls))
         | (Inr _, w1) \<Rightarrow>
        (case submit_raw_to_windows_printer S (ro_printer_name options) data calls of
           (Inl e, calls1) \<Rightarrow> (Err e, (w1, calls1))
         | (Inr _, calls1) \<Rightarrow>
             (case windows_submission (wp_os W) ''windows-raw-spooler'' w1 of (submission, w2) \<Rightarrow>
                (Ok submission, (w2, calls1))))))"

section \<open>Use of the spooler\<close>

text \<open>The states of a printer handle, and what a call does to it: a failed call leaves it where it is, and \<open>None\<close> is a
  call that the state does not allow.\<close>

datatype handle_state = HandleClosed | HandleOpen | HandleDoc | HandlePage

fun handle_step :: "bool \<Rightarrow> spooler_call \<Rightarrow> handle_state \<Rightarrow> handle_state option" where
  "handle_step ok (OpenPrinter _) HandleClosed = Some (if ok then HandleOpen else HandleClosed)"
| "handle_step ok (StartDocPrinter _ _) HandleOpen = Some (if ok then HandleDoc else HandleOpen)"
| "handle_step ok StartPagePrinter HandleDoc = Some (if ok then HandlePage else HandleDoc)"
| "handle_step ok (WritePrinter _) HandlePage = Some HandlePage"
| "handle_step ok EndPagePrinter HandlePage = Some HandleDoc"
| "handle_step ok EndDocPrinter HandleDoc = Some HandleOpen"
| "handle_step ok ClosePrinter HandleOpen = Some HandleClosed"
| "handle_step ok _ _ = None"

fun handle_run :: "spooler \<Rightarrow> spooler_call list \<Rightarrow> spooler_call list \<Rightarrow> handle_state \<Rightarrow> handle_state option" where
  "handle_run S before [] h = Some h"
| "handle_run S before (c # cs) h =
     Option.bind (handle_step (sp_ok S (before @ [c])) c h) (handle_run S (before @ [c]) cs)"

lemma submit_raw_calls:
  assumes "submit_raw_to_windows_printer S printer_name data calls = (r, calls')"
  shows "\<exists>new. calls' = calls @ new \<and> handle_run S calls new HandleClosed = Some HandleClosed
    \<and> (r = Inr () \<longrightarrow> WritePrinter data \<in> set new)"
proof -
  define op where "op = OpenPrinter printer_name"
  define sd where "sd = StartDocPrinter ''YinShu Raw Job'' ''RAW''"
  define part where "part = take (length data mod 2 ^ 32) data"
  define sent where "sent = calls @ [op, sd, StartPagePrinter, WritePrinter part]"
  have full: "part = data" if "unat (sp_written S sent) = length data"
    using unsigned_less [of "sp_written S sent", where ?'a = nat] that by (simp add: part_def)
  note a = assms [unfolded submit_raw_to_windows_printer_def Let_def, folded op_def sd_def part_def]
  have op: "handle_step ok op HandleClosed = Some (if ok then HandleOpen else HandleClosed)"
    and sd: "handle_step ok sd HandleOpen = Some (if ok then HandleDoc else HandleOpen)" for ok
    by (simp_all add: op_def sd_def)
  consider "\<not> sp_ok S (calls @ [op])" "calls' = calls @ [op]" "r \<noteq> Inr ()"
    | "sp_ok S (calls @ [op])" "\<not> sp_ok S (calls @ [op, sd])" "calls' = calls @ [op, sd, ClosePrinter]" "r \<noteq> Inr ()"
    | "sp_ok S (calls @ [op])" "sp_ok S (calls @ [op, sd])" "\<not> sp_ok S (calls @ [op, sd, StartPagePrinter])"
      "calls' = calls @ [op, sd, StartPagePrinter, EndDocPrinter, ClosePrinter]" "r \<noteq> Inr ()"
    | "sp_ok S (calls @ [op])" "sp_ok S (calls @ [op, sd])" "sp_ok S (calls @ [op, sd, StartPagePrinter])"
      "calls' = sent @ [EndPagePrinter, EndDocPrinter, ClosePrinter]" "r = Inr () \<Longrightarrow> unat (sp_written S sent) = length data"
    using a by (auto simp: sent_def split: if_splits)
  then show ?thesis
  proof cases
    case 1
    then show ?thesis by (intro exI [of _ "[op]"]) (simp add: op)
  next
    case 2
    then show ?thesis by (intro exI [of _ "[op, sd, ClosePrinter]"]) (simp add: op sd)
  next
    case 3
    then show ?thesis by (intro exI [of _ "[op, sd, StartPagePrinter, EndDocPrinter, ClosePrinter]"]) (simp add: op sd)
  next
    case 4
    with full show ?thesis
      by (intro exI [of _ "[op, sd, StartPagePrinter, WritePrinter part, EndPagePrinter, EndDocPrinter, ClosePrinter]"])
        (auto simp: op sd sent_def)
  qed
qed


section \<open>Examples\<close>

definition example_windows :: windows_print_env where
  "example_windows =
     \<lparr>wp_os = \<lparr>os_fail = (\<lambda>_. None), os_left = (\<lambda>_. None), os_now = (\<lambda>_. ''t''), os_millis = (\<lambda>_. 0), os_uuid = (\<lambda>_. ''u''),
        os_temp_dir = ''/tmp'', os_is_executable = (\<lambda>_ _. True),
        os_run = (\<lambda>_ _ w. (Exited True ''exit code: 0'' (as_bytes ''x'') [], w))\<rparr>,
      wp_from_json = (\<lambda>_. Ok (OnePrinter \<lparr>pw_name = ''Label'', pw_default = None, pw_port_name = Some ''USB001'', pw_printer_type = None,
        pw_device_type = None, pw_driver_name = None, pw_print_quality = None\<rparr>)),
      wp_sumatra_path = ''SumatraPDF.exe''\<rparr>"

definition example_spooler :: spooler where
  "example_spooler = \<lparr>sp_ok = (\<lambda>calls. last calls \<noteq> StartPagePrinter), sp_written = (\<lambda>_. 0), sp_last_error = (\<lambda>_. ''busy'')\<rparr>"


end
