(* ===== verification/Print_Backends.thy ===== *)
theory Print_Backends
  imports Worker_Props Cups_Props Windows_Print
begin

text \<open>
  The backends of \<open>crates/runtime/src/printing/mod.rs\<close>: which one a build for a platform uses, and the backend of a
  platform without printing. The worker is then put together with the CUPS backend: a job that is reported as submitted
  was taken by \<open>lp\<close>.
\<close>

section \<open>The choice of the backend\<close>

text \<open>The methods of \<open>WindowsPrintBackend\<close>; \<open>V k\<close> is the world and the spooler in which the k-th call is made.\<close>

definition windows_print_backend :: "windows_print_env \<Rightarrow> spooler \<Rightarrow> (nat \<Rightarrow> world \<times> spooler_call list) \<Rightarrow> print_backend" where
  "windows_print_backend W S V =
     \<lparr>be_list_printers = (\<lambda>k. fst (windows_list_printers W (fst (V k)))),
      be_list_papers = (\<lambda>k printer. fst (windows_list_papers W printer (fst (V k)))),
      be_list_trays = default_list_trays,
      be_list_media_types = default_list_media_types,
      be_print_pdf = (\<lambda>k path options. fst (windows_print_pdf W path options (fst (V k)))),
      be_print_raw = (\<lambda>k data options. fst (windows_print_raw W S data options (V k))),
      be_track_submission = (\<lambda>k submission options. windows_track_submission submission options),
      be_track_raw_submission = default_track_raw_submission\<rparr>"

definition unsupported_backend :: print_backend where
  "unsupported_backend =
     \<lparr>be_list_printers = (\<lambda>_. Err UnsupportedPlatform), be_list_papers = (\<lambda>_ _. Err UnsupportedPlatform),
      be_list_trays = default_list_trays, be_list_media_types = default_list_media_types,
      be_print_pdf = (\<lambda>_ _ _. Err UnsupportedPlatform), be_print_raw = (\<lambda>_ _ _. Err UnsupportedPlatform),
      be_track_submission = default_track_submission, be_track_raw_submission = default_track_raw_submission\<rparr>"

datatype build_target = BuildMacos | BuildLinux | BuildWindows | BuildOther

text \<open>What the backend of a build needs of its surroundings.\<close>

record backend_env =
  bk_os :: os_env
  bk_world :: "nat \<Rightarrow> world"
  bk_calls :: "nat \<Rightarrow> spooler_call list"
  bk_spooler :: spooler
  bk_from_json :: "string \<Rightarrow> (string, printer_json) result"
  bk_current_exe :: "(io_error, string) result"

definition windows_backend :: "string \<Rightarrow> backend_env \<Rightarrow> print_backend" where
  "windows_backend sumatra_path K =
     windows_print_backend \<lparr>wp_os = bk_os K, wp_from_json = bk_from_json K, wp_sumatra_path = sumatra_path\<rparr>
       (bk_spooler K) (\<lambda>k. (bk_world K k, bk_calls K k))"

definition default_backend :: "build_target \<Rightarrow> backend_env \<Rightarrow> print_backend" where
  "default_backend target K =
     (case target of
        BuildMacos \<Rightarrow> cups_backend (bk_os K) Macos (bk_world K)
      | BuildLinux \<Rightarrow> cups_backend (bk_os K) Linux (bk_world K)
      | BuildWindows \<Rightarrow>
          windows_backend (bundled_sumatra_path (bk_current_exe K)) K
      | BuildOther \<Rightarrow> unsupported_backend)"

section \<open>What a job that succeeds did\<close>

text \<open>The backend took the job: with the options resolved for it, as a PDF or as the raw data of the job.\<close>

definition backend_took :: "worker_env \<Rightarrow> agent_config \<Rightarrow> queued_job \<Rightarrow> bool" where
  "backend_took X config qj \<longleftrightarrow>
     (\<exists>opts k path sub. resolve_print_options qj config = Inr opts \<and> be_print_pdf (we_backend X) k path opts = Inr sub)
     \<or> (\<exists>opts k b64 data sub. pj_format (qj_job qj) = Raw \<and> resolve_raw_print_options qj config = Inr opts
          \<and> pj_data_base64 (qj_job qj) = Some b64 \<and> x_b64_decode (we_lib X) b64 = Some data
          \<and> be_print_raw (we_backend X) k data opts = Inr sub)"

lemma print_and_track_ok:
  "print_and_track push prnt track s = (Inr u, s') \<Longrightarrow> \<exists>sub. prnt (w_tick (fst s)) = Inr sub"
  by (auto simp: print_and_track_def split: sum.splits)

lemma submit_pdf_ok:
  "submit_pdf_and_track X qj opts p s = (Inr u, s') \<Longrightarrow> \<exists>k sub. be_print_pdf (we_backend X) k p opts = Inr sub"
  unfolding submit_pdf_eq by (drule print_and_track_ok) blast

lemma downloaded_ok:
  "print_downloaded_file X qj opts p s = (Inr u, s') \<Longrightarrow> \<exists>k path sub. be_print_pdf (we_backend X) k path opts = Inr sub"
  by (auto simp: print_downloaded_file_def Let_def split: prod.splits sum.splits dest!: submit_pdf_ok)

lemma html_ok:
  "print_html_job X qj opts s = (Inr u, s') \<Longrightarrow> \<exists>k path sub. be_print_pdf (we_backend X) k path opts = Inr sub"
  by (auto simp: print_html_job_def Let_def split: prod.splits sum.splits dest!: submit_pdf_ok)

lemma raw_ok:
  assumes "print_raw_job X qj opts config s = (Inr u, s')"
  shows "\<exists>k b64 data sub. pj_data_base64 (qj_job qj) = Some b64 \<and> x_b64_decode (we_lib X) b64 = Some data
    \<and> be_print_raw (we_backend X) k data opts = Inr sub"
  using assms unfolding print_raw_eq
  by (auto split: option.splits if_splits dest!: print_and_track_ok)

lemma process_file_ok:
  assumes "process_file_job X qj config s = (Inr u, s')"
  shows "\<exists>opts k path sub. resolve_print_options qj config = Inr opts \<and> be_print_pdf (we_backend X) k path opts = Inr sub"
  using assms by (auto simp: process_file_job_def Let_def split: option.splits prod.splits sum.splits dest!: downloaded_ok)

lemma process_job_inner_ok:
  assumes "process_job_inner X qj s = (Inr u, s')"
  shows "backend_took X (as_config (snd s)) qj"
  using assms unfolding process_job_inner_def backend_took_def Let_def
  by (auto split: if_splits sum.splits dest!: html_ok raw_ok process_file_ok)

lemma job_log_events:
  assumes "job_log X qj ss st st'"
  shows "map tl_status (drop (length (as_status_events st)) (as_status_events st')) = ss"
proof -
  from assms obtain es where es: "map tl_status es = ss"
    and st: "st' = st\<lparr>as_logs := foldl log_push (as_logs st) es, as_status_events := as_status_events st @ es,
        as_task_history := as_task_history st'\<rparr>"
    unfolding job_log_def by (elim conjE exE) (rule that)
  from arg_cong [OF st, of as_status_events] es show ?thesis by simp
qed

lemma job_log_config: "job_log X qj ss st st' \<Longrightarrow> as_config st' = as_config st"
  unfolding job_log_def by (elim conjE exE) (drule arg_cong [of _ _ as_config], simp)

text \<open>The statuses a job adds to the channel include \<open>submitted\<close> only when the backend took it.\<close>

lemma submitted_took:
  assumes p: "process_job X qj (w, st) = (w', st')"
    and e: "JsSubmitted \<in> set (map tl_status (drop (length (as_status_events st)) (as_status_events st')))"
  shows "backend_took X (as_config st) qj"
proof -
  let ?s1 = "push_log X qj JsQueued ''queued'' (w, st)"
  have q: "job_log X qj [JsQueued] st (snd ?s1)" using push_job_logs(1) [of X qj JsQueued "(w, st)"] by simp
  obtain r s2 where r: "process_job_inner X qj ?s1 = (r, s2)" by (rule prod.exhaust)
  obtain ss where l: "job_log X qj ss (snd ?s1) (snd s2)" and i: "inner_statuses r ss"
    using process_job_inner_log [of X qj ?s1] r by auto
  show ?thesis
  proof (cases r)
    case (Inr u)
    from process_job_inner_ok [OF r [unfolded Inr]] job_log_config [OF q] show ?thesis by simp
  next
    case (Inl x)
    have "job_log X qj (JsQueued # ss @ [JsFailed]) st st'"
      using job_log_trans [OF job_log_trans [OF q l] push_job_logs(1)] p r Inl
      by (simp add: process_job_def) (metis append_Cons append_Nil snd_conv)
    from job_log_events [OF this] have "map tl_status (drop (length (as_status_events st)) (as_status_events st')) =
        JsQueued # ss @ [JsFailed]" .
    moreover have "JsSubmitted \<notin> set ss" using i Inl by (auto simp: inner_statuses_def)
    ultimately show ?thesis using e by auto
  qed
qed

lemma finished_submits:
  assumes "process_job_inner X qj (push_log X qj JsQueued ''queued'' (w, st)) = (Inr u, s2)"
  shows "JsSubmitted \<in> set (map tl_status (drop (length (as_status_events st)) (as_status_events (snd s2))))"
proof -
  let ?s1 = "push_log X qj JsQueued ''queued'' (w, st)"
  obtain ss where l: "job_log X qj ss (snd ?s1) (snd s2)" and i: "inner_statuses (Inr u) ss"
    using process_job_inner_log [of X qj ?s1] assms by auto
  from i have "JsSubmitted \<in> set ss" by (auto simp: inner_statuses_def submitted_end_def)
  moreover have "job_log X qj ([JsQueued] @ ss) st (snd s2)"
    by (rule job_log_trans [OF _ l]) (use push_job_logs(1) [of X qj JsQueued "(w, st)"] in simp)
  ultimately show ?thesis by (simp only: job_log_events) simp
qed

text \<open>Without a backend every job fails.\<close>

lemma unsupported_never_submits:
  assumes "we_backend X = unsupported_backend" and "process_job X qj (w, st) = (w', st')"
  shows "JsSubmitted \<notin> set (map tl_status (drop (length (as_status_events st)) (as_status_events st')))"
  using submitted_took [OF assms(2)] assms(1) by (auto simp: backend_took_def unsupported_backend_def)

section \<open>On CUPS\<close>

text \<open>A process that, started in the world \<open>w\<close>, ended with success.\<close>

definition ran_well :: "os_env \<Rightarrow> world \<Rightarrow> string list \<Rightarrow> bool" where
  "ran_well E w argv \<longleftrightarrow> (\<exists>k status out err w'. os_run E k argv w = (Exited True status out err, w'))"

lemma cups_pdf_ok:
  assumes "fst (cups_print_pdf E platform path options w) = Inr sub"
  shows "\<exists>paper w1. ran_well E w1 (lp_pdf_command options paper path)"
proof -
  obtain w' where "cups_print_pdf E platform path options w = (Inr sub, w')" using assms by (metis prod.collapse)
  from pdf_submission_is_real [OF this] show ?thesis unfolding ran_well_def by blast
qed

lemma finish_lp_success:
  "finish_lp E name printer (r, w) = (Inr sub, w') \<Longrightarrow> \<exists>out err. r = Inr (True, out, err)"
  by (auto simp: finish_lp_def split: sum.splits prod.splits if_splits)

lemma raw_temp_file_holds:
  "write_raw_temp_file E path data w = (Inr u, w') \<Longrightarrow> w_files w' path = Some data"
  by (auto simp: write_raw_temp_file_def io_then_def io_map_err_def fs_append_def fs_write_def
      split: option.splits sum.splits)

lemma cups_raw_ok:
  assumes "fst (cups_print_raw E platform data options w) = Inr sub"
  shows "\<exists>path w1. w_files w1 path = Some data
    \<and> ran_well E w1 [''lp'', ''-d'', ro_printer_name options, ''-o'', ''raw'', path]"
proof -
  obtain w' where "cups_print_raw E platform data options w = (Inr sub, w')" using assms by (metis prod.collapse)
  then obtain w2 where "submit_raw_file E platform data (ro_printer_name options) w2 = (Inr sub, w')"
    by (auto simp: cups_print_raw_def io_then_ok_iff)
  then obtain path w3 u w4 r w5 w6 where
    d: "write_raw_temp_file E path data w3 = (Inr u, w4)" and
    c: "command_output E [''lp'', ''-d'', ro_printer_name options, ''-o'', ''raw'', path] w4 = (r, w5)"
    and f: "finish_lp E (raw_backend_name platform) (ro_printer_name options) (r, w6) = (Inr sub, w')"
    by (auto simp: submit_raw_file_def Let_def io_then_ok_iff case_prod_unfold) (metis prod.collapse)
  from finish_lp_success [OF f] obtain out err where "r = Inr (True, out, err)" by blast
  with c have "ran_well E w4 [''lp'', ''-d'', ro_printer_name options, ''-o'', ''raw'', path]"
    unfolding ran_well_def using command_output_ok by blast
  with raw_temp_file_holds [OF d] show ?thesis by blast
qed


text \<open>A raw job on Linux, with the one printer of the CUPS examples.\<close>

definition linux_backend_env :: backend_env where
  "linux_backend_env =
     \<lparr>bk_os = cups_env, bk_world = (\<lambda>_. cups_world), bk_calls = (\<lambda>_. []), bk_spooler = example_spooler,
      bk_from_json = (\<lambda>_. Err ''no JSON''), bk_current_exe = Err not_found\<rparr>"

definition linux_worker :: worker_env where
  "linux_worker = example_worker\<lparr>we_backend := default_backend BuildLinux linux_backend_env\<rparr>"

lemma raw_printer_takes: "\<exists>sub w'. cups_print_raw cups_env Linux data \<lparr>ro_printer_name = ''P''\<rparr> w = (Inr sub, w')"
proof -
  have avail: "current_printer_availability cups_env ''P'' w = (CupsAvailable, tick w)" for w
    by (simp add: current_printer_availability_def read_lpoptions_attributes_def one_printer_run
        no_attributes_available)
  have rej: "reject_unavailable_printer cups_env ''P'' w = (Inr (), tick w)" for w
    by (simp add: reject_unavailable_printer_def avail)
  have "\<exists>w'. write_raw_temp_file cups_env path data w = (Inr (), w')" for path w
    using write_raw_ok [of cups_env path data w] by (auto simp: cups_env_def)
  note written = this
  have "\<exists>sub w'. submit_raw_file cups_env Linux data ''P'' w = (Inr sub, w')" for w
    using written [of "fst (temp_raw_path cups_env w)" "snd (temp_raw_path cups_env w)"]
    by (auto simp: submit_raw_file_def case_prod_unfold Let_def one_printer_output finish_lp_def avail now_def
        finalize_cups_submission_def)
  then show ?thesis using one_printer_listed [of w] by (auto simp: cups_print_raw_def rej)
qed

lemma linux_worker_finishes:
  assumes "as_config (snd s) = agent_config_default"
  shows "\<exists>s'. process_job_inner linux_worker (example_job Raw) s = (Inr (), s')"
proof -
  have o: "resolve_raw_print_options (example_job Raw) agent_config_default = Inr \<lparr>ro_printer_name = ''P''\<rparr>"
    by (simp add: resolve_raw_print_options_def resolve_printer_name_def example_job_def)
  have b: "\<exists>sub. be_print_raw (we_backend linux_worker) k data \<lparr>ro_printer_name = ''P''\<rparr> = Inr sub" for k data
    using raw_printer_takes [of data cups_world]
    by (auto simp: linux_worker_def default_backend_def linux_backend_env_def cups_backend_def)
  have "\<exists>s'. print_and_track push (\<lambda>k. be_print_raw (we_backend linux_worker) k data \<lparr>ro_printer_name = ''P''\<rparr>) track s
      = (Inr (), s')" for push data track s
    using b [of "w_tick (fst s)" data] by (auto simp: print_and_track_def Let_def)
  moreover have "4 \<le> unat (max_bytes_of (lc_max_file_size_mb (cf_limits agent_config_default)))"
    by (simp add: agent_config_default_def max_bytes_of_def saturating_mul_u64_def)
  ultimately show ?thesis using o assms
    by (simp add: process_job_inner_def print_raw_eq linux_worker_def example_worker_def example_job_def example_lib_def
        as_bytes_def)
qed


end
