(* ===== verification/Agent_Start.thy ===== *)
theory Agent_Start
  imports System Ipc Rust_Addr
begin

text \<open>
  Building, starting and stopping the agent: \<open>crates/runtime/src/builder.rs\<close>, \<open>agent_guard.rs\<close> and
  \<open>agent.rs\<close>, with the server errors and \<open>bind_listener\<close> of \<open>server.rs\<close>. What the environment answers
  is the record \<open>start_env\<close>: whether a TCP connection to an address succeeds, the address a listener
  is bound to, the content of the task history database at a path and the failures of SQLite.
\<close>

section \<open>Building\<close>

record runtime_paths =
  rp_config_path :: string
  rp_data_dir :: string
  rp_runtime_dir :: string

definition runtime_paths_new :: "string \<Rightarrow> string \<Rightarrow> string \<Rightarrow> runtime_paths" where
  "runtime_paths_new config_path data_dir runtime_dir =
     \<lparr>rp_config_path = config_path, rp_data_dir = data_dir, rp_runtime_dir = runtime_dir\<rparr>"

definition task_history_path :: "runtime_paths \<Rightarrow> string" where
  "task_history_path p = path_join (rp_data_dir p) ''task_history.sqlite3''"

record runtime_builder =
  rb_paths :: runtime_paths
  rb_printing :: "print_backend option"
  rb_html_renderer :: "html_renderer option"

definition runtime_builder_new :: "runtime_paths \<Rightarrow> runtime_builder" where
  "runtime_builder_new paths = \<lparr>rb_paths = paths, rb_printing = None, rb_html_renderer = None\<rparr>"

definition with_print_backend :: "print_backend \<Rightarrow> runtime_builder \<Rightarrow> runtime_builder" where
  "with_print_backend printing b = b\<lparr>rb_printing := Some printing\<rparr>"

definition with_html_renderer :: "html_renderer \<Rightarrow> runtime_builder \<Rightarrow> runtime_builder" where
  "with_html_renderer renderer b = b\<lparr>rb_html_renderer := Some renderer\<rparr>"

record start_env =
  sv_os :: os_env
  sv_serde :: config_serde
  sv_connect :: "nat \<Rightarrow> socket_addr \<Rightarrow> bool"
  sv_bind :: "nat \<Rightarrow> socket_addr \<Rightarrow> (io_error, socket_addr) result"
  sv_open :: "nat \<Rightarrow> string \<Rightarrow> (sql_error, task_db option) result"
  sv_sql :: "nat \<Rightarrow> sql_faults"
  sv_schema_fails :: "nat \<Rightarrow> bool"
  sv_default_backend :: print_backend
  sv_default_renderer :: html_renderer

record running_agent =
  ra_addr :: socket_addr

datatype server_error = SvBind io_error | SvInvalidAddress

datatype runtime_failure =
    RfIo io_error
  | RfStore sql_error
  | RfServer server_error
  | RfAlreadyRunning running_agent
  | RfPortOccupied socket_addr
  | RfTaskJoin string

text \<open>The runtime that is not started yet; the backend and the renderer of the state are kept beside
  it.\<close>

record agent_runtime =
  rt_paths :: runtime_paths
  rt_state :: agent_state
  rt_printing :: print_backend
  rt_renderer :: html_renderer

definition remove_leftover_remote_store :: "os_env \<Rightarrow> string \<Rightarrow> world \<Rightarrow> world" where
  "remove_leftover_remote_store E data_dir w =
     foldl (\<lambda>w name. snd (fs_remove E w (path_join data_dir name))) w
       [''remote.sqlite3'', ''remote.sqlite3-wal'', ''remote.sqlite3-shm'']"

text \<open>\<open>TaskHistoryStore::open\<close> of the builder.\<close>

definition open_task_history :: "start_env \<Rightarrow> string \<Rightarrow> (sql_error, task_db) io" where
  "open_task_history V path w =
     (and_then (sv_open V (w_tick w) path) (\<lambda>stored.
        from_connection (sv_sql V (w_tick w)) (sv_schema_fails V (w_tick w)) stored), tick w)"

definition build :: "start_env \<Rightarrow> runtime_builder \<Rightarrow> (runtime_failure, agent_runtime) io" where
  "build V b w =
     (let E = sv_os V; paths = rb_paths b in
      io_then (io_map_err RfIo (fs_create_dir_all E w (rp_data_dir paths))) (\<lambda>_ w1.
      io_then (io_map_err RfIo (fs_create_dir_all E w1 (rp_runtime_dir paths))) (\<lambda>_ w2.
      io_then (case path_parent (rp_config_path paths) of
                 None \<Rightarrow> (Ok (), w2)
               | Some parent \<Rightarrow> io_map_err RfIo (fs_create_dir_all E w2 parent)) (\<lambda>_ w3.
      io_then (io_map_err RfIo (config_load (sv_serde V) E w3 (rp_config_path paths))) (\<lambda>config w4.
      io_then (io_map_err RfStore (open_task_history V (task_history_path paths)
                 (remove_leftover_remote_store E (rp_data_dir paths) w4))) (\<lambda>task_history w5.
        (Ok \<lparr>rt_paths = paths,
             rt_state = with_task_history_store
               (with_printing_and_config_path config (Some (rp_config_path paths))) task_history,
             rt_printing = unwrap_or (rb_printing b) (sv_default_backend V),
             rt_renderer = unwrap_or (rb_html_renderer b) (sv_default_renderer V)\<rparr>, w5)))))))"

section \<open>The port guard\<close>

datatype agent_port_status = PortAvailable | PortYinShu running_agent | PortOccupiedByOther socket_addr

definition probe_addr :: "agent_config \<Rightarrow> socket_addr" where
  "probe_addr config = \<lparr>sa_ip = V4 (ipv4_of_octets [127, 0, 0, 1]), sa_port = sc_port (cf_service config)\<rparr>"

definition check_agent_port :: "start_env \<Rightarrow> agent_config \<Rightarrow> world \<Rightarrow> agent_port_status \<times> world" where
  "check_agent_port V config w =
     (let addr = probe_addr config
      in (if sv_connect V (w_tick w) addr then PortOccupiedByOther addr else PortAvailable, tick w))"

definition already_running_message :: "running_agent \<Rightarrow> string" where
  "already_running_message agent = ''YinShu Agent is already running at '' @ show_socket_addr (ra_addr agent)"

section \<open>Starting\<close>

fun server_error_msg :: "string \<Rightarrow> server_error \<Rightarrow> string" where
  "server_error_msg parse (SvBind e) = ''server bind failed: '' @ io_msg e"
| "server_error_msg parse SvInvalidAddress = ''invalid server address: '' @ parse"

fun runtime_failure_msg :: "string \<Rightarrow> (sql_error \<Rightarrow> string) \<Rightarrow> runtime_failure \<Rightarrow> string" where
  "runtime_failure_msg parse sql (RfIo e) = io_msg e"
| "runtime_failure_msg parse sql (RfStore e) = sql e"
| "runtime_failure_msg parse sql (RfServer e) = server_error_msg parse e"
| "runtime_failure_msg parse sql (RfAlreadyRunning agent) = already_running_message agent"
| "runtime_failure_msg parse sql (RfPortOccupied addr) =
     ''local service port is already occupied at '' @ show_socket_addr addr"
| "runtime_failure_msg parse sql (RfTaskJoin e) = ''runtime task failed: '' @ e"

definition bind_listener :: "start_env \<Rightarrow> agent_config \<Rightarrow> (server_error, socket_addr) io" where
  "bind_listener V config w =
     (case configured_addr config of
        None \<Rightarrow> (Err SvInvalidAddress, w)
      | Some addr \<Rightarrow> (map_err SvBind (sv_bind V (w_tick w) addr), tick w))"

text \<open>The running agent. The tasks are those of \<open>system_step\<close> and \<open>serve_listener_until\<close>;
  \<open>ah_tasks\<close> says that their join handles were not taken yet.\<close>

record agent_handle =
  ah_state :: agent_state
  ah_listen_addr :: socket_addr
  ah_cancelled :: bool
  ah_tasks :: bool

definition start :: "start_env \<Rightarrow> agent_runtime \<Rightarrow> (runtime_failure, agent_handle) io" where
  "start V rt w =
     (let config = as_config (rt_state rt) in
      case check_agent_port V config w of
        (PortYinShu agent, w1) \<Rightarrow> (Err (RfAlreadyRunning agent), w1)
      | (PortOccupiedByOther addr, w1) \<Rightarrow> (Err (RfPortOccupied addr), w1)
      | (PortAvailable, w1) \<Rightarrow>
          io_then (io_map_err RfServer (bind_listener V config w1)) (\<lambda>listen_addr w2.
          io_then (io_map_err RfIo (bind_socket (sv_os V) (socket_path (rp_runtime_dir (rt_paths rt))) w2)) (\<lambda>_ w3.
            (Ok \<lparr>ah_state = rt_state rt, ah_listen_addr = listen_addr, ah_cancelled = False, ah_tasks = True\<rparr>,
             w3))))"

text \<open>What became of the three tasks: a panic (the outer error) or their own result.\<close>

record task_results =
  tr_server :: "(string, (server_error, unit) result) result"
  tr_queue :: "(string, unit) result"
  tr_ipc :: "(string, (io_error, unit) result) result"

definition shutdown :: "task_results \<Rightarrow> agent_handle \<Rightarrow> (runtime_failure, unit) result \<times> agent_handle" where
  "shutdown T h =
     (let h1 = h\<lparr>ah_cancelled := True\<rparr> in
      if \<not> ah_tasks h1 then (Ok (), h1)
      else
        (and_then (map_err RfTaskJoin (tr_queue T)) (\<lambda>_.
         and_then (map_err RfTaskJoin (tr_ipc T)) (\<lambda>ipc.
         and_then (map_err RfIo ipc) (\<lambda>_.
         and_then (map_err RfTaskJoin (tr_server T)) (\<lambda>server.
           map_err RfServer server)))), h1\<lparr>ah_tasks := False\<rparr>))"

section \<open>Lemmas\<close>

lemma create_dir_ok: "fs_create_dir_all E w d = (Inr u, w') \<Longrightarrow> w_files w' = w_files w"
  using w_files_fs_create_dir_all [of E w d] by simp

text \<open>A build succeeds only with a configuration that was loaded; the directories it creates change
  no file before that.\<close>

lemma build_ok:
  assumes "build V b w = (Inr rt, w')"
  obtains w3 w4 config db where
    "w_files w3 = w_files w"
    "config_load (sv_serde V) (sv_os V) w3 (rp_config_path (rb_paths b)) = (Inr config, w4)"
    "open_task_history V (task_history_path (rb_paths b))
       (remove_leftover_remote_store (sv_os V) (rp_data_dir (rb_paths b)) w4) = (Inr db, w')"
    "rt_state rt = with_task_history_store
       (with_printing_and_config_path config (Some (rp_config_path (rb_paths b)))) db"
    "rt_paths rt = rb_paths b"
  using assms
  by (auto simp: build_def Let_def io_then_ok_iff dest!: create_dir_ok split: option.splits)

lemma build_config_normal: "build V b w = (Inr rt, w') \<Longrightarrow> config_normal (as_config (rt_state rt))"
  by (erule build_ok) (simp add: with_task_history_store_def with_printing_and_config_path_def)

lemma start_ok:
  assumes "start V rt w = (Inr h, w')"
  shows "ah_state h = rt_state rt" "\<not> ah_cancelled h" "ah_tasks h"
    "\<not> sv_connect V (w_tick w) (probe_addr (as_config (rt_state rt)))"
    "sv_bind V (Suc (w_tick w)) \<lparr>sa_ip = V4 0, sa_port = sc_port (cf_service (as_config (rt_state rt)))\<rparr>
       = Inr (ah_listen_addr h)"
  using assms
  by (auto simp: start_def Let_def check_agent_port_def bind_listener_def configured_addr_any_interface
      io_then_ok_iff tick_def split: if_splits)

text \<open>A started agent is an initial state of the system: every property of the reachable states holds
  for it from there on.\<close>

lemma started_agent_initial:
  assumes "build V b w = (Inr rt, w1)" and "start V rt w1 = (Inr h, w2)"
  shows "\<exists>config. system_init config
    \<lparr>sy_world = w2, sy_agent = ah_state h, sy_conns = (\<lambda>_. None), sy_receivers = rs, sy_worker = WorkerLooping,
     sy_cancelled = False, sy_accepted = [], sy_taken = []\<rparr>"
proof -
  from build_ok [OF assms(1)] obtain config db where
    "rt_state rt = with_task_history_store
       (with_printing_and_config_path config (Some (rp_config_path (rb_paths b)))) db" by metis
  with start_ok(1) [OF assms(2)]
  have "system_init config
    \<lparr>sy_world = w2, sy_agent = ah_state h, sy_conns = (\<lambda>_. None), sy_receivers = rs, sy_worker = WorkerLooping,
     sy_cancelled = False, sy_accepted = [], sy_taken = []\<rparr>"
    unfolding system_init_def with_task_history_store_def by auto
  then show ?thesis ..
qed

text \<open>Stopping twice is stopping once: the second call reports success and changes nothing.\<close>

lemma shutdown_idempotent:
  "shutdown T' (snd (shutdown T h)) = (Inr (), snd (shutdown T h))"
  by (simp add: shutdown_def Let_def)

lemma fst_io_then_err_iff:
  "fst (io_then m f) = Inl e \<longleftrightarrow> fst m = Inl e \<or> (\<exists>x w. m = (Inr x, w) \<and> fst (f x w) = Inl e)"
  by (cases m; cases "fst m") auto

lemma fst_io_map_err_err_iff: "fst (io_map_err g m) = Inl e \<longleftrightarrow> (\<exists>d. fst m = Inl d \<and> e = g d)"
  by (cases m; cases "fst m") auto

section \<open>Properties\<close>

text \<open>
  C32. A configuration survives a restart: when the running agent has saved a configuration to its
  file, and the file was not changed since, a build with the same configuration path that succeeds
  without an I/O failure starts from exactly the configuration the agent had, whatever the other
  files hold; serde is assumed to read back the text it wrote for it.
\<close>

theorem restart_keeps_config:
  assumes save: "save_config L (sv_serde V) E w st config = (Inr saved, w1, st1)"
    and path: "as_config_path st = Some (rp_config_path (rb_paths b))"
    and serde: "from_json (sv_serde V) (to_json (sv_serde V) saved) = Inr saved"
      "valid_utf8 (to_json (sv_serde V) saved)"
    and same: "w_files w2 (rp_config_path (rb_paths b)) = w_files w1 (rp_config_path (rb_paths b))"
    and io: "\<And>n. os_fail (sv_os V) n = None"
    and build: "build V b w2 = (Inr rt, w3)"
  shows "as_config (rt_state rt) = as_config st1 \<and> as_config_path (rt_state rt) = as_config_path st1"
proof -
  let ?p = "rp_config_path (rb_paths b)"
  note s = save_config_ok [OF save]
  have f: "w_files w1 ?p = Some (as_bytes (to_json (sv_serde V) saved))"
    using config_save_ok [OF s(4) [OF path]] s(2) by simp
  from build_ok [OF build] obtain w3' w4 c db where
    w3': "w_files w3' = w_files w2" and load: "config_load (sv_serde V) (sv_os V) w3' ?p = (Inr c, w4)"
    and rt: "rt_state rt = with_task_history_store (with_printing_and_config_path c (Some ?p)) db" by metis
  have "config_load (sv_serde V) (sv_os V) w3' ?p = (Inr (config_normalized saved), tick (tick w3'))"
    using f same w3' io serde
    by (simp add: config_load_def fs_exists_def fs_read_to_string_def fs_read_def from_utf8_def tick_def)
  with load have "c = saved" using s(2) by simp
  with rt s(2,3) path show ?thesis
    by (simp add: with_task_history_store_def with_printing_and_config_path_def)
qed

text \<open>
  \<open>check_agent_port\<close> never answers that a YinShu agent is running, so \<open>start\<close> never fails with
  \<open>AlreadyRunning\<close>: a second start on the same port is always reported as an occupied port.
\<close>

theorem start_never_reports_running_agent:
  "fst (start V rt w) \<noteq> Inl (RfAlreadyRunning agent)
   \<and> (if sv_connect V (w_tick w) (probe_addr (as_config (rt_state rt)))
      then fst (start V rt w) = Inl (RfPortOccupied (probe_addr (as_config (rt_state rt))))
      else fst (check_agent_port V (as_config (rt_state rt)) w) = PortAvailable)"
  by (auto simp: start_def check_agent_port_def Let_def fst_io_then_err_iff fst_io_map_err_err_iff)

section \<open>A restart\<close>

definition example_start :: start_env where
  "example_start =
     \<lparr>sv_os = example_env, sv_serde = example_serde, sv_connect = (\<lambda>_ _. False), sv_bind = (\<lambda>_ addr. Ok addr),
      sv_open = (\<lambda>_ _. Ok None), sv_sql = (\<lambda>_ _. False), sv_schema_fails = (\<lambda>_. False),
      sv_default_backend = we_backend example_worker, sv_default_renderer = we_render example_worker\<rparr>"

definition example_builder :: runtime_builder where
  "example_builder = runtime_builder_new (runtime_paths_new ''/d/config.json'' ''/d'' ''/run'')"

definition example_running :: agent_state where
  "example_running = with_printing_and_config_path agent_config_default (Some ''/d/config.json'')"

lemma example_builder_paths:
  "rp_config_path (rb_paths example_builder) = ''/d/config.json''"
  by (simp add: example_builder_def runtime_builder_new_def runtime_paths_new_def)

lemma example_loopback_entry: "validate_allowed_ip_entry example_lib REQUIRED_LOOPBACK_IP = Inr ()"
  by code_simp

lemma example_default_lists:
  "se_allowed_origins (cf_security agent_config_default) = []"
  "se_allowed_ips (cf_security agent_config_default) = [REQUIRED_LOOPBACK_IP]"
  by (simp_all add: agent_config_default_def default_allowed_ips_def)

lemma example_start_saves:
  "\<exists>w1 st1. save_config example_lib example_serde example_env example_world example_running agent_config_default
     = (Inr agent_config_default, w1, st1) \<and> as_config st1 = agent_config_default"
  by (simp add: save_config_def example_default_lists example_loopback_entry Let_def
      example_running_def with_printing_and_config_path_def config_save_def
      example_path_parent fs_create_dir_all_def fs_write_def example_defs agent_config_default_normal
      config_normalized_id)

lemma example_build:
  assumes "w_files w ''/d/config.json'' = Some (as_bytes ''{}'')"
  shows "\<exists>rt w'. build example_start example_builder w = (Inr rt, w')"
proof -
  have v: "valid_utf8 ''{}''" by code_simp
  show ?thesis
    using assms v
    by (simp add: build_def Let_def example_builder_def runtime_builder_new_def runtime_paths_new_def
        example_start_def example_path_parent fs_create_dir_all_def config_load_def fs_exists_def
        fs_read_to_string_def fs_read_def from_utf8_def tick_def open_task_history_def from_connection_def
        purge_removed_sources_def transaction_def empty_db_def example_env_def example_serde_def)
qed

theorem restart_keeps_config_witness:
  "\<exists>w1 st1 rt w3.
     save_config example_lib example_serde example_env example_world example_running agent_config_default
       = (Inr agent_config_default, w1, st1)
     \<and> build example_start example_builder w1 = (Inr rt, w3)
     \<and> as_config (rt_state rt) = agent_config_default"
proof -
  from example_start_saves obtain w1 st1 where
    s: "save_config example_lib example_serde example_env example_world example_running agent_config_default
      = (Inr agent_config_default, w1, st1)" and c: "as_config st1 = agent_config_default" by blast
  have p: "as_config_path example_running = Some (rp_config_path (rb_paths example_builder))"
    by (simp add: example_builder_paths example_running_def with_printing_and_config_path_def)
  have v: "valid_utf8 ''{}''" by code_simp
  from config_save_ok [OF save_config_ok(4) [OF s p]]
  have f: "w_files w1 ''/d/config.json'' = Some (as_bytes ''{}'')"
    by (simp add: example_builder_paths example_serde_def)
  from example_build [OF f] obtain rt w3 where b: "build example_start example_builder w1 = (Inr rt, w3)" by blast
  have "as_config (rt_state rt) = as_config st1 \<and> as_config_path (rt_state rt) = as_config_path st1"
    by (rule restart_keeps_config [where V = example_start and b = example_builder and L = example_lib
          and E = example_env and w = example_world and st = example_running and config = agent_config_default
          and saved = agent_config_default and ?w1.0 = w1 and ?w2.0 = w1 and ?w3.0 = w3])
      (use s p b v in \<open>simp_all add: example_start_def example_serde_def example_env_def\<close>)
  with s b c show ?thesis by auto
qed

end
