(* ===== verification/Cli.thy ===== *)
theory Cli
  imports Command_Props
begin

text \<open>
  \<open>crates/cli/src/parser.rs\<close>: what the command line does once its arguments are parsed. The argument
  parser (clap) and the JSON printer are fields of the environment \<open>cli_env\<close>, together with the
  answers of the operating system to the two calls the client itself makes: reading the password
  file and trying to bind the new port. The commands go to a \<open>command_service\<close>; the questions to a
  \<open>cli_interaction\<close>. A branch of the source that panics is \<open>None\<close>.
\<close>

section \<open>Arguments\<close>

datatype export_field = EfServicePort | EfAllowedOrigins | EfAllowedIps

datatype config_command =
    CcExport string "export_field list" "string option"
  | CcImport string "string option" bool bool bool
  | CcValidate "string option"

datatype service_command = SetPort u16

datatype ip_command = IpAdd string | IpDelete string

datatype autostart_command = AutostartEnable | AutostartDisable

datatype app_command = AppLanguage string

datatype printer_command = PrinterSetDefault string

datatype paper_command = PaperSet f64 f64

datatype origin_command = OriginAdd string | OriginDelete string

datatype task_command = TaskClear

datatype cli_command =
    CliStatus
  | CliConfig "config_command option"
  | CliPrinter "printer_command option" "string option"
  | CliPaper "paper_command option"
  | CliOrigin "origin_command option"
  | CliTask "task_command option" "string option"
  | CliLogs
  | CliTestPrint
  | CliAutostart "autostart_command option"
  | CliApp app_command
  | CliService "service_command option"
  | CliIp "ip_command option"
  | CliDoctor bool
  | CliDiagnose "string option"

definition cli_export_options :: "export_field list \<Rightarrow> export_options" where
  "cli_export_options only =
     (if only = [] then export_all
      else \<lparr>ex_service_port = list_ex (\<lambda>f. f = EfServicePort) only,
            ex_allowed_origins = list_ex (\<lambda>f. f = EfAllowedOrigins) only,
            ex_allowed_ips = list_ex (\<lambda>f. f = EfAllowedIps) only\<rparr>)"

record cli_output =
  co_stdout :: string
  co_stderr :: string
  co_exit_code :: int

text \<open>An error of clap: its kind matters only as far as help and version are no failures.\<close>

record clap_error =
  cx_display :: bool
  cx_text :: string

text \<open>The values that are printed as JSON.\<close>

datatype json_value =
    JvResult command_result
  | JvService service_config
  | JvStrings "string list"
  | JvPrinter printer_info
  | JvPrinters "printer_info list"
  | JvReport doctor_report
  | JvPreview import_preview
  | JvEnabled bool

record cli_env =
  cv_lib :: ext_lib
  cv_parse :: "string list \<Rightarrow> (clap_error, cli_command option) result"
  cv_long_help :: string
  cv_pretty :: "json_value \<Rightarrow> (string, string) result"
  cv_read_file :: "string \<Rightarrow> (io_error, bytes) result"
  cv_bind :: "u16 \<Rightarrow> (io_error, unit) result"

definition invalid_input :: "string \<Rightarrow> command_error" where
  "invalid_input message = command_error_new CkInvalidInput message"

definition unexpected :: "(command_error, 'a) result" where
  "unexpected = Err (command_error_new CkRuntime ''command returned an unexpected result'')"

definition cli_json :: "cli_env \<Rightarrow> json_value \<Rightarrow> (command_error, string) result" where
  "cli_json P v = map_sum (command_error_new CkRuntime) (\<lambda>text. text @ [newline]) (cv_pretty P v)"

definition ok_line :: "string \<Rightarrow> string" where
  "ok_line s = s @ [newline]"

section \<open>Passwords\<close>

definition strip_line_end :: "bytes \<Rightarrow> bytes" where
  "strip_line_end bs =
     (if length bs \<ge> 2 \<and> drop (length bs - 2) bs = [0x0D, 0x0A] then take (length bs - 2) bs
      else if bs \<noteq> [] \<and> last bs = 0x0A then butlast bs else bs)"

definition read_password_file :: "cli_env \<Rightarrow> string \<Rightarrow> (command_error, string) result" where
  "read_password_file P path =
     (case cv_read_file P path of
        Inl e \<Rightarrow> Err (command_error_new CkRuntime (''cannot read password file: '' @ io_msg e))
      | Inr bs \<Rightarrow>
          ok_or (invalid_input ''password file must contain valid UTF-8'') (from_utf8 (strip_line_end bs)))"

definition export_password :: "cli_env \<Rightarrow> string option \<Rightarrow> cli_interaction \<Rightarrow> (command_error, string) result" where
  "export_password P password_file I =
     (case password_file of
        Some path \<Rightarrow> read_password_file P path
      | None \<Rightarrow>
          if \<not> ci_is_interactive I
          then Err (invalid_input ''non-interactive export requires --password-file'')
          else
            and_then (ci_read_password I ''Password: '') (\<lambda>password.
            and_then (ci_read_password I ''Confirm password: '') (\<lambda>confirmation.
              if password \<noteq> confirmation then Err (invalid_input ''passwords do not match'')
              else Ok password)))"

definition import_password :: "cli_env \<Rightarrow> string option \<Rightarrow> cli_interaction \<Rightarrow> (command_error, string) result" where
  "import_password P password_file I =
     (case password_file of
        Some path \<Rightarrow> read_password_file P path
      | None \<Rightarrow>
          if ci_is_interactive I then ci_read_password I ''Password: ''
          else Err (invalid_input ''non-interactive import requires --password-file''))"

section \<open>Subcommands\<close>

type_synonym 's cli_action = "'s \<Rightarrow> (command_error, string) result \<times> 's"

definition get_config :: "'s command_service \<Rightarrow> 's \<Rightarrow> (command_error, agent_config) result \<times> 's" where
  "get_config sv s =
     io_then (command_service_execute sv GetConfig s) (\<lambda>r s1.
       (case r of RsConfig c \<Rightarrow> Ok c | _ \<Rightarrow> unexpected, s1))"

definition cli_save_config :: "'s command_service \<Rightarrow> agent_config \<Rightarrow> 's \<Rightarrow> (command_error, unit) result \<times> 's" where
  "cli_save_config sv c s =
     io_then (command_service_execute sv (SaveConfig c) s) (\<lambda>r s1.
       (case r of RsConfig _ \<Rightarrow> Ok () | _ \<Rightarrow> unexpected, s1))"

definition result_json :: "cli_env \<Rightarrow> 's command_service \<Rightarrow> command \<Rightarrow> 's cli_action" where
  "result_json P sv c s = io_then (command_service_execute sv c s) (\<lambda>r s1. (cli_json P (JvResult r), s1))"

definition cli_import ::
  "cli_env \<Rightarrow> 's command_service \<Rightarrow> cli_interaction \<Rightarrow> string \<Rightarrow> string option \<Rightarrow> bool \<Rightarrow> bool \<Rightarrow> bool \<Rightarrow> 's cli_action" where
  "cli_import P sv I path password_file preview yes allow_empty_password s =
     (if \<not> ci_is_interactive I \<and> (password_file = None \<or> (\<not> preview \<and> \<not> yes))
      then (Err (invalid_input ''non-interactive import requires --password-file and --yes''), s)
      else
        io_then (import_password P password_file I, s) (\<lambda>password s0.
          if password = [] \<and> \<not> ci_is_interactive I \<and> \<not> allow_empty_password
          then (Err (invalid_input ''empty password requires --allow-empty-password''), s0)
          else
            io_then (command_service_execute sv (PreviewConfigImport path password) s0) (\<lambda>r s1.
              (case r of
                 RsImportPreview import_preview \<Rightarrow>
                   io_then (cli_json P (JvPreview import_preview), s1) (\<lambda>rendered s2.
                     if preview then (Ok rendered, s2)
                     else
                       io_then (if yes then Ok True else ci_confirm I ''Apply these configuration changes?'', s2)
                         (\<lambda>confirmed s3.
                            if \<not> confirmed then (Ok (rendered @ ok_line ''import cancelled''), s3)
                            else
                              io_then (command_service_execute sv
                                         (ImportConfig path password (ip_file_hash import_preview)) s3) (\<lambda>_ s4.
                                (Ok (rendered @ ok_line ''configuration imported''), s4))))
               | _ \<Rightarrow> (unexpected, s1)))))"

definition cli_config :: "cli_env \<Rightarrow> 's command_service \<Rightarrow> cli_interaction \<Rightarrow> config_command option \<Rightarrow> 's cli_action" where
  "cli_config P sv I c s =
     (case c of
        None \<Rightarrow> result_json P sv GetConfig s
      | Some (CcValidate path) \<Rightarrow>
          io_then (command_service_execute sv (ValidateConfig path) s) (\<lambda>_ s1.
            (Ok (ok_line ''configuration is valid''), s1))
      | Some (CcExport path only password_file) \<Rightarrow>
          io_then (export_password P password_file I, s) (\<lambda>password s1.
          io_then (command_service_execute sv (ExportConfig path password (cli_export_options only)) s1) (\<lambda>_ s2.
            (Ok (ok_line ''configuration exported''), s2)))
      | Some (CcImport path password_file preview yes allow_empty) \<Rightarrow>
          cli_import P sv I path password_file preview yes allow_empty s)"

definition cli_service_config :: "cli_env \<Rightarrow> 's command_service \<Rightarrow> service_command option \<Rightarrow> 's cli_action" where
  "cli_service_config P sv c s =
     io_then (get_config sv s) (\<lambda>config s1.
       (case c of
          None \<Rightarrow> (cli_json P (JvService (cf_service config)), s1)
        | Some (SetPort port) \<Rightarrow>
            if \<not> (MIN_SERVICE_PORT \<le> port \<and> port \<le> MAX_SERVICE_PORT)
            then (Err (invalid_input (''service port must be between '' @ show_nat (unat MIN_SERVICE_PORT)
                     @ '' and '' @ show_nat (unat MAX_SERVICE_PORT))), s1)
            else
              io_then (if port \<noteq> sc_port (cf_service config)
                       then map_err (\<lambda>_. command_error_new CkConflict
                              (''service port '' @ show_nat (unat port) @ '' is already occupied'')) (cv_bind P port)
                       else Ok (), s1) (\<lambda>_ s2.
              io_then (cli_save_config sv (config\<lparr>cf_service := (cf_service config)\<lparr>sc_port := port\<rparr>\<rparr>) s2) (\<lambda>_ s3.
                (Ok (ok_line ''service port updated; restart the agent to apply it''), s3)))))"

definition set_ips :: "string list \<Rightarrow> agent_config \<Rightarrow> agent_config" where
  "set_ips ips c = c\<lparr>cf_security := (cf_security c)\<lparr>se_allowed_ips := ips\<rparr>\<rparr>"

definition set_origins :: "string list \<Rightarrow> agent_config \<Rightarrow> agent_config" where
  "set_origins origins c = c\<lparr>cf_security := (cf_security c)\<lparr>se_allowed_origins := origins\<rparr>\<rparr>"

definition cli_ip :: "cli_env \<Rightarrow> 's command_service \<Rightarrow> ip_command option \<Rightarrow> 's cli_action" where
  "cli_ip P sv c s =
     io_then (get_config sv s) (\<lambda>config s1.
       let ips = se_allowed_ips (cf_security config);
           save = (\<lambda>next s.
             io_then (cli_save_config sv (set_ips (normalize_allowed_ips next) config) s) (\<lambda>_ s2.
               (Ok (ok_line ''allowed IPs updated''), s2)))
       in case c of
            None \<Rightarrow> (cli_json P (JvStrings ips), s1)
          | Some (IpAdd entry) \<Rightarrow>
              io_then (map_err (\<lambda>e. invalid_input (ip_entry_error_msg e))
                         (validate_allowed_ip_entry (cv_lib P) entry), s1) (\<lambda>_. save (ips @ [entry]))
          | Some (IpDelete entry) \<Rightarrow>
              if trim entry = REQUIRED_LOOPBACK_IP
              then (Err (invalid_input (REQUIRED_LOOPBACK_IP @ '' is required and cannot be deleted'')), s1)
              else save (filter (\<lambda>item. item \<noteq> trim entry) ips) s1)"

definition cli_printer :: "cli_env \<Rightarrow> 's command_service \<Rightarrow> printer_command option \<Rightarrow> string option \<Rightarrow> 's cli_action" where
  "cli_printer P sv c name s =
     (case (c, name) of
        (Some (PrinterSetDefault printer_name), None) \<Rightarrow>
          io_then (get_config sv s) (\<lambda>config s1.
          io_then (cli_save_config sv
              (config\<lparr>cf_printing := (cf_printing config)\<lparr>pc_default_printer := Some printer_name\<rparr>\<rparr>) s1) (\<lambda>_ s2.
            (Ok (ok_line ''default printer updated''), s2)))
      | (None, _) \<Rightarrow>
          io_then (command_service_execute sv ListPrinters s) (\<lambda>r s1.
            (case r of
               RsPrinters printers \<Rightarrow>
                 (case name of
                    Some n \<Rightarrow>
                      and_then (ok_or (invalid_input ''printer not found'') (find (\<lambda>p. pi_name p = n) printers))
                        (\<lambda>p. cli_json P (JvPrinter p))
                  | None \<Rightarrow> cli_json P (JvPrinters printers))
             | _ \<Rightarrow> unexpected, s1))
      | _ \<Rightarrow> (Err (invalid_input ''invalid printer command''), s))"

definition cli_paper :: "cli_env \<Rightarrow> 's command_service \<Rightarrow> paper_command option \<Rightarrow> 's cli_action" where
  "cli_paper P sv c s =
     (case c of
        Some (PaperSet width height) \<Rightarrow>
          if \<not> is_finite width \<or> \<not> is_finite height \<or> f64_le width (Fin 0) \<or> f64_le height (Fin 0)
          then (Err (invalid_input ''paper dimensions must be positive finite numbers''), s)
          else
            io_then (get_config sv s) (\<lambda>config s1.
            io_then (cli_save_config sv
                (config\<lparr>cf_printing := (cf_printing config)\<lparr>pc_default_paper :=
                   Some \<lparr>ep_width_mm = width, ep_height_mm = height\<rparr>\<rparr>\<rparr>) s1) (\<lambda>_ s2.
              (Ok (ok_line ''default paper updated''), s2)))
      | None \<Rightarrow>
          io_then (get_config sv s) (\<lambda>config s1.
          io_then (ok_or (invalid_input ''default printer is not configured'')
                     (pc_default_printer (cf_printing config)), s1) (\<lambda>printer_name s2.
            result_json P sv (ListPapers printer_name) s2)))"

definition cli_origin :: "cli_env \<Rightarrow> 's command_service \<Rightarrow> origin_command option \<Rightarrow> 's cli_action" where
  "cli_origin P sv c s =
     io_then (get_config sv s) (\<lambda>config s1.
       let origins = se_allowed_origins (cf_security config);
           save = (\<lambda>next s.
             io_then (cli_save_config sv (set_origins next config) s) (\<lambda>_ s2.
               (Ok (ok_line ''allowed origins updated''), s2)))
       in case c of
            None \<Rightarrow> (cli_json P (JvStrings origins), s1)
          | Some (OriginAdd origin) \<Rightarrow>
              io_then (map_err (\<lambda>e. invalid_input (protocol_error_msg e)) (validate_origin (cv_lib P) origin), s1)
                (\<lambda>_. save (if origin \<in> set origins then origins else origins @ [origin]))
          | Some (OriginDelete origin) \<Rightarrow> save (filter (\<lambda>item. item \<noteq> origin) origins) s1)"

definition cli_task :: "cli_env \<Rightarrow> 's command_service \<Rightarrow> task_command option \<Rightarrow> string option \<Rightarrow> 's cli_action" where
  "cli_task P sv c job_id s =
     (case c of
        Some TaskClear \<Rightarrow>
          io_then (command_service_execute sv ClearTaskHistory s) (\<lambda>_ s1. (Ok (ok_line ''task history cleared''), s1))
      | None \<Rightarrow>
          (case job_id of
             Some j \<Rightarrow> result_json P sv (GetTaskHistoryEvents j) s
           | None \<Rightarrow> result_json P sv GetTaskHistory s))"

section \<open>The program\<close>

fun doctor_status_label :: "doctor_status \<Rightarrow> string" where
  "doctor_status_label DsPass = ''PASS''"
| "doctor_status_label DsWarn = ''WARN''"
| "doctor_status_label DsFail = ''FAIL''"

definition doctor_text :: "doctor_report \<Rightarrow> string" where
  "doctor_text report =
     concat (map (\<lambda>c.
       ''['' @ doctor_status_label (dc_status c) @ ''] '' @ dc_code c @ '': '' @ ok_line (dc_message c)
       @ (case dc_suggestion c of None \<Rightarrow> [] | Some g \<Rightarrow> ''  suggestion: '' @ ok_line g)) (dr_checks report))
     @ ''summary: '' @ show_nat (du_pass (dr_summary report)) @ '' pass, ''
     @ show_nat (du_warn (dr_summary report)) @ '' warn, ''
     @ show_nat (du_fail (dr_summary report)) @ ok_line '' fail''"

definition cli_execute ::
  "cli_env \<Rightarrow> 's command_service \<Rightarrow> 's product_command_adapter \<Rightarrow> cli_interaction \<Rightarrow> cli_command \<Rightarrow> 's \<Rightarrow>
   ((command_error, string) result \<times> 's) option" where
  "cli_execute P sv A I c s =
     (case c of
        CliStatus \<Rightarrow> Some (result_json P sv Status s)
      | CliConfig args \<Rightarrow> Some (cli_config P sv I args s)
      | CliPrinter command name \<Rightarrow> Some (cli_printer P sv command name s)
      | CliPaper command \<Rightarrow> Some (cli_paper P sv command s)
      | CliOrigin command \<Rightarrow> Some (cli_origin P sv command s)
      | CliTask command job_id \<Rightarrow> Some (cli_task P sv command job_id s)
      | CliLogs \<Rightarrow> Some (result_json P sv GetLogs s)
      | CliTestPrint \<Rightarrow>
          Some (io_then (get_config sv s) (\<lambda>config s1.
                io_then (command_service_execute sv (TestPrint config) s1) (\<lambda>_ s2.
                  (Ok (ok_line ''test page submitted''), s2))))
      | CliAutostart None \<Rightarrow>
          Some (io_then (pa_autostart_status A s) (\<lambda>enabled s1. (cli_json P (JvEnabled enabled), s1)))
      | CliAutostart (Some AutostartEnable) \<Rightarrow>
          Some (io_then (pa_set_autostart A True s) (\<lambda>_ s1. (Ok (ok_line ''autostart enabled''), s1)))
      | CliAutostart (Some AutostartDisable) \<Rightarrow>
          Some (io_then (pa_set_autostart A False s) (\<lambda>_ s1. (Ok (ok_line ''autostart disabled''), s1)))
      | CliApp (AppLanguage language) \<Rightarrow>
          Some (if language \<notin> {''zh-CN'', ''en''}
                then (Err (invalid_input ''language must be zh-CN or en''), s)
                else io_then (pa_set_language A language s) (\<lambda>_ s1.
                  (Ok (ok_line ''application language updated; restart the GUI if it is currently open''), s1)))
      | CliService command \<Rightarrow> Some (cli_service_config P sv command s)
      | CliIp command \<Rightarrow> Some (cli_ip P sv command s)
      | CliDoctor _ \<Rightarrow> None
      | CliDiagnose _ \<Rightarrow> None)"

definition display_output :: "clap_error \<Rightarrow> cli_output" where
  "display_output e = \<lparr>co_stdout = cx_text e, co_stderr = [], co_exit_code = 0\<rparr>"

definition cli_display_output_from :: "cli_env \<Rightarrow> string list \<Rightarrow> cli_output option" where
  "cli_display_output_from P args =
     (case cv_parse P args of
        Inl e \<Rightarrow> if cx_display e then Some (display_output e) else None
      | Inr _ \<Rightarrow> None)"

definition run_command_line ::
  "cli_env \<Rightarrow> 's command_service \<Rightarrow> 's product_command_adapter \<Rightarrow> cli_interaction \<Rightarrow> cli_command option \<Rightarrow> 's \<Rightarrow>
   ((command_error, string \<times> int) result \<times> 's) option" where
  "run_command_line P sv A I command s =
     (case command of
        None \<Rightarrow> Some (Ok (cv_long_help P, 0), s)
      | Some (CliDoctor json) \<Rightarrow>
          Some (io_then (command_service_execute sv (Doctor (pa_product_kind A)) s) (\<lambda>r s1.
            (case r of
               RsDoctor report \<Rightarrow>
                 and_then (if json then cli_json P (JvReport report) else Ok (doctor_text report)) (\<lambda>text.
                   Ok (text, of_bool (du_fail (dr_summary report) > 0)))
             | _ \<Rightarrow> unexpected, s1)))
      | Some (CliDiagnose target) \<Rightarrow>
          Some (io_then (command_service_execute sv (ExportDiagnostics target None) s) (\<lambda>r s1.
            (case r of
               RsDiagnostics path \<Rightarrow> Ok (''diagnostics written to '' @ ok_line path, 0)
             | _ \<Rightarrow> unexpected, s1)))
      | Some c \<Rightarrow>
          map_option (\<lambda>m. io_then m (\<lambda>text s1. (Ok (text, 0), s1))) (cli_execute P sv A I c s))"

definition run_cli_from ::
  "cli_env \<Rightarrow> string list \<Rightarrow> 's command_service \<Rightarrow> 's product_command_adapter \<Rightarrow> cli_interaction \<Rightarrow> 's \<Rightarrow>
   ((command_error, cli_output) result \<times> 's) option" where
  "run_cli_from P args sv A I s =
     (case cv_parse P args of
        Inl e \<Rightarrow>
          Some (if cx_display e then (Ok (display_output e), s) else (Err (invalid_input (cx_text e)), s))
      | Inr command \<Rightarrow>
          map_option (\<lambda>m. io_then m (\<lambda>(stdout, exit_code) s1.
              (Ok \<lparr>co_stdout = stdout, co_stderr = [], co_exit_code = exit_code\<rparr>, s1)))
            (run_command_line P sv A I command s))"

end
