(* ===== verification/Cli_Props.thy ===== *)
theory Cli_Props
  imports Cli
begin

text \<open>
  What the command line does to the configuration of the agent it talks to. The contract of an
  executor of configuration commands is a locale; the runtime's executor satisfies it, the IPC
  client in front of it and the command service hand it on, and the subcommands are proved safe
  against it once.
\<close>

section \<open>Executors of configuration commands\<close>

definition changes_config :: "command \<Rightarrow> bool" where
  "changes_config c \<longleftrightarrow> (\<exists>x. c = SaveConfig x) \<or> (\<exists>p pw h. c = ImportConfig p pw h)"

lemma changes_config_simps [simp]:
  "changes_config (SaveConfig x)" "changes_config (ImportConfig p pw h)" "\<not> changes_config GetConfig"
  "\<not> changes_config (PreviewConfigImport p pw)" "\<not> changes_config (ListPapers n)" "\<not> changes_config ListPrinters"
  "\<not> changes_config Status" "\<not> changes_config GetLogs" "\<not> changes_config (TestPrint x)"
  "\<not> changes_config GetTaskHistory" "\<not> changes_config (GetTaskHistoryEvents j)" "\<not> changes_config ClearTaskHistory"
  "\<not> changes_config (ExportConfig p pw opts)" "\<not> changes_config (ValidateConfig t)" "\<not> changes_config (Doctor k)"
  "\<not> changes_config (ExportDiagnostics t u)"
  by (simp_all add: changes_config_def)

locale config_executor =
  fixes ex :: "'s executor" and cfg :: "'s \<Rightarrow> agent_config"
  assumes reads_config: "ex GetConfig s = (Inr x, s') \<Longrightarrow> x = RsConfig (cfg s)"
    and saves_config: "ex (SaveConfig c) s = (r, s') \<Longrightarrow> cfg s' = config_normalized c \<or> cfg s' = cfg s \<and> (\<exists>e. r = Inl e)"
    and keeps_config: "ex d s = (r, s') \<Longrightarrow> \<not> changes_config d \<Longrightarrow> cfg s' = cfg s"
begin

lemma saved: "ex (SaveConfig c) s = (Inr x, s') \<Longrightarrow> cfg s' = config_normalized c"
  using saves_config by blast

end

lemma execute_save_cases:
  "execute_save_config Q c s = (r, s') \<Longrightarrow>
     as_config (snd s') = config_normalized c \<or> as_config (snd s') = as_config (snd s) \<and> (\<exists>e. r = Inl e)"
proof -
  assume a: "execute_save_config Q c s = (r, s')"
  obtain w st where s: "s = (w, st)" by (rule prod.exhaust)
  obtain r0 w1 st1 where sv: "save_config (we_lib (ee_worker Q)) (ee_serde Q) (we_os (ee_worker Q)) w st c = (r0, w1, st1)"
    by (rule prod_cases3)
  show ?thesis
  proof (cases r0)
    case (Inl e)
    with a s sv save_config_err [OF sv [unfolded Inl]] show ?thesis by (auto simp: execute_save_config_def)
  next
    case (Inr c')
    with a s sv save_config_ok(2,3) [OF sv [unfolded Inr]] show ?thesis by (auto simp: execute_save_config_def)
  qed
qed

interpretation rtc: config_executor "runtime_execute Q" "\<lambda>s. as_config (snd s)" for Q
proof
  fix s x s'
  assume "runtime_execute Q GetConfig s = (Inr x, s')"
  then show "x = RsConfig (as_config (snd s))" by (cases s) (auto simp: runtime_execute_def)
next
  fix c s r s'
  assume "runtime_execute Q (SaveConfig c) s = (r, s')"
  then show "as_config (snd s') = config_normalized c \<or> as_config (snd s') = as_config (snd s) \<and> (\<exists>e. r = Inl e)"
    by (intro execute_save_cases [of Q]) (cases s, simp add: runtime_execute_def)
next
  fix c s r s'
  assume "runtime_execute Q c s = (r, s')" "\<not> changes_config c"
  with runtime_execute_config [of Q c s] show "as_config (snd s') = as_config (snd s)"
    by (auto simp: changes_config_def config_kept_def)
qed

text \<open>A successful answer over the channel is the answer of the executor behind it.\<close>

lemma write_frame_whole:
  assumes "write_frame F b \<lparr>sk_in = i, sk_out = [], sk_calls = 0\<rparr> = (Inr u, str)"
  shows "sk_out str = frame b \<and> length b \<le> MAX_IPC_FRAME_BYTES"
  using assms
  by (auto simp: write_frame_def stream_write_def frame_def split: if_splits option.splits prod.splits)

lemma client_ok:
  assumes doc: "codec_documented C"
    and ok: "local_client_execute C V (agent_peer C F executor) c s = (Inr x, s')"
  shows "executor c s = (Inr x, s')"
proof -
  define rq where "rq = \<lparr>cq_protocol_version = IPC_PROTOCOL_VERSION, cq_request_id = cl_uuid V, cq_command = c\<rparr>"
  from ok have con: "cl_connect V = None" by (auto simp: local_client_execute_def split: option.splits)
  with ok have x: "exchange C V (agent_peer C F executor) c s = (Inr x, s')" by (simp add: local_client_execute_def)
  then obtain b where b: "ic_request_to_vec C rq = Inr b"
    by (cases "ic_request_to_vec C rq") (simp_all add: exchange_def Let_def flip: rq_def)
  obtain r str where w: "write_frame (cl_faults V) b \<lparr>sk_in = [], sk_out = [], sk_calls = 0\<rparr> = (r, str)"
    by (rule prod.exhaust)
  obtain reply s1 where p: "agent_peer C F executor (sk_out str) s = (reply, s1)" by (rule prod.exhaust)
  note x1 = x [unfolded exchange_def Let_def, folded rq_def, unfolded b sum.case w prod.case p]
  from x1 obtain u where r: "r = Inr u" by (auto split: sum.splits)
  from x1 r obtain rb resp where rd: "fst (read_frame (cl_faults V) (str\<lparr>sk_in := reply\<rparr>)) = Inr rb"
    and resp: "ic_response_from_slice C rb = Inr resp" "cp_result resp = Inr x" and s1: "s1 = s'"
    by (auto split: sum.splits if_splits)
  from write_frame_whole [OF w [unfolded r]] have f: "sk_out str = frame b" "length b \<le> MAX_IPC_FRAME_BYTES" by auto
  let ?in = "\<lparr>sk_in = frame b, sk_out = [], sk_calls = 0\<rparr>"
  obtain r2 str2 where rd2: "read_frame F ?in = (r2, str2)" by (rule prod.exhaust)
  have o2: "sk_out str2 = []" using read_frame_out [of F ?in] rd2 by simp
  have ne: "reply \<noteq> []" using rd read_frame_empty [of "str\<lparr>sk_in := reply\<rparr>" "cl_faults V"] by auto
  then obtain b2 where "r2 = Inr b2"
    using p f rd2 o2 by (cases r2) (auto simp: agent_peer_def handle_connection_def)
  moreover have "b2 = b" using read_frame_of_prefix [of F ?in b2 "length (frame b)" b] rd2 f(2) calculation by simp
  ultimately have rd3: "read_frame F ?in = (Inr b, str2)" using rd2 by simp
  have q: "ic_request_from_slice C b = Inr rq" using doc b by (simp add: codec_documented_def)
  note h = handle_connection_request [OF rd3 q, of executor s]
  have ans: "agent_answer executor rq s = executor c s" by (simp add: agent_answer_def rq_def)
  obtain out where out: "ic_response_to_vec C (agent_response executor rq s) = Inr out"
    using ne p f h o2 by (cases "ic_response_to_vec C (agent_response executor rq s)") (auto simp: agent_peer_def)
  with h p f ans have rep: "reply = sk_out (snd (write_frame F out str2))" and s1': "s1 = snd (executor c s)"
    by (simp_all add: agent_peer_def)
  obtain k where k: "reply = take k (frame out)"
    using write_frame_sent [of F out str2, OF surjective_pairing] o2 rep by auto
  have "length out \<le> MAX_IPC_FRAME_BYTES" using rep o2 ne by (auto simp: write_frame_def split: if_splits)
  from read_frame_of_prefix [OF rd _ this] k have "rb = out" by simp
  with out resp doc have "resp = agent_response executor rq s" by (simp add: codec_documented_def)
  with resp(2) have "fst (executor c s) = Inr x" by (simp add: agent_response_def ans)
  with s1 s1' show ?thesis by (metis surjective_pairing)
qed

lemma client_config_executor:
  assumes doc: "codec_documented C" and ex: "config_executor executor cfg"
  shows "config_executor (local_client_execute C V (agent_peer C F executor)) cfg"
proof -
  have st: "snd (local_client_execute C V (agent_peer C F executor) c s) \<in> {s, snd (executor c s)}" for c s
    by (rule client_state [OF doc])
  show ?thesis
  proof
    fix s x s'
    assume "local_client_execute C V (agent_peer C F executor) GetConfig s = (Inr x, s')"
    from client_ok [OF doc this] show "x = RsConfig (cfg s)" by (rule config_executor.reads_config [OF ex])
  next
    fix c s r s'
    assume a: "local_client_execute C V (agent_peer C F executor) (SaveConfig c) s = (r, s')"
    show "cfg s' = config_normalized c \<or> cfg s' = cfg s \<and> (\<exists>e. r = Inl e)"
    proof (cases r)
      case (Inl e)
      obtain r2 s2 where e2: "executor (SaveConfig c) s = (r2, s2)" by (rule prod.exhaust)
      from st [of "SaveConfig c" s] a e2 have "s' = s \<or> s' = s2" by auto
      with config_executor.saves_config [OF ex e2] Inl show ?thesis by auto
    next
      case (Inr x)
      from client_ok [OF doc a [unfolded Inr]] config_executor.saved [OF ex] show ?thesis by blast
    qed
  next
    fix c s r s'
    assume a: "local_client_execute C V (agent_peer C F executor) c s = (r, s')" and n: "\<not> changes_config c"
    obtain r2 s2 where e2: "executor c s = (r2, s2)" by (rule prod.exhaust)
    from st [of c s] a e2 have "s' = s \<or> s' = s2" by auto
    with config_executor.keeps_config [OF ex e2 n] show "cfg s' = cfg s" by auto
  qed
qed

lemma service_config_executor:
  assumes on: "config_executor online cfg" "online_executor online" and off: "config_executor offline cfg"
  shows "config_executor (command_service_execute (command_service_new (Some online) offline)) cfg"
proof -
  have c: "command_service_execute (command_service_new (Some online) offline) c s = (r, s') \<Longrightarrow>
      online c s = (r, s') \<or> offline c s = (r, s')" for c s r s'
    using online_executor.at_most_once [OF on(2), of offline c s] by auto
  show ?thesis
  proof
    fix s x s'
    assume "command_service_execute (command_service_new (Some online) offline) GetConfig s = (Inr x, s')"
    from c [OF this] show "x = RsConfig (cfg s)"
      by (elim disjE) (rule config_executor.reads_config [OF on(1)], assumption,
          rule config_executor.reads_config [OF off], assumption)
  next
    fix d s r s'
    assume "command_service_execute (command_service_new (Some online) offline) (SaveConfig d) s = (r, s')"
    from c [OF this] show "cfg s' = config_normalized d \<or> cfg s' = cfg s \<and> (\<exists>e. r = Inl e)"
      by (elim disjE) (rule config_executor.saves_config [OF on(1)], assumption,
          rule config_executor.saves_config [OF off], assumption)
  next
    fix d s r s'
    assume "command_service_execute (command_service_new (Some online) offline) d s = (r, s')"
      and n: "\<not> changes_config d"
    from c [OF this(1)] show "cfg s' = cfg s"
      by (elim disjE) (rule config_executor.keeps_config [OF on(1) _ n], assumption,
          rule config_executor.keeps_config [OF off _ n], assumption)
  qed
qed

section \<open>Specification of the editing subcommands\<close>

text \<open>Which subcommands edit the configuration, and the edit each of them stands for: \<open>None\<close> when it is
  refused.\<close>

fun cli_edits :: "cli_command \<Rightarrow> bool" where
  "cli_edits (CliService (Some _)) = True"
| "cli_edits (CliIp (Some _)) = True"
| "cli_edits (CliOrigin (Some _)) = True"
| "cli_edits (CliPrinter (Some _) _) = True"
| "cli_edits (CliPaper (Some _)) = True"
| "cli_edits _ = False"

fun cli_edit :: "cli_env \<Rightarrow> cli_command \<Rightarrow> agent_config \<Rightarrow> agent_config option" where
  "cli_edit P (CliService (Some (SetPort port))) c =
     (if unat port \<in> {10000 .. 65535} \<and> (port = sc_port (cf_service c) \<or> is_ok (cv_bind P port))
      then Some (c\<lparr>cf_service := (cf_service c)\<lparr>sc_port := port\<rparr>\<rparr>) else None)"
| "cli_edit P (CliIp (Some (IpAdd entry))) c =
     (if is_ok (validate_allowed_ip_entry (cv_lib P) entry)
      then Some (set_ips (se_allowed_ips (cf_security c) @ [entry]) c) else None)"
| "cli_edit P (CliIp (Some (IpDelete entry))) c =
     (if trim entry = REQUIRED_LOOPBACK_IP then None
      else Some (set_ips (filter (\<lambda>item. item \<noteq> trim entry) (se_allowed_ips (cf_security c))) c))"
| "cli_edit P (CliOrigin (Some (OriginAdd origin))) c =
     (if is_ok (validate_origin (cv_lib P) origin)
      then Some (set_origins (if origin \<in> set (se_allowed_origins (cf_security c)) then se_allowed_origins (cf_security c)
                          else se_allowed_origins (cf_security c) @ [origin]) c) else None)"
| "cli_edit P (CliOrigin (Some (OriginDelete origin))) c =
     Some (set_origins (removeAll origin (se_allowed_origins (cf_security c))) c)"
| "cli_edit P (CliPrinter (Some (PrinterSetDefault printer_name)) None) c =
     Some (c\<lparr>cf_printing := (cf_printing c)\<lparr>pc_default_printer := Some printer_name\<rparr>\<rparr>)"
| "cli_edit P (CliPaper (Some (PaperSet width height))) c =
     (if is_positive_finite width \<and> is_positive_finite height
      then Some (c\<lparr>cf_printing := (cf_printing c)\<lparr>pc_default_paper :=
             Some \<lparr>ep_width_mm = width, ep_height_mm = height\<rparr>\<rparr>\<rparr>) else None)"
| "cli_edit P _ c = None"

definition edited :: "(agent_config option) \<Rightarrow> agent_config \<Rightarrow> agent_config \<Rightarrow> (command_error, 'a) result \<Rightarrow> bool" where
  "edited e c c' r \<longleftrightarrow> (\<exists>d. e = Some d \<and> c' = config_normalized d) \<or> c' = c \<and> (\<exists>x. r = Inl x)"

lemma edited_err [simp]: "edited e c c (Inl x)"
  by (simp add: edited_def)

lemma normalized_normalized_ips: "config_normalized (set_ips (normalize_allowed_ips ips) c) = config_normalized (set_ips ips c)"
  by (simp add: config_normalized_def set_ips_def normalize_allowed_ips_idem)

lemma paper_positive:
  "\<not> (\<not> is_finite w \<or> \<not> is_finite h \<or> f64_le w (Fin 0) \<or> f64_le h (Fin 0)) \<longleftrightarrow>
     is_positive_finite w \<and> is_positive_finite h"
  by (cases w; cases h) (auto simp: f64_le_def is_positive_finite_def)

text \<open>The subcommands that neither edit nor import nor belong to the product leave the configuration
  alone.\<close>

fun cli_reads :: "cli_command \<Rightarrow> bool" where
  "cli_reads (CliConfig (Some (CcImport _ _ _ _ _))) = False"
| "cli_reads (CliAutostart _) = False"
| "cli_reads (CliApp _) = False"
| "cli_reads c = (\<not> cli_edits c)"

locale config_client = config_executor "command_service_execute sv" cfg
  for sv :: "'s command_service" and cfg
begin

lemma get: "get_config sv s = (r, s') \<Longrightarrow> cfg s' = cfg s \<and> (\<forall>c. r = Inr c \<longrightarrow> c = cfg s)"
proof -
  assume a: "get_config sv s = (r, s')"
  obtain x s1 where e: "command_service_execute sv GetConfig s = (x, s1)" by (rule prod.exhaust)
  show ?thesis
  proof (cases x)
    case (Inl er)
    with a e keeps_config [OF e] show ?thesis by (auto simp: get_config_def)
  next
    case (Inr y)
    with a e keeps_config [OF e] reads_config [OF e [unfolded Inr]] show ?thesis by (auto simp: get_config_def)
  qed
qed

lemma save: "cli_save_config sv c s = (r, s') \<Longrightarrow>
    cfg s' = config_normalized c \<or> cfg s' = cfg s \<and> (\<exists>e. r = Inl e)"
proof -
  assume a: "cli_save_config sv c s = (r, s')"
  obtain x s1 where e: "command_service_execute sv (SaveConfig c) s = (x, s1)" by (rule prod.exhaust)
  with a saves_config [OF e] show ?thesis by (cases x) (auto simp: cli_save_config_def)
qed

text \<open>Reading the configuration, checking, and saving an edit of it.\<close>

lemma edit:
  assumes "io_then (get_config sv s) (\<lambda>config s1.
             io_then (chk config, s1) (\<lambda>_ s2.
             io_then (cli_save_config sv (nx config) s2) (\<lambda>_ s3. (Ok out, s3)))) = (r, s')"
    and "\<And>c. chk c = Inr () \<Longrightarrow> \<exists>d. e c = Some d \<and> config_normalized (nx c) = config_normalized d"
  shows "edited (e (cfg s)) (cfg s) (cfg s') r"
proof -
  obtain g s1 where g: "get_config sv s = (g, s1)" by (rule prod.exhaust)
  note gl = get [OF g]
  show ?thesis
  proof (cases g)
    case (Inl x)
    with assms(1) g gl show ?thesis by auto
  next
    case (Inr c)
    with gl have c: "c = cfg s" "cfg s1 = cfg s" by auto
    show ?thesis
    proof (cases "chk c")
      case (Inl x)
      with assms(1) g Inr c show ?thesis by auto
    next
      case ok: (Inr u)
      obtain sr s2 where sv: "cli_save_config sv (nx c) s1 = (sr, s2)" by (rule prod.exhaust)
      have st: "s' = s2" "sr = Inl x \<Longrightarrow> r = Inl x" for x
        using assms(1) by (cases sr; simp add: g Inr ok sv)+
      from assms(2) [of c] ok obtain d where "e c = Some d" "config_normalized (nx c) = config_normalized d" by auto
      with save [OF sv] st c show ?thesis by (auto simp: edited_def)
    qed
  qed
qed

text \<open>The editing subcommands have this shape.\<close>

lemma edit_shape:
  assumes "m = io_then (get_config sv s) f"
    and "\<And>config s1. f config s1 = io_then (chk config, s1) (\<lambda>_ s2.
             io_then (cli_save_config sv (nx config) s2) (\<lambda>_ s3. (Ok out, s3)))"
    and "m = (r, s')"
    and "\<And>c. chk c = Inr () \<Longrightarrow> \<exists>d. e c = Some d \<and> config_normalized (nx c) = config_normalized d"
  shows "edited (e (cfg s)) (cfg s) (cfg s') r"
proof (rule edit [OF _ assms(4)])
  have "f = (\<lambda>config s1. io_then (chk config, s1) (\<lambda>_ s2.
             io_then (cli_save_config sv (nx config) s2) (\<lambda>_ s3. (Ok out, s3))))"
    by (simp add: fun_eq_iff assms(2))
  with assms(1,3) show "io_then (get_config sv s) (\<lambda>config s1. io_then (chk config, s1) (\<lambda>_ s2.
             io_then (cli_save_config sv (nx config) s2) (\<lambda>_ s3. (Ok out, s3)))) = (r, s')" by simp
qed

lemma service_edits:
  assumes "cli_service_config P sv (Some c) s = (r, s')"
  shows "edited (cli_edit P (CliService (Some c)) (cfg s)) (cfg s) (cfg s') r"
proof (cases c)
  case (SetPort port)
  show ?thesis
    unfolding SetPort
    by (rule edit_shape [OF cli_service_config_def _ assms [unfolded SetPort], where chk = "\<lambda>config.
        if \<not> (MIN_SERVICE_PORT \<le> port \<and> port \<le> MAX_SERVICE_PORT)
        then Err (invalid_input (''service port must be between '' @ show_nat (unat MIN_SERVICE_PORT)
                     @ '' and '' @ show_nat (unat MAX_SERVICE_PORT)))
        else if port \<noteq> sc_port (cf_service config)
        then map_err (\<lambda>_. command_error_new CkConflict
                (''service port '' @ show_nat (unat port) @ '' is already occupied'')) (cv_bind P port)
        else Ok ()"])
    (auto simp: word_le_nat_alt MIN_SERVICE_PORT_def MAX_SERVICE_PORT_def is_ok_iff split: if_splits sum.splits)
qed

lemma ip_edits:
  assumes "cli_ip P sv (Some c) s = (r, s')"
  shows "edited (cli_edit P (CliIp (Some c)) (cfg s)) (cfg s) (cfg s') r"
proof (cases c)
  case (IpAdd entry)
  show ?thesis
    by (rule edit_shape [OF cli_ip_def _ assms, where chk = "\<lambda>config.
          map_err (\<lambda>e. invalid_input (ip_entry_error_msg e)) (validate_allowed_ip_entry (cv_lib P) entry)"
          and nx = "\<lambda>config. set_ips (normalize_allowed_ips (se_allowed_ips (cf_security config) @ [entry])) config"])
      (auto simp: IpAdd Let_def is_ok_iff normalized_normalized_ips split: sum.splits)
next
  case (IpDelete entry)
  show ?thesis
    by (rule edit_shape [OF cli_ip_def _ assms, where chk = "\<lambda>config.
          if trim entry = REQUIRED_LOOPBACK_IP
          then Err (invalid_input (REQUIRED_LOOPBACK_IP @ '' is required and cannot be deleted'')) else Ok ()"
          and nx = "\<lambda>config. set_ips (normalize_allowed_ips
            (filter (\<lambda>item. item \<noteq> trim entry) (se_allowed_ips (cf_security config)))) config"])
      (auto simp: IpDelete Let_def normalized_normalized_ips split: if_splits)
qed

lemma origin_edits:
  assumes "cli_origin P sv (Some c) s = (r, s')"
  shows "edited (cli_edit P (CliOrigin (Some c)) (cfg s)) (cfg s) (cfg s') r"
proof (cases c)
  case (OriginAdd og)
  show ?thesis
    by (rule edit_shape [OF cli_origin_def _ assms, where chk = "\<lambda>config.
          map_err (\<lambda>e. invalid_input (protocol_error_msg e)) (validate_origin (cv_lib P) og)"
          and nx = "\<lambda>config. set_origins (if og \<in> set (se_allowed_origins (cf_security config))
            then se_allowed_origins (cf_security config) else se_allowed_origins (cf_security config) @ [og]) config"])
      (auto simp: OriginAdd Let_def is_ok_iff split: sum.splits)
next
  case (OriginDelete og)
  show ?thesis
    by (rule edit_shape [OF cli_origin_def _ assms, where chk = "\<lambda>config. Ok ()"])
      (auto simp: OriginDelete Let_def removeAll_filter_not_eq eq_commute)
qed

lemma printer_edits:
  assumes "cli_printer P sv (Some c) name s = (r, s')"
  shows "edited (cli_edit P (CliPrinter (Some c) name) (cfg s)) (cfg s) (cfg s') r"
proof (cases c; cases name)
  fix n assume c: "c = PrinterSetDefault n" and "name = None"
  then show ?thesis
    by (intro edit_shape [OF _ _ assms, where chk = "\<lambda>config. Ok ()"]) (auto simp: cli_printer_def)
qed (use assms in \<open>auto simp: cli_printer_def\<close>)

lemma paper_edits:
  assumes "cli_paper P sv (Some c) s = (r, s')"
  shows "edited (cli_edit P (CliPaper (Some c)) (cfg s)) (cfg s) (cfg s') r"
proof (cases c)
  case (PaperSet w h)
  show ?thesis
  proof (cases "is_positive_finite w \<and> is_positive_finite h")
    case True
    then show ?thesis using paper_positive [of w h]
      by (intro edit_shape [OF _ _ assms, where chk = "\<lambda>config. Ok ()"]) (auto simp: cli_paper_def PaperSet)
  next
    case False
    with paper_positive [of w h] have "cli_paper P sv (Some c) s =
        (Err (invalid_input ''paper dimensions must be positive finite numbers''), s)"
      unfolding cli_paper_def PaperSet option.case paper_command.case by (intro if_P) blast
    with assms False show ?thesis by auto
  qed
qed

lemma import_confirmed:
  assumes im: "cli_import P sv I path pf preview yes ae s = (r, s')" and ch: "cfg s' \<noteq> cfg s"
  shows "\<not> preview \<and> (yes \<or> ci_confirm I ''Apply these configuration changes?'' = Inr True)
    \<and> (ci_is_interactive I \<or> pf \<noteq> None \<and> yes)
    \<and> (\<exists>password pv s1. import_password P pf I = Inr password
         \<and> command_service_execute sv (PreviewConfigImport path password) s = (Inr (RsImportPreview pv), s1)
         \<and> s' = snd (command_service_execute sv (ImportConfig path password (ip_file_hash pv)) s1))"
proof -
  from im ch have i: "ci_is_interactive I \<or> pf \<noteq> None \<and> (preview \<or> yes)"
    by (auto simp: cli_import_def split: if_splits)
  from im ch obtain pw where pw: "import_password P pf I = Inr pw"
    by (cases "import_password P pf I") (auto simp: cli_import_def split: if_splits)
  obtain q s1 where q: "command_service_execute sv (PreviewConfigImport path pw) s = (q, s1)" by (rule prod.exhaust)
  have k: "cfg s1 = cfg s" using keeps_config [OF q] by simp
  obtain pv where pv: "q = Inr (RsImportPreview pv)"
    using im ch pw q k by (auto simp: cli_import_def io_then_def split: if_splits sum.splits command_result.splits)
  have "\<not> preview \<and> (yes \<or> ci_confirm I ''Apply these configuration changes?'' = Inr True)
      \<and> s' = snd (command_service_execute sv (ImportConfig path pw (ip_file_hash pv)) s1)"
    using im ch pw q k pv by (auto simp: cli_import_def io_then_def split: if_splits sum.splits prod.splits)
  with i pw q pv show ?thesis by blast
qed

lemma service_keeps: "\<not> changes_config d \<Longrightarrow> cfg (snd (command_service_execute sv d s)) = cfg s"
  using keeps_config [OF surjective_pairing] by simp

lemma get_keeps: "cfg (snd (get_config sv s)) = cfg s"
  using get [OF surjective_pairing] by simp

lemma then_keeps:
  assumes "cfg (snd m) = c" and "\<And>x s. cfg s = c \<Longrightarrow> cfg (snd (f x s)) = c"
  shows "cfg (snd (io_then m f)) = c"
  using assms by (rule io_then_world [where P = "\<lambda>s. cfg s = c"])

lemma result_json_keeps: "\<not> changes_config d \<Longrightarrow> cfg (snd (result_json P sv d s)) = cfg s"
  by (auto simp: result_json_def service_keeps intro: then_keeps)

lemma config_keeps: "cli_reads (CliConfig c) \<Longrightarrow> cfg (snd (cli_config P sv I c s)) = cfg s"
  by (auto simp: cli_config_def result_json_keeps service_keeps intro!: then_keeps
      split: option.splits config_command.splits)

lemma execute_reads:
  assumes "cli_reads c" and "cli_execute P sv A I c s = Some m"
  shows "cfg (snd m) = cfg s"
proof (cases c)
  case (CliConfig x)
  with assms config_keeps show ?thesis by (auto simp: cli_execute_def)
next
  case (CliPrinter x y)
  with assms show ?thesis
    by (auto simp: cli_execute_def cli_printer_def service_keeps intro!: then_keeps split: option.splits)
next
  case (CliPaper x)
  with assms show ?thesis
    by (cases x) (auto simp: cli_execute_def cli_paper_def get_keeps result_json_keeps intro!: then_keeps)
next
  case (CliOrigin x)
  with assms show ?thesis by (cases x) (auto simp: cli_execute_def cli_origin_def get_keeps Let_def intro!: then_keeps)
next
  case (CliTask x y)
  with assms show ?thesis
    by (auto simp: cli_execute_def cli_task_def service_keeps result_json_keeps intro!: then_keeps
        split: option.splits task_command.splits)
next
  case (CliService x)
  with assms show ?thesis
    by (cases x) (auto simp: cli_execute_def cli_service_config_def get_keeps intro!: then_keeps)
next
  case (CliIp x)
  with assms show ?thesis by (cases x) (auto simp: cli_execute_def cli_ip_def get_keeps Let_def intro!: then_keeps)
next
  case CliTestPrint
  with assms show ?thesis
    by (auto simp: cli_execute_def get_keeps service_keeps intro!: then_keeps)
qed (use assms in \<open>auto simp: cli_execute_def result_json_keeps\<close>)

lemma execute_edits:
  assumes "cli_edits c" and "cli_execute P sv A I c s = Some (r, s')"
  shows "edited (cli_edit P c (cfg s)) (cfg s) (cfg s') r"
  using assms
  by (cases c rule: cli_edits.cases)
    (auto simp: cli_execute_def intro: ip_edits origin_edits printer_edits paper_edits service_edits)

end

section \<open>The command line client\<close>

text \<open>An executor that is called directly, without a socket in between: the service of the desktop
  application.\<close>

interpretation direct: config_client "command_service_new (Some (runtime_execute Q)) (runtime_execute Q')"
  "\<lambda>s. as_config (snd s)" for Q Q'
  by (intro config_client.intro service_config_executor rtc.config_executor_axioms rt.online_executor_axioms)

text \<open>The process of the command line beside a running agent: they share the files, and each has a state of
  its own.\<close>

type_synonym cli_state = "world \<times> agent_state \<times> agent_state"

definition on_agent :: "sys executor \<Rightarrow> (world \<times> agent_state \<times> 'x) executor" where
  "on_agent ex c s = (case s of (w, agent, own) \<Rightarrow> (case ex c (w, agent) of (r, (w', agent')) \<Rightarrow> (r, (w', agent', own))))"

definition on_own :: "sys executor \<Rightarrow> cli_state executor" where
  "on_own ex c s = (case s of (w, agent, own) \<Rightarrow> (case ex c (w, own) of (r, (w', own')) \<Rightarrow> (r, (w', agent, own'))))"

definition cli_service :: "ipc_codec \<Rightarrow> client_env \<Rightarrow> stream_faults \<Rightarrow> exec_env \<Rightarrow> exec_env \<Rightarrow> cli_state command_service" where
  "cli_service C V F Q Q' =
     command_service_new (Some (local_client_execute C V (agent_peer C F (on_agent (runtime_execute Q)))))
       (on_own (runtime_execute Q'))"

text \<open>The configuration a run is about: that of the agent, or that of the own process when there is no
  socket.\<close>

definition cli_target :: "client_env \<Rightarrow> cli_state \<Rightarrow> agent_config" where
  "cli_target V s =
     (if is_some_and (\<lambda>e. io_kind e = NotFound) (cl_connect V) then as_config (snd (snd s)) else as_config (fst (snd s)))"

lemma on_agent_config: "config_executor (on_agent (runtime_execute Q)) (\<lambda>s. as_config (fst (snd s)))"
proof
  fix s x s'
  assume "on_agent (runtime_execute Q) GetConfig s = (Inr x, s')"
  then show "x = RsConfig (as_config (fst (snd s)))"
    by (cases s) (auto simp: on_agent_def split: prod.splits dest: rtc.reads_config)
next
  fix c s r s'
  assume "on_agent (runtime_execute Q) (SaveConfig c) s = (r, s')"
  then show "as_config (fst (snd s')) = config_normalized c \<or> as_config (fst (snd s')) = as_config (fst (snd s)) \<and> (\<exists>e. r = Inl e)"
    by (cases s) (auto simp: on_agent_def split: prod.splits dest!: rtc.saves_config)
next
  fix c s r s'
  assume "on_agent (runtime_execute Q) c s = (r, s')" "\<not> changes_config c"
  then show "as_config (fst (snd s')) = as_config (fst (snd s))"
    by (cases s) (auto simp: on_agent_def split: prod.splits dest: rtc.keeps_config)
qed

lemma on_own_config: "config_executor (on_own (runtime_execute Q)) (\<lambda>s. as_config (snd (snd s)))"
proof
  fix s x s'
  assume "on_own (runtime_execute Q) GetConfig s = (Inr x, s')"
  then show "x = RsConfig (as_config (snd (snd s)))"
    by (cases s) (auto simp: on_own_def split: prod.splits dest: rtc.reads_config)
next
  fix c s r s'
  assume "on_own (runtime_execute Q) (SaveConfig c) s = (r, s')"
  then show "as_config (snd (snd s')) = config_normalized c \<or> as_config (snd (snd s')) = as_config (snd (snd s)) \<and> (\<exists>e. r = Inl e)"
    by (cases s) (auto simp: on_own_def split: prod.splits dest!: rtc.saves_config)
next
  fix c s r s'
  assume "on_own (runtime_execute Q) c s = (r, s')" "\<not> changes_config c"
  then show "as_config (snd (snd s')) = as_config (snd (snd s))"
    by (cases s) (auto simp: on_own_def split: prod.splits dest: rtc.keeps_config)
qed

lemma on_own_agent: "on_own ex c s = (r, s') \<Longrightarrow> fst (snd s') = fst (snd s)"
  by (cases s) (auto simp: on_own_def split: prod.splits)

lemma on_agent_never_not_running: "never_not_running (on_agent (runtime_execute Q))"
  using runtime_never_not_running [of Q]
  by (auto simp: never_not_running_def on_agent_def split: prod.splits) blast

lemma cli_service_client:
  assumes doc: "codec_documented C"
  shows "config_client (cli_service C V F Q Q') (cli_target V)"
proof (cases "is_some_and (\<lambda>e. io_kind e = NotFound) (cl_connect V)")
  case True
  let ?own = "on_own (runtime_execute Q')"
  have t: "cli_target V = (\<lambda>s. as_config (snd (snd s)))" using True by (simp add: cli_target_def fun_eq_iff)
  have off: "command_service_execute (cli_service C V F Q Q') c s = (r, s') \<Longrightarrow>
      ?own c s = (r, s') \<or> policy c = OnlineOnly \<and> s' = s" for c s r s'
    using True
    by (auto simp: cli_service_def service_choice [OF doc on_agent_never_not_running] local_client_execute_def
        is_some_and_def split: command_policy.splits option.splits if_splits)
  show ?thesis
    unfolding t
  proof (intro config_client.intro config_executor.intro)
    fix s x s'
    assume "command_service_execute (cli_service C V F Q Q') GetConfig s = (Inr x, s')"
    from off [OF this] show "x = RsConfig (as_config (snd (snd s)))"
      using config_executor.reads_config [OF on_own_config] by simp
  next
    fix c s r s'
    assume "command_service_execute (cli_service C V F Q Q') (SaveConfig c) s = (r, s')"
    from off [OF this] show "as_config (snd (snd s')) = config_normalized c
        \<or> as_config (snd (snd s')) = as_config (snd (snd s)) \<and> (\<exists>e. r = Inl e)"
      using config_executor.saves_config [OF on_own_config] by simp
  next
    fix c s r s'
    assume "command_service_execute (cli_service C V F Q Q') c s = (r, s')" and n: "\<not> changes_config c"
    from off [OF this(1)] show "as_config (snd (snd s')) = as_config (snd (snd s))"
      using config_executor.keeps_config [OF on_own_config _ n] by (elim disjE) simp_all
  qed
next
  case False
  let ?on = "local_client_execute C V (agent_peer C F (on_agent (runtime_execute Q)))"
  note on = client_config_executor [OF doc on_agent_config, of V F Q]
  have t: "cli_target V = (\<lambda>s. as_config (fst (snd s)))" using False by (simp add: cli_target_def fun_eq_iff)
  have ch: "command_service_execute (cli_service C V F Q Q') c s = (r, s') \<Longrightarrow>
      ?on c s = (r, s') \<or> policy c = OfflineAllowed \<and> fst (snd s') = fst (snd s)" for c s r s'
    using False
    by (auto simp: cli_service_def service_choice [OF doc on_agent_never_not_running] on_own_agent
        split: command_policy.splits if_splits)
  show ?thesis
    unfolding t
  proof (intro config_client.intro config_executor.intro)
    fix s x s'
    assume "command_service_execute (cli_service C V F Q Q') GetConfig s = (Inr x, s')"
    from ch [OF this] show "x = RsConfig (as_config (fst (snd s)))"
      using config_executor.reads_config [OF on] by simp
  next
    fix c s r s'
    assume "command_service_execute (cli_service C V F Q Q') (SaveConfig c) s = (r, s')"
    from ch [OF this] show "as_config (fst (snd s')) = config_normalized c
        \<or> as_config (fst (snd s')) = as_config (fst (snd s)) \<and> (\<exists>e. r = Inl e)"
      using config_executor.saves_config [OF on] by simp
  next
    fix c s r s'
    assume "command_service_execute (cli_service C V F Q Q') c s = (r, s')" and n: "\<not> changes_config c"
    from ch [OF this(1)] show "as_config (fst (snd s')) = as_config (fst (snd s))"
      using config_executor.keeps_config [OF on _ n] by (elim disjE) simp_all
  qed
qed

lemma run_cli_execute:
  assumes "cli_edits c \<or> (\<exists>x. c = CliConfig x)" and "cv_parse P args = Inr (Some c)"
    and "run_cli_from P args sv A I s = Some (r, s')"
  shows "\<exists>r0. cli_execute P sv A I c s = Some (r0, s') \<and> (\<forall>e. r0 = Inl e \<longrightarrow> r = Inl e)"
proof -
  have "run_command_line P sv A I (Some c) s =
      map_option (\<lambda>m. io_then m (\<lambda>text s1. (Ok (text, 0), s1))) (cli_execute P sv A I c s)"
    using assms(1) by (cases c) (auto simp: run_command_line_def)
  with assms(2,3) obtain r0 s0 where m: "cli_execute P sv A I c s = Some (r0, s0)" by (auto simp: run_cli_from_def)
  with assms(2,3) \<open>run_command_line P sv A I (Some c) s = _\<close> show ?thesis
    by (cases r0) (auto simp: run_cli_from_def)
qed

text \<open>No command line reaches the branches that the source marks unreachable.\<close>

lemma cli_execute_None_iff:
  "cli_execute P sv A I c s = None \<longleftrightarrow> (\<exists>j. c = CliDoctor j) \<or> (\<exists>t. c = CliDiagnose t)"
  by (cases c) (simp_all add: cli_execute_def split: option.split autostart_command.split app_command.split)

lemma run_cli_total: "run_cli_from P args sv A I s \<noteq> None"
proof (cases "cv_parse P args")
  case (Inr c)
  have "run_command_line P sv A I (Some d) s \<noteq> None" for d
    by (cases d) (simp_all add: run_command_line_def cli_execute_None_iff del: not_None_eq)
  then have "run_command_line P sv A I c s \<noteq> None"
    by (cases c) (simp_all add: run_command_line_def del: not_None_eq)
  with Inr show ?thesis by (simp add: run_cli_from_def)
qed (simp add: run_cli_from_def)

lemma run_cli_reads:
  assumes cl: "config_client sv cfg" and "cli_reads c" and "cv_parse P args = Inr (Some c)"
    and "run_cli_from P args sv A I s = Some (r, s')"
  shows "cfg s' = cfg s"
proof -
  have x: "cfg (snd m) = cfg s" if "run_command_line P sv A I (Some c) s = Some m" for m
  proof (cases c)
    case (CliDoctor j)
    with that show ?thesis
      by (auto simp: run_command_line_def config_client.service_keeps [OF cl] intro!: config_client.then_keeps [OF cl])
  next
    case (CliDiagnose t)
    with that show ?thesis
      by (auto simp: run_command_line_def config_client.service_keeps [OF cl] intro!: config_client.then_keeps [OF cl])
  qed (use that config_client.execute_reads [OF cl assms(2)] in
      \<open>auto simp: run_command_line_def intro!: config_client.then_keeps [OF cl]\<close>)
  from assms(3,4) obtain m where m: "run_command_line P sv A I (Some c) s = Some m"
    and s': "s' = snd (io_then m (\<lambda>(stdout, exit_code) s1.
              (Ok \<lparr>co_stdout = stdout, co_stderr = [], co_exit_code = exit_code\<rparr>, s1)))"
    by (cases "run_command_line P sv A I (Some c) s") (simp_all add: run_cli_from_def)
  show ?thesis
    unfolding s' using x [OF m] by (intro config_client.then_keeps [OF cl]) auto
qed


text \<open>
  A configuration is imported only with consent. When a run of the import subcommand changes the
  configuration of the agent, it was not a preview; it was confirmed at the prompt or by \<open>--yes\<close>; without
  a terminal both a password file and \<open>--yes\<close> were given; and the import was asked for with the hash of
  the preview that was shown.
\<close>

theorem cli_import_confirmed:
  assumes "codec_documented C"
    and "cv_parse P args = Inr (Some (CliConfig (Some (CcImport path pf preview yes ae))))"
    and "run_cli_from P args (cli_service C V F Q Q') A I s = Some (r, s')"
    and "cli_target V s' \<noteq> cli_target V s"
  shows "\<not> preview \<and> (yes \<or> ci_confirm I ''Apply these configuration changes?'' = Inr True)
    \<and> (ci_is_interactive I \<or> pf \<noteq> None \<and> yes)
    \<and> (\<exists>password pv s1. import_password P pf I = Inr password
         \<and> command_service_execute (cli_service C V F Q Q') (PreviewConfigImport path password) s =
             (Inr (RsImportPreview pv), s1)
         \<and> s' = snd (command_service_execute (cli_service C V F Q Q')
                      (ImportConfig path password (ip_file_hash pv)) s1))"
proof -
  from run_cli_execute [OF _ assms(2,3)] obtain r0 where
    "cli_import P (cli_service C V F Q Q') I path pf preview yes ae s = (r0, s')"
    by (auto simp: cli_execute_def cli_config_def)
  from config_client.import_confirmed [OF cli_service_client [OF assms(1)] this assms(4)] show ?thesis .
qed

section \<open>Instances\<close>

definition example_cli :: "cli_command \<Rightarrow> cli_env" where
  "example_cli c = \<lparr>cv_lib = example_b64, cv_parse = (\<lambda>_. Ok (Some c)), cv_long_help = [], cv_pretty = (\<lambda>_. Ok ''{}''),
     cv_read_file = (\<lambda>_. Ok (as_bytes ''secret'')), cv_bind = (\<lambda>_. Ok ())\<rparr>"

definition example_prompt :: cli_interaction where
  "example_prompt = \<lparr>ci_read_password = (\<lambda>_. Ok []), ci_confirm = (\<lambda>_. Ok False), ci_is_interactive = False\<rparr>"

definition example_product :: "cli_state product_command_adapter" where
  "example_product = unsupported_adapter (unsupported_headless ''systemd'')"

text \<open>No agent is running: the client executes on its own state.\<close>

definition example_cli_service :: "cli_state command_service" where
  "example_cli_service = cli_service example_codec (example_client (Some not_found)) (\<lambda>_. None) example_exec example_exec"

lemma example_offline:
  "policy c \<noteq> OnlineOnly \<Longrightarrow> command_service_execute example_cli_service c (w, ag, st) =
     (case runtime_execute example_exec c (w, st) of (r, (w', st')) \<Rightarrow> (r, (w', ag, st')))"
  by (cases "policy c")
    (simp_all add: example_cli_service_def cli_service_def command_service_execute_def command_service_new_def
      local_client_execute_def example_client_def not_found_def on_own_def)

lemma example_target: "cli_target (example_client (Some not_found)) s = as_config (snd (snd s))"
  by (simp add: cli_target_def example_client_def not_found_def is_some_and_def)

definition example_set_port :: cli_command where
  "example_set_port = CliService (Some (SetPort 20000))"

lemma example_port_save:
  "execute_save_config example_exec (agent_config_default\<lparr>cf_service := (cf_service agent_config_default)\<lparr>sc_port := 20000\<rparr>\<rparr>)
      (w, example_state) =
     (Inr (RsConfig (config_normalized (agent_config_default\<lparr>cf_service := (cf_service agent_config_default)\<lparr>sc_port := 20000\<rparr>\<rparr>))),
      (w, example_state\<lparr>as_config := config_normalized
        (agent_config_default\<lparr>cf_service := (cf_service agent_config_default)\<lparr>sc_port := 20000\<rparr>\<rparr>)\<rparr>))"
  by (simp add: execute_save_config_def Let_def save_config_def example_libs agent_config_default_def
      default_allowed_ips_def example_loopback_valid example_state_config)

lemma example_run_port:
  "\<exists>out s'. run_cli_from (example_cli example_set_port) [] example_cli_service example_product example_prompt
     (example_world, example_state, example_state) = Some (Inr out, s')"
proof -
  have g: "get_config example_cli_service (example_world, example_state, example_state) =
      (Inr agent_config_default, (example_world, example_state, example_state))"
    by (simp add: get_config_def example_offline runtime_execute_def example_state_config)
  show ?thesis
    by (simp add: run_cli_from_def run_command_line_def example_cli_def example_set_port_def cli_execute_def
        cli_service_config_def g cli_save_config_def example_offline runtime_execute_def example_port_save
        MIN_SERVICE_PORT_def MAX_SERVICE_PORT_def)
qed


definition example_import :: cli_command where
  "example_import = CliConfig (Some (CcImport ''/c.yinshu'' (Some ''/pw'') False True False))"

lemma example_password: "import_password (example_cli c) (Some ''/pw'') example_prompt = Inr ''secret''"
  by code_simp

lemma example_source_changes: "config_normalized example_source \<noteq> agent_config_default"
proof -
  have "sc_port (cf_service (config_normalized example_source)) \<noteq> sc_port (cf_service agent_config_default)"
    by (simp add: config_normalized_def example_source_def agent_config_default_def DEFAULT_PORT_def)
  then show ?thesis by auto
qed

theorem cli_import_confirmed_witness:
  "\<exists>out s'. run_cli_from (example_cli example_import) [] example_cli_service example_product example_prompt
     (example_import_world, example_state, example_state) = Some (Inr out, s')
   \<and> as_config (snd (snd s')) \<noteq> as_config example_state
   \<and> (\<exists>password. import_password (example_cli example_import) (Some ''/pw'') example_prompt = Inr password)"
proof -
  obtain pv where pv: "execute_preview example_exec ''/c.yinshu'' ''secret'' (example_import_world, example_state) =
       (Inr (RsImportPreview pv), (tick example_import_world, example_state))"
    and h: "ip_file_hash pv = sha256_hex example_transfer (as_bytes ''{}'')"
    by (simp add: execute_preview_def example_libs example_read example_decrypt transfer_pure_def preview_payload_def
        example_state_config example_merge)
  have rd: "transfer_io (read_encrypted_file_with_hash example_transfer example_env ''/c.yinshu'' (tick example_import_world)) =
     (Inr (example_file, sha256_hex example_transfer (as_bytes ''{}'')), tick (tick example_import_world))"
    by (simp add: transfer_io_def read_encrypted_file_with_hash_def fs_read_to_string_def example_import_world_def
        from_utf8_def example_transfer_def fs_read_def example_env_def tick_def)
  have im: "execute_import example_exec ''/c.yinshu'' ''secret'' (ip_file_hash pv) (tick example_import_world, example_state) =
      (Inr (RsConfig (config_normalized example_source)), (tick (tick example_import_world),
        example_state\<lparr>as_config := config_normalized example_source\<rparr>))"
    by (simp add: execute_import_def h example_libs rd example_decrypt transfer_pure_def
        example_state_config example_merge example_save)
  have json: "cli_json (example_cli c) v = Inr (ok_line ''{}'')" for c v
    by (simp add: cli_json_def example_cli_def ok_line_def)
  let ?st = "example_state\<lparr>as_config := config_normalized example_source\<rparr>"
  have "cli_import (example_cli example_import) example_cli_service example_prompt ''/c.yinshu'' (Some ''/pw'') False True False
      (example_import_world, example_state, example_state) =
      (Inr (ok_line ''{}'' @ ok_line ''configuration imported''), (tick (tick example_import_world), example_state, ?st))"
    by (simp add: cli_import_def example_password example_offline runtime_execute_def json pv im)
  then have "run_command_line (example_cli example_import) example_cli_service example_product example_prompt (Some example_import)
      (example_import_world, example_state, example_state) =
      Some (Inr (ok_line ''{}'' @ ok_line ''configuration imported'', 0), (tick (tick example_import_world), example_state, ?st))"
    by (simp add: run_command_line_def example_import_def cli_execute_def cli_config_def)
  then obtain out s' where run: "run_cli_from (example_cli example_import) [] example_cli_service example_product example_prompt
      (example_import_world, example_state, example_state) = Some (Inr out, s')"
    and s': "as_config (snd (snd s')) = config_normalized example_source"
    by (simp add: run_cli_from_def) (simp add: example_cli_def)
  have ch: "cli_target (example_client (Some not_found)) s' \<noteq> cli_target (example_client (Some not_found)) (example_import_world, example_state, example_state)"
    using s' example_source_changes by (simp add: example_target example_state_config)
  have "cv_parse (example_cli example_import) [] = Inr (Some (CliConfig (Some (CcImport ''/c.yinshu'' (Some ''/pw'') False True False))))"
    by (simp add: example_cli_def example_import_def)
  from cli_import_confirmed [OF example_codec_documented this run [unfolded example_cli_service_def] ch] run ch
  show ?thesis by (auto simp: example_target)
qed

end
