(* ===== verification/Headless.thy ===== *)
theory Headless
  imports Cli_Props Agent_Start
begin

text \<open>
  The headless product, \<open>apps/server/src\<close>: its paths, the check for the programs it needs, the
  notifications to systemd, the service process and the command line. The environment \<open>headless_env\<close>
  holds what the process sees of the system: variables, files on the search path, the notification
  socket, the signal that ends it, what the agent did until then and how its tasks ended.
\<close>

datatype server_command = Serve

record headless_env =
  hl_vars :: env_vars
  hl_is_file :: "string \<Rightarrow> bool"
  hl_start :: start_env
  hl_send :: "string \<Rightarrow> string \<Rightarrow> (io_error, unit) result"
  hl_signal :: "(io_error, unit) result"
  hl_life :: "agent_handle \<Rightarrow> world \<Rightarrow> world"
  hl_tasks :: task_results
  hl_serve_args :: "string list \<Rightarrow> (int, server_command option) result"
  hl_cli :: cli_env
  hl_codec :: ipc_codec
  hl_client :: "string \<Rightarrow> client_env"
  hl_faults :: stream_faults
  hl_agent :: exec_env
  hl_own :: exec_env
  hl_terminal :: terminal

text \<open>\<open>Box<dyn Error>\<close>: only whether it holds a \<open>CommandError\<close> matters.\<close>

datatype boxed_error =
    BoxText string
  | BoxIo io_error
  | BoxRuntime runtime_failure
  | BoxCommand command_error

section \<open>Paths and programs\<close>

definition env_path :: "env_vars \<Rightarrow> string \<Rightarrow> string \<Rightarrow> string" where
  "env_path V name dflt = unwrap_or (V name) dflt"

definition system_paths :: "env_vars \<Rightarrow> runtime_paths" where
  "system_paths V =
     runtime_paths_new (env_path V ''YINSHU_CONFIG_PATH'' ''/etc/yinshu/config.json'')
       (env_path V ''YINSHU_DATA_DIR'' ''/var/lib/yinshu'')
       (env_path V ''YINSHU_RUNTIME_DIR'' ''/run/yinshu'')"

definition find_on_path :: "env_vars \<Rightarrow> (string \<Rightarrow> bool) \<Rightarrow> string \<Rightarrow> string option" where
  "find_on_path V is_file program =
     (if starts_with program ''/'' \<and> is_file program then Some program
      else system_find_in_path V is_file program)"

fun find_first :: "('a \<Rightarrow> 'b option) \<Rightarrow> 'a list \<Rightarrow> 'b option" where
  "find_first f [] = None"
| "find_first f (x # xs) = (case f x of Some y \<Rightarrow> Some y | None \<Rightarrow> find_first f xs)"

definition require_any ::
  "env_vars \<Rightarrow> (string \<Rightarrow> bool) \<Rightarrow> string list \<Rightarrow> string \<Rightarrow> string \<Rightarrow> (string, string) result" where
  "require_any V is_file cs label suggestion =
     ok_or (''missing '' @ label @ ''; '' @ suggestion) (find_first (find_on_path V is_file) cs)"

definition preflight :: "env_vars \<Rightarrow> (string \<Rightarrow> bool) \<Rightarrow> (string, unit) result" where
  "preflight V is_file =
     and_then (check_all (\<lambda>program. and_then (require_any V is_file [program] program ''install cups-client'') (\<lambda>_. Ok ()))
                [''lp'', ''lpstat'', ''lpoptions'']) (\<lambda>_.
     and_then (require_any V is_file [''soffice'', ''libreoffice''] ''LibreOffice'' ''install libreoffice'') (\<lambda>_.
     and_then (require_any V is_file
                 [''google-chrome'', ''google-chrome-stable'', ''chromium'', ''chromium-browser'']
                 ''Chrome/Chromium'' ''install Google Chrome or Chromium system-wide'') (\<lambda>_.
       Ok ())))"

definition notify :: "headless_env \<Rightarrow> string \<Rightarrow> (io_error, unit) result" where
  "notify H message =
     (case hl_vars H ''NOTIFY_SOCKET'' of
        None \<Rightarrow> Ok ()
      | Some socket \<Rightarrow> hl_send H socket message)"

section \<open>The service process\<close>

definition serve :: "headless_env \<Rightarrow> (boxed_error, unit) io" where
  "serve H w =
     io_then (map_err BoxText (preflight (hl_vars H) (hl_is_file H)), w) (\<lambda>_ w0.
     io_then (io_map_err BoxRuntime (build (hl_start H) (runtime_builder_new (system_paths (hl_vars H))) w0)) (\<lambda>rt w1.
     io_then (io_map_err BoxRuntime (start (hl_start H) rt w1)) (\<lambda>h w2.
     io_then (map_err BoxIo (notify H ''READY=1''), w2) (\<lambda>_ w3.
     io_then (map_err BoxIo (hl_signal H), hl_life H h w3) (\<lambda>_ w4.
     io_then (map_err BoxIo (notify H ''STOPPING=1''), w4) (\<lambda>_ w5.
       (map_err BoxRuntime (fst (shutdown (hl_tasks H) h)), w5)))))))"

section \<open>The command line\<close>

definition headless_product :: "'s product_command_adapter" where
  "headless_product = unsupported_adapter (unsupported_headless
     ''headless autostart is managed by systemd and application language is fixed to English'')"

definition offline_exec :: "exec_env \<Rightarrow> exec_env" where
  "offline_exec Q = Q\<lparr>ee_listen_addr := \<lparr>sa_ip = V4 (ipv4_of_octets [127, 0, 0, 1]), sa_port = 0\<rparr>\<rparr>"

text \<open>The state of the own process: only the configuration for the doctor, a whole runtime otherwise.\<close>

definition own_state :: "start_env \<Rightarrow> runtime_paths \<Rightarrow> bool \<Rightarrow> (runtime_failure, agent_state) io" where
  "own_state V paths read_only w =
     (if read_only then
        io_then (io_map_err RfIo (config_load (sv_serde V) (sv_os V) w (rp_config_path paths))) (\<lambda>config w1.
          (Ok (with_printing_and_config_path config (Some (rp_config_path paths))), w1))
      else io_then (build V (runtime_builder_new paths) w) (\<lambda>rt w1. (Ok (rt_state rt), w1)))"

definition nth_arg :: "string list \<Rightarrow> nat \<Rightarrow> string option" where
  "nth_arg argv i = (if i < length argv then Some (argv ! i) else None)"

text \<open>What is printed: the output that \<open>run_cli_from\<close> returned. Its exit code is not used.\<close>

definition printed :: "(command_error, cli_output) result \<Rightarrow> (boxed_error, string) result" where
  "printed r = (case r of Inl e \<Rightarrow> Err (BoxCommand e) | Inr output \<Rightarrow> Ok (co_stdout output))"

definition run_shared_cli ::
  "headless_env \<Rightarrow> string list \<Rightarrow> sys \<Rightarrow> ((boxed_error, string) result \<times> sys) option" where
  "run_shared_cli H argv s =
     (case s of (w, agent) \<Rightarrow>
        if nth_arg argv 1 = Some ''diagnose'' then
          (let Q = hl_own H in
           map_option (\<lambda>(r, w1). (printed r, (w1, agent)))
             (run_cli_from (hl_cli H) argv
                (diagnose_command_service (ee_zip Q) (ee_listing Q) (ee_platform Q) (ee_vars Q) (we_os (ee_worker Q)))
                headless_product (terminal_interaction (hl_terminal H)) w))
        else
          (let paths = system_paths (hl_vars H) in
           case own_state (hl_start H) paths (nth_arg argv 1 = Some ''doctor'') w of
             (Inl e, w1) \<Rightarrow> Some (Err (BoxRuntime e), (w1, agent))
           | (Inr own, w1) \<Rightarrow>
               map_option (\<lambda>(r, (w2, agent', own')). (printed r, (w2, agent')))
                 (run_cli_from (hl_cli H) argv
                    (cli_service (hl_codec H) (hl_client H (socket_path (rp_runtime_dir paths))) (hl_faults H)
                       (hl_agent H) (offline_exec (hl_own H)))
                    headless_product (terminal_interaction (hl_terminal H)) (w1, agent, own))))"

section \<open>The process\<close>

definition try_parse_product_from :: "(string list \<Rightarrow> (int, server_command option) result) \<Rightarrow> string list \<Rightarrow>
    (int, server_command option) result" where
  "try_parse_product_from parse args = (case parse args of Inr None \<Rightarrow> Err 0 | r \<Rightarrow> r)"

fun error_exit_code :: "boxed_error \<Rightarrow> int" where
  "error_exit_code (BoxCommand e) = exit_code e"
| "error_exit_code _ = 1"

definition process_exit :: "(boxed_error, 'a) result \<Rightarrow> int" where
  "process_exit r = (case r of Inl e \<Rightarrow> error_exit_code e | Inr _ \<Rightarrow> 0)"

text \<open>Standard output and exit code of the process; \<open>None\<close> is a panic.\<close>

definition headless_main :: "headless_env \<Rightarrow> string list \<Rightarrow> sys \<Rightarrow> ((string \<times> int) \<times> sys) option" where
  "headless_main H argv s =
     (if length argv = 1 then Some ((cv_long_help (hl_cli H), 0), s)
      else
        (case cli_display_output_from (hl_cli H) argv of
           Some out \<Rightarrow> Some ((co_stdout out, 0), s)
         | None \<Rightarrow>
             if nth_arg argv 1 = Some ''serve'' then
               (case try_parse_product_from (hl_serve_args H) argv of
                  Inr (Some Serve) \<Rightarrow>
                    (case s of (w, agent) \<Rightarrow> (case serve H w of (r, w') \<Rightarrow> Some (([], process_exit r), (w', agent))))
                | Inr None \<Rightarrow> None
                | Inl code \<Rightarrow> Some (([], code), s))
             else
               map_option (\<lambda>(r, s'). ((case r of Inl _ \<Rightarrow> [] | Inr out \<Rightarrow> out, process_exit r), s'))
                 (run_shared_cli H argv s)))"

section \<open>Properties of the headless product\<close>

text \<open>The process never panics: the branches marked unreachable are.\<close>

lemma run_shared_cli_total: "run_shared_cli H argv s \<noteq> None"
  by (auto simp: run_shared_cli_def Let_def run_cli_total simp del: not_None_eq split: prod.split sum.split)

lemma headless_main_total: "headless_main H argv s \<noteq> None"
  using run_shared_cli_total [of H argv s]
  by (auto simp: headless_main_def try_parse_product_from_def simp del: not_None_eq
      split: prod.split sum.split option.split server_command.split)

text \<open>A service that reports success ran from the check of its programs to the shutdown.\<close>

lemma serve_ok:
  assumes "serve H w = (Inr u, w')"
  obtains rt h w1 w2 where "preflight (hl_vars H) (hl_is_file H) = Inr ()"
    "build (hl_start H) (runtime_builder_new (system_paths (hl_vars H))) w = (Inr rt, w1)"
    "start (hl_start H) rt w1 = (Inr h, w2)" "fst (shutdown (hl_tasks H) h) = Inr ()" "w' = hl_life H h w2"
  using assms by (auto simp: serve_def io_then_ok_iff)

lemma preflight_ok:
  assumes "preflight V is_file = Inr ()"
  shows "\<exists>p. find_on_path V is_file ''lp'' = Some p"
    "(\<exists>p. find_on_path V is_file ''soffice'' = Some p) \<or> (\<exists>p. find_on_path V is_file ''libreoffice'' = Some p)"
  using assms
  by (auto simp: preflight_def require_any_def and_then_eq_Inr_iff ok_or_eq_Inr_iff check_all_ok_iff is_ok_and_then
      split: option.splits)

text \<open>
  The headless product drops the exit code of the command line. The documentation promises exit code
  1 for a doctor report with failures, and \<open>run_cli_from\<close> computes it, but the process prints the
  report and ends with 0.
\<close>

theorem headless_drops_exit_code:
  assumes "nth_arg argv 1 = Some ''doctor''" and "cv_parse (hl_cli H) argv = Inr (Some (CliDoctor json))"
    and "own_state (hl_start H) (system_paths (hl_vars H)) True w = (Inr own, w1)"
    and "run_cli_from (hl_cli H) argv
           (cli_service (hl_codec H) (hl_client H (socket_path (rp_runtime_dir (system_paths (hl_vars H))))) (hl_faults H)
              (hl_agent H) (offline_exec (hl_own H)))
           headless_product (terminal_interaction (hl_terminal H)) (w1, agent, own) =
         Some (Inr out, (w2, agent', own'))"
    and "co_exit_code out = 1"
  shows "headless_main H argv (w, agent) = Some ((co_stdout out, 0), (w2, agent'))"
proof -
  have l: "length argv \<noteq> 1" using assms(1) by (auto simp: nth_arg_def split: if_splits)
  have d: "cli_display_output_from (hl_cli H) argv = None" using assms(2) by (simp add: cli_display_output_from_def)
  have "run_shared_cli H argv (w, agent) = Some (Inr (co_stdout out), (w2, agent'))"
    using assms(1,3,4) by (simp add: run_shared_cli_def Let_def printed_def)
  with l d assms(1) show ?thesis by (simp add: headless_main_def process_exit_def)
qed

section \<open>A doctor that finds a failure\<close>

lemma report_fails: "c \<in> set cs \<Longrightarrow> dc_status c = DsFail \<Longrightarrow> du_fail (dr_summary (doctor_report_new cs)) > 0"
  by (auto simp: doctor_report_new_def count_checks filter_empty_conv)

lemma run_doctor_fails:
  assumes "\<And>w. dc_status (fst (directory_check D (as_config_path st) w)) = DsFail"
  shows "du_fail (dr_summary (fst (run_doctor D X addr product st w))) > 0"
proof -
  obtain c1 w1 where c: "config_check D (we_os X) (as_config_path st) w = (c1, w1)" by (rule prod.exhaust)
  obtain c2 w2 where d: "directory_check D (as_config_path st) w1 = (c2, w2)" by (rule prod.exhaust)
  with assms [of w1] have "dc_status c2 = DsFail" by simp
  moreover obtain c4 w3 where p: "port_check D (as_config st) addr w2 = (c4, w3)" by (rule prod.exhaust)
  moreover obtain c5 w4 where pr: "printer_check X w3 = (c5, w4)" by (rule prod.exhaust)
  moreover obtain r run where b: "check_browser_launch (de_browser D) (de_locator D) (browser_run_start w4) = (r, run)"
    by (rule prod.exhaust)
  ultimately show ?thesis
    unfolding run_doctor_def Let_def c d p pr b prod.case fst_conv by (intro report_fails [of c2]) simp_all
qed

definition sick_exec :: exec_env where
  "sick_exec = example_exec\<lparr>ee_doctor := (ee_doctor example_exec)\<lparr>de_metadata := (\<lambda>_ _. Err not_found)\<rparr>\<rparr>"

definition example_headless :: headless_env where
  "example_headless =
     \<lparr>hl_vars = (\<lambda>_. None), hl_is_file = (\<lambda>_. True), hl_start = example_start, hl_send = (\<lambda>_ _. Ok ()),
      hl_signal = Ok (), hl_life = (\<lambda>_ w. w), hl_tasks = \<lparr>tr_server = Ok (Ok ()), tr_queue = Ok (), tr_ipc = Ok (Ok ())\<rparr>,
      hl_serve_args = (\<lambda>_. Ok (Some Serve)), hl_cli = example_cli (CliDoctor False), hl_codec = example_codec,
      hl_client = (\<lambda>_. example_client (Some not_found)), hl_faults = (\<lambda>_. None), hl_agent = sick_exec, hl_own = sick_exec,
      hl_terminal = \<lparr>tm_flush = None, tm_line = Ok [], tm_password = (\<lambda>_. Ok []), tm_stdin_tty = False, tm_stderr_tty = False\<rparr>\<rparr>"

lemma sick_report:
  assumes "as_config_path st = Some ''/etc/yinshu/config.json''"
  shows "\<exists>report w'. runtime_execute (offline_exec sick_exec) (Doctor Headless) (w, st) = (Inr (RsDoctor report), (w', st))
    \<and> du_fail (dr_summary report) > 0"
proof -
  have p: "path_parent ''/etc/yinshu/config.json'' = Some ''/etc/yinshu''" by code_simp
  obtain report w' where r: "run_doctor (ee_doctor sick_exec) (ee_worker sick_exec) (ee_listen_addr (offline_exec sick_exec)) Headless st w
      = (report, w')" by (rule prod.exhaust)
  have "du_fail (dr_summary (fst (run_doctor (ee_doctor sick_exec) (ee_worker sick_exec)
      (ee_listen_addr (offline_exec sick_exec)) Headless st w))) > 0"
    by (rule run_doctor_fails) (simp add: assms directory_check_def p sick_exec_def check_def)
  with r show ?thesis by (simp add: runtime_execute_def offline_exec_def)
qed

theorem headless_drops_exit_code_witness:
  "\<exists>out w2 agent' own'.
     run_cli_from (example_cli (CliDoctor False)) [''yinshu'', ''doctor'']
       (cli_service example_codec (example_client (Some not_found)) (\<lambda>_. None) sick_exec (offline_exec sick_exec))
       headless_product (terminal_interaction (hl_terminal example_headless))
       (tick example_world, example_state, with_printing_and_config_path agent_config_default (Some ''/etc/yinshu/config.json''))
       = Some (Inr out, (w2, agent', own'))
     \<and> co_exit_code out = 1
     \<and> headless_main example_headless [''yinshu'', ''doctor''] (example_world, example_state) =
         Some ((co_stdout out, 0), (w2, agent'))"
proof -
  let ?own = "with_printing_and_config_path agent_config_default (Some ''/etc/yinshu/config.json'')"
  let ?sv = "cli_service example_codec (example_client (Some not_found)) (\<lambda>_. None) sick_exec (offline_exec sick_exec)"
  have "as_config_path ?own = Some ''/etc/yinshu/config.json''" by (simp add: with_printing_and_config_path_def)
  from sick_report [OF this] obtain report w' where
    d: "runtime_execute (offline_exec sick_exec) (Doctor Headless) (tick example_world, ?own) = (Inr (RsDoctor report), (w', ?own))"
    and f: "du_fail (dr_summary report) > 0" by blast
  have sv: "command_service_execute ?sv (Doctor Headless) (tick example_world, example_state, ?own) =
      (Inr (RsDoctor report), (w', example_state, ?own))"
    by (simp add: cli_service_def command_service_execute_def command_service_new_def local_client_execute_def
        example_client_def not_found_def on_own_def d)
  let ?out = "\<lparr>co_stdout = doctor_text report, co_stderr = [], co_exit_code = 1\<rparr>"
  have "run_command_line (example_cli (CliDoctor False)) ?sv headless_product I (Some (CliDoctor False))
      (tick example_world, example_state, ?own) = Some (Inr (doctor_text report, 1), (w', example_state, ?own))" for I
    using f sv by (simp add: run_command_line_def headless_product_def unsupported_adapter_def unsupported_headless_def)
  then have run: "run_cli_from (example_cli (CliDoctor False)) [''yinshu'', ''doctor''] ?sv headless_product
      (terminal_interaction (hl_terminal example_headless)) (tick example_world, example_state, ?own)
      = Some (Inr ?out, (w', example_state, ?own))"
    by (simp add: run_cli_from_def) (simp add: example_cli_def)
  have own: "own_state example_start (system_paths (\<lambda>_. None)) True example_world = (Inr ?own, tick example_world)"
    by (simp add: own_state_def system_paths_def env_path_def runtime_paths_new_def config_load_def fs_exists_def
        example_start_def example_world_def example_env_def)
  have "headless_main example_headless [''yinshu'', ''doctor''] (example_world, example_state) =
      Some ((co_stdout ?out, 0), (w', example_state))"
    by (rule headless_drops_exit_code [where H = example_headless and json = False and w = example_world and ?w1.0 = "tick example_world"
          and own = ?own and own' = ?own])
      (use run own in \<open>simp_all add: example_headless_def nth_arg_def\<close>, simp add: example_cli_def)
  with run show ?thesis by auto
qed

end
