(* ===== verification/Desktop_App.thy ===== *)
theory Desktop_App
  imports Headless
begin

text \<open>
  The desktop product, \<open>apps/desktop/src-tauri/src\<close>: the entry point that chooses between the command
  line and the window (\<open>main.rs\<close>), the command line with its product adapter (\<open>cli.rs\<close>,
  \<open>product_cli.rs\<close>), the commands of the settings window (\<open>commands.rs\<close>), the tray (\<open>tray.rs\<close>) and the
  setup of the application (\<open>lib.rs\<close>). The login item of the operating system is the third-party
  crate \<open>auto_launch\<close>: its three calls are the record \<open>auto_launch\<close> over a state \<open>'a\<close> of its own. Standard
  error is not part of the model. A branch the code marks as unreachable is \<open>None\<close>.
\<close>

section \<open>The login item\<close>

type_synonym ('s, 'e, 'b) call = "'s \<Rightarrow> ('e, 'b) result \<times> 's"

record 'a auto_launch =
  al_is_enabled :: "('a, string, bool) call"
  al_enable :: "('a, string, unit) call"
  al_disable :: "('a, string, unit) call"

record 'a desktop_env =
  dk_platform :: unix_platform
  dk_vars :: env_vars
  dk_current_exe :: "(io_error, string) result"
  dk_canonicalize :: "string \<Rightarrow> (io_error, string) result"
  dk_auto_launch :: "string \<Rightarrow> string \<Rightarrow> string list \<Rightarrow> bool option \<Rightarrow> (string, 'a auto_launch) result"
  dk_start :: start_env
  dk_cli :: cli_env
  dk_codec :: ipc_codec
  dk_client :: "string \<Rightarrow> client_env"
  dk_faults :: stream_faults
  dk_agent :: exec_env
  dk_own :: exec_env
  dk_terminal :: terminal

section \<open>The product adapter of the command line\<close>

definition desktop_app_name :: string where
  "desktop_app_name = [CHR 0xE5, CHR 0x8D, CHR 0xB0, CHR 0xE6, CHR 0x9E, CHR 0xA2]"

definition desktop_executable_path :: "'a desktop_env \<Rightarrow> (io_error, string) result" where
  "desktop_executable_path D =
     (case dk_platform D of
        Linux \<Rightarrow> (case dk_vars D ''APPIMAGE'' of Some path \<Rightarrow> Ok path | None \<Rightarrow> dk_current_exe D)
      | MacOs \<Rightarrow>
          and_then (dk_current_exe D) (\<lambda>executable.
          and_then (dk_canonicalize D executable) (\<lambda>executable.
            case split_once_str ''.app/'' (utf8_lossy executable) of
              Some (bundle, _) \<Rightarrow> Ok (bundle @ ''.app'')
            | None \<Rightarrow> Ok executable)))"

definition windows_gui_executable_path :: "string \<Rightarrow> string" where
  "windows_gui_executable_path executable =
     (let value = utf8_lossy executable;
          up_to_separator = rev (dropWhile (\<lambda>c. c \<noteq> CHR 0x5C \<and> c \<noteq> CHR ''/'') (rev value))
      in if up_to_separator = [] then ''YinShu.exe'' else up_to_separator @ ''YinShu.exe'')"

text \<open>A call on the login item, and a service on the rest of the state.\<close>

definition on_login :: "('a, 'e, 'b) call \<Rightarrow> ('s \<times> 'a, 'e, 'b) call" where
  "on_login f s = (case f (snd s) of (r, a) \<Rightarrow> (r, (fst s, a)))"

definition beside :: "'s executor \<Rightarrow> ('s \<times> 'a) executor" where
  "beside ex c s = (case ex c (fst s) of (r, t) \<Rightarrow> (r, (t, snd s)))"

definition service_beside :: "'s command_service \<Rightarrow> ('s \<times> 'a) command_service" where
  "service_beside sv = command_service_new (map_option beside (cs_online sv)) (beside (cs_offline sv))"

definition adapter_config :: "'s command_service \<Rightarrow> ('s, command_error, agent_config) call" where
  "adapter_config sv s =
     io_then (command_service_execute sv GetConfig s) (\<lambda>r s1.
       (case r of
          RsConfig config \<Rightarrow> Ok config
        | _ \<Rightarrow> Err (command_error_new CkRuntime ''GetConfig returned an unexpected result''), s1))"

definition adapter_save :: "'s command_service \<Rightarrow> agent_config \<Rightarrow> ('s, command_error, unit) call" where
  "adapter_save sv config s = io_then (command_service_execute sv (SaveConfig config) s) (\<lambda>_ s1. (Ok (), s1))"

definition desktop_set_autostart ::
  "'a auto_launch \<Rightarrow> ('s \<times> 'a) command_service \<Rightarrow> bool \<Rightarrow> ('s \<times> 'a, command_error, unit) call" where
  "desktop_set_autostart A sv enabled s =
     io_then (io_map_err runtime_error (on_login (if enabled then al_enable A else al_disable A) s)) (\<lambda>_ s1.
     io_then (adapter_config sv s1) (\<lambda>config s2.
       adapter_save sv (config\<lparr>cf_app := (cf_app config)\<lparr>ac_autostart := enabled\<rparr>\<rparr>) s2))"

definition desktop_set_language :: "'s command_service \<Rightarrow> string \<Rightarrow> ('s, command_error, unit) call" where
  "desktop_set_language sv language s =
     io_then (if language = ''zh-CN'' then Ok ZhCn
              else if language = ''en'' then Ok En
              else Err (command_error_new CkInvalidInput ''language must be zh-CN or en''), s) (\<lambda>language s1.
     io_then (adapter_config sv s1) (\<lambda>config s2.
       adapter_save sv (config\<lparr>cf_app := (cf_app config)\<lparr>ac_language := language\<rparr>\<rparr>) s2))"

definition desktop_adapter :: "'a auto_launch \<Rightarrow> ('s \<times> 'a) command_service \<Rightarrow> ('s \<times> 'a) product_command_adapter" where
  "desktop_adapter A sv =
     \<lparr>pa_product_kind = Desktop,
      pa_autostart_status = (\<lambda>s. io_map_err runtime_error (on_login (al_is_enabled A) s)),
      pa_set_autostart = desktop_set_autostart A sv,
      pa_set_language = desktop_set_language sv\<rparr>"

definition desktop_adapter_new ::
  "'a desktop_env \<Rightarrow> ('s \<times> 'a) command_service \<Rightarrow> (command_error, ('s \<times> 'a) product_command_adapter) result" where
  "desktop_adapter_new D sv =
     and_then (map_err (\<lambda>e. runtime_error (io_msg e)) (desktop_executable_path D)) (\<lambda>executable.
     and_then (map_err runtime_error
                 (dk_auto_launch D desktop_app_name (utf8_lossy executable) [''--from-autostart'']
                    (case dk_platform D of MacOs \<Rightarrow> Some False | Linux \<Rightarrow> None))) (\<lambda>autostart.
       Ok (desktop_adapter autostart sv)))"

section \<open>The command line of the desktop product\<close>

definition desktop_paths :: "'a desktop_env \<Rightarrow> (io_error, runtime_paths) result" where
  "desktop_paths D =
     and_then (cli_config_path (dk_platform D) (dk_vars D)) (\<lambda>config_path.
     and_then (cli_data_dir (dk_platform D) (dk_vars D)) (\<lambda>data_dir.
       Ok (runtime_paths_new config_path data_dir (path_join data_dir ''run''))))"

definition cli_finish :: "(command_error, cli_output) result \<Rightarrow> string \<times> int" where
  "cli_finish r = (case r of Inl e \<Rightarrow> ([], exit_code e) | Inr out \<Rightarrow> (co_stdout out, co_exit_code out))"

definition run_cli_from_env ::
  "'a desktop_env \<Rightarrow> string list \<Rightarrow> sys \<times> 'a \<Rightarrow> ((string \<times> int) \<times> sys \<times> 'a) option" where
  "run_cli_from_env D argv s =
     (case s of ((w, agent), login) \<Rightarrow>
        (case cli_display_output_from (dk_cli D) argv of
           Some out \<Rightarrow> Some ((co_stdout out, co_exit_code out), s)
         | None \<Rightarrow>
             if nth_arg argv 1 = Some ''diagnose'' then
               (let Q = dk_own D in
                map_option (\<lambda>(r, w1). (cli_finish r, ((w1, agent), login)))
                  (run_cli_from (dk_cli D) argv
                     (diagnose_command_service (ee_zip Q) (ee_listing Q) (ee_platform Q) (ee_vars Q) (we_os (ee_worker Q)))
                     (unsupported_adapter (unsupported_new ''diagnose does not use desktop autostart or language commands''))
                     (terminal_interaction (dk_terminal D)) w))
             else
               (case desktop_paths D of
                  Inl _ \<Rightarrow> Some (([], 1), s)
                | Inr paths \<Rightarrow>
               (case own_state (dk_start D) paths (nth_arg argv 1 = Some ''doctor'') w of
                  (Inl _, w1) \<Rightarrow> Some (([], 1), ((w1, agent), login))
                | (Inr own, w1) \<Rightarrow>
                    (let sv = service_beside (cli_service (dk_codec D) (dk_client D (socket_path (rp_runtime_dir paths)))
                                (dk_faults D) (dk_agent D) (offline_exec (dk_own D)))
                     in case desktop_adapter_new D sv of
                          Inl _ \<Rightarrow> Some (([], 1), ((w1, agent), login))
                        | Inr product \<Rightarrow>
                            map_option (\<lambda>(r, ((w2, agent', own'), login')). (cli_finish r, ((w2, agent'), login')))
                              (run_cli_from (dk_cli D) argv sv product (terminal_interaction (dk_terminal D))
                                 ((w1, agent, own), login)))))))"

section \<open>The entry point\<close>

definition is_cli_command :: "string option \<Rightarrow> bool" where
  "is_cli_command command \<longleftrightarrow> command \<noteq> None"

text \<open>The last component of a path, when it is a name, and the components of its ancestors.\<close>

definition last_component :: "string \<Rightarrow> string option" where
  "last_component p =
     (case rev (path_components p) of [] \<Rightarrow> None | c # _ \<Rightarrow> if c = ''/'' \<or> c = ''..'' then None else Some c)"

definition is_macos_app_bundle_executable :: "string option \<Rightarrow> bool" where
  "is_macos_app_bundle_executable program =
     is_some_and (\<lambda>value. list_ex (\<lambda>c. path_extension c = Some ''app'') (path_components value)) program"

definition should_run_cli :: "string option \<Rightarrow> string option \<Rightarrow> bool" where
  "should_run_cli program command \<longleftrightarrow>
     is_cli_command command
     \<or> Option.bind (Option.bind program last_component) to_str = Some ''yinshu''
       \<and> \<not> is_macos_app_bundle_executable program"

text \<open>What the process becomes: a command line that ended, or the window.\<close>

datatype launch = CliExit string int | RunsGui

definition desktop_main :: "'a desktop_env \<Rightarrow> string list \<Rightarrow> sys \<times> 'a \<Rightarrow> (launch \<times> sys \<times> 'a) option" where
  "desktop_main D argv s =
     (if should_run_cli (nth_arg argv 0) (nth_arg argv 1)
      then map_option (\<lambda>((stdout, code), s'). (CliExit stdout code, s')) (run_cli_from_env D argv s)
      else Some (RunsGui, s))"

definition should_show_main_window_on_launch :: "string list \<Rightarrow> bool" where
  "should_show_main_window_on_launch args \<longleftrightarrow>
     \<not> list_ex (\<lambda>arg. arg \<in> {''--from-autostart'', ''--hidden'', ''--minimized''}) args"

definition should_show_main_window_on_reopen :: "bool \<Rightarrow> bool" where
  "should_show_main_window_on_reopen has_visible_windows \<longleftrightarrow> \<not> has_visible_windows"

section \<open>Properties of the desktop process\<close>

lemma run_cli_from_env_total: "run_cli_from_env D argv s \<noteq> None"
  by (auto simp: run_cli_from_env_def Let_def run_cli_total simp del: not_None_eq split: prod.split sum.split option.split)

lemma desktop_main_total: "desktop_main D argv s \<noteq> None"
  using run_cli_from_env_total [of D argv s] by (simp add: desktop_main_def del: not_None_eq)

text \<open>An argument list that clap refuses ends with an error code, whatever else fails first.\<close>

lemma refused_arguments:
  assumes "cv_parse (dk_cli D) argv = Inl e" and "\<not> cx_display e"
  shows "\<exists>code s'. run_cli_from_env D argv s = Some (([], code), s') \<and> code \<in> {1, 2}"
proof -
  have d: "cli_display_output_from (dk_cli D) argv = None" using assms by (simp add: cli_display_output_from_def)
  have r: "run_cli_from (dk_cli D) argv sv A I t = Some (Inl (invalid_input (cx_text e)), t)" for sv A I and t :: 't
    using assms by (simp add: run_cli_from_def)
  have f: "cli_finish (Inl (invalid_input (cx_text e))) = ([], 2)"
    by (simp add: cli_finish_def invalid_input_def exit_code_def command_error_new_def)
  show ?thesis
    unfolding run_cli_from_env_def d Let_def
    by (simp add: r f split: prod.split sum.split option.split)
qed

text \<open>The window opens only for a command line without arguments, and then only when the program was not called
  by the name \<open>yinshu\<close> or is the executable of an application bundle.\<close>

lemma gui_runs_iff:
  "(\<exists>s'. desktop_main D argv s = Some (RunsGui, s')) \<longleftrightarrow>
     nth_arg argv 1 = None
     \<and> (Option.bind (Option.bind (nth_arg argv 0) last_component) to_str = Some ''yinshu'' \<longrightarrow>
        is_macos_app_bundle_executable (nth_arg argv 0))"
  by (cases s; cases "fst s") (auto simp: desktop_main_def should_run_cli_def is_cli_command_def)

text \<open>
  On Unix the login item does not start the desktop application. The item is registered with the argument
  \<open>--from-autostart\<close>, which means to open the application without its window; but any first argument
  sends the process to the command line, which has no such option. So, for every program path, the process
  ends with an error code and the agent is never started.
\<close>

theorem autostart_entry_runs_cli:
  assumes "cv_parse (dk_cli D) [program, ''--from-autostart''] = Inl e" and "\<not> cx_display e"
  shows "\<exists>code s'. desktop_main D [program, ''--from-autostart''] s = Some (CliExit [] code, s') \<and> code \<in> {1, 2}"
  using refused_arguments [OF assms, of s]
  by (auto simp: desktop_main_def should_run_cli_def is_cli_command_def nth_arg_def)

text \<open>The example: a desktop on Linux whose parser refuses every option it does not know.\<close>

definition example_desktop :: "bool desktop_env" where
  "example_desktop =
     \<lparr>dk_platform = Linux, dk_vars = (\<lambda>_. None), dk_current_exe = Ok ''/usr/bin/yinshu-desktop'',
      dk_canonicalize = Inr,
      dk_auto_launch = (\<lambda>_ _ _ _. Ok \<lparr>al_is_enabled = (\<lambda>b. (Ok b, b)), al_enable = (\<lambda>_. (Ok (), True)),
                                      al_disable = (\<lambda>_. (Ok (), False))\<rparr>),
      dk_start = example_start,
      dk_cli = (example_cli CliStatus)\<lparr>cv_parse := (\<lambda>args.
                  if list_ex (\<lambda>a. starts_with a ''--'') args
                  then Err \<lparr>cx_display = False, cx_text = ''unexpected argument''\<rparr> else Ok None)\<rparr>,
      dk_codec = example_codec, dk_client = (\<lambda>_. example_client (Some not_found)), dk_faults = (\<lambda>_. None),
      dk_agent = example_exec, dk_own = example_exec,
      dk_terminal = hl_terminal example_headless\<rparr>"

theorem autostart_entry_runs_cli_witness:
  "\<exists>code s'. desktop_main example_desktop [''/usr/bin/yinshu-desktop'', ''--from-autostart'']
      ((example_world, example_state), True) = Some (CliExit [] code, s') \<and> code \<in> {1, 2}"
  by (rule autostart_entry_runs_cli [where e = "\<lparr>cx_display = False, cx_text = ''unexpected argument''\<rparr>"])
    (simp_all add: example_desktop_def starts_with_def)

end
