(* ===== verification/Desktop_Gui.thy ===== *)
theory Desktop_Gui
  imports Desktop_App
begin

text \<open>
  The window, the tray and the setup of the desktop application: \<open>commands.rs\<close>, \<open>tray.rs\<close> and \<open>lib.rs\<close> of
  \<open>apps/desktop/src-tauri/src\<close>. The state \<open>gui\<close> holds what the application manages: the agent with the
  shared files, the login item and the labels of the tray. Both executors of its command service are the
  runtime's own executor, called directly.
\<close>

section \<open>State\<close>

record tray_label_set =
  ty_open_settings :: string
  ty_test_print :: string
  ty_quit :: string

record 'a gui =
  gu_sys :: sys
  gu_login :: 'a
  gu_tray :: "tray_label_set option"

record 'a gui_env =
  gv_auto :: "'a auto_launch"
  gv_bind :: "string \<Rightarrow> u16 \<Rightarrow> (io_error, unit) result"
  gv_set_text :: "string \<Rightarrow> string \<Rightarrow> (string, unit) result"
  gv_exec :: exec_env
  gv_report_json :: "doctor_report \<Rightarrow> string option"

definition gui_executor :: "exec_env \<Rightarrow> 'a gui executor" where
  "gui_executor Q c g = (case runtime_execute Q c (gu_sys g) of (r, s) \<Rightarrow> (r, g\<lparr>gu_sys := s\<rparr>))"

definition gui_service :: "'a gui_env \<Rightarrow> 'a gui command_service" where
  "gui_service G = command_service_new (Some (gui_executor (gv_exec G))) (gui_executor (gv_exec G))"

section \<open>The tray\<close>

definition zh_open_settings :: string where
  "zh_open_settings = [CHR 0xE6, CHR 0x89, CHR 0x93, CHR 0xE5, CHR 0xBC, CHR 0x80, CHR
     0xE8, CHR 0xAE, CHR 0xBE, CHR 0xE7, CHR 0xBD, CHR 0xAE]"

definition zh_test_print :: string where
  "zh_test_print = [CHR 0xE6, CHR 0xB5, CHR 0x8B, CHR 0xE8, CHR 0xAF, CHR 0x95, CHR
     0xE6, CHR 0x89, CHR 0x93, CHR 0xE5, CHR 0x8D, CHR 0xB0]"

definition zh_quit :: string where
  "zh_quit = [CHR 0xE9, CHR 0x80, CHR 0x80, CHR 0xE5, CHR 0x87, CHR 0xBA]"

fun tray_labels :: "ui_language \<Rightarrow> tray_label_set" where
  "tray_labels ZhCn = \<lparr>ty_open_settings = zh_open_settings, ty_test_print = zh_test_print, ty_quit = zh_quit\<rparr>"
| "tray_labels En = \<lparr>ty_open_settings = ''Open Settings'', ty_test_print = ''Test Print'', ty_quit = ''Quit''\<rparr>"

definition apply_tray_language :: "'a gui_env \<Rightarrow> ui_language \<Rightarrow> ('a gui, string, unit) call" where
  "apply_tray_language G language g =
     (case gu_tray g of
        None \<Rightarrow> (Ok (), g)
      | Some items \<Rightarrow>
          (let labels = tray_labels language in
           case gv_set_text G ''open_settings'' (ty_open_settings labels) of
             Inl e \<Rightarrow> (Err e, g)
           | Inr _ \<Rightarrow>
               (let items1 = items\<lparr>ty_open_settings := ty_open_settings labels\<rparr> in
           case gv_set_text G ''test_print'' (ty_test_print labels) of
             Inl e \<Rightarrow> (Err e, g\<lparr>gu_tray := Some items1\<rparr>)
           | Inr _ \<Rightarrow>
               (let items2 = items1\<lparr>ty_test_print := ty_test_print labels\<rparr> in
           case gv_set_text G ''quit'' (ty_quit labels) of
             Inl e \<Rightarrow> (Err e, g\<lparr>gu_tray := Some items2\<rparr>)
           | Inr _ \<Rightarrow> (Ok (), g\<lparr>gu_tray := Some (items2\<lparr>ty_quit := ty_quit labels\<rparr>)\<rparr>)))))"

datatype tray_action = ShowMainWindow | PrintTestPage | ExitApp int | NoAction

definition tray_menu_event :: "string \<Rightarrow> tray_action" where
  "tray_menu_event item =
     (if item = ''open_settings'' then ShowMainWindow
      else if item = ''test_print'' then PrintTestPage
      else if item = ''quit'' then ExitApp 0
      else NoAction)"

text \<open>An error of the test print is only logged.\<close>

definition tray_test_print :: "'a gui_env \<Rightarrow> 'a gui \<Rightarrow> 'a gui" where
  "tray_test_print G g =
     g\<lparr>gu_sys := snd (print_test_page (ee_worker (gv_exec G)) (ee_device (gv_exec G)) (gu_sys g))\<rparr>"

section \<open>Commands of the settings window\<close>

text \<open>The expected kind of answer; any other one is a panic.\<close>

definition expect :: "(command_result \<Rightarrow> 'b option) \<Rightarrow> (command_error, command_result) result \<times> 's \<Rightarrow>
    ((command_error, 'b) result \<times> 's) option" where
  "expect f m =
     (case m of
        (Inl e, s) \<Rightarrow> Some (Err e, s)
      | (Inr r, s) \<Rightarrow> map_option (\<lambda>x. (Ok x, s)) (f r))"

fun of_config :: "command_result \<Rightarrow> agent_config option" where
  "of_config (RsConfig c) = Some c"
| "of_config _ = None"

fun of_doctor :: "command_result \<Rightarrow> doctor_report option" where
  "of_doctor (RsDoctor d) = Some d"
| "of_doctor _ = None"

fun of_preview :: "command_result \<Rightarrow> import_preview option" where
  "of_preview (RsImportPreview p) = Some p"
| "of_preview _ = None"

fun of_history :: "command_result \<Rightarrow> task_history_job list option" where
  "of_history (RsTaskHistory js) = Some js"
| "of_history _ = None"

fun of_events :: "command_result \<Rightarrow> task_history_event list option" where
  "of_events (RsTaskHistoryEvents es) = Some es"
| "of_events _ = None"

fun of_printers :: "command_result \<Rightarrow> printer_info list option" where
  "of_printers (RsPrinters ps) = Some ps"
| "of_printers _ = None"

fun of_papers :: "command_result \<Rightarrow> paper_info list option" where
  "of_papers (RsPapers ps) = Some ps"
| "of_papers _ = None"

definition gui_get_config :: "'s command_service \<Rightarrow> 's \<Rightarrow> ((command_error, agent_config) result \<times> 's) option" where
  "gui_get_config sv s = expect of_config (command_service_execute sv GetConfig s)"

definition export_diagnostics_with_service ::
  "(doctor_report \<Rightarrow> string option) \<Rightarrow> 's command_service \<Rightarrow> string \<Rightarrow> ('s, command_error, unit) call" where
  "export_diagnostics_with_service to_string sv path s =
     (case command_service_execute sv (Doctor Desktop) s of (r, s1) \<Rightarrow>
        (let doctor_json = (case r of Inr (RsDoctor report) \<Rightarrow> to_string report | _ \<Rightarrow> None) in
         io_then (command_service_execute sv (ExportDiagnostics (Some path) doctor_json) s1) (\<lambda>_ s2. (Ok (), s2))))"

definition run_doctor_with_service :: "'s command_service \<Rightarrow> 's \<Rightarrow> ((command_error, doctor_report) result \<times> 's) option" where
  "run_doctor_with_service sv s = expect of_doctor (command_service_execute sv (Doctor Desktop) s)"

definition export_config_file ::
  "'s command_service \<Rightarrow> string \<Rightarrow> string \<Rightarrow> export_options \<Rightarrow> ('s, command_error, unit) call" where
  "export_config_file sv path password options s =
     io_then (command_service_execute sv (ExportConfig path password options) s) (\<lambda>_ s1. (Ok (), s1))"

definition preview_config_import ::
  "'s command_service \<Rightarrow> string \<Rightarrow> string \<Rightarrow> 's \<Rightarrow> ((command_error, import_preview) result \<times> 's) option" where
  "preview_config_import sv path password s =
     expect of_preview (command_service_execute sv (PreviewConfigImport path password) s)"

definition import_config_file ::
  "'s command_service \<Rightarrow> string \<Rightarrow> string \<Rightarrow> string \<Rightarrow> 's \<Rightarrow> ((command_error, agent_config) result \<times> 's) option" where
  "import_config_file sv path password expected_file_hash s =
     expect of_config (command_service_execute sv (ImportConfig path password expected_file_hash) s)"

definition get_task_history :: "'s command_service \<Rightarrow> 's \<Rightarrow> ((command_error, task_history_job list) result \<times> 's) option" where
  "get_task_history sv s = expect of_history (command_service_execute sv GetTaskHistory s)"

definition get_task_history_events ::
  "'s command_service \<Rightarrow> string \<Rightarrow> 's \<Rightarrow> ((command_error, task_history_event list) result \<times> 's) option" where
  "get_task_history_events sv job_id s = expect of_events (command_service_execute sv (GetTaskHistoryEvents job_id) s)"

definition clear_task_history :: "'s command_service \<Rightarrow> ('s, command_error, unit) call" where
  "clear_task_history sv s = io_then (command_service_execute sv ClearTaskHistory s) (\<lambda>_ s1. (Ok (), s1))"

definition print_test :: "'s command_service \<Rightarrow> agent_config \<Rightarrow> ('s, command_error, unit) call" where
  "print_test sv config s = io_then (command_service_execute sv (TestPrint config) s) (\<lambda>_ s1. (Ok (), s1))"

definition gui_list_printers :: "'s command_service \<Rightarrow> 's \<Rightarrow> ((command_error, printer_info list) result \<times> 's) option" where
  "gui_list_printers sv s = expect of_printers (command_service_execute sv ListPrinters s)"

definition gui_list_papers ::
  "'s command_service \<Rightarrow> string \<Rightarrow> 's \<Rightarrow> ((command_error, paper_info list) result \<times> 's) option" where
  "gui_list_papers sv printer_name s = expect of_papers (command_service_execute sv (ListPapers printer_name) s)"

section \<open>Saving the settings\<close>

datatype autostart_op = EnableAutostart | DisableAutostart | KeepAutostart

definition autostart_operation :: "bool \<Rightarrow> bool \<Rightarrow> autostart_op" where
  "autostart_operation desired currently_enabled =
     (if desired then EnableAutostart else if currently_enabled then DisableAutostart else KeepAutostart)"

definition apply_autostart :: "'a auto_launch \<Rightarrow> bool \<Rightarrow> ('a, string, unit) call" where
  "apply_autostart A enabled a =
     io_then (al_is_enabled A a) (\<lambda>is_enabled a1.
       case autostart_operation enabled is_enabled of
         KeepAutostart \<Rightarrow> (Ok (), a1)
       | EnableAutostart \<Rightarrow> al_enable A a1
       | DisableAutostart \<Rightarrow> al_disable A a1)"

definition gui_autostart :: "'a gui_env \<Rightarrow> bool \<Rightarrow> ('a gui, string, unit) call" where
  "gui_autostart G enabled g =
     (case apply_autostart (gv_auto G) enabled (gu_login g) of (r, a) \<Rightarrow> (r, g\<lparr>gu_login := a\<rparr>))"

definition msg_port_range :: string where
  "msg_port_range = [CHR 0xE6, CHR 0x9C, CHR 0xAC, CHR 0xE5, CHR 0x9C, CHR 0xB0, CHR
     0xE7, CHR 0xAB, CHR 0xAF, CHR 0xE5, CHR 0x8F, CHR 0xA3, CHR 0xE5, CHR 0xBF, CHR
     0x85, CHR 0xE9, CHR 0xA1, CHR 0xBB, CHR 0xE5, CHR 0x9C, CHR 0xA8] @ '' ''"

definition msg_to :: string where
  "msg_to = '' '' @ [CHR 0xE5, CHR 0x88, CHR 0xB0] @ '' ''"

definition msg_between :: string where
  "msg_between = '' '' @ [CHR 0xE4, CHR 0xB9, CHR 0x8B, CHR 0xE9, CHR 0x97, CHR 0xB4]"

definition msg_port :: string where
  "msg_port = [CHR 0xE6, CHR 0x9C, CHR 0xAC, CHR 0xE5, CHR 0x9C, CHR 0xB0, CHR 0xE7,
     CHR 0xAB, CHR 0xAF, CHR 0xE5, CHR 0x8F, CHR 0xA3] @ '' ''"

definition msg_occupied :: string where
  "msg_occupied = '' '' @ [CHR 0xE5, CHR 0xB7, CHR 0xB2, CHR 0xE8, CHR 0xA2, CHR 0xAB,
     CHR 0xE5, CHR 0x8D, CHR 0xA0, CHR 0xE7, CHR 0x94, CHR 0xA8, CHR 0xEF, CHR 0xBC,
     CHR 0x8C, CHR 0xE8, CHR 0xAF, CHR 0xB7, CHR 0xE6, CHR 0x8D, CHR 0xA2, CHR 0xE4,
     CHR 0xB8, CHR 0x80, CHR 0xE4, CHR 0xB8, CHR 0xAA, CHR 0xE7, CHR 0xAB, CHR 0xAF,
     CHR 0xE5, CHR 0x8F, CHR 0xA3]"

definition check_service_port_available_for_host ::
  "(string \<Rightarrow> u16 \<Rightarrow> (io_error, unit) result) \<Rightarrow> string \<Rightarrow> u16 \<Rightarrow> (string, unit) result" where
  "check_service_port_available_for_host bind host port =
     (if \<not> (MIN_SERVICE_PORT \<le> port \<and> port \<le> MAX_SERVICE_PORT)
      then Err (msg_port_range @ show_nat (unat MIN_SERVICE_PORT) @ msg_to @ show_nat (unat MAX_SERVICE_PORT) @ msg_between)
      else map_err (\<lambda>_. msg_port @ show_nat (unat port) @ msg_occupied) (bind host port))"

text \<open>When saving fails the login item is set back to what the old configuration says.\<close>

definition restore_autostart :: "'a gui_env \<Rightarrow> bool \<Rightarrow> command_error \<Rightarrow> ('a gui, command_error, agent_config) call" where
  "restore_autostart G enabled e g =
     (case gui_autostart G enabled g of
        (Inl rollback_error, g1) \<Rightarrow>
          (Err (command_error_new CkRuntime
                  (ce_message e @ ''; failed to restore the previous autostart setting: '' @ rollback_error)), g1)
      | (Inr _, g1) \<Rightarrow> (Err e, g1))"

definition gui_save_config ::
  "'a gui_env \<Rightarrow> agent_config \<Rightarrow> 'a gui \<Rightarrow> ((command_error, agent_config) result \<times> 'a gui) option" where
  "gui_save_config G config g =
     (let current = as_config (snd (gu_sys g)) in
      case (if sc_port (cf_service config) \<noteq> sc_port (cf_service current)
            then check_service_port_available_for_host (gv_bind G) ''0.0.0.0'' (sc_port (cf_service config))
            else Ok ()) of
        Inl message \<Rightarrow> Some (Err (command_error_new CkInvalidInput message), g)
      | Inr _ \<Rightarrow>
     (case gui_autostart G (ac_autostart (cf_app config)) g of
        (Inl message, g1) \<Rightarrow> Some (Err (command_error_new CkRuntime message), g1)
      | (Inr _, g1) \<Rightarrow>
     (case command_service_execute (gui_service G) (SaveConfig config) g1 of
        (Inl e, g2) \<Rightarrow> Some (restore_autostart G (ac_autostart (cf_app current)) e g2)
      | (Inr r, g2) \<Rightarrow>
          map_option (\<lambda>saved. (Ok saved, snd (apply_tray_language G (ac_language (cf_app saved)) g2))) (of_config r))))"

section \<open>Setup\<close>

datatype setup_error = SetupTauri string | SetupIo io_error | SetupRuntime runtime_failure

record setup_env =
  su_start :: start_env
  su_config_dir :: "(string, string) result"
  su_tray :: "(string, unit) result"
  su_platform :: unix_platform
  su_vars :: env_vars
  su_error_msg :: "setup_error \<Rightarrow> string"

text \<open>The application: the handle of the agent and the login item; a login item that cannot be synchronised is only logged.\<close>

definition setup_desktop ::
  "setup_env \<Rightarrow> 'a auto_launch \<Rightarrow> (world \<times> 'a, setup_error, agent_handle \<times> tray_label_set option) call" where
  "setup_desktop U A s =
     (case s of (w, a) \<Rightarrow>
        (let V = su_start U; E = sv_os V;
             (r, w') =
               io_then (map_err SetupTauri (su_config_dir U), w) (\<lambda>app_config_dir w1.
               io_then (io_map_err SetupIo (fs_create_dir_all E w1 app_config_dir)) (\<lambda>_ w2.
               (let config_path = path_join app_config_dir ''config.json'' in
               io_then (io_map_err SetupIo (config_load (sv_serde V) E w2 config_path)) (\<lambda>config w3.
               io_then (map_err SetupTauri (su_tray U), w3) (\<lambda>_ w4.
               io_then (io_map_err SetupRuntime (build V (with_print_backend (sv_default_backend V)
                          (runtime_builder_new (runtime_paths_new config_path app_config_dir
                             (path_join app_config_dir ''run'')))) w4)) (\<lambda>rt w5.
               io_then (io_map_err SetupRuntime (start V rt w5)) (\<lambda>h w6. (Ok (config, h), w6))))))))
         in case r of
              Inl e \<Rightarrow> (Err e, (w', a))
            | Inr (config, h) \<Rightarrow>
                (Ok (h, Some (tray_labels (ac_language (cf_app config)))),
                 (w', snd (apply_autostart A (ac_autostart (cf_app config)) a)))))"

definition gui_startup_error_log_path :: "setup_env \<Rightarrow> string" where
  "gui_startup_error_log_path U =
     (case startup_error_log_path (su_platform U) (su_vars U) of
        Inr path \<Rightarrow> path
      | Inl _ \<Rightarrow> path_join (os_temp_dir (sv_os (su_start U))) STARTUP_ERROR_FILE_NAME)"

definition report_startup_error :: "setup_env \<Rightarrow> string \<Rightarrow> world \<Rightarrow> world" where
  "report_startup_error U message w =
     (let E = sv_os (su_start U); path = gui_startup_error_log_path U;
          w1 = (case path_parent path of None \<Rightarrow> w | Some parent \<Rightarrow> snd (fs_create_dir_all E w parent))
      in snd (fs_write E w1 path (as_bytes (message @ [CHR 0x0A]))))"

definition setup_hook ::
  "setup_env \<Rightarrow> 'a auto_launch \<Rightarrow> (world \<times> 'a, setup_error, agent_handle \<times> tray_label_set option) call" where
  "setup_hook U A s =
     (case setup_desktop U A s of
        (Inr x, s1) \<Rightarrow> (Ok x, s1)
      | (Inl e, (w1, a1)) \<Rightarrow> (Err e, (report_startup_error U (su_error_msg U e) w1, a1)))"

section \<open>The kind of every answer\<close>

text \<open>Which results a command may be answered with.\<close>

definition answers :: "command \<Rightarrow> command_result \<Rightarrow> bool" where
  "answers c r =
     (case c of
        GetConfig \<Rightarrow> of_config r \<noteq> None
      | SaveConfig _ \<Rightarrow> of_config r \<noteq> None
      | ImportConfig _ _ _ \<Rightarrow> of_config r \<noteq> None
      | PreviewConfigImport _ _ \<Rightarrow> of_preview r \<noteq> None
      | ListPrinters \<Rightarrow> of_printers r \<noteq> None
      | ListPapers _ \<Rightarrow> of_papers r \<noteq> None
      | GetLogs \<Rightarrow> (case r of RsLogs _ \<Rightarrow> True | _ \<Rightarrow> False)
      | GetTaskHistory \<Rightarrow> of_history r \<noteq> None
      | GetTaskHistoryEvents _ \<Rightarrow> of_events r \<noteq> None
      | Doctor _ \<Rightarrow> of_doctor r \<noteq> None
      | ExportDiagnostics _ _ \<Rightarrow> (case r of RsDiagnostics _ \<Rightarrow> True | _ \<Rightarrow> False)
      | Status \<Rightarrow> (case r of RsStatus _ \<Rightarrow> True | _ \<Rightarrow> False)
      | _ \<Rightarrow> r = RsEmpty)"

lemma runtime_answers:
  assumes "runtime_execute Q c s = (Inr r, s')"
  shows "answers c r"
  using assms
  by (cases c; cases s)
    (auto simp: answers_def runtime_execute_def execute_save_config_def execute_clear_history_def execute_export_def execute_preview_def
      execute_import_def execute_validate_def Let_def transfer_io_def transfer_pure_def map_sum_def and_then_eq_Inr_iff
      split: prod.splits sum.splits option.splits if_splits)

lemma gui_service_execute: "command_service_execute (gui_service G) c g = gui_executor (gv_exec G) c g"
proof -
  obtain r g1 where e: "gui_executor (gv_exec G) c g = (r, g1)" by (rule prod.exhaust)
  have "\<not> (\<exists>e. r = Inl e \<and> ce_kind e = CkNotRunning)"
    using e runtime_never_not_running [of "gv_exec G"]
    by (cases "gu_sys g") (fastforce simp: gui_executor_def never_not_running_def split: prod.splits)
  with e show ?thesis
    by (cases r) (auto simp: gui_service_def command_service_execute_def command_service_new_def split: command_policy.split)
qed

lemma gui_answers: "command_service_execute (gui_service G) c g = (Inr r, g') \<Longrightarrow> answers c r"
  by (auto simp: gui_service_execute gui_executor_def split: prod.splits intro: runtime_answers)

lemma expect_total:
  assumes "\<And>r s'. m = (Inr r, s') \<Longrightarrow> f r \<noteq> None"
  shows "expect f m \<noteq> None"
  using assms by (cases m; cases "fst m") (auto simp: expect_def simp del: not_None_eq)

text \<open>No command of the window panics.\<close>

lemma gui_commands_total:
  "gui_get_config (gui_service G) g \<noteq> None" "run_doctor_with_service (gui_service G) g \<noteq> None"
  "preview_config_import (gui_service G) path password g \<noteq> None"
  "import_config_file (gui_service G) path password hash g \<noteq> None" "get_task_history (gui_service G) g \<noteq> None"
  "get_task_history_events (gui_service G) job_id g \<noteq> None" "gui_list_printers (gui_service G) g \<noteq> None"
  "gui_list_papers (gui_service G) printer_name g \<noteq> None"
  unfolding gui_get_config_def run_doctor_with_service_def preview_config_import_def import_config_file_def
    get_task_history_def get_task_history_events_def gui_list_printers_def gui_list_papers_def
  by (rule expect_total, drule gui_answers, simp add: answers_def)+

section \<open>The login item follows the configuration\<close>

text \<open>Documented behaviour of \<open>auto_launch\<close>: the calls that succeed report and set whether the item is
  registered. Separately, that no call fails.\<close>

definition auto_launch_documented :: "'a auto_launch \<Rightarrow> ('a \<Rightarrow> bool) \<Rightarrow> bool" where
  "auto_launch_documented A enabled \<longleftrightarrow>
     (\<forall>a b a'. al_is_enabled A a = (Inr b, a') \<longrightarrow> b = enabled a \<and> enabled a' = enabled a)
     \<and> (\<forall>a u a'. al_enable A a = (Inr u, a') \<longrightarrow> enabled a')
     \<and> (\<forall>a u a'. al_disable A a = (Inr u, a') \<longrightarrow> \<not> enabled a')"

definition auto_launch_works :: "'a auto_launch \<Rightarrow> bool" where
  "auto_launch_works A \<longleftrightarrow>
     (\<forall>a. is_ok (fst (al_is_enabled A a)) \<and> is_ok (fst (al_enable A a)) \<and> is_ok (fst (al_disable A a)))"

definition gui_config :: "'a gui \<Rightarrow> agent_config" where
  "gui_config g = as_config (snd (gu_sys g))"

definition in_sync :: "('a \<Rightarrow> bool) \<Rightarrow> 'a gui \<Rightarrow> bool" where
  "in_sync enabled g \<longleftrightarrow> enabled (gu_login g) = ac_autostart (cf_app (gui_config g))"

lemma apply_autostart_sets:
  assumes "auto_launch_documented A enabled" and "apply_autostart A b a = (Inr u, a')"
  shows "enabled a' = b"
proof -
  from assms(2) obtain e a1 where e: "al_is_enabled A a = (Inr e, a1)"
    and o1: "(case autostart_operation b e of KeepAutostart \<Rightarrow> (Ok (), a1)
       | EnableAutostart \<Rightarrow> al_enable A a1 | DisableAutostart \<Rightarrow> al_disable A a1) = (Inr u, a')"
    by (auto simp: apply_autostart_def io_then_ok_iff)
  with assms(1) have "e = enabled a" "enabled a1 = enabled a" by (auto simp: auto_launch_documented_def)
  with o1 assms(1) show ?thesis
    by (auto simp: autostart_operation_def auto_launch_documented_def split: if_splits)
qed

lemma apply_autostart_works:
  assumes "auto_launch_works A"
  shows "is_ok (fst (apply_autostart A b a))"
proof -
  from assms obtain e a1 where "al_is_enabled A a = (Inr e, a1)"
    by (metis auto_launch_works_def is_ok_iff surjective_pairing)
  with assms show ?thesis
    by (auto simp: apply_autostart_def auto_launch_works_def split: autostart_op.split)
qed

lemma gui_autostart_cases:
  assumes "auto_launch_documented (gv_auto G) enabled" and "gui_autostart G b g = (r, g')"
  shows "gu_sys g' = gu_sys g" and "r = Inr u \<Longrightarrow> enabled (gu_login g') = b"
    and "auto_launch_works (gv_auto G) \<Longrightarrow> r = Inr ()"
proof -
  obtain r1 a1 where a: "apply_autostart (gv_auto G) b (gu_login g) = (r1, a1)" by (rule prod.exhaust)
  with assms(2) have g: "r1 = r" "g' = g\<lparr>gu_login := a1\<rparr>" by (auto simp: gui_autostart_def)
  then show "gu_sys g' = gu_sys g" by simp
  show "r = Inr u \<Longrightarrow> enabled (gu_login g') = b" using apply_autostart_sets [OF assms(1)] a g by simp
  show "auto_launch_works (gv_auto G) \<Longrightarrow> r = Inr ()"
    using apply_autostart_works [of "gv_auto G" b "gu_login g"] a g by (simp add: is_ok_iff)
qed

lemma apply_tray_language_keeps [simp]:
  "gu_sys (snd (apply_tray_language G l g)) = gu_sys g" "gu_login (snd (apply_tray_language G l g)) = gu_login g"
  by (simp_all add: apply_tray_language_def Let_def split: option.splits sum.splits)

lemma gui_config_tray [simp]: "gui_config (snd (apply_tray_language G l g)) = gui_config g"
  by (simp add: gui_config_def)

lemma gui_saves:
  assumes "command_service_execute (gui_service G) (SaveConfig c) g = (r, g')"
  shows "gu_login g' = gu_login g"
    and "r = Inr x \<Longrightarrow> x = RsConfig (config_normalized c) \<and> gui_config g' = config_normalized c"
    and "r = Inl e \<Longrightarrow> gui_config g' = gui_config g"
proof -
  obtain w st where s: "gu_sys g = (w, st)" by (rule prod.exhaust)
  let ?X = "ee_worker (gv_exec G)"
  obtain r0 w1 st1 where sv: "save_config (we_lib ?X) (ee_serde (gv_exec G)) (we_os ?X) w st c = (r0, w1, st1)"
    by (rule prod_cases3)
  from assms show "gu_login g' = gu_login g" by (auto simp: gui_service_execute gui_executor_def split: prod.splits)
  show "r = Inr x \<Longrightarrow> x = RsConfig (config_normalized c) \<and> gui_config g' = config_normalized c"
    using assms sv s save_config_ok(2,3) [of "we_lib ?X" "ee_serde (gv_exec G)" "we_os ?X" w st c]
    by (cases r0) (auto simp: gui_service_execute gui_executor_def runtime_execute_def execute_save_config_def gui_config_def)
  show "r = Inl e \<Longrightarrow> gui_config g' = gui_config g"
    using assms sv s save_config_err [of "we_lib ?X" "ee_serde (gv_exec G)" "we_os ?X" w st c]
    by (cases r0) (auto simp: gui_service_execute gui_executor_def runtime_execute_def execute_save_config_def gui_config_def)
qed

text \<open>The port check of a save: a port that changes is in range and free.\<close>

definition save_port_ok :: "'a gui_env \<Rightarrow> agent_config \<Rightarrow> agent_config \<Rightarrow> bool" where
  "save_port_ok G current c \<longleftrightarrow>
     sc_port (cf_service c) = sc_port (cf_service current)
     \<or> unat (sc_port (cf_service c)) \<in> {10000 .. 65535} \<and> is_ok (gv_bind G ''0.0.0.0'' (sc_port (cf_service c)))"

lemma save_port_check:
  "(if sc_port (cf_service c) \<noteq> sc_port (cf_service current)
    then check_service_port_available_for_host (gv_bind G) ''0.0.0.0'' (sc_port (cf_service c)) else Ok ()) = Inr ()
   \<longleftrightarrow> save_port_ok G current c"
  by (auto simp: save_port_ok_def check_service_port_available_for_host_def word_le_nat_alt MIN_SERVICE_PORT_def
      MAX_SERVICE_PORT_def is_ok_iff map_err_def map_sum_def split: sum.splits)

text \<open>What a save comes to: the new configuration with the port checked and the login item set, or the old
  configuration.\<close>

definition save_outcome ::
  "'a gui_env \<Rightarrow> ('a \<Rightarrow> bool) \<Rightarrow> agent_config \<Rightarrow> 'a gui \<Rightarrow> (command_error, agent_config) result \<Rightarrow> 'a gui \<Rightarrow> bool" where
  "save_outcome G enabled config g r g' \<longleftrightarrow>
     (case r of
        Inr saved \<Rightarrow> saved = config_normalized config \<and> gui_config g' = saved \<and> in_sync enabled g'
                     \<and> save_port_ok G (gui_config g) config
      | Inl _ \<Rightarrow> gui_config g' = gui_config g)"

lemma gui_save_outcome:
  assumes doc: "auto_launch_documented (gv_auto G) enabled"
  shows "\<exists>r g'. gui_save_config G config g = Some (r, g') \<and> save_outcome G enabled config g r g'
    \<and> (auto_launch_works (gv_auto G) \<and> in_sync enabled g \<longrightarrow> in_sync enabled g')"
proof (cases "save_port_ok G (gui_config g) config")
  case False
  then show ?thesis
    using save_port_check [of config "gui_config g" G]
    by (auto simp: gui_save_config_def save_outcome_def gui_config_def Let_def simp del: atLeastAtMost_iff split: sum.split)
next
  case True
  then have p: "(if sc_port (cf_service config) \<noteq> sc_port (cf_service (gui_config g))
    then check_service_port_available_for_host (gv_bind G) ''0.0.0.0'' (sc_port (cf_service config)) else Ok ()) = Inr ()"
    by (simp only: save_port_check)
  obtain r1 g1 where a: "gui_autostart G (ac_autostart (cf_app config)) g = (r1, g1)" by (rule prod.exhaust)
  note au = gui_autostart_cases [OF doc a]
  have c1: "gui_config g1 = gui_config g" by (simp add: gui_config_def au(1))
  show ?thesis
  proof (cases r1)
    case (Inl e)
    with p a au(3) c1 show ?thesis by (auto simp: gui_save_config_def Let_def save_outcome_def gui_config_def [symmetric])
  next
    case (Inr u)
    obtain r2 g2 where sv: "command_service_execute (gui_service G) (SaveConfig config) g1 = (r2, g2)" by (rule prod.exhaust)
    note sl = gui_saves [OF sv]
    show ?thesis
    proof (cases r2)
      case ok: (Inr x)
      let ?g = "snd (apply_tray_language G (ac_language (cf_app (config_normalized config))) g2)"
      have "gui_save_config G config g = Some (Inr (config_normalized config), ?g)"
        using p a Inr sv ok sl(2) [OF ok] by (simp add: gui_save_config_def Let_def gui_config_def [symmetric])
      moreover have "in_sync enabled ?g"
        using sl(1) sl(2) [OF ok] au(2) [OF Inr] by (simp add: in_sync_def) (simp add: config_normalized_def)
      ultimately show ?thesis using True sl(2) [OF ok] by (simp add: save_outcome_def)
    next
      case err: (Inl e)
      obtain r3 g3 where rb: "gui_autostart G (ac_autostart (cf_app (gui_config g))) g2 = (r3, g3)" by (rule prod.exhaust)
      note ra = gui_autostart_cases [OF doc rb]
      have c3: "gui_config g3 = gui_config g" using ra(1) sl(3) [OF err] c1 by (simp add: gui_config_def)
      have "gui_save_config G config g = Some (restore_autostart G (ac_autostart (cf_app (gui_config g))) e g2)"
        using p a Inr sv err by (simp add: gui_save_config_def Let_def gui_config_def [symmetric])
      moreover obtain e3 where "restore_autostart G (ac_autostart (cf_app (gui_config g))) e g2 = (Inl e3, g3)"
        using rb by (cases r3) (simp_all add: restore_autostart_def)
      ultimately show ?thesis
        using c3 ra(2,3) by (auto simp: save_outcome_def in_sync_def)
    qed
  qed
qed

text \<open>
  C36. Saving the settings in the window always returns, and keeps the login item of the operating system in
  step with the configuration. When it succeeds, the agent runs with the normalised new configuration, the
  login item is registered exactly if that configuration says so, and a changed port is between 10000 and
  65535 and free. When it fails, the configuration is the old one and the login item is set back, so that
  a state in step stays in step.
\<close>

theorem gui_save_keeps_login_item:
  assumes "auto_launch_documented (gv_auto G) enabled" and "auto_launch_works (gv_auto G)" and "in_sync enabled g"
  shows "\<exists>r g'. gui_save_config G config g = Some (r, g') \<and> save_outcome G enabled config g r g' \<and> in_sync enabled g'"
  using gui_save_outcome [OF assms(1), of config g] assms(2,3) by blast

text \<open>A login item that is a flag, and settings that turn it on.\<close>

definition example_auto_launch :: "bool auto_launch" where
  "example_auto_launch = \<lparr>al_is_enabled = (\<lambda>b. (Ok b, b)), al_enable = (\<lambda>_. (Ok (), True)), al_disable = (\<lambda>_. (Ok (), False))\<rparr>"

definition example_gui_env :: "bool gui_env" where
  "example_gui_env =
     \<lparr>gv_auto = example_auto_launch, gv_bind = (\<lambda>_ _. Ok ()), gv_set_text = (\<lambda>_ _. Ok ()),
      gv_exec = example_exec, gv_report_json = (\<lambda>_. None)\<rparr>"

definition example_gui :: "bool gui" where
  "example_gui = \<lparr>gu_sys = (example_world, with_printing_and_config_path agent_config_default None), gu_login = False,
     gu_tray = Some (tray_labels ZhCn)\<rparr>"

definition example_settings :: agent_config where
  "example_settings = agent_config_default\<lparr>cf_app := \<lparr>ac_autostart = True, ac_language = En\<rparr>\<rparr>"

theorem gui_save_keeps_login_item_witness:
  "\<exists>r g'. gui_save_config example_gui_env example_settings example_gui = Some (r, g')
    \<and> save_outcome example_gui_env (\<lambda>b. b) example_settings example_gui r g' \<and> in_sync (\<lambda>b. b) g'"
  by (rule gui_save_keeps_login_item)
    (simp_all add: example_gui_env_def example_auto_launch_def example_gui_def auto_launch_documented_def
      auto_launch_works_def in_sync_def gui_config_def with_printing_and_config_path_def agent_config_default_def
      config_normalized_def)

end
