(* ===== verification/Desktop_Window.thy ===== *)
theory Desktop_Window
  imports Desktop_Gui
begin

text \<open>
  The settings window of the desktop application: the event handlers of \<open>run\<close> in
  \<open>apps/desktop/src-tauri/src/lib.rs\<close> and of the tray in \<open>tray.rs\<close>. The window system carries the calls out and may
  fail each of them (\<open>window_calls\<close>); the handlers ignore such failures. Closing a window that a handler does not keep
  destroys it, and the process ends with its last window, as Tauri documents.
\<close>

section \<open>The window and the calls on it\<close>

record window_state =
  wd_exists :: bool
  wd_visible :: bool
  wd_minimized :: bool
  wd_focused :: bool
  wd_dock :: bool
  wd_running :: bool
  wd_test_prints :: nat

text \<open>Which calls succeed.\<close>

record window_calls =
  wc_unminimize :: bool
  wc_show :: bool
  wc_set_focus :: bool
  wc_hide :: bool
  wc_dock :: bool

definition set_dock_visibility :: "target_os \<Rightarrow> window_calls \<Rightarrow> bool \<Rightarrow> window_state \<Rightarrow> window_state" where
  "set_dock_visibility os F b w = (if os = OsMacOs \<and> wc_dock F then w\<lparr>wd_dock := b\<rparr> else w)"

definition show_main_window :: "target_os \<Rightarrow> window_calls \<Rightarrow> window_state \<Rightarrow> window_state" where
  "show_main_window os F w =
     (let w1 = set_dock_visibility os F True w in
      if wd_exists w1
      then w1\<lparr>wd_minimized := wd_minimized w1 \<and> \<not> wc_unminimize F, wd_visible := wd_visible w1 \<or> wc_show F,
              wd_focused := wd_focused w1 \<or> wc_set_focus F\<rparr>
      else w1)"

section \<open>Events\<close>

datatype window_event =
    CloseRequested string
  | OtherWindowEvent string
  | EvReady
  | EvReopen bool
  | TrayLeftClickUp
  | OtherTrayEvent
  | TrayMenu string

text \<open>\<open>on_window_event\<close>: the answer says whether the handler keeps the window from being closed.\<close>

definition on_window_event :: "target_os \<Rightarrow> window_calls \<Rightarrow> string \<Rightarrow> bool \<Rightarrow> window_state \<Rightarrow> bool \<times> window_state" where
  "on_window_event os F label0 close_requested w =
     (if label0 = ''main'' \<and> close_requested
      then (True, set_dock_visibility os F False
              (if wc_hide F then w\<lparr>wd_visible := False, wd_focused := False\<rparr> else w))
      else (False, w))"

text \<open>The handler of \<open>app.run\<close>.\<close>

definition on_ready :: "target_os \<Rightarrow> window_calls \<Rightarrow> string list \<Rightarrow> window_state \<Rightarrow> window_state" where
  "on_ready os F args w = (if should_show_main_window_on_launch args then show_main_window os F w else w)"

definition on_reopen :: "target_os \<Rightarrow> window_calls \<Rightarrow> bool \<Rightarrow> window_state \<Rightarrow> window_state" where
  "on_reopen os F has_visible_windows w =
     (if os = OsMacOs \<and> should_show_main_window_on_reopen has_visible_windows then show_main_window os F w else w)"

definition on_menu_event :: "target_os \<Rightarrow> window_calls \<Rightarrow> string \<Rightarrow> window_state \<Rightarrow> window_state" where
  "on_menu_event os F item w =
     (case tray_menu_event item of
        ShowMainWindow \<Rightarrow> show_main_window os F w
      | PrintTestPage \<Rightarrow> w\<lparr>wd_test_prints := Suc (wd_test_prints w)\<rparr>
      | ExitApp _ \<Rightarrow> w\<lparr>wd_running := False\<rparr>
      | NoAction \<Rightarrow> w)"

fun desktop_event :: "target_os \<Rightarrow> string list \<Rightarrow> window_calls \<times> window_event \<Rightarrow> window_state \<Rightarrow> window_state" where
  "desktop_event os args (F, CloseRequested label0) w =
     (case on_window_event os F label0 True w of (prevented, w1) \<Rightarrow>
        if prevented \<or> label0 \<noteq> ''main'' then w1 else w1\<lparr>wd_exists := False, wd_visible := False, wd_running := False\<rparr>)"
| "desktop_event os args (F, OtherWindowEvent label0) w = snd (on_window_event os F label0 False w)"
| "desktop_event os args (F, EvReady) w = on_ready os F args w"
| "desktop_event os args (F, EvReopen has_visible_windows) w = on_reopen os F has_visible_windows w"
| "desktop_event os args (F, TrayLeftClickUp) w = show_main_window os F w"
| "desktop_event os args (F, OtherTrayEvent) w = w"
| "desktop_event os args (F, TrayMenu item) w = on_menu_event os F item w"

text \<open>Events are handled while the application runs.\<close>

definition desktop_run :: "target_os \<Rightarrow> string list \<Rightarrow> (window_calls \<times> window_event) list \<Rightarrow> window_state \<Rightarrow> window_state" where
  "desktop_run os args evs w = foldl (\<lambda>w ev. if wd_running w then desktop_event os args ev w else w) w evs"

section \<open>The application runs until it is told to quit\<close>

definition quit_event :: "window_calls \<times> window_event \<Rightarrow> bool" where
  "quit_event ev \<longleftrightarrow> snd ev = TrayMenu ''quit''"

lemma show_main_window_frame [simp]:
  "wd_running (show_main_window os F w) = wd_running w" "wd_exists (show_main_window os F w) = wd_exists w"
  by (simp_all add: show_main_window_def set_dock_visibility_def Let_def)

lemma tray_menu_exit: "tray_menu_event item = ExitApp k \<Longrightarrow> item = ''quit''"
  by (auto simp: tray_menu_event_def split: if_splits)

lemma desktop_event_keeps:
  "wd_exists (desktop_event os args ev w) = wd_exists w"
  "wd_running (desktop_event os args ev w) = (wd_running w \<and> \<not> quit_event ev)"
  by (cases "(os, args, ev, w)" rule: desktop_event.cases;
      auto simp: on_window_event_def set_dock_visibility_def on_ready_def on_reopen_def on_menu_event_def quit_event_def
        tray_menu_event_def split: tray_action.splits if_splits)+

lemma desktop_runs_until_quit:
  "wd_exists w \<Longrightarrow> wd_running w \<Longrightarrow>
     wd_exists (desktop_run os args evs w) \<and> wd_running (desktop_run os args evs w) = (\<not> list_ex quit_event evs)"
  unfolding desktop_run_def
  by (induction evs rule: rev_induct) (auto simp: desktop_event_keeps)

text \<open>Closing the window hides it and the tray brings it back, when the window system carries the calls out; on macOS the
  icon in the dock follows the window.\<close>

lemma close_then_click:
  assumes "wd_exists w" and "F = \<lparr>wc_unminimize = True, wc_show = True, wc_set_focus = True, wc_hide = True, wc_dock = True\<rparr>"
  shows "\<not> wd_visible (desktop_event os args (F, CloseRequested ''main'') w)"
    and "wd_visible (desktop_event os args (F, TrayLeftClickUp) (desktop_event os args (F, CloseRequested ''main'') w))"
    and "os = OsMacOs \<Longrightarrow> wd_dock (desktop_event os args (F, CloseRequested ''main'') w) = False"
    and "os = OsMacOs \<Longrightarrow> wd_dock (desktop_event os args (F, TrayLeftClickUp) w)"
  using assms by (simp_all add: on_window_event_def set_dock_visibility_def show_main_window_def Let_def)

end
