(* ===== verification/Windows_Office.thy ===== *)
theory Windows_Office
  imports Doctor
begin

text \<open>
  Office conversion on Windows: \<open>crates/runtime/src/office/windows.rs\<close> and the Windows branches of
  \<open>office/libreoffice.rs\<close> and of the process runner in \<open>office.rs\<close>. Microsoft Office and WPS are driven by a
  PowerShell script; the texts of the two scripts are parameters and their processes calls to the operating
  system. The environment variables that are set for a process stand before its program, as \<open>NAME=value\<close>. Paths are
  written with forward slashes, which Windows accepts.
\<close>

section \<open>Processes\<close>

text \<open>The timeout clean-up runs after the converter ran over its time and before it is killed; its own outcome is only
  logged.\<close>

definition execute_converter_command_with_timeout_cleanup ::
  "os_env \<Rightarrow> world \<Rightarrow> string list \<Rightarrow> string \<Rightarrow> nat \<Rightarrow> string list \<Rightarrow>
   (office_convert_error, bool \<times> string \<times> bytes \<times> bytes) result \<times> world" where
  "execute_converter_command_with_timeout_cleanup E w command converter timeout cleanup =
     (case execute_converter_command E w command converter timeout of
        (Inl (OeTimedOut c n), w1) \<Rightarrow> (Err (OeTimedOut c n), tick (snd (os_run E (w_tick w1) cleanup w1)))
      | (r, w1) \<Rightarrow> (r, w1))"

text \<open>The exit code behind the text of a status. Codes from \<open>2 ^ 31\<close> on are shown in hexadecimal and not needed.\<close>

definition windows_status_code :: "string \<Rightarrow> nat option" where
  "windows_status_code status =
     Option.bind (strip_prefix status ''exit code: '') (parse_unsigned 31)"

section \<open>Microsoft Office and WPS\<close>

datatype provider = Microsoft | Wps

fun converter_name :: "provider \<Rightarrow> office_format \<Rightarrow> string" where
  "converter_name Microsoft OfDocx = ''Microsoft Word''"
| "converter_name Microsoft OfXlsx = ''Microsoft Excel''"
| "converter_name Microsoft OfPptx = ''Microsoft PowerPoint''"
| "converter_name Wps OfDocx = ''WPS Writer''"
| "converter_name Wps OfXlsx = ''WPS Spreadsheets''"
| "converter_name Wps OfPptx = ''WPS Presentation''"

fun prog_id :: "provider \<Rightarrow> office_format \<Rightarrow> string" where
  "prog_id Microsoft OfDocx = ''Word.Application''"
| "prog_id Microsoft OfXlsx = ''Excel.Application''"
| "prog_id Microsoft OfPptx = ''PowerPoint.Application''"
| "prog_id Wps OfDocx = ''KWPS.Application''"
| "prog_id Wps OfXlsx = ''KET.Application''"
| "prog_id Wps OfPptx = ''KWPP.Application''"

fun provider_name :: "provider \<Rightarrow> string" where
  "provider_name Microsoft = ''microsoft''"
| "provider_name Wps = ''wps''"

fun format_name :: "office_format \<Rightarrow> string" where
  "format_name OfDocx = ''docx''"
| "format_name OfXlsx = ''xlsx''"
| "format_name OfPptx = ''pptx''"

definition UNAVAILABLE_MARKER :: string where "UNAVAILABLE_MARKER = ''YINSHU_CONVERTER_UNAVAILABLE:''"

definition instance_record_path :: "string \<Rightarrow> provider \<Rightarrow> string" where
  "instance_record_path input_path p = with_extension input_path (provider_name p @ ''-instance.json'')"

record windows_office_env =
  wo_os :: os_env
  wo_vars :: env_vars
  wo_script :: string
  wo_cleanup_script :: string
  wo_libreoffice :: libreoffice_env

definition windows_build_command ::
  "windows_office_env \<Rightarrow> string \<Rightarrow> office_format \<Rightarrow> string \<Rightarrow> string \<Rightarrow> provider \<Rightarrow> string list" where
  "windows_build_command W input_path format output_path record_path p =
     [''YINSHU_OFFICE_FORMAT='' @ format_name format, ''YINSHU_OFFICE_PROVIDER='' @ provider_name p,
      ''YINSHU_OFFICE_INPUT='' @ input_path, ''YINSHU_OFFICE_OUTPUT='' @ output_path,
      ''YINSHU_OFFICE_INSTANCE_RECORD='' @ record_path,
      ''powershell.exe'', ''-NoProfile'', ''-NonInteractive'', ''-Command'', wo_script W]"

definition build_cleanup_command :: "windows_office_env \<Rightarrow> string \<Rightarrow> string list" where
  "build_cleanup_command W record_path =
     [''YINSHU_OFFICE_INSTANCE_RECORD='' @ record_path,
      ''powershell.exe'', ''-NoProfile'', ''-NonInteractive'', ''-Command'', wo_cleanup_script W]"

definition failure_from_exit :: "nat option \<Rightarrow> string \<Rightarrow> bytes \<Rightarrow> office_convert_error option" where
  "failure_from_exit code converter stderr =
     (if code \<noteq> Some 2 then None
      else
        (let reasons = List.map_filter (\<lambda>line. strip_prefix (trim line) UNAVAILABLE_MARKER) (str_lines (from_utf8_lossy stderr));
             reason = unwrap_or (opt_filter (\<lambda>reason. reason \<noteq> [])
                        (case reasons of [] \<Rightarrow> None | reason # _ \<Rightarrow> Some (trim reason))) ''COM converter unavailable''
         in Some (OeConverterUnavailable converter reason)))"

definition failure_from_output :: "string \<Rightarrow> string \<Rightarrow> bytes \<Rightarrow> bytes \<Rightarrow> office_convert_error" where
  "failure_from_output converter status out err =
     unwrap_or (failure_from_exit (windows_status_code status) converter err) (command_failed converter status out err)"

definition convert_with_provider :: "windows_office_env \<Rightarrow> provider \<Rightarrow> office_converter" where
  "convert_with_provider W p input_path format output_path w =
     (let converter = converter_name p format;
          record_path = instance_record_path input_path p
      in io_then (execute_converter_command_with_timeout_cleanup (wo_os W) w
                    (windows_build_command W input_path format output_path record_path p) converter
                    OFFICE_CONVERSION_TIMEOUT (build_cleanup_command W record_path)) (\<lambda>(success, status, out, err) w1.
           if \<not> success then (Err (failure_from_output converter status out err), w1)
           else io_then (validate_pdf (wo_os W) w1 output_path converter) (\<lambda>_ w2. (Ok converter, w2))))"

definition is_com_registered :: "os_env \<Rightarrow> string \<Rightarrow> world \<Rightarrow> bool \<times> world" where
  "is_com_registered E ident w =
     (case command_output E [''reg.exe'', ''query'', ''HKCR'' @ [CHR 0x5C] @ ident @ [CHR 0x5C] @ ''CLSID'', ''/ve''] w of
        (Inr (success, _, _), w1) \<Rightarrow> (success, w1)
      | (Inl _, w1) \<Rightarrow> (False, w1))"

section \<open>LibreOffice on Windows\<close>

definition parse_windows_app_path :: "string \<Rightarrow> string option" where
  "parse_windows_app_path output =
     (let quote = (\<lambda>s. trim_end_matches (CHR 0x22) (trim_start_matches (CHR 0x22) s));
          value_of = (\<lambda>line kind. opt_filter (\<lambda>path. path \<noteq> [])
            (map_option (\<lambda>(_, value). quote (trim value)) (split_once_str kind line)));
          found = List.map_filter (\<lambda>x. x) (concat (map (\<lambda>line. map (value_of line) [''REG_SZ'', ''REG_EXPAND_SZ''])
                    (str_lines output)))
      in case found of [] \<Rightarrow> None | path # _ \<Rightarrow> Some path)"

definition query_windows_app_path :: "os_env \<Rightarrow> string \<Rightarrow> string \<Rightarrow> world \<Rightarrow> string option \<times> world" where
  "query_windows_app_path E base view w =
     (let b = [CHR 0x5C];
          key = base @ b @ ''SOFTWARE'' @ b @ ''Microsoft'' @ b @ ''Windows'' @ b @ ''CurrentVersion'' @ b @ ''App Paths'' @ b
                @ ''soffice.exe''
      in case command_output E [''reg.exe'', ''query'', key, ''/ve'', view] w of
           (Inl _, w1) \<Rightarrow> (None, w1)
         | (Inr (success, out, _), w1) \<Rightarrow>
             (if success then parse_windows_app_path (from_utf8_lossy out) else None, w1))"

fun query_app_paths :: "os_env \<Rightarrow> (string \<times> string) list \<Rightarrow> world \<Rightarrow> string list \<times> world" where
  "query_app_paths E [] w = ([], w)"
| "query_app_paths E ((base, view) # qs) w =
     (case query_windows_app_path E base view w of (p, w1) \<Rightarrow>
        (case query_app_paths E qs w1 of (ps, w2) \<Rightarrow> ((case p of None \<Rightarrow> ps | Some path \<Rightarrow> path # ps), w2)))"

definition windows_libreoffice_candidates :: "os_env \<Rightarrow> env_vars \<Rightarrow> world \<Rightarrow> string list \<times> world" where
  "windows_libreoffice_candidates E V w =
     (let installed = List.map_filter (\<lambda>variable. map_option (\<lambda>directory.
            path_join (path_join (path_join directory ''LibreOffice'') ''program'') ''soffice.exe'') (V variable))
            [''ProgramFiles'', ''ProgramFiles(x86)''];
          (registered, w1) = query_app_paths E
            [(''HKCU'', ''/reg:64''), (''HKCU'', ''/reg:32''), (''HKLM'', ''/reg:64''), (''HKLM'', ''/reg:32'')] w
      in (installed @ registered, w1))"

text \<open>\<open>split_paths\<close> on Windows: semicolons separate, unless they stand in double quotes, and the quotes are dropped.\<close>

fun split_windows_paths :: "bool \<Rightarrow> string \<Rightarrow> string \<Rightarrow> string list" where
  "split_windows_paths quoted acc [] = [rev acc]"
| "split_windows_paths quoted acc (c # s) =
     (if c = CHR 0x22 then split_windows_paths (\<not> quoted) acc s
      else if c = CHR '';'' \<and> \<not> quoted then rev acc # split_windows_paths quoted [] s
      else split_windows_paths quoted (c # acc) s)"

definition windows_path_executable_names :: "string list" where
  "windows_path_executable_names = [''soffice.exe'', ''libreoffice.exe'']"

definition find_windows_libreoffice :: "os_env \<Rightarrow> env_vars \<Rightarrow> world \<Rightarrow> string option \<times> world" where
  "find_windows_libreoffice E V w =
     (case windows_libreoffice_candidates E V w of (standard, w1) \<Rightarrow>
        ((case find (os_is_executable E (w_tick w1)) standard of
            Some p \<Rightarrow> Some p
          | None \<Rightarrow>
              Option.bind (V ''PATH'') (\<lambda>v. find (os_is_executable E (w_tick w1))
                (concat (map (\<lambda>d. map (path_join d) windows_path_executable_names) (split_windows_paths False [] v))))), w1))"

definition windows_candidate_statuses ::
  "windows_office_env \<Rightarrow> office_format \<Rightarrow> world \<Rightarrow> office_candidate_status list \<times> world" where
  "windows_candidate_statuses W format w =
     (let (ms, w1) = is_com_registered (wo_os W) (prog_id Microsoft format) w;
          (wps, w2) = is_com_registered (wo_os W) (prog_id Wps format) w1;
          (lo, w3) = find_windows_libreoffice (wo_os W) (wo_vars W) w2
      in ([\<lparr>oc_name = converter_name Microsoft format, oc_available = ms\<rparr>,
           \<lparr>oc_name = converter_name Wps format, oc_available = wps\<rparr>,
           \<lparr>oc_name = ''LibreOffice'', oc_available = (lo \<noteq> None)\<rparr>], w3))"

section \<open>The choice of the converter\<close>

definition with_unavailable_context :: "office_convert_error \<Rightarrow> string list \<Rightarrow> office_convert_error" where
  "with_unavailable_context e unavailable =
     (if unavailable = [] then e else OeFallbackFailed e (join_with ''; '' unavailable))"

fun is_unavailable :: "office_convert_error \<Rightarrow> bool" where
  "is_unavailable (OeConverterUnavailable _ _) = True"
| "is_unavailable _ = False"

text \<open>The loop over the providers: a result, or the reasons why each of them was not available.\<close>

fun try_providers ::
  "windows_office_env \<Rightarrow> string \<Rightarrow> office_format \<Rightarrow> string \<Rightarrow> provider list \<Rightarrow> string list \<Rightarrow> world \<Rightarrow>
   ((office_convert_error, string) result option \<times> string list) \<times> world" where
  "try_providers W input_path format output_path [] unavailable w = ((None, unavailable), w)"
| "try_providers W input_path format output_path (p # ps) unavailable w =
     (case convert_with_provider W p input_path format output_path w of
        (Inr converter, w1) \<Rightarrow> ((Some (Ok converter), unavailable), w1)
      | (Inl e, w1) \<Rightarrow>
          if is_unavailable e
          then try_providers W input_path format output_path ps (unavailable @ [office_error_msg e]) w1
          else ((Some (Err (with_unavailable_context e unavailable)), unavailable), w1))"

definition windows_convert :: "windows_office_env \<Rightarrow> office_converter" where
  "windows_convert W input_path format output_path w =
     (case try_providers W input_path format output_path [Microsoft, Wps] [] w of
        ((Some r, _), w1) \<Rightarrow> (r, w1)
      | ((None, unavailable), w1) \<Rightarrow>
          (case find_windows_libreoffice (wo_os W) (wo_vars W) w1 of (found, w2) \<Rightarrow>
             (case libreoffice_convert_with (wo_libreoffice W) (wo_os W) found input_path format output_path w2 of
                (Inr converter, w3) \<Rightarrow>
                  io_then (io_map_err (\<lambda>e. with_unavailable_context e unavailable)
                             (validate_pdf (wo_os W) w3 output_path converter)) (\<lambda>_ w4. (Ok converter, w4))
              | (Inl e, w3) \<Rightarrow>
                  if is_unavailable e
                  then (Err (OeConvertersUnavailable (join_with ''; '' (unavailable @ [office_error_msg e]))), w3)
                  else (Err (with_unavailable_context e unavailable), w3))))"

section \<open>Fallback\<close>

text \<open>A provider that was asked and is not available.\<close>

definition provider_unavailable ::
  "windows_office_env \<Rightarrow> provider \<Rightarrow> string \<Rightarrow> office_format \<Rightarrow> string \<Rightarrow> world \<Rightarrow> world \<Rightarrow> bool" where
  "provider_unavailable W p input_path format output_path w w1 \<longleftrightarrow>
     (\<exists>e. convert_with_provider W p input_path format output_path w = (Inl e, w1) \<and> is_unavailable e)"

definition pdf_at :: "world \<Rightarrow> string \<Rightarrow> bool" where
  "pdf_at w p \<longleftrightarrow> (\<exists>content. w_files w p = Some content \<and> 5 < length content \<and> take 5 content = PDF_MAGIC)"

lemma provider_ok:
  assumes "convert_with_provider W p input_path format output_path w = (Inr name, w')"
  shows "name = converter_name p format \<and> pdf_at w' output_path"
  using assms
  by (auto simp: convert_with_provider_def Let_def io_then_ok_iff pdf_at_def split: if_splits dest: validate_pdf_ok)

lemma libreoffice_name:
  assumes "libreoffice_convert_with V E found i f out w = (Inr name, w')"
  shows "name = CONVERTER"
  using assms
  by (auto simp: libreoffice_convert_with_def Let_def split: option.splits prod.splits sum.splits if_splits)

text \<open>The two ways through the providers.\<close>

lemma try_providers_cases:
  assumes "try_providers W i f out [Microsoft, Wps] [] w = ((r, unavailable), w')"
  obtains (microsoft) m where "convert_with_provider W Microsoft i f out w = (m, w')" "r = Some m"
      "\<And>e. m = Inl e \<Longrightarrow> \<not> is_unavailable e"
    | (wps) w1 m where "provider_unavailable W Microsoft i f out w w1" "convert_with_provider W Wps i f out w1 = (m, w')"
      "r = Some (map_err (\<lambda>e. OeFallbackFailed e (join_with ''; '' unavailable)) m)" "\<And>e. m = Inl e \<Longrightarrow> \<not> is_unavailable e"
    | (none) w1 where "provider_unavailable W Microsoft i f out w w1" "provider_unavailable W Wps i f out w1 w'" "r = None"
      "length unavailable = 2"
proof -
  obtain m w1 where m: "convert_with_provider W Microsoft i f out w = (m, w1)" by (rule prod.exhaust)
  obtain v w2 where v: "convert_with_provider W Wps i f out w1 = (v, w2)" by (rule prod.exhaust)
  show ?thesis
  proof (cases "\<exists>e. m = Inl e \<and> is_unavailable e")
    case False
    with assms m show ?thesis
      by (intro microsoft [of m]) (auto simp: with_unavailable_context_def split: sum.splits)
  next
    case True
    then obtain e where e: "m = Inl e" "is_unavailable e" by blast
    with m have pm: "provider_unavailable W Microsoft i f out w w1" by (auto simp: provider_unavailable_def)
    show ?thesis
    proof (cases "\<exists>e. v = Inl e \<and> is_unavailable e")
      case False
      with assms m v e show ?thesis
        by (intro wps [OF pm, of v]) (auto simp: with_unavailable_context_def map_err_def split: sum.splits)
    next
      case True
      then obtain d where d: "v = Inl d" "is_unavailable d" by blast
      with v have "provider_unavailable W Wps i f out w1 w2" by (auto simp: provider_unavailable_def)
      with assms m v e d show ?thesis by (intro none [OF pm]) auto
    qed
  qed
qed

text \<open>
  C38. On Windows the converters are tried in order and the next one only when the one before is not available. A
  conversion that succeeds names the converter that did it, every converter before it in the order Microsoft
  Office, WPS, LibreOffice was asked and not available, and there is a PDF at the output path.
\<close>

theorem windows_conversion_order:
  assumes "windows_convert W input_path format output_path w = (Inr name, w')"
  shows "pdf_at w' output_path
    \<and> (name = converter_name Microsoft format
       \<or> (\<exists>w1. provider_unavailable W Microsoft input_path format output_path w w1
           \<and> (name = converter_name Wps format
              \<or> (\<exists>w2. provider_unavailable W Wps input_path format output_path w1 w2 \<and> name = ''LibreOffice''))))"
proof -
  obtain r unavailable w1 where t: "try_providers W input_path format output_path [Microsoft, Wps] [] w = ((r, unavailable), w1)"
    by (metis surj_pair)
  note a = assms [unfolded windows_convert_def t prod.case]
  from t show ?thesis
  proof (cases rule: try_providers_cases)
    case (microsoft m)
    with a have "m = Inr name" "w1 = w'" by simp_all
    with provider_ok microsoft(1) show ?thesis by blast
  next
    case (wps w2 m)
    with a have "m = Inr name" "w1 = w'" by (cases m; simp add: map_err_def)+
    with provider_ok [of W Wps input_path format output_path w2 name w'] wps(1,2) show ?thesis by blast
  next
    case (none w2)
    obtain found w3 where f: "find_windows_libreoffice (wo_os W) (wo_vars W) w1 = (found, w3)" by (rule prod.exhaust)
    obtain c w4 where c: "libreoffice_convert_with (wo_libreoffice W) (wo_os W) found input_path format output_path w3 = (c, w4)"
      by (rule prod.exhaust)
    with a none(3) f obtain u where "c = Inr name" "validate_pdf (wo_os W) w4 output_path name = (Inr u, w')"
      by (cases c) (auto simp: io_then_ok_iff split: if_splits)
    with libreoffice_name c validate_pdf_ok none(1,2) show ?thesis by (fastforce simp: pdf_at_def CONVERTER_def)
  qed
qed

text \<open>The example: Microsoft Office cannot be activated and WPS writes the PDF.\<close>

definition example_windows_office :: windows_office_env where
  "example_windows_office =
     \<lparr>wo_os = \<lparr>os_fail = (\<lambda>_. None), os_left = (\<lambda>_. None), os_now = (\<lambda>_. ''t''), os_millis = (\<lambda>_. 0), os_uuid = (\<lambda>_. ''u''),
        os_temp_dir = ''/tmp'', os_is_executable = (\<lambda>_ _. True),
        os_run = (\<lambda>_ command w.
          if ''YINSHU_OFFICE_PROVIDER=wps'' \<in> set command
          then (Exited True ''exit code: 0'' [] [], w\<lparr>w_files := (w_files w)(''/w/a.pdf'' \<mapsto> PDF_MAGIC @ [0x31])\<rparr>)
          else (Exited False ''exit code: 2'' [] [], w))\<rparr>,
      wo_vars = (\<lambda>_. None), wo_script = ''convert'', wo_cleanup_script = ''cleanup'',
      wo_libreoffice = \<lparr>lo_target = TargetLinux, lo_path = None, lo_profile_text = [], lo_directory_url = Some\<rparr>\<rparr>"

definition example_office_world :: world where
  "example_office_world = \<lparr>w_files = [''/w/a.docx'' \<mapsto> []], w_dirs = {''/w''}, w_tick = 0\<rparr>"

lemma example_conversion:
  "\<exists>w'. windows_convert example_windows_office ''/w/a.docx'' OfDocx ''/w/a.pdf'' example_office_world = (Inr ''WPS Writer'', w')"
proof -
  have "windows_status_code ''exit code: 2'' = Some 2"
    by (simp add: windows_status_code_def strip_prefix_def starts_with_def parse_unsigned_def to_digit_def)
  then have "failure_from_exit (windows_status_code ''exit code: 2'') c [] = Some (OeConverterUnavailable c ''COM converter unavailable'')" for c
    by (simp add: failure_from_exit_def from_utf8_lossy_def string_of_bytes_def utf8_lossy.simps [of "[]"] str_lines_def List.map_filter_def Let_def
        opt_filter_def)
  then show ?thesis
    by (simp add: windows_convert_def convert_with_provider_def execute_converter_command_with_timeout_cleanup_def
        execute_converter_command_def example_windows_office_def example_office_world_def windows_build_command_def Let_def
        failure_from_output_def validate_pdf_def fs_read_def tick_def PDF_MAGIC_def)
qed

theorem windows_conversion_order_witness:
  "\<exists>w'. windows_convert example_windows_office ''/w/a.docx'' OfDocx ''/w/a.pdf'' example_office_world = (Inr ''WPS Writer'', w')
    \<and> pdf_at w' ''/w/a.pdf''
    \<and> (\<exists>w1. provider_unavailable example_windows_office Microsoft ''/w/a.docx'' OfDocx ''/w/a.pdf'' example_office_world w1)"
proof -
  from example_conversion obtain w' where
    w: "windows_convert example_windows_office ''/w/a.docx'' OfDocx ''/w/a.pdf'' example_office_world = (Inr ''WPS Writer'', w')" by blast
  from windows_conversion_order [OF w] w show ?thesis by auto
qed

text \<open>A converter that is there and fails is not replaced by another one: the conversion ends with its
  error, with the reasons of the converters that were skipped before it.\<close>

lemma windows_conversion_failure_is_final:
  assumes "provider_unavailable W Microsoft input_path format output_path w w1"
    and "convert_with_provider W Wps input_path format output_path w1 = (Inl e, w2)" and "\<not> is_unavailable e"
  shows "\<exists>reasons. windows_convert W input_path format output_path w = (Inl (OeFallbackFailed e reasons), w2)"
  using assms
  by (auto simp: provider_unavailable_def windows_convert_def with_unavailable_context_def)

end
