(* ===== verification/Windows_Ipc.thy ===== *)
theory Windows_Ipc
  imports Ipc
begin

text \<open>
  \<open>crates/runtime/src/ipc/windows.rs\<close>: the command channel on Windows, a named pipe. A connection is handled as on
  Unix (\<open>handle_connection\<close> has the same text); the server creates the next instance of the pipe before it
  answers the current one.
\<close>

definition windows_socket_path :: string where
  "windows_socket_path = [CHR 0x5C, CHR 0x5C] @ ''.'' @ [CHR 0x5C] @ ''pipe'' @ [CHR 0x5C] @ ''yinshu-agent''"

text \<open>One turn of the loop: a client connected and the next instance was or was not created, or waiting for a client
  failed.\<close>

datatype pipe_event = PipeConnected stream_faults stream "io_error option" | PipeError io_error

fun serve_named_pipe :: "ipc_codec \<Rightarrow> 's executor \<Rightarrow> pipe_event list \<Rightarrow> 's \<Rightarrow> (io_error, unit) result \<times> 's" where
  "serve_named_pipe C executor [] s = (Ok (), s)"
| "serve_named_pipe C executor (PipeError e # _) s = (Err e, s)"
| "serve_named_pipe C executor (PipeConnected F str (Some e) # _) s = (Err e, s)"
| "serve_named_pipe C executor (PipeConnected F str None # evs) s =
     (case handle_connection C F executor str s of (_, _, s1) \<Rightarrow> serve_named_pipe C executor evs s1)"

text \<open>Creating the first instance fails when the pipe exists.\<close>

definition serve_pipe_until ::
  "(io_error, unit) result \<Rightarrow> ipc_codec \<Rightarrow> 's executor \<Rightarrow> pipe_event list \<Rightarrow> 's \<Rightarrow> (io_error, unit) result \<times> 's" where
  "serve_pipe_until create C executor evs s =
     (case create of Inl e \<Rightarrow> (Err e, s) | Inr _ \<Rightarrow> serve_named_pipe C executor evs s)"

fun socket_event :: "pipe_event \<Rightarrow> accept_event" where
  "socket_event (PipeConnected F str None) = Accepted F str"
| "socket_event (PipeConnected F str (Some e)) = AcceptError e"
| "socket_event (PipeError e) = AcceptError e"

text \<open>The two servers do the same: a pipe whose next instance cannot be created is a socket that cannot accept.\<close>

lemma pipe_serves_like_socket: "serve_named_pipe C executor evs s = serve_listener_until C executor (map socket_event evs) s"
proof (induction evs arbitrary: s)
  case (Cons ev evs)
  then show ?case by (cases ev rule: socket_event.cases) (auto split: prod.split)
qed simp

section \<open>The client\<close>

definition windows_client_execute :: "ipc_codec \<Rightarrow> client_env \<Rightarrow> 's peer \<Rightarrow> 's executor" where
  "windows_client_execute C V peer command s =
     (case cl_connect V of
        Some e \<Rightarrow>
          (Err (command_error_new
                  (if io_kind e = NotFound then CkNotRunning
                   else if io_kind e = PermissionDenied then CkPermissionDenied
                   else CkRuntime) (io_msg e)), s)
      | None \<Rightarrow> exchange C V peer command s)"

text \<open>It differs from the client on Unix only in the text of the error when no agent is running.\<close>

lemma windows_client_like_unix:
  "windows_client_execute C V peer c s =
     (case local_client_execute C V peer c s of
        (r, s') \<Rightarrow>
          (case cl_connect V of
             Some e \<Rightarrow> (map_err (\<lambda>x. command_error_new (ce_kind x) (io_msg e)) r, s')
           | None \<Rightarrow> (r, s')))"
  by (auto simp: windows_client_execute_def local_client_execute_def split: option.split prod.split)

text \<open>So a command that finds no agent has not been carried out on Windows either, and the command service may execute
  it itself.\<close>

lemma windows_client_online_executor:
  assumes "codec_documented C" "never_not_running executor"
  shows "online_executor (windows_client_execute C V (agent_peer C F executor))"
proof unfold_locales
  fix c s e s'
  assume w: "windows_client_execute C V (agent_peer C F executor) c s = (Inl e, s')" and k: "ce_kind e = CkNotRunning"
  show "s' = s"
  proof (cases "cl_connect V")
    case None
    with w have "local_client_execute C V (agent_peer C F executor) c s = (Inl e, s')"
      by (simp add: windows_client_execute_def local_client_execute_def)
    with k show ?thesis using client_not_running_untouched [OF assms] by blast
  next
    case (Some x)
    with w show ?thesis by (simp add: windows_client_execute_def)
  qed
qed

end
