(* ===== verification/Windows_Config.thy ===== *)
theory Windows_Config
  imports Config
begin

text \<open>
  The paths of \<open>crates/core/src/config.rs\<close> on Windows: the three functions that have a Windows branch, and the paths
  built from them. Paths are written with forward slashes, which Windows accepts.
\<close>

definition windows_platform_config_dir :: "env_vars \<Rightarrow> (io_error, string) result" where
  "windows_platform_config_dir env = ok_or \<lparr>io_kind = NotFound, io_msg = ''APPDATA is not set''\<rparr> (env ''APPDATA'')"

definition windows_home_dir :: "env_vars \<Rightarrow> (io_error, string) result" where
  "windows_home_dir env = ok_or \<lparr>io_kind = NotFound, io_msg = ''USERPROFILE is not set''\<rparr> (env ''USERPROFILE'')"

definition windows_platform_log_dir :: "env_vars \<Rightarrow> (io_error, string) result" where
  "windows_platform_log_dir env =
     ok_or \<lparr>io_kind = NotFound, io_msg = ''LOCALAPPDATA is not set''\<rparr>
       (map_option (\<lambda>dir. path_join (path_join dir APP_CONFIG_DIR_NAME) ''logs'') (env ''LOCALAPPDATA''))"

definition windows_data_dir :: "env_vars \<Rightarrow> (io_error, string) result" where
  "windows_data_dir env =
     (case env ''YINSHU_DATA_DIR'' of
        Some dir \<Rightarrow> Ok dir
      | None \<Rightarrow> and_then (windows_platform_config_dir env) (\<lambda>dir. Ok (path_join dir APP_CONFIG_DIR_NAME)))"

definition windows_config_path :: "env_vars \<Rightarrow> (io_error, string) result" where
  "windows_config_path env =
     (case env ''YINSHU_CONFIG_PATH'' of
        Some path \<Rightarrow> Ok path
      | None \<Rightarrow> and_then (windows_data_dir env) (\<lambda>dir. Ok (path_join dir CONFIG_FILE_NAME)))"

definition windows_log_dir :: "env_vars \<Rightarrow> (io_error, string) result" where
  "windows_log_dir env =
     (case env ''YINSHU_LOG_DIR'' of Some dir \<Rightarrow> Ok dir | None \<Rightarrow> windows_platform_log_dir env)"

definition windows_diagnose_output_path :: "env_vars \<Rightarrow> (io_error, string) result" where
  "windows_diagnose_output_path env =
     (case env ''YINSHU_DIAGNOSE_DIR'' of
        Some dir \<Rightarrow> Ok (path_join dir ''yinshu-diagnose.zip'')
      | None \<Rightarrow>
          and_then (windows_home_dir env) (\<lambda>home. Ok (path_join (path_join home ''Desktop'') ''yinshu-diagnose.zip'')))"

text \<open>With the override variables set, the paths are the same on every platform, whatever the rest of the environment.\<close>

lemma overrides_decide_paths:
  assumes "env ''YINSHU_DATA_DIR'' = Some d" and "env ''YINSHU_LOG_DIR'' = Some l" and "env ''YINSHU_DIAGNOSE_DIR'' = Some z"
  shows "windows_config_path env = cli_config_path plat env" and "windows_log_dir env = cli_log_dir plat env"
    and "windows_diagnose_output_path env = default_diagnose_output_path env"
  using assms
  by (simp_all add: windows_config_path_def cli_config_path_def windows_data_dir_def cli_data_dir_def windows_log_dir_def
      cli_log_dir_def windows_diagnose_output_path_def default_diagnose_output_path_def split: option.split)

end
