(* ===== verification/Spec2Isabelle.thy ===== *)
theory Spec2Isabelle
  imports System Proxy_Service Launch_Gate Print_Backends Config_Transfer Ipc Diagnostics Test_Print Browser_Props Doctor
    Command_Props Agent_Start Cli_Props Headless Desktop_Window Page_Layout Windows_Office Windows_Ipc Windows_Config
begin

text \<open>
  YinShu is a local print agent: web pages submit print jobs to it over a WebSocket, it fetches or renders the
  documents, prints them and reports the status of every job. This library models the agent, its command
  line and its two products (headless service and desktop application) and proves what they promise.

  \<^bold>\<open>Parts and how they interact.\<close> A connection is admitted by the address and origin checks of the server;
  its messages are validated and put into one queue, shared with a worker that takes the jobs in order. A job
  is downloaded, converted or rendered, and printed through the print backend; every status goes to the log, to
  the task history and over a channel to the connection that submitted the job. HTML is rendered by a browser
  that can only reach the network through a filtering proxy. Commands (settings, history, import and
  export, doctor, diagnostics) reach the agent over a local socket from the command line, or directly from
  the settings window; without an agent the command line executes some of them itself.

  \<^bold>\<open>Which theory models what.\<close> Definitions keep the names of the sources, in their order; record fields carry a prefix.

  \<^item> Language and system: \<open>Prelude\<close> (results, options, saturating integers, doubles), \<open>Rust_Str\<close>, \<open>Rust_Text\<close>,
    \<open>Rust_F64\<close>, \<open>Rust_Float\<close>, \<open>Rust_Net\<close>, \<open>Rust_Addr\<close> (the functions of the standard library that are used; a string is its
    UTF-8 bytes), \<open>Fs\<close> and \<open>Io_Monad\<close> (files, processes, sequencing of fallible calls), \<open>External\<close> (the crates
    that are parameters).
  \<^item> \<open>crates/core\<close>: \<open>Protocol\<close>, \<open>Printing\<close>, \<open>Ip_Whitelist\<close>, \<open>Config\<close>, \<open>Queue_Core\<close>, \<open>Activity\<close> and part of \<open>Diagnostics\<close>,
    one theory for the file of that name, and \<open>Windows_Config\<close> (the Windows paths of \<open>config.rs\<close>).
  \<^item> \<open>crates/runtime\<close>: \<open>Task_History\<close>, \<open>Agent_State\<close> (\<open>state.rs\<close>), \<open>Server\<close>, \<open>Download\<close>, \<open>Document\<close>, \<open>Office\<close>,
    \<open>Paper\<close> and \<open>Print_Backends\<close> (\<open>printing/mod.rs\<close>), \<open>Cups\<close>, \<open>Html\<close>, \<open>Resource_Policy\<close>, \<open>Proxy\<close>, \<open>Proxy_Service\<close>, \<open>Browser\<close>
    and \<open>Launch_Gate\<close> (\<open>html/\<close>), \<open>Worker\<close> (\<open>queue.rs\<close>), \<open>Page_Layout\<close> (the test page in \<open>document.rs\<close>), \<open>Test_Print\<close>,
    \<open>Doctor\<close>, \<open>Command_Executor\<close>, \<open>Ipc\<close> (\<open>ipc/unix.rs\<close> with \<open>client.rs\<close> of the command line), \<open>Windows_Print\<close>,
    \<open>Windows_Office\<close> and \<open>Windows_Ipc\<close> (the \<open>windows.rs\<close> files), \<open>Agent_Start\<close> (\<open>builder.rs\<close>, \<open>agent_guard.rs\<close>,
    \<open>agent.rs\<close>).
  \<^item> \<open>crates/cli\<close>: \<open>Command\<close> (commands, policies, service, product adapter, terminal), \<open>Config_Transfer\<close>, \<open>Cli\<close>
    (\<open>parser.rs\<close>).
  \<^item> \<open>apps\<close>: \<open>Headless\<close> (\<open>apps/server\<close>), \<open>Desktop_App\<close>, \<open>Desktop_Gui\<close> and \<open>Desktop_Window\<close> (\<open>apps/desktop/src-tauri\<close>).
  \<^item> \<open>System\<close>: connections with their ends of the status channel, the loop of the worker, commands and shutdown as an
    inductive step relation.

  \<^bold>\<open>State and operations.\<close> The shared state of the agent is \<open>agent_state\<close>: configuration, queue, log, history, status channel
  and the stored wake-up of the worker. A lock is held for the whole of a short operation, which is one step of
  \<open>System\<close>. A job is taken from the queue in one step and processed in a later one, and connections and commands run in between; processing itself is one step, which
  reads the configuration once, as the sources do, and whose statuses become visible together. The outside is the \<open>world\<close>: files,
  directories and a counter of calls. What the n-th call to the
  operating system answers, and whether it fails, is a function of the parameter \<open>os_env\<close>, so every
  theorem holds for every pattern of failures. Fallible code returns a sum (\<open>Inl\<close> is the error); code that
  would panic returns \<open>None\<close>. An operation on agent and world works on \<open>sys = world \<times> agent_state\<close>.

  \<^bold>\<open>Parameters.\<close> Third-party code is an argument: \<open>ext_lib\<close> (URLs, networks, Base64, zip detection), the message codec,
  the HTTP client, the DNS resolver and connector of the proxy, Chrome with its driver and the clock (\<open>browser_env\<close>),
  image and PDF libraries (\<open>image_lib\<close>, \<open>pdf_lib\<close>), the Windows spooler and the Office applications, SQLite
  failures, the cryptography and JSON of a configuration file (\<open>transfer_lib\<close>), the IPC codec, clap (\<open>cli_env\<close>), the login item (\<open>auto_launch\<close>), and systemd. Where a theorem needs documented
  behaviour of one of them it is a named predicate (\<open>codec_documented\<close>, \<open>auto_launch_documented\<close> and the like) and
  the witness of the theorem instantiates it.

  \<^bold>\<open>What the lemmas show.\<close>
  \<^item> The running agent (this theory, with the invariants in \<open>System\<close>): accepted jobs are processed once and in order,
    no wake-up is lost, the queue is emptied, a status reaches only its submitter, the submitter is told one life cycle of
    each of its jobs (all of it unless it falls behind the capacity of the channel), and a shutdown finishes the job in work.
  \<^item> Admission and validation: \<open>Server\<close>, \<open>Protocol\<close>, \<open>Ip_Whitelist\<close>, \<open>Queue_Core\<close>. The queue refines an abstract
    log of accepted requests.
  \<^item> Network isolation of HTML jobs: \<open>Resource_Policy\<close>, \<open>Proxy\<close>, \<open>Proxy_Service\<close> (requests that overlap), \<open>Browser_Props\<close>;
    the locale contracts say what the renderer may rely on. \<open>Launch_Gate\<close>: one browser launch at a time and no
    caller that waits for nothing, with mutex and condition variable as steps of the callers.
  \<^item> Life of a job: \<open>Worker\<close> and \<open>Worker_Props\<close> (status sequence, history, temporary files), \<open>Download\<close>, \<open>Office\<close>,
    \<open>Cups_Props\<close>, \<open>Print_Backends\<close> (a job reported as submitted was taken by \<open>lp\<close>), \<open>Windows_Print\<close> (every printer handle that is opened is closed, on every failure path), \<open>Windows_Office\<close>
    (which converter is tried when).
  \<^item> Pages: \<open>Document\<close> and \<open>Page_Layout\<close> (a scaled image stays on its page and keeps its proportions up to the rounding
    error of doubles; the text of the test page lies inside the page).
  \<^item> Persistence: \<open>Config\<close>, \<open>Agent_State\<close>, \<open>Task_History\<close> (the summary row is a function of the recorded events), and
    \<open>Agent_Start\<close> (a restart finds the saved configuration).
  \<^item> Commands: \<open>Ipc\<close> (frames), \<open>Command\<close> and \<open>Command_Props\<close> (the locale \<open>online_executor\<close>: a command is carried out at most
    once, an import applies the previewed file), \<open>Cli_Props\<close> (the locale \<open>config_executor\<close>, satisfied by the agent's executor
    and inherited by client and service, and \<open>config_client\<close>, in which the subcommands are proved to refine the
    edits of \<open>cli_edit\<close>), \<open>Config_Transfer\<close>, \<open>Diagnostics\<close>.
  \<^item> Products: \<open>Headless\<close>, \<open>Desktop_App\<close>, \<open>Desktop_Gui\<close> (no panics, the login item follows the configuration),
    \<open>Desktop_Window\<close> (closing the window does not end the agent).
  \<^item> Defects that the model shows are theorems about the code as it is: IPv6 loopback addresses are not recognised,
    a raw print job can leave a file behind, an import accepts low ports, the headless process drops the exit code, and on
    Unix the login item starts the command line instead of the application.

  \<^bold>\<open>Bounds and fuel.\<close> Machine integers are words or naturals with the saturation written out. Loops are structural
  recursions or have a termination proof. The wait of a rendering is a \<open>partial_function\<close> in the option monad and is proved
  to return. A stream of the download or of a socket is the list of what its reads answer. Nothing uses fuel.

  \<^bold>\<open>Not modelled.\<close> The text of the PowerShell scripts that drive the Office applications runs in another program; the
  code that starts them, bounds their time and reads their answer is modelled. Likewise the PDF library that turns page
  operations into bytes and the Win32 spooler are parameters. The glue to Tauri (construction of window and
  menu, plugins, icons) calls a library whose effect the program does not observe. Accepting TCP connections for the
  WebSocket server, the WebSocket protocol, HTTP parsing and the copying of bytes in an established tunnel are axum,
  hyper and tokio; of tokio's notification and broadcast channel the model has what their documentation says.
  Constructors and entry points that only pass their arguments on, and code that only tests call, have no definition
  of their own. Installing the panic hook, standard error, and the web front
  end of the settings window are left out.
\<close>

section \<open>A run used by the examples\<close>

definition demo_env :: worker_env where
  "demo_env = example_worker\<lparr>we_lib := local_lib\<rparr>"

definition demo_config :: agent_config where
  "demo_config = agent_config_default\<lparr>cf_security :=
     \<lparr>se_allowed_origins = [''http://127.0.0.1:3000''], se_allowed_ips = default_allowed_ips\<rparr>\<rparr>"

definition demo_receiver :: receiver where
  "demo_receiver = \<lparr>rx_start = 0, rx_next = 0, rx_skipped = 0, rx_seen = []\<rparr>"

definition demo_start :: system where
  "demo_start =
     \<lparr>sy_world = example_world, sy_agent = with_printing_and_config_path demo_config None,
      sy_conns = (\<lambda>_. None), sy_receivers = (\<lambda>_. demo_receiver), sy_worker = WorkerLooping, sy_cancelled = False,
      sy_accepted = [], sy_taken = []\<rparr>"

definition demo_conn :: connection where
  "demo_conn = open_connection (Some ''http://127.0.0.1:3000'')"

text \<open>Two connections; the first one has submitted a job.\<close>

definition demo_owner :: connection where
  "demo_owner = demo_conn\<lparr>cn_accepted := {''j1''}, cn_sent := [TextFrame []]\<rparr>"

definition demo_queued :: system where
  "demo_queued = demo_start\<lparr>
     sy_agent := (sy_agent demo_start)\<lparr>as_queue :=
       \<lparr>q_pending = [local_queued], q_seen_job_ids = {''j1''}, q_seen_batch_ids = {}\<rparr>,
       as_notified := True\<rparr>,
     sy_conns := [0 \<mapsto> demo_owner, 1 \<mapsto> demo_conn], sy_accepted := [local_queued]\<rparr>"

lemma demo_subscribe: "subscribe_status_events (sy_agent demo_start) = demo_receiver"
  by (simp add: subscribe_status_events_def demo_start_def demo_receiver_def with_printing_and_config_path_def Let_def)

lemma demo_connect:
  assumes "sy_conns s i = None" and "sy_agent s = sy_agent demo_start" and "sy_receivers s = (\<lambda>_. demo_receiver)"
  shows "system_step demo_env local_codec S s (s\<lparr>sy_conns := (sy_conns s)(i \<mapsto> demo_conn)\<rparr>)"
proof -
  have "ws_route (we_lib demo_env) (sy_agent s) (Some \<lparr>sa_ip = V4 2130706433, sa_port = 5000\<rparr>)
      (Some ''http://127.0.0.1:3000'') = Upgraded (Some ''http://127.0.0.1:3000'')"
    by (simp add: assms demo_start_def demo_config_def demo_env_def ws_route_def
      ip_whitelist_middleware_def is_client_ip_allowed_for_state_def is_client_ip_allowed_def
      ws_handler_upgraded_iff with_printing_and_config_path_def is_loopback_def ipv4_is_loopback_def
      config_normalized_def)
  from system_step.connect [OF assms(1) this, of local_codec S]
  have "system_step demo_env local_codec S s
      (s\<lparr>sy_conns := (sy_conns s)(i \<mapsto> demo_conn), sy_receivers := sy_receivers s\<rparr>)"
    by (simp add: assms demo_subscribe demo_conn_def fun_upd_idem)
  then show ?thesis by simp
qed

lemma demo_socket:
  "socket_step local_lib local_codec B True (WsText []) (w, sy_agent demo_start, demo_conn) =
     (w, sy_agent demo_queued, demo_owner)"
  by (simp add: socket_step_def demo_conn_def demo_owner_def demo_queued_def demo_start_def open_connection_def
      send_message_def send_frame_def demo_config_def agent_config_default_def
      handle_client_text_def handle_print_def validate_for_acceptance_def
      validate_html_file_job_def validate_html_file_url_def validate_html_wait_def
      html_local_origin_def loopback_urls_def List.map_filter_def is_exact_loopback_url_def
      submit_defs queue_simps html_source_ok_def html_local_origin_for_job_def notify_one_def
      with_printing_and_config_path_def queue_default_def starts_with_def local_defs)

lemma demo_reachable: "system_reachable demo_env local_codec S demo_config demo_queued"
proof -
  let ?s1 = "demo_start\<lparr>sy_conns := [0 \<mapsto> demo_conn]\<rparr>"
  let ?s2 = "demo_start\<lparr>sy_conns := [0 \<mapsto> demo_conn, 1 \<mapsto> demo_conn]\<rparr>"
  have "system_init demo_config demo_start"
    unfolding system_init_def
    by (rule conjI, rule exI [of _ None], rule exI [of _ None])
      (simp_all add: demo_start_def with_printing_and_config_path_def)
  moreover have "system_step demo_env local_codec S demo_start ?s1"
    using demo_connect [of demo_start 0] by (simp add: demo_start_def)
  moreover have "system_step demo_env local_codec S ?s1 ?s2"
    using demo_connect [of ?s1 1] by (simp add: demo_start_def)
  moreover have "system_step demo_env local_codec S ?s2 demo_queued"
  proof -
    have "system_step demo_env local_codec S ?s2
        (?s2\<lparr>sy_world := sy_world ?s2, sy_agent := sy_agent demo_queued,
          sy_conns := (sy_conns ?s2)(0 \<mapsto> demo_owner),
          sy_accepted := sy_accepted ?s2 @ newly_pending (sy_agent ?s2) (sy_agent demo_queued)\<rparr>)"
      by (rule system_step.socket [where ev = "WsText []" and delivered = True and c = demo_conn])
        (simp_all add: demo_socket demo_env_def)
    then show ?thesis
      by (simp add: demo_queued_def demo_start_def newly_pending_def with_printing_and_config_path_def
          queue_default_def fun_upd_twist)
  qed
  ultimately show ?thesis
    unfolding system_reachable_def by (meson converse_rtranclp_into_rtranclp rtranclp.rtrancl_refl)
qed

section \<open>Properties of the running agent\<close>

text \<open>
  C1. In every reachable state, whatever connections and commands did in between, the accepted jobs are those already
  processed, in the order of acceptance, then the one in work, if there is one, then those still in the queue; no
  identifier occurs twice, so no job is printed twice.
\<close>

theorem accepted_jobs_run_once_in_order:
  assumes "system_reachable X C S config s"
  shows "sy_accepted s = processed_jobs s @ phase_job (sy_worker s) @ q_pending (as_queue (sy_agent s))
    \<and> distinct (map queued_id (sy_accepted s))"
proof -
  have "processed_jobs s @ phase_job (sy_worker s) = sy_taken s" "queue_inv s"
    using system_reachable_inv(1) [OF assms] unfolding system_inv_def event_inv_def by blast+
  then show ?thesis unfolding queue_inv_def by (metis append.assoc)
qed

theorem accepted_jobs_run_once_in_order_witness:
  "sy_accepted demo_queued = processed_jobs demo_queued @ q_pending (as_queue (sy_agent demo_queued))
    \<and> distinct (map queued_id (sy_accepted demo_queued)) \<and> sy_accepted demo_queued = [local_queued]"
  using accepted_jobs_run_once_in_order [OF demo_reachable] by (simp add: demo_queued_def demo_start_def)

text \<open>
  C4. The status of a job goes to the connection that submitted it and to no other: in a reachable
  state, an entry for a job of connection \<open>i\<close> is written to \<open>i\<close> while it is open, and every other
  connection ignores it.
\<close>

theorem status_goes_to_the_submitter:
  assumes "system_reachable X C S config s"
    and "sy_conns s i = Some c" and "cn_open c" and "tl_job_id e = Some j" and "j \<in> cn_accepted c"
    and "sy_conns s k = Some d" and "k \<noteq> i"
  shows "socket_step L C B delivered (StatusReceived e) (w, st, c) =
      (w, st, send_message C delivered
         (JobStatusMsg (tl_request_id e) j (tl_status e) (Some (tl_message e))) c)
    \<and> socket_step L C B delivered (StatusReceived e) (w, st, d) = (w, st, d)"
proof -
  have "conn_inv s" using system_reachable_inv(1) [OF assms(1)] by (simp add: system_inv_def)
  then have "cn_accepted c \<inter> cn_accepted d = {}"
    using assms(2,6,7) unfolding conn_inv_def by blast
  with assms(5) have "j \<notin> cn_accepted d" by blast
  with assms(3-5) show ?thesis by (simp add: socket_step_def status_message_for_connection_def)
qed

definition demo_entry :: task_log_entry where
  "demo_entry =
     \<lparr>tl_timestamp = ''t'', tl_request_id = Some ''r1'', tl_batch_id = None, tl_job_id = Some ''j1'', tl_origin = None,
      tl_status = JsCompleted, tl_message = ''ok''\<rparr>"

theorem status_goes_to_the_submitter_witness:
  "socket_step local_lib local_codec example_backend True (StatusReceived demo_entry)
      (example_world, sy_agent demo_queued, demo_owner) =
      (example_world, sy_agent demo_queued, send_message local_codec True
         (JobStatusMsg (Some ''r1'') ''j1'' (tl_status demo_entry) (Some (tl_message demo_entry))) demo_owner)
    \<and> socket_step local_lib local_codec example_backend True (StatusReceived demo_entry)
      (example_world, sy_agent demo_queued, demo_conn) = (example_world, sy_agent demo_queued, demo_conn)"
  using status_goes_to_the_submitter [OF demo_reachable, of 0 demo_owner demo_entry "''j1''" 1 demo_conn]
  by (simp add: demo_queued_def demo_owner_def demo_conn_def open_connection_def demo_entry_def)

text \<open>
  C2. No job is left behind: whatever happened before, unless the agent is shutting down, the worker by itself
  processes every accepted job, in order, and empties the queue; it needs two turns for a job and at most one more. In
  particular it never sleeps while jobs are waiting.
\<close>

theorem worker_empties_the_queue:
  assumes "system_reachable X C S config s" and "\<not> sy_cancelled s"
  shows "\<exists>n \<le> Suc (2 * length (q_pending (as_queue (sy_agent s)))).
      q_pending (as_queue (sy_agent ((worker_turn X ^^ n) s))) = []
      \<and> processed_jobs ((worker_turn X ^^ n) s) = sy_accepted s"
proof -
  have inv: "system_inv s" by (rule system_reachable_inv(1) [OF assms(1)])
  from worker_finishes [OF inv assms(2), of X] obtain n where n: "n \<le> turns_left s"
    "turns_left ((worker_turn X ^^ n) s) = 0" by blast
  from no_turns_left [OF worker_turns_inv [OF inv] n(2)] n(1) turns_left_bound [of s] worker_turns_frame [of n X s]
  show ?thesis by (intro exI [of _ n]) simp
qed

theorem worker_empties_the_queue_witness:
  "\<exists>n \<le> Suc 2. q_pending (as_queue (sy_agent ((worker_turn demo_env ^^ n) demo_queued))) = []
      \<and> processed_jobs ((worker_turn demo_env ^^ n) demo_queued) = [local_queued]"
  using worker_empties_the_queue [OF demo_reachable] by (simp add: demo_queued_def demo_start_def)


text \<open>The run goes on: the worker takes the job and processes it.\<close>

definition demo_done :: system where
  "demo_done = (worker_turn demo_env ^^ 2) demo_queued"

lemma demo_taken:
  "sy_worker (worker_turn demo_env demo_queued) = WorkerProcessing local_queued"
  "sy_taken (worker_turn demo_env demo_queued) = [local_queued]"
  by (simp_all add: worker_turn_def worker_next_def demo_queued_def demo_start_def pop_next_def)

lemma demo_done_reachable: "system_reachable demo_env local_codec S demo_config demo_done"
proof -
  let ?t = "worker_turn demo_env demo_queued"
  have "sy_worker demo_queued = WorkerLooping" by (simp add: demo_queued_def demo_start_def)
  with demo_taken have "system_step demo_env local_codec S demo_queued ?t"
      "system_step demo_env local_codec S ?t (worker_turn demo_env ?t)"
    by (simp_all add: worker_turn_step)
  with demo_reachable [of S] show ?thesis
    unfolding system_reachable_def demo_done_def numeral_2_eq_2
    by (auto intro: rtranclp.rtrancl_into_rtrancl)
qed

lemma demo_processed: "processed_jobs demo_done = [local_queued]"
proof -
  let ?t = "worker_turn demo_env demo_queued"
  have "sy_worker (worker_turn demo_env ?t) = WorkerLooping" "sy_taken (worker_turn demo_env ?t) = [local_queued]"
    by (simp_all add: worker_turn_def [of _ ?t] demo_taken split: prod.split)
  then show ?thesis by (simp add: demo_done_def numeral_2_eq_2)
qed

lemma demo_events: "length (as_status_events (sy_agent demo_done)) \<le> 8"
proof -
  have "system_inv demo_done" by (rule system_reachable_inv(1) [OF demo_done_reachable [of example_serde]])
  then obtain ess where "as_status_events (sy_agent demo_done) = concat ess" "list_all2 job_stream [local_queued] ess"
    unfolding system_inv_def event_inv_def demo_processed by blast
  then obtain es where "as_status_events (sy_agent demo_done) = es" "lifecycle (map tl_status es)"
    by (auto simp: list_all2_Cons1 job_stream_def)
  moreover have "lifecycle ss \<Longrightarrow> length ss \<le> 8" for ss
    by (auto simp: lifecycle_def submitted_end_def)
  ultimately show ?thesis by (metis length_map)
qed


text \<open>
  C3. The submitter is told the life cycle of its job: what a connection received of a job it submitted is a part of
  one life cycle, in order and without repetition, however the broadcast channel dropped entries; and when the
  connection never fell more than the capacity behind, has received all there is and the job was processed, it is
  the whole life cycle.
\<close>

theorem submitter_is_told_the_life_cycle:
  assumes "system_reachable X C S config s" and "sy_conns s i = Some c" and "j \<in> cn_accepted c"
  shows "\<exists>ss. lifecycle ss
    \<and> subseq (map tl_status [e\<leftarrow>rx_seen (sy_receivers s i). tl_job_id e = Some j]) ss
    \<and> (rx_skipped (sy_receivers s i) = 0 \<and> rx_next (sy_receivers s i) = length (as_status_events (sy_agent s))
         \<and> j \<in> queued_id ` set (processed_jobs s) \<longrightarrow>
       map tl_status [e\<leftarrow>rx_seen (sy_receivers s i). tl_job_id e = Some j] = ss)"
proof -
  let ?f = "filter (\<lambda>e. tl_job_id e = Some j)" and ?es = "as_status_events (sy_agent s)" and ?r = "sy_receivers s i"
  have inv: "system_inv s" "channel_inv s" by (rule system_reachable_inv [OF assms(1)])+
  from inv(2) assms(2) have "receiver_inv ?es (cn_accepted c) ?r" unfolding channel_inv_def by blast
  note seen = seen_of_job [OF this assms(3)]
  show ?thesis
  proof (cases "j \<in> queued_id ` set (processed_jobs s)")
    case True
    with status_stream(1) [OF inv(1)] seen show ?thesis
      by (intro exI [of _ "map tl_status (?f ?es)"]) (auto intro: subseq_map)
  next
    case False
    with status_stream(2) [OF inv(1)] seen(1) have "?f (rx_seen ?r) = []" by simp
    moreover have "lifecycle [JsQueued, JsFailed]" 
      unfolding lifecycle_def by (intro exI [of _ "[]"] exI [of _ 0] exI [of _ "[JsFailed]"]) simp
    ultimately show ?thesis using False by (intro exI [of _ "[JsQueued, JsFailed]"]) simp
  qed
qed

theorem submitter_is_told_the_life_cycle_witness:
  "\<exists>(s :: system) c. sy_conns s 0 = Some c \<and> ''j1'' \<in> cn_accepted c
    \<and> lifecycle (map tl_status [e\<leftarrow>rx_seen (sy_receivers s 0). tl_job_id e = Some ''j1''])"
proof -
  have fr: "sy_conns demo_done 0 = Some demo_owner" "sy_receivers demo_done 0 = demo_receiver"
    using worker_turns_frame [of 2 demo_env demo_queued] by (simp_all add: demo_done_def demo_queued_def demo_start_def)
  have "length (as_status_events (sy_agent demo_done)) \<le> STATUS_EVENT_CAPACITY"
    using demo_events by (simp add: STATUS_EVENT_CAPACITY_def)
  with fr obtain s c where s: "(system_step demo_env local_codec example_serde)\<^sup>*\<^sup>* demo_done s" "sy_conns s 0 = Some c"
      "cn_accepted c = cn_accepted demo_owner" "sy_agent s = sy_agent demo_done"
      "processed_jobs s = processed_jobs demo_done" "rx_skipped (sy_receivers s 0) = 0"
      "rx_next (sy_receivers s 0) = length (as_status_events (sy_agent demo_done))"
    using catch_up [of local_codec demo_done 0 demo_owner demo_env example_serde]
    by (auto simp: local_codec_def demo_owner_def demo_conn_def open_connection_def demo_receiver_def)
  from s(1) demo_done_reachable [of example_serde] have "system_reachable demo_env local_codec example_serde demo_config s"
    unfolding system_reachable_def by (meson rtranclp_trans)
  moreover have "''j1'' \<in> cn_accepted c" using s(3) by (simp add: demo_owner_def)
  ultimately have "lifecycle (map tl_status [e\<leftarrow>rx_seen (sy_receivers s 0). tl_job_id e = Some ''j1''])"
    using submitter_is_told_the_life_cycle [of demo_env local_codec example_serde demo_config s 0 c "''j1''"] s demo_processed
    by (auto simp: local_queued_def local_job_def)
  with s(2) \<open>''j1'' \<in> cn_accepted c\<close> show ?thesis by blast
qed



end
